(* ===== verification/Prelude.thy ===== *)
theory Prelude
  imports Main "HOL-Library.Char_ord" "HOL-Library.List_Lexorder"
    "HOL-Library.Product_Lexorder" "HOL-Library.Word"
begin

text \<open>
  Shared vocabulary of the development: the errors of the storage layer, the
  environment an operation runs in (clock, random identifiers, driver faults),
  the transaction monad in which every store operation is written, SQL's
  INSERT/UPDATE/SELECT on tables modelled as lists of rows, and the generic
  lemmas that the component theories use.

  A table is a list of rows in rowid order. A statement that the driver can
  fail carries a label; \<open>env_fault\<close> says which labelled statements fail, so
  every theorem below holds for every pattern of driver failures. A
  transaction body returns either an error or a result together with the new
  database; \<open>run_tx\<close> throws the partial database away on an error, as the
  deferred \<open>tx.Rollback()\<close> of the source does.
\<close>

named_theorems tx_Inr \<open>when a transaction body or an operation succeeds\<close>
named_theorems tx_Inl \<open>when a transaction body or an operation fails\<close>

section \<open>Errors and environment\<close>

text \<open>How SQLite rejects a statement. \<open>isUniqueViolation\<close> of the source looks
  at the message: a primary-key clash carries the same text as a UNIQUE clash.\<close>

datatype sqlerr = SQLUnique | SQLForeignKey | SQLCheck | SQLDriver string

datatype serr =
    ErrNotOpen
  | ErrInvalid string
  | ErrGenerate string
  | SQLErr sqlerr
  | ErrDecode string
  | ErrInviteNotFound | ErrInviteAlreadyUsed | ErrInviteExpired | ErrInviteOutstandingLimit
  | ErrEnrollmentRolledBack serr
  | ErrClientAppNotFound | ErrCertNotEnrolled | ErrEnrolledCertMissingPEM
  | ErrNoActiveMacaroonRoot | ErrMacaroonRootNotFound
  | ErrJourneyNotFound | ErrJourneyParticipantNotFound | ErrTelemetryBatchDuplicate
  | ErrJourneyVehicleNotFound | ErrJourneyVehicleDuplicateOwner | ErrJourneyVehicleDuplicateID
  | ErrJourneyVehicleACLVersionConflict | ErrJourneyVehicleRevisionConflict
  | ErrDriverAttestationDuplicate | ErrDriverAttestationNotFound
  | ErrGarageNotFound | ErrGarageRevisionVersionConflict
  | ErrGarageOwnershipNotPending | ErrGarageOwnershipAlreadyAccepted
  | ErrGarageInviteNotFound | ErrGarageInviteExpired | ErrGarageInviteRevoked
  | ErrGarageInviteExhausted | ErrGarageInviteAlreadyRedeemed | ErrGarageOwnerAlreadyAccepted
  | ErrGarageVehicleNotFound | ErrGarageVehicleRevisionVersionConflict

text \<open>\<open>errors.Is\<close>: the wrapped chain of an error contains the target.\<close>

fun errors_is :: "serr \<Rightarrow> serr \<Rightarrow> bool" where
  "errors_is (ErrEnrollmentRolledBack e) t = (t = ErrEnrollmentRolledBack e \<or> errors_is e t)"
| "errors_is e t = (e = t)"

fun isUniqueViolation :: "sqlerr \<Rightarrow> bool" where
  "isUniqueViolation SQLUnique = True"
| "isUniqueViolation _ = False"

text \<open>The environment of one call: whether the store is open, the wall clock in
  nanoseconds, the successive results of the UUID generator (\<open>None\<close> when the
  entropy source fails), the random token of \<open>NewInviteToken\<close>, and the labelled
  statements on which the driver fails.\<close>

record env =
  env_open :: bool
  env_now :: int
  env_uuid :: "nat \<Rightarrow> string option"
  env_token :: "string option"
  env_fault :: "string \<Rightarrow> bool"

definition now_env :: "int \<Rightarrow> env" where
  "now_env t = \<lparr>env_open = True, env_now = t, env_uuid = (\<lambda>n. Some (replicate (Suc n) (CHR ''u''))),
     env_token = Some ''tok'', env_fault = (\<lambda>_. False)\<rparr>"

lemma now_env_simps [simp]:
  "env_open (now_env t)" "env_now (now_env t) = t"
  "env_uuid (now_env t) n = Some (replicate (Suc n) (CHR ''u''))"
  "env_token (now_env t) = Some ''tok''" "env_fault (now_env t) l = False"
  by (simp_all add: now_env_def)

section \<open>The transaction monad\<close>

type_synonym ('s, 'a) tx = "'s \<Rightarrow> serr + ('a \<times> 's)"
type_synonym ('s, 'a) op = "'s \<Rightarrow> (serr + 'a) \<times> 's"

definition tx_return :: "'a \<Rightarrow> ('s, 'a) tx" where
  "tx_return a = (\<lambda>s. Inr (a, s))"

definition tx_throw :: "serr \<Rightarrow> ('s, 'a) tx" where
  "tx_throw e = (\<lambda>s. Inl e)"

definition tx_bind :: "('s, 'a) tx \<Rightarrow> ('a \<Rightarrow> ('s, 'b) tx) \<Rightarrow> ('s, 'b) tx" where
  "tx_bind m f = (\<lambda>s. case m s of Inl e \<Rightarrow> Inl e | Inr (a, s') \<Rightarrow> f a s')"

definition tx_guard :: "bool \<Rightarrow> serr \<Rightarrow> ('s, unit) tx" where
  "tx_guard b e = (if b then tx_return () else tx_throw e)"

text \<open>A value that may be missing (a random identifier, a decoded payload).\<close>

definition tx_opt :: "serr \<Rightarrow> 'a option \<Rightarrow> ('s, 'a) tx" where
  "tx_opt e x = (case x of None \<Rightarrow> tx_throw e | Some a \<Rightarrow> tx_return a)"

text \<open>A SELECT: fails with the driver, never changes the database.\<close>

definition tx_query :: "env \<Rightarrow> string \<Rightarrow> ('s \<Rightarrow> 'a) \<Rightarrow> ('s, 'a) tx" where
  "tx_query env l q = (\<lambda>s. if env_fault env l then Inl (SQLErr (SQLDriver l)) else Inr (q s, s))"

text \<open>A data-changing statement: \<open>h\<close> is how the source maps the SQL error.\<close>

definition tx_exec :: "env \<Rightarrow> string \<Rightarrow> (sqlerr \<Rightarrow> serr) \<Rightarrow> ('s \<Rightarrow> sqlerr + ('a \<times> 's)) \<Rightarrow> ('s, 'a) tx" where
  "tx_exec env l h f = (\<lambda>s. if env_fault env l then Inl (h (SQLDriver l))
     else case f s of Inl e \<Rightarrow> Inl (h e) | Inr r \<Rightarrow> Inr r)"

text \<open>\<open>BeginTx\<close> \<dots> deferred \<open>Rollback\<close> \<dots> \<open>Commit\<close>.\<close>

definition run_tx :: "env \<Rightarrow> ('s, 'a) tx \<Rightarrow> ('s, 'a) op" where
  "run_tx env body s =
     (if env_fault env ''begin'' then (Inl (SQLErr (SQLDriver ''begin'')), s)
      else case body s of
        Inl e \<Rightarrow> (Inl e, s)
      | Inr (a, s') \<Rightarrow>
          if env_fault env ''commit'' then (Inl (SQLErr (SQLDriver ''commit'')), s) else (Inr a, s'))"

text \<open>One statement outside an explicit transaction commits by itself.\<close>

definition auto_tx :: "('s, 'a) tx \<Rightarrow> ('s, 'a) op" where
  "auto_tx body s = (case body s of Inl e \<Rightarrow> (Inl e, s) | Inr (a, s') \<Rightarrow> (Inr a, s'))"

text \<open>Statements before the transaction that return early on an error.\<close>

definition op_fail :: "serr \<Rightarrow> ('s, 'a) op" where
  "op_fail e s = (Inl e, s)"

definition op_require :: "(bool \<times> serr) list \<Rightarrow> ('s, 'a) op \<Rightarrow> ('s, 'a) op" where
  "op_require gs m s =
     (case filter (\<lambda>g. \<not> fst g) gs of [] \<Rightarrow> m s | g # _ \<Rightarrow> (Inl (snd g), s))"

text \<open>Inversion: the conditions under which a body succeeds, and under which it
  fails, combinator by combinator. The component theories unfold an operation
  and rewrite with these.\<close>

lemma tx_return_Inr [tx_Inr]: "tx_return a s = Inr (b, s') \<longleftrightarrow> b = a \<and> s' = s"
  by (auto simp: tx_return_def)

lemma tx_throw_Inr [tx_Inr]: "tx_throw e s \<noteq> Inr x"
  by (simp add: tx_throw_def)

lemma tx_bind_Inr [tx_Inr]:
  "tx_bind m f s = Inr (b, s'') \<longleftrightarrow> (\<exists>a s'. m s = Inr (a, s') \<and> f a s' = Inr (b, s''))"
  by (auto simp: tx_bind_def split: sum.splits)

lemma tx_guard_Inr [tx_Inr]: "tx_guard b e s = Inr (u, s') \<longleftrightarrow> b \<and> s' = s"
  by (auto simp: tx_guard_def tx_return_def tx_throw_def)

lemma tx_opt_Inr [tx_Inr]: "tx_opt e x s = Inr (a, s') \<longleftrightarrow> x = Some a \<and> s' = s"
  by (auto simp: tx_opt_def tx_return_def tx_throw_def split: option.splits)

lemma tx_query_Inr [tx_Inr]:
  "tx_query env l q s = Inr (a, s') \<longleftrightarrow> \<not> env_fault env l \<and> a = q s \<and> s' = s"
  by (auto simp: tx_query_def)

lemma tx_exec_Inr [tx_Inr]:
  "tx_exec env l h f s = Inr x \<longleftrightarrow> \<not> env_fault env l \<and> f s = Inr x"
  by (auto simp: tx_exec_def split: sum.splits)

lemma run_tx_Inr [tx_Inr]:
  "run_tx env m s = (Inr a, s') \<longleftrightarrow>
     \<not> env_fault env ''begin'' \<and> \<not> env_fault env ''commit'' \<and> m s = Inr (a, s')"
  by (auto simp: run_tx_def split: sum.splits if_splits)

lemma auto_tx_Inr [tx_Inr]: "auto_tx m s = (Inr a, s') \<longleftrightarrow> m s = Inr (a, s')"
  by (auto simp: auto_tx_def split: sum.splits)

lemma tx_return_Inl [tx_Inl]: "tx_return a s \<noteq> Inl e"
  by (simp add: tx_return_def)

lemma tx_throw_Inl [tx_Inl]: "tx_throw e s = Inl e' \<longleftrightarrow> e' = e"
  by (auto simp: tx_throw_def)

lemma tx_bind_Inl [tx_Inl]:
  "tx_bind m f s = Inl e \<longleftrightarrow> m s = Inl e \<or> (\<exists>a s'. m s = Inr (a, s') \<and> f a s' = Inl e)"
  by (auto simp: tx_bind_def split: sum.splits)

lemma tx_guard_Inl [tx_Inl]: "tx_guard b e s = Inl e' \<longleftrightarrow> \<not> b \<and> e' = e"
  by (auto simp: tx_guard_def tx_return_def tx_throw_def)

lemma tx_opt_Inl [tx_Inl]: "tx_opt e x s = Inl e' \<longleftrightarrow> x = None \<and> e' = e"
  by (auto simp: tx_opt_def tx_return_def tx_throw_def split: option.splits)

lemma tx_query_Inl [tx_Inl]:
  "tx_query env l q s = Inl e \<longleftrightarrow> env_fault env l \<and> e = SQLErr (SQLDriver l)"
  by (auto simp: tx_query_def)

lemma tx_exec_Inl [tx_Inl]:
  "tx_exec env l h f s = Inl e \<longleftrightarrow>
     env_fault env l \<and> e = h (SQLDriver l) \<or> \<not> env_fault env l \<and> (\<exists>e'. f s = Inl e' \<and> e = h e')"
  by (auto simp: tx_exec_def split: sum.splits)

lemma run_tx_Inl [tx_Inl]:
  "run_tx env m s = (Inl e, s') \<longleftrightarrow> s' = s \<and>
     (if env_fault env ''begin'' then e = SQLErr (SQLDriver ''begin'')
      else m s = Inl e \<or> (\<exists>x. m s = Inr x) \<and> env_fault env ''commit'' \<and> e = SQLErr (SQLDriver ''commit''))"
  by (auto simp: run_tx_def split: sum.splits if_splits)

lemma auto_tx_Inl [tx_Inl]: "auto_tx m s = (Inl e, s') \<longleftrightarrow> s' = s \<and> m s = Inl e"
  by (auto simp: auto_tx_def split: sum.splits)

text \<open>Atomicity: an operation that reports an error leaves the database as it was.\<close>

lemma run_tx_error_unchanged: "run_tx env m s = (Inl e, s') \<Longrightarrow> s' = s"
  by (auto simp: run_tx_def split: sum.splits if_splits)

lemma auto_tx_error_unchanged: "auto_tx m s = (Inl e, s') \<Longrightarrow> s' = s"
  by (auto simp: auto_tx_def split: sum.splits)

lemma op_require_Nil: "op_require [] m s = m s"
  by (simp add: op_require_def)

lemma op_require_Cons:
  "op_require ((b, e) # gs) m s = (if b then op_require gs m s else (Inl e, s))"
  by (simp add: op_require_def)

lemmas op_require_simps = op_require_Nil op_require_Cons

lemma op_require_Inr [tx_Inr]:
  "op_require gs m s = (Inr a, s') \<longleftrightarrow> (\<forall>g \<in> set gs. fst g) \<and> m s = (Inr a, s')"
  by (induction gs) (auto simp: op_require_simps split: if_splits)

lemma op_require_True: "\<forall>g \<in> set gs. fst g \<Longrightarrow> op_require gs m = m"
  by (rule ext) (simp add: op_require_def filter_False)

lemma op_require_error_unchanged:
  assumes "\<And>e s'. m s = (Inl e, s') \<Longrightarrow> s' = s" "op_require gs m s = (Inl e, s')"
  shows "s' = s"
  using assms(2) by (induction gs) (auto simp: op_require_simps dest: assms(1) split: if_splits)

section \<open>SQL statements on tables\<close>

text \<open>A table is read by \<open>get\<close> and changed by the record update \<open>upd\<close>; \<open>chk\<close> is
  the conjunction of its CHECK constraints, \<open>clash\<close> says that two rows agree on
  the primary key or a UNIQUE index, and \<open>fk\<close> that the referenced rows exist.\<close>

definition sql_insert ::
  "('r \<Rightarrow> bool) \<Rightarrow> ('r \<Rightarrow> 'r \<Rightarrow> bool) \<Rightarrow> ('db \<Rightarrow> 'r \<Rightarrow> bool) \<Rightarrow> ('db \<Rightarrow> 'r list) \<Rightarrow>
    (('r list \<Rightarrow> 'r list) \<Rightarrow> 'db \<Rightarrow> 'db) \<Rightarrow> 'r \<Rightarrow> 'db \<Rightarrow> sqlerr + (unit \<times> 'db)" where
  "sql_insert chk clash fk get upd r d =
     (if \<not> chk r then Inl SQLCheck
      else if list_ex (clash r) (get d) then Inl SQLUnique
      else if \<not> fk d r then Inl SQLForeignKey
      else Inr ((), upd (\<lambda>_. get d @ [r]) d))"

definition set_where :: "('r \<Rightarrow> bool) \<Rightarrow> ('r \<Rightarrow> 'r) \<Rightarrow> 'r list \<Rightarrow> 'r list" where
  "set_where w f rows = map (\<lambda>r. if w r then f r else r) rows"

text \<open>UPDATE returns the number of rows the WHERE clause selected.\<close>

definition sql_update ::
  "('r \<Rightarrow> bool) \<Rightarrow> ('db \<Rightarrow> 'r \<Rightarrow> bool) \<Rightarrow> ('db \<Rightarrow> 'r list) \<Rightarrow> (('r list \<Rightarrow> 'r list) \<Rightarrow> 'db \<Rightarrow> 'db) \<Rightarrow>
    ('r \<Rightarrow> bool) \<Rightarrow> ('r \<Rightarrow> 'r) \<Rightarrow> 'db \<Rightarrow> sqlerr + (nat \<times> 'db)" where
  "sql_update chk fk get upd w f d =
     (let hit = filter w (get d) in
      if list_ex (\<lambda>r. \<not> chk (f r)) hit then Inl SQLCheck
      else if list_ex (\<lambda>r. \<not> fk d (f r)) hit then Inl SQLForeignKey
      else Inr (length hit, upd (\<lambda>_. set_where w f (get d)) d))"

definition sql_delete ::
  "('db \<Rightarrow> 'r list) \<Rightarrow> (('r list \<Rightarrow> 'r list) \<Rightarrow> 'db \<Rightarrow> 'db) \<Rightarrow> ('r \<Rightarrow> bool) \<Rightarrow> 'db \<Rightarrow> sqlerr + (unit \<times> 'db)" where
  "sql_delete get upd w d = Inr ((), upd (\<lambda>_. filter (\<lambda>r. \<not> w r) (get d)) d)"

text \<open>\<open>SELECT \<dots> ORDER BY key DESC LIMIT 1\<close>: a row with the greatest key, the
  first one in rowid order when several have it.\<close>

fun first_max :: "('r \<Rightarrow> 'k :: linorder) \<Rightarrow> 'r list \<Rightarrow> 'r option" where
  "first_max key [] = None"
| "first_max key (r # rs) =
     (case first_max key rs of None \<Rightarrow> Some r
      | Some m \<Rightarrow> if key m \<le> key r then Some r else Some m)"

definition first_min :: "('r \<Rightarrow> 'k :: linorder) \<Rightarrow> 'r list \<Rightarrow> 'r option" where
  "first_min key rs = (case sort_key key rs of [] \<Rightarrow> None | r # _ \<Rightarrow> Some r)"

text \<open>\<open>ORDER BY key ASC\<close> is \<open>sort_key\<close>; \<open>order_desc\<close> sorts the other way, both
  leaving rows with equal keys in rowid order.\<close>

definition order_desc :: "('r \<Rightarrow> int) \<Rightarrow> 'r list \<Rightarrow> 'r list" where
  "order_desc key rs = sort_key (\<lambda>r. - key r) rs"

lemma sql_insert_Inr [tx_Inr]:
  "sql_insert chk clash fk get upd r d = Inr (u, d') \<longleftrightarrow>
     chk r \<and> (\<forall>r' \<in> set (get d). \<not> clash r r') \<and> fk d r \<and> d' = upd (\<lambda>_. get d @ [r]) d"
  by (auto simp: sql_insert_def list_ex_iff)

lemma sql_insert_Inl [tx_Inl]:
  "sql_insert chk clash fk get upd r d = Inl e \<longleftrightarrow>
     (if \<not> chk r then e = SQLCheck
      else if \<exists>r' \<in> set (get d). clash r r' then e = SQLUnique
      else \<not> fk d r \<and> e = SQLForeignKey)"
  by (auto simp: sql_insert_def list_ex_iff)

lemma sql_update_Inr [tx_Inr]:
  "sql_update chk fk get upd w f d = Inr (n, d') \<longleftrightarrow>
     (\<forall>r \<in> set (get d). w r \<longrightarrow> chk (f r) \<and> fk d (f r)) \<and>
     n = length (filter w (get d)) \<and> d' = upd (\<lambda>_. set_where w f (get d)) d"
  by (auto simp: sql_update_def list_ex_iff Let_def)

lemma sql_update_Inl [tx_Inl]:
  "sql_update chk fk get upd w f d = Inl e \<longleftrightarrow>
     (if \<exists>r \<in> set (get d). w r \<and> \<not> chk (f r) then e = SQLCheck
      else (\<exists>r \<in> set (get d). w r \<and> \<not> fk d (f r)) \<and> e = SQLForeignKey)"
  by (auto simp: sql_update_def list_ex_iff Let_def)

lemma sql_delete_Inr [tx_Inr]:
  "sql_delete get upd w d = Inr (u, d') \<longleftrightarrow> d' = upd (\<lambda>_. filter (\<lambda>r. \<not> w r) (get d)) d"
  by (auto simp: sql_delete_def)

lemma sql_delete_Inl [tx_Inl]: "sql_delete get upd w d \<noteq> Inl e"
  by (simp add: sql_delete_def)

section \<open>Generic lemmas\<close>

lemma set_where_length [simp]: "length (set_where w f rows) = length rows"
  by (simp add: set_where_def)

lemma set_where_id: "(\<And>r. r \<in> set rows \<Longrightarrow> \<not> w r) \<Longrightarrow> set_where w f rows = rows"
  by (induction rows) (auto simp: set_where_def)

lemma set_set_where: "set (set_where w f rows) = (\<lambda>r. if w r then f r else r) ` set rows"
  by (simp add: set_where_def)

text \<open>A column that an UPDATE does not assign keeps its values.\<close>

lemma map_set_where [simp]: "(\<And>r. k (f r) = k r) \<Longrightarrow> map k (set_where w f rows) = map k rows"
  by (simp add: set_where_def)

lemma image_set_where [simp]: "(\<And>r. k (f r) = k r) \<Longrightarrow> k ` set (set_where w f rows) = k ` set rows"
  by (metis list.set_map map_set_where)

lemma find_append: "find P (xs @ ys) = (case find P xs of None \<Rightarrow> find P ys | Some x \<Rightarrow> Some x)"
  by (induction xs) auto

lemma find_SomeD: "find P xs = Some x \<Longrightarrow> x \<in> set xs \<and> P x"
  by (induction xs) (auto split: if_splits)

lemma find_None_iff': "find P xs = None \<longleftrightarrow> (\<forall>x \<in> set xs. \<not> P x)"
  by (induction xs) auto

text \<open>Looking a row up by a key column that is unique.\<close>

lemma find_key_iff:
  "distinct (map k xs) \<Longrightarrow> find (\<lambda>r. k r = a) xs = Some x \<longleftrightarrow> x \<in> set xs \<and> k x = a"
  by (induction xs) (auto simp: image_iff)

lemma find_set_where:
  "(\<And>r. P (f r) = P r) \<Longrightarrow>
     find P (set_where w f rows) = map_option (\<lambda>r. if w r then f r else r) (find P rows)"
  by (induction rows) (auto simp: set_where_def)

lemma filter_set_where_other:
  "(\<And>r. r \<in> set rows \<Longrightarrow> w r \<Longrightarrow> \<not> P r \<and> \<not> P (f r)) \<Longrightarrow>
     filter P (set_where w f rows) = filter P rows"
  by (induction rows) (auto simp: set_where_def)

lemma first_max_None [simp]: "first_max key rs = None \<longleftrightarrow> rs = []"
  by (cases rs) (auto split: option.splits)

lemma first_max_SomeD:
  "first_max key rs = Some m \<Longrightarrow> m \<in> set rs \<and> (\<forall>r \<in> set rs. key r \<le> key m)"
proof (induction rs arbitrary: m)
  case (Cons r rs)
  then show ?case
    by (cases "first_max key rs") (fastforce split: if_splits)+
qed simp

lemma first_min_None [simp]: "first_min key rs = None \<longleftrightarrow> rs = []"
proof -
  have "sort_key key rs = [] \<longleftrightarrow> rs = []" by (metis length_0_conv length_sort)
  then show ?thesis by (auto simp: first_min_def split: list.splits)
qed

lemma first_min_SomeD:
  assumes "first_min key rs = Some m"
  shows "m \<in> set rs \<and> (\<forall>r \<in> set rs. key m \<le> key r)"
proof -
  from assms obtain ms where s: "sort_key key rs = m # ms"
    by (auto simp: first_min_def split: list.splits)
  have "sorted (map key (m # ms))" using sorted_sort_key [of key rs] s by simp
  moreover have "set rs = set (m # ms)" using set_sort [of key rs] s by simp
  ultimately show ?thesis by auto
qed

lemma pair_less_iff:
  fixes a :: "'a :: linorder" and b :: "'b :: linorder"
  shows "((a, b) < (c, d)) = (a < c \<or> a = c \<and> b < d)"
  by auto

end
