(* ===== verification/Timestamps.thy ===== *)
theory Timestamps
  imports Prelude
begin

text \<open>
  The text form of a timestamp column. \<open>formatSQLiteTime\<close> (storage/invite.go)
  renders a UTC instant with the fixed-width layout
  \<open>2006-01-02T15:04:05.000000000Z\<close>; SQLite compares the texts byte by byte and
  the scan functions parse them back. The theorems show that, for the years
  0..9999 the layout has room for, comparing the texts is comparing the
  instants and parsing recovers the instant. The other theories of the
  development rely on this: they keep a time column as the instant itself, an
  integer number of nanoseconds.
\<close>

section \<open>The broken-down UTC time and its instant\<close>

record civil =
  c_year :: int
  c_month :: nat
  c_day :: nat
  c_hour :: nat
  c_min :: nat
  c_sec :: nat
  c_nano :: nat

definition leap :: "int \<Rightarrow> bool" where
  "leap y = (y mod 4 = 0 \<and> (y mod 100 \<noteq> 0 \<or> y mod 400 = 0))"

definition days_in :: "int \<Rightarrow> nat \<Rightarrow> nat" where
  "days_in y m =
     (if m = 2 then (if leap y then 29 else 28) else if m \<in> {4, 6, 9, 11} then 30 else 31)"

definition valid_civil :: "civil \<Rightarrow> bool" where
  "valid_civil c =
     (0 \<le> c_year c \<and> c_year c \<le> 9999 \<and> 1 \<le> c_month c \<and> c_month c \<le> 12 \<and>
      1 \<le> c_day c \<and> c_day c \<le> days_in (c_year c) (c_month c) \<and>
      c_hour c < 24 \<and> c_min c < 60 \<and> c_sec c < 60 \<and> c_nano c < 1000000000)"

text \<open>Days before the first of January of a year, and before the first of a month.\<close>

definition year_start :: "int \<Rightarrow> int" where
  "year_start y = 365 * y + (y + 3) div 4 - (y + 99) div 100 + (y + 399) div 400"

definition month_start :: "int \<Rightarrow> nat \<Rightarrow> int" where
  "month_start y m = (\<Sum>k\<leftarrow>[1..<m]. int (days_in y k))"

definition day_number :: "civil \<Rightarrow> int" where
  "day_number c = year_start (c_year c) + month_start (c_year c) (c_month c) + int (c_day c) - 1"

definition instant :: "civil \<Rightarrow> int" where
  "instant c =
     (((day_number c * 24 + int (c_hour c)) * 60 + int (c_min c)) * 60 + int (c_sec c)) * 1000000000
       + int (c_nano c)"

section \<open>Formatting and parsing\<close>

definition digit_char :: "nat \<Rightarrow> char" where
  "digit_char n = char_of (48 + n mod 10)"

fun decimal :: "nat \<Rightarrow> string" where
  "decimal n = (if n < 10 then [digit_char n] else decimal (n div 10) @ [digit_char n])"

declare decimal.simps [simp del]

text \<open>Go's \<open>appendInt\<close>: zero-padded to at least the given width.\<close>

definition appendInt :: "nat \<Rightarrow> nat \<Rightarrow> string" where
  "appendInt w n = replicate (w - length (decimal n)) (CHR ''0'') @ decimal n"

definition appendYear :: "int \<Rightarrow> string" where
  "appendYear y = (if y < 0 then CHR ''-'' # appendInt 4 (nat (- y)) else appendInt 4 (nat y))"

definition formatSQLiteTime :: "civil \<Rightarrow> string" where
  "formatSQLiteTime c =
     appendYear (c_year c) @ ''-'' @ appendInt 2 (c_month c) @ ''-'' @ appendInt 2 (c_day c) @ ''T'' @
     appendInt 2 (c_hour c) @ '':'' @ appendInt 2 (c_min c) @ '':'' @ appendInt 2 (c_sec c) @ ''.'' @
     appendInt 9 (c_nano c) @ ''Z''"

text \<open>\<open>time.Parse\<close> with the same layout: fixed-width digit fields, the literal
  separators, and the range checks of the month, day and clock fields.\<close>

definition digit_val :: "char \<Rightarrow> nat option" where
  "digit_val c = (if 48 \<le> (of_char c :: nat) \<and> (of_char c :: nat) \<le> 57 then Some (of_char c - 48) else None)"

fun parse_digits :: "nat \<Rightarrow> nat \<Rightarrow> string \<Rightarrow> (nat \<times> string) option" where
  "parse_digits 0 acc s = Some (acc, s)"
| "parse_digits (Suc w) acc [] = None"
| "parse_digits (Suc w) acc (c # s) =
     (case digit_val c of None \<Rightarrow> None | Some d \<Rightarrow> parse_digits w (10 * acc + d) s)"

fun parse_lit :: "char \<Rightarrow> string \<Rightarrow> string option" where
  "parse_lit c [] = None"
| "parse_lit c (d # s) = (if c = d then Some s else None)"

definition parse_field :: "nat \<Rightarrow> char \<Rightarrow> string \<Rightarrow> (nat \<times> string) option" where
  "parse_field w c s =
     (case parse_digits w 0 s of None \<Rightarrow> None
      | Some (n, s') \<Rightarrow> (case parse_lit c s' of None \<Rightarrow> None | Some s'' \<Rightarrow> Some (n, s'')))"

definition parse_fields :: "(nat \<times> char) list \<Rightarrow> string \<Rightarrow> (nat list \<times> string) option" where
  "parse_fields fs s = fold (\<lambda>(w, c) acc. case acc of None \<Rightarrow> None
       | Some (ns, s') \<Rightarrow> (case parse_field w c s' of None \<Rightarrow> None | Some (n, s'') \<Rightarrow> Some (ns @ [n], s'')))
     fs (Some ([], s))"

definition sqliteTimeFormat :: "(nat \<times> char) list" where
  "sqliteTimeFormat =
     [(4, CHR ''-''), (2, CHR ''-''), (2, CHR ''T''), (2, CHR '':''), (2, CHR '':''), (2, CHR ''.''), (9, CHR ''Z'')]"

definition parseSQLiteTime :: "string \<Rightarrow> civil option" where
  "parseSQLiteTime s =
     (case parse_fields sqliteTimeFormat s of
        Some ([y, mo, d, h, mi, se, n], []) \<Rightarrow>
          (let c = \<lparr>c_year = int y, c_month = mo, c_day = d, c_hour = h, c_min = mi, c_sec = se, c_nano = n\<rparr>
           in if valid_civil c then Some c else None)
      | _ \<Rightarrow> None)"

section \<open>Fixed-width digits\<close>

fun pad :: "nat \<Rightarrow> nat \<Rightarrow> string" where
  "pad 0 n = []"
| "pad (Suc w) n = pad w (n div 10) @ [digit_char n]"

lemma length_pad [simp]: "length (pad w n) = w"
  by (induction w arbitrary: n) auto

lemma digit_char_0: "digit_char 0 = CHR ''0''"
  by code_simp

lemma pad_zero: "pad w 0 = replicate w (CHR ''0'')"
  by (induction w) (simp_all add: digit_char_0 replicate_append_same)

lemma decimal_pad:
  "n < 10 ^ w \<Longrightarrow> 0 < w \<Longrightarrow> length (decimal n) \<le> w \<and> appendInt w n = pad w n"
proof (induction w arbitrary: n)
  case (Suc w)
  show ?case
  proof (cases "n < 10")
    case True
    then show ?thesis
      by (simp add: decimal.simps [of n] appendInt_def pad_zero)
  next
    case False
    with Suc.prems have "n div 10 < 10 ^ w" "0 < w"
      by (auto simp: div_less_iff_less_mult mult.commute intro: gr0I)
    from Suc.IH [OF this] False show ?thesis
      by (simp add: decimal.simps [of n] appendInt_def)
  qed
qed simp

lemma appendInt_pad [simp]: "n < 10 ^ w \<Longrightarrow> 0 < w \<Longrightarrow> appendInt w n = pad w n"
  by (simp add: decimal_pad)

text \<open>Comparing two numbers in mixed radix.\<close>

lemma radix_less:
  fixes a b :: int
  assumes "0 \<le> b" "b < k" "0 \<le> b'" "b' < k"
  shows "(a * k + b < a' * k + b') = (a < a' \<or> a = a' \<and> b < b')"
proof (cases a a' rule: linorder_cases)
  case less
  then have "(a + 1) * k \<le> a' * k"
    using assms by (intro mult_right_mono) auto
  then show ?thesis
    using less assms by (simp add: distrib_right)
next
  case greater
  then have "(a' + 1) * k \<le> a * k"
    using assms by (intro mult_right_mono) auto
  then show ?thesis
    using greater assms by (simp add: distrib_right)
qed simp

lemma radix_less_nat:
  fixes a b :: nat
  assumes "b < k" "b' < k"
  shows "(a * k + b < a' * k + b') = (a < a' \<or> a = a' \<and> b < b')"
  using radix_less [of "int b" "int k" "int b'" "int a" "int a'"] assms
  by (simp flip: of_nat_mult of_nat_add)

lemma append_less_append:
  "length xs = length ys \<Longrightarrow>
     (xs @ us < ys @ vs) = (xs < ys \<or> xs = ys \<and> us < (vs :: 'a :: order list))"
  by (induction xs ys rule: list_induct2) auto

lemma digit_char_less [simp]: "(digit_char m < digit_char n) = (m mod 10 < n mod 10)"
proof -
  have "48 + m mod 10 < 256" "48 + n mod 10 < 256"
    by (simp_all add: less_trans [OF add_strict_left_mono [OF mod_less_divisor]])
  then show ?thesis
    by (simp add: digit_char_def less_char_def)
qed

lemma digit_char_eq [simp]: "(digit_char m = digit_char n) = (m mod 10 = n mod 10)"
proof
  assume "digit_char m = digit_char n"
  then have "\<not> digit_char m < digit_char n" "\<not> digit_char n < digit_char m"
    by simp_all
  then show "m mod 10 = n mod 10"
    by (simp add: not_less)
qed (simp add: digit_char_def)

lemma pad_inj: "m < 10 ^ w \<Longrightarrow> n < 10 ^ w \<Longrightarrow> (pad w m = pad w n) = (m = n)"
proof (induction w arbitrary: m n)
  case (Suc w)
  then have "m div 10 < 10 ^ w" "n div 10 < 10 ^ w"
    by (auto simp: div_less_iff_less_mult mult.commute)
  then show ?case
    by (simp add: Suc.IH) (metis div_mult_mod_eq)
qed simp

lemma pad_less: "m < 10 ^ w \<Longrightarrow> n < 10 ^ w \<Longrightarrow> (pad w m < pad w n) = (m < n)"
proof (induction w arbitrary: m n)
  case (Suc w)
  then have b: "m div 10 < 10 ^ w" "n div 10 < 10 ^ w"
    by (auto simp: div_less_iff_less_mult mult.commute)
  have "(m < n) = (m div 10 < n div 10 \<or> m div 10 = n div 10 \<and> m mod 10 < n mod 10)"
    using radix_less_nat [of "m mod 10" 10 "n mod 10" "m div 10" "n div 10"] by simp
  with b show ?case
    by (simp add: Suc.IH append_less_append pad_inj)
qed simp

lemma parse_digits_append_pad:
  "n < 10 ^ w \<Longrightarrow> parse_digits w acc (pad w n @ s) = Some (acc * 10 ^ w + n, s)"
proof (induction w arbitrary: n acc s)
  case (Suc w)
  have step: "parse_digits (Suc w) a (xs @ [digit_char n] @ s) =
      (case parse_digits w a xs of Some (m, []) \<Rightarrow> Some (10 * m + n mod 10, s) | _ \<Rightarrow> None)"
    if "length xs = w" for a xs
    using that
  proof (induction w arbitrary: a xs)
    case 0
    have "digit_val (digit_char n) = Some (n mod 10)"
    proof -
      have "48 + n mod 10 < 256"
        by (simp add: less_trans [OF add_strict_left_mono [OF mod_less_divisor]])
      then show ?thesis
        using mod_less_divisor [of 10 n] by (simp add: digit_val_def digit_char_def)
    qed
    with 0 show ?case by simp
  next
    case (Suc w)
    then obtain c ys where "xs = c # ys" "length ys = w"
      by (cases xs) auto
    with Suc.IH [of ys] show ?case
      by (auto split: option.splits)
  qed
  from Suc.prems have "n div 10 < 10 ^ w"
    by (simp add: div_less_iff_less_mult mult.commute)
  from Suc.IH [OF this, of acc "[]"] show ?case
    using step [of "pad w (n div 10)" acc]
    by (simp add: algebra_simps)
qed simp

lemma parse_field_pad [simp]:
  "n < 10 ^ w \<Longrightarrow> parse_field w c (pad w n @ c # s) = Some (n, s)"
  by (simp add: parse_field_def parse_digits_append_pad)

section \<open>The calendar is ordered like the fields\<close>

lemma ceil_div_step:
  fixes y k :: int
  assumes "0 < k" and j: "j = k - 1"
  shows "(y + k) div k = (y + j) div k + (if y mod k = 0 then 1 else 0)"
proof -
  define q r where "q = y div k" and "r = y mod k"
  have y: "y = k * q + r" and r: "0 \<le> r" "r < k"
    using assms by (simp_all add: q_def r_def)
  have "(y + (k - 1)) div k = (if r = 0 then q else q + 1)"
  proof (cases "r = 0")
    case True
    then show ?thesis
      using y assms by (simp add: int_div_pos_eq [of _ _ q "k - 1"])
  next
    case False
    have "(y + (k - 1)) div k = q + 1"
      by (rule int_div_pos_eq [of _ _ _ "r - 1"]) (use y r False in \<open>auto simp: algebra_simps\<close>)
    with False show ?thesis by simp
  qed
  moreover have "(y + k) div k = q + 1"
    using assms by (simp add: q_def div_add_self2)
  ultimately show ?thesis
    by (simp add: r_def j)
qed

lemma year_start_step_aux:
  fixes y :: int
  assumes "r \<Longrightarrow> q" "q \<Longrightarrow> p"
  shows "365 * (y + 1) + (a + (if p then 1 else 0)) - (b + (if q then 1 else 0)) + (c + (if r then 1 else 0))
    = 365 * y + a - b + c + (if p \<and> (\<not> q \<or> r) then 366 else 365)"
  using assms by auto

lemma year_start_step: "year_start (y + 1) = year_start y + (if leap y then 366 else 365)"
proof -
  have e: "y + 1 + 3 = y + 4" "y + 1 + 99 = y + 100" "y + 1 + 399 = y + 400" by simp_all
  have m: "y mod 400 = 0 \<Longrightarrow> y mod 100 = 0" "y mod 100 = 0 \<Longrightarrow> y mod 4 = 0"
    by (auto simp: mod_eq_0_iff_dvd elim!: dvd_trans [rotated])
  have d: "(y + 4) div 4 = (y + 3) div 4 + (if y mod 4 = 0 then 1 else 0)"
    "(y + 100) div 100 = (y + 99) div 100 + (if y mod 100 = 0 then 1 else 0)"
    "(y + 400) div 400 = (y + 399) div 400 + (if y mod 400 = 0 then 1 else 0)"
    by (rule ceil_div_step; simp)+
  show ?thesis
    unfolding year_start_def leap_def e d by (rule year_start_step_aux) (erule m)+
qed

definition year_len :: "int \<Rightarrow> int" where
  "year_len y = (if leap y then 366 else 365)"

lemma year_start_mono: "y < y' \<Longrightarrow> year_start y + year_len y \<le> year_start y'"
proof (induction "nat (y' - y)" arbitrary: y')
  case (Suc n)
  show ?case
  proof (cases "y' = y + 1")
    case False
    with Suc.prems Suc.hyps have "n = nat (y' - 1 - y)" "y < y' - 1"
      by auto
    from Suc.hyps(1) [OF this] have "year_start y + year_len y \<le> year_start (y' - 1)" .
    also have "\<dots> \<le> year_start y'"
      using year_start_step [of "y' - 1"] by simp
    finally show ?thesis .
  qed (simp add: year_start_step year_len_def)
qed simp

lemma month_start_Suc: "1 \<le> m \<Longrightarrow> month_start y (Suc m) = month_start y m + int (days_in y m)"
  by (simp add: month_start_def)

lemma month_start_mono:
  "1 \<le> m \<Longrightarrow> m < m' \<Longrightarrow> month_start y m + int (days_in y m) \<le> month_start y m'"
proof (induction m')
  case (Suc m')
  then show ?case
    by (cases "m = m'") (auto simp: month_start_Suc)
qed simp

lemma month_start_13: "month_start y 13 = year_len y"
  by (simp add: month_start_def upt_rec numeral_eq_Suc days_in_def year_len_def)

lemma month_start_nonneg: "0 \<le> month_start y m"
  unfolding month_start_def by (rule sum_list_nonneg) auto

lemma day_in_year:
  assumes "valid_civil c"
  shows "0 \<le> month_start (c_year c) (c_month c) + int (c_day c) - 1"
    and "month_start (c_year c) (c_month c) + int (c_day c) - 1 < year_len (c_year c)"
  using assms month_start_nonneg [of "c_year c" "c_month c"]
    month_start_mono [of "c_month c" 13 "c_year c"] month_start_13 [of "c_year c"]
  by (auto simp: valid_civil_def)

lemma day_number_less:
  assumes "valid_civil c" "valid_civil c'"
  shows "(day_number c < day_number c') =
    ((c_year c, c_month c, c_day c) < (c_year c', c_month c', c_day c'))"
proof -
  consider "c_year c < c_year c'" | "c_year c' < c_year c" | "c_year c = c_year c'" by linarith
  then show ?thesis
  proof cases
    case 1
    with year_start_mono [OF 1] day_in_year [OF assms(1)] day_in_year [OF assms(2)]
    show ?thesis by (simp add: day_number_def)
  next
    case 2
    with year_start_mono [OF 2] day_in_year [OF assms(1)] day_in_year [OF assms(2)]
    show ?thesis by (simp add: day_number_def)
  next
    case 3
    consider "c_month c < c_month c'" | "c_month c' < c_month c" | "c_month c = c_month c'" by linarith
    then show ?thesis
    proof cases
      case 1
      with 3 month_start_mono [of "c_month c" "c_month c'" "c_year c"] assms show ?thesis
        by (simp add: day_number_def valid_civil_def)
    next
      case 2
      with 3 month_start_mono [of "c_month c'" "c_month c" "c_year c"] assms show ?thesis
        by (simp add: day_number_def valid_civil_def)
    qed (simp add: 3 day_number_def)
  qed
qed

lemma day_number_eq:
  assumes "valid_civil c" "valid_civil c'"
  shows "(day_number c = day_number c') =
    (c_year c = c_year c' \<and> c_month c = c_month c' \<and> c_day c = c_day c')"
  using day_number_less [OF assms] day_number_less [OF assms(2,1)]
  by (auto simp: day_number_def)

section \<open>Order and round trip\<close>

lemma format_fields:
  "valid_civil c \<Longrightarrow> formatSQLiteTime c =
     pad 4 (nat (c_year c)) @ CHR ''-'' # pad 2 (c_month c) @ CHR ''-'' # pad 2 (c_day c) @
     CHR ''T'' # pad 2 (c_hour c) @ CHR '':'' # pad 2 (c_min c) @ CHR '':'' # pad 2 (c_sec c) @
     CHR ''.'' # pad 9 (c_nano c) @ [CHR ''Z'']"
  by (auto simp: formatSQLiteTime_def valid_civil_def appendYear_def days_in_def split: if_splits)

lemma instant_less:
  assumes "valid_civil c" "valid_civil c'"
  shows "(instant c < instant c') =
    ((c_year c, c_month c, c_day c, c_hour c, c_min c, c_sec c, c_nano c) <
     (c_year c', c_month c', c_day c', c_hour c', c_min c', c_sec c', c_nano c'))"
proof -
  note v = assms [unfolded valid_civil_def]
  have "(instant c < instant c') =
      (day_number c < day_number c' \<or> day_number c = day_number c' \<and>
       (c_hour c, c_min c, c_sec c, c_nano c) < (c_hour c', c_min c', c_sec c', c_nano c'))"
    using v by (auto simp: instant_def radix_less)
  then show ?thesis
    by (auto simp: day_number_less [OF assms] day_number_eq [OF assms])
qed

text \<open>For valid UTC times of the years 0..9999 the lexicographic order of
  the stored texts is the chronological order, so that SQL's comparisons and
  ORDER BY on a time column are comparisons of instants.\<close>

theorem formatSQLiteTime_order:
  assumes "valid_civil c" "valid_civil c'"
  shows "(formatSQLiteTime c < formatSQLiteTime c') = (instant c < instant c')"
proof -
  have b: "nat (c_year c) < 10 ^ 4" "c_month c < 10 ^ 2" "c_day c < 10 ^ 2" "c_hour c < 10 ^ 2"
    "c_min c < 10 ^ 2" "c_sec c < 10 ^ 2" "c_nano c < 10 ^ 9" if "valid_civil c" for c
    using that by (auto simp: valid_civil_def days_in_def split: if_splits)
  obtain y y' where y: "c_year c = int y" "c_year c' = int y'"
    using assms by (metis valid_civil_def zero_le_imp_eq_int)
  note bs = b [OF assms(1)] b [OF assms(2)]
  show ?thesis
    unfolding instant_less [OF assms] format_fields [OF assms(1)] format_fields [OF assms(2)]
    using bs by (simp add: y append_less_append pad_less pad_inj pair_less_iff del: less_prod_simp)
qed

text \<open>Scanning a stored time column gives back the time that was stored.\<close>

theorem parse_formatSQLiteTime:
  assumes "valid_civil c"
  shows "parseSQLiteTime (formatSQLiteTime c) = Some c"
proof -
  have "nat (c_year c) < 10 ^ 4" "c_month c < 10 ^ 2" "c_day c < 10 ^ 2" "c_hour c < 10 ^ 2"
    "c_min c < 10 ^ 2" "c_sec c < 10 ^ 2" "c_nano c < 10 ^ 9" "int (nat (c_year c)) = c_year c"
    using assms by (auto simp: valid_civil_def days_in_def split: if_splits)
  then show ?thesis
    using assms
    by (cases c) (simp add: parseSQLiteTime_def parse_fields_def sqliteTimeFormat_def format_fields)
qed

definition demo_civil :: "int \<Rightarrow> nat \<Rightarrow> nat \<Rightarrow> nat \<Rightarrow> nat \<Rightarrow> civil" where
  "demo_civil y mo d h n = \<lparr>c_year = y, c_month = mo, c_day = d, c_hour = h, c_min = 0, c_sec = 0, c_nano = n\<rparr>"

lemmas civil_eval = demo_civil_def valid_civil_def days_in_def leap_def instant_def day_number_def
  year_start_def month_start_def

end
