(* ===== verification/OpenCaravan.thy ===== *)
theory OpenCaravan
  imports Prelude
begin

text \<open>
  The wire types of the opencaravan-go package that the server handles, with
  the fields the server reads, and the functions of that package and of the
  cryptographic libraries as the parameter record \<open>lib\<close>. Nothing of \<open>lib\<close> is
  defined here: the operations take it as an argument, so every theorem holds
  for every implementation of it, and a law one of them relies on is a named
  hypothesis of the theorem. Strings stand for Go's byte strings.
\<close>

section \<open>Wire types\<close>

text \<open>The integrity envelope of a signed payload.\<close>

record integrity =
  ig_algorithm :: string
  ig_key_id :: string
  ig_signature :: string

record blob_ref =
  bl_hash :: string

record vehicle =
  v_id :: string
  v_owner_user_id :: string
  v_revision_version :: int
  v_revision_time :: int
  v_avatar_blob :: "blob_ref option"
  v_banner_blob :: "blob_ref option"
  v_integrity :: "integrity option"
  v_rest :: string

text \<open>\<open>acl_emergency_rule\<close> is the optional rule, by its kind.\<close>

record vehicle_acl =
  acl_vehicle_id :: string
  acl_owner_user_id :: string
  acl_acl_version :: int
  acl_effective_time :: int
  acl_authorized_drivers :: "string list"
  acl_emergency_rule :: "string option"
  acl_integrity :: "integrity option"
  acl_rest :: string

record driver_attestation =
  da_vehicle_id :: string
  da_segment_id :: string
  da_driver_user_id :: string
  da_effective_time :: int
  da_acl_version_consulted :: int
  da_prior_attestation_hash :: "string option"
  da_integrity :: "integrity option"
  da_rest :: string

record garage_owner =
  gown_user_id :: string
  gown_added_time :: int
  gown_accepted_time :: "int option"

record garage =
  g_id :: string
  g_name :: string
  g_revision_version :: int
  g_revision_time :: int
  g_signed_by :: string
  g_owners :: "garage_owner list"
  g_integrity :: "integrity option"
  g_rest :: string

record ownership_acceptance =
  oa_garage_id :: string
  oa_revision_version_accepted :: int
  oa_accepter_user_id :: string
  oa_accepted_time :: int
  oa_integrity :: "integrity option"
  oa_rest :: string

record garage_vehicle =
  gvh_id :: string
  gvh_garage_id :: string
  gvh_revision_version :: int
  gvh_revision_time :: int
  gvh_signed_by :: string
  gvh_avatar_blob :: "blob_ref option"
  gvh_banner_blob :: "blob_ref option"
  gvh_integrity :: "integrity option"
  gvh_rest :: string

text \<open>The fields of an \<open>x509.Certificate\<close> the server reads. The public key is
  opaque; \<open>xc_ecdsa\<close> says whether it is an ECDSA key.\<close>

record x509_cert =
  xc_serial :: nat
  xc_subject_cn :: string
  xc_not_before :: int
  xc_not_after :: int
  xc_raw :: string
  xc_public_key :: string
  xc_ecdsa :: bool

section \<open>Library functions\<close>

record lib =
  lib_sha256 :: "string \<Rightarrow> string"
  lib_scope_valid :: "string \<Rightarrow> bool"
  lib_vehicle_validate :: "vehicle \<Rightarrow> bool"
  lib_acl_validate :: "vehicle_acl \<Rightarrow> bool"
  lib_attestation_validate :: "driver_attestation \<Rightarrow> bool"
  lib_garage_validate :: "garage \<Rightarrow> bool"
  lib_acceptance_validate :: "ownership_acceptance \<Rightarrow> bool"
  lib_garage_vehicle_validate :: "garage_vehicle \<Rightarrow> bool"
  lib_marshal_drivers :: "string list \<Rightarrow> string"
  lib_unmarshal_drivers :: "string \<Rightarrow> string list option"
  lib_pem_encode :: "string \<Rightarrow> string option"
  lib_pem_decode :: "string \<Rightarrow> string option"
  lib_parse_certificate :: "string \<Rightarrow> x509_cert option"

text \<open>\<open>hex.EncodeToString\<close> and \<open>big.Int.Text(16)\<close>.\<close>

definition hex_digit :: "nat \<Rightarrow> char" where
  "hex_digit n = (if n < 10 then char_of (48 + n) else char_of (87 + n))"

definition hex_encode :: "string \<Rightarrow> string" where
  "hex_encode bs = concat (map (\<lambda>b. [hex_digit (of_char b div 16), hex_digit (of_char b mod 16)]) bs)"

fun hex_nat :: "nat \<Rightarrow> string" where
  "hex_nat n = (if n < 16 then [hex_digit n] else hex_nat (n div 16) @ [hex_digit (n mod 16)])"

declare hex_nat.simps [simp del]

text \<open>\<open>hashInviteToken\<close> (storage/invite.go).\<close>

definition hashInviteToken :: "lib \<Rightarrow> string \<Rightarrow> string" where
  "hashInviteToken L tok = hex_encode (lib_sha256 L tok)"

definition blobRefHash :: "blob_ref option \<Rightarrow> string option" where
  "blobRefHash ref = (case ref of None \<Rightarrow> None | Some b \<Rightarrow> Some (bl_hash b))"

definition emergencyRuleKind :: "string option \<Rightarrow> string" where
  "emergencyRuleKind rule = (case rule of None \<Rightarrow> '''' | Some k \<Rightarrow> k)"

section \<open>A concrete library for the witnesses\<close>

text \<open>A small instance: payloads are valid, the digest is the identity on short
  texts, one driver is marshalled as its id.\<close>

definition demo_lib :: lib where
  "demo_lib = \<lparr>lib_sha256 = (\<lambda>s. s), lib_scope_valid = (\<lambda>s. s \<in> {''journey'', ''server_registration''}),
     lib_vehicle_validate = (\<lambda>_. True), lib_acl_validate = (\<lambda>_. True),
     lib_attestation_validate = (\<lambda>_. True), lib_garage_validate = (\<lambda>_. True),
     lib_acceptance_validate = (\<lambda>_. True), lib_garage_vehicle_validate = (\<lambda>_. True),
     lib_marshal_drivers = concat, lib_unmarshal_drivers = (\<lambda>s. Some [s]),
     lib_pem_encode = Some, lib_pem_decode = Some,
     lib_parse_certificate = (\<lambda>s. Some \<lparr>xc_serial = 1, xc_subject_cn = s, xc_not_before = 0,
        xc_not_after = 100, xc_raw = s, xc_public_key = s, xc_ecdsa = True\<rparr>)\<rparr>"

section \<open>Hexadecimal text\<close>

lemma hex_digit_inj: "m < 16 \<Longrightarrow> n < 16 \<Longrightarrow> hex_digit m = hex_digit n \<Longrightarrow> m = n"
proof -
  assume a: "m < 16" "n < 16" "hex_digit m = hex_digit n"
  then have "(of_char (hex_digit m) :: nat) = of_char (hex_digit n)" by simp
  with a show "m = n" by (auto simp: hex_digit_def split: if_splits)
qed

lemma hex_encode_inj: "hex_encode xs = hex_encode ys \<Longrightarrow> xs = ys"
proof (induction xs arbitrary: ys)
  case Nil
  then show ?case by (cases ys) (auto simp: hex_encode_def)
next
  case (Cons x xs)
  then obtain y zs where ys: "ys = y # zs" by (cases ys) (auto simp: hex_encode_def)
  with Cons.prems have "hex_digit (of_char x div 16) = hex_digit (of_char y div 16)"
    "hex_digit (of_char x mod 16) = hex_digit (of_char y mod 16)" "hex_encode xs = hex_encode zs"
    by (auto simp: hex_encode_def)
  then have "(of_char x :: nat) div 16 = of_char y div 16" "(of_char x :: nat) mod 16 = of_char y mod 16"
    "xs = zs"
    by (auto intro: hex_digit_inj Cons.IH simp: div_less_iff_less_mult nat_of_char_less_256)
  then have "(of_char x :: nat) = of_char y"
    by (metis div_mult_mod_eq)
  with \<open>xs = zs\<close> ys show ?case by simp
qed

end
