(* ===== verification/GoLib.thy ===== *)
theory GoLib
  imports OpenCaravan
begin

text \<open>
  The functions of Go's standard library that the server's text handling uses, on
  byte strings: trimming, cutting and replacing (strings), numbers in base 16
  (math/big) and the unpadded URL-safe base64 alphabet (encoding/base64).
\<close>

section \<open>strings\<close>

definition is_space :: "char \<Rightarrow> bool" where
  "is_space c = (c \<in> {CHR '' '', CHR 0x09, CHR 0x0A, CHR 0x0B, CHR 0x0C, CHR 0x0D})"

text \<open>\<open>Trim\<close> drops the characters of a set from both ends.\<close>

definition trim_by :: "(char \<Rightarrow> bool) \<Rightarrow> string \<Rightarrow> string" where
  "trim_by p s = rev (dropWhile p (rev (dropWhile p s)))"

text \<open>White space beyond ASCII, in UTF-8: U+0085, U+00A0, U+1680, U+2000 to U+200A, U+2028,
  U+2029, U+202F, U+205F and U+3000.\<close>

definition wide_space :: "string \<Rightarrow> bool" where
  "wide_space w = (w \<in> {[CHR 0xC2, CHR 0x85], [CHR 0xC2, CHR 0xA0], [CHR 0xE1, CHR 0x9A, CHR 0x80], [CHR 0xE2, CHR 0x80, CHR 0xA8],
       [CHR 0xE2, CHR 0x80, CHR 0xA9], [CHR 0xE2, CHR 0x80, CHR 0xAF], [CHR 0xE2, CHR 0x81, CHR 0x9F], [CHR 0xE3, CHR 0x80, CHR 0x80]} \<or>
     length w = 3 \<and> take 2 w = [CHR 0xE2, CHR 0x80] \<and> CHR 0x80 \<le> w ! 2 \<and> w ! 2 \<le> CHR 0x8A)"

text \<open>The bytes of the white space character a string starts with, 0 when it starts with none.
  \<open>f\<close> is the identity, or \<open>rev\<close> on a reversed string.\<close>

definition space_width :: "(string \<Rightarrow> string) \<Rightarrow> string \<Rightarrow> nat" where
  "space_width f s =
     (if s = [] then 0 else if is_space (hd s) then 1 else if wide_space (f (take 2 s)) then 2
      else if wide_space (f (take 3 s)) then 3 else 0)"

fun trim_spaces :: "(string \<Rightarrow> string) \<Rightarrow> string \<Rightarrow> string" where
  "trim_spaces f s = (if s = [] \<or> space_width f s = 0 then s else trim_spaces f (drop (space_width f s) s))"

declare trim_spaces.simps [simp del]

definition TrimSpace :: "string \<Rightarrow> string" where
  "TrimSpace s = rev (trim_spaces rev (rev (trim_spaces (\<lambda>x. x) s)))"

definition TrimPrefix :: "string \<Rightarrow> string \<Rightarrow> string" where
  "TrimPrefix s p = (if take (length p) s = p then drop (length p) s else s)"

text \<open>\<open>strings.Cut\<close> with a one-byte separator: \<open>None\<close> when it does not occur.\<close>

definition Cut :: "string \<Rightarrow> char \<Rightarrow> (string \<times> string) option" where
  "Cut s c = (if c \<in> set s then Some (takeWhile (\<lambda>x. x \<noteq> c) s, tl (dropWhile (\<lambda>x. x \<noteq> c) s)) else None)"

fun Split :: "string \<Rightarrow> char \<Rightarrow> string list" where
  "Split [] c = [[]]"
| "Split (x # xs) c =
     (if x = c then [] # Split xs c else (case Split xs c of [] \<Rightarrow> [[x]] | p # ps \<Rightarrow> (x # p) # ps))"

lemma Split_ne: "Split s c \<noteq> []"
  by (cases s) (auto split: list.splits)

lemma Split_single: "c \<notin> set s \<Longrightarrow> Split s c = [s]"
  by (induction s) auto

lemma Split_append: "Split (s @ c # t) c = Split s c @ Split t c"
proof (induction s)
  case (Cons x s)
  then show ?case using Split_ne [of s c] by (cases "Split s c") auto
qed simp

definition lower_char :: "char \<Rightarrow> char" where
  "lower_char c = (if CHR ''A'' \<le> c \<and> c \<le> CHR ''Z'' then char_of (of_char c + 32 :: nat) else c)"

definition ToLower :: "string \<Rightarrow> string" where
  "ToLower s = map lower_char s"

text \<open>\<open>EqualFold\<close> against an ASCII constant without the letters k and s, whose only case
  variants are ASCII.\<close>

definition EqualFold :: "string \<Rightarrow> string \<Rightarrow> bool" where
  "EqualFold s t = (ToLower s = ToLower t)"

section \<open>time\<close>

text \<open>Go's zero \<open>time.Time\<close>, the first of January of year 1, in nanoseconds from the start
  of year 0, the unit of every time in the development; year 0 has 366 days.\<close>

definition zero_time :: int where
  "zero_time = 366 * 86400 * 1000000000"

section \<open>Hexadecimal numbers\<close>

definition hex_val :: "char \<Rightarrow> nat option" where
  "hex_val c =
     (let n = of_char c :: nat in
      if 48 \<le> n \<and> n \<le> 57 then Some (n - 48)
      else if 97 \<le> n \<and> n \<le> 102 then Some (n - 87)
      else if 65 \<le> n \<and> n \<le> 70 then Some (n - 55)
      else None)"

text \<open>\<open>(*big.Int).SetString\<close> in base 16: an optional sign, then at least one digit.\<close>

fun parse_hex_digits :: "nat \<Rightarrow> string \<Rightarrow> nat option" where
  "parse_hex_digits acc [] = Some acc"
| "parse_hex_digits acc (c # cs) =
     (case hex_val c of None \<Rightarrow> None | Some v \<Rightarrow> parse_hex_digits (16 * acc + v) cs)"

definition big_SetString16 :: "string \<Rightarrow> int option" where
  "big_SetString16 s =
     (let (neg, ds) = (case s of c # cs \<Rightarrow> if c = CHR ''-'' then (True, cs) else if c = CHR ''+'' then (False, cs) else (False, s)
                       | [] \<Rightarrow> (False, s))
      in if ds = [] then None
         else map_option (\<lambda>n. if neg then - int n else int n) (parse_hex_digits 0 ds))"

lemma hex_digit_code: "n < 16 \<Longrightarrow> (of_char (hex_digit n) :: nat) = (if n < 10 then 48 + n else 87 + n)"
  by (simp add: hex_digit_def)

lemma hex_val_hex_digit [simp]: "n < 16 \<Longrightarrow> hex_val (hex_digit n) = Some n"
  by (auto simp: hex_val_def hex_digit_code Let_def)

lemma hex_digit_not:
  assumes "n < 16" "(of_char c :: nat) < 48"
  shows "hex_digit n \<noteq> c"
proof
  assume "hex_digit n = c"
  with hex_digit_code [OF assms(1)] assms(2) show False by (auto split: if_splits)
qed

lemma parse_hex_append:
  "parse_hex_digits a (xs @ ys) = (case parse_hex_digits a xs of None \<Rightarrow> None | Some b \<Rightarrow> parse_hex_digits b ys)"
  by (induction a xs rule: parse_hex_digits.induct) (auto split: option.splits)

lemma parse_hex_nat: "parse_hex_digits 0 (hex_nat n) = Some n"
proof (induction n rule: hex_nat.induct)
  case (1 n)
  then show ?case
    by (subst hex_nat.simps) (auto simp: parse_hex_append)
qed

lemma hex_nat_chars: "c \<in> set (hex_nat n) \<Longrightarrow> \<exists>k < 16. c = hex_digit k"
proof (induction n rule: hex_nat.induct)
  case (1 n)
  then show ?case
    by (subst (asm) (2) hex_nat.simps) (fastforce split: if_splits intro: exI [of _ "n mod 16"])
qed

lemma hex_nat_ne: "hex_nat n \<noteq> []"
  by (subst hex_nat.simps) simp

lemma hex_nat_inj: "hex_nat m = hex_nat n \<Longrightarrow> m = n"
  by (metis option.inject parse_hex_nat)

text \<open>Characters of a number are none of the separators, blanks or signs.\<close>

lemma hex_nat_no: "(of_char c :: nat) < 48 \<or> (of_char c :: nat) = 58 \<or> (of_char c :: nat) = 88 \<or> (of_char c :: nat) = 120 \<Longrightarrow> c \<notin> set (hex_nat n)"
  using hex_digit_code by (fastforce dest: hex_nat_chars split: if_splits)

section \<open>base64.RawURLEncoding\<close>

definition b64_char :: "nat \<Rightarrow> char" where
  "b64_char n = (if n < 26 then char_of (65 + n) else if n < 52 then char_of (71 + n)
     else if n < 62 then char_of (n - 4) else if n = 62 then CHR ''-'' else CHR ''_'')"

definition b64_val :: "char \<Rightarrow> nat option" where
  "b64_val c =
     (let n = of_char c :: nat in
      if 65 \<le> n \<and> n \<le> 90 then Some (n - 65)
      else if 97 \<le> n \<and> n \<le> 122 then Some (n - 71)
      else if 48 \<le> n \<and> n \<le> 57 then Some (n + 4)
      else if n = 45 then Some 62 else if n = 95 then Some 63 else None)"

fun b64_encode :: "string \<Rightarrow> string" where
  "b64_encode [] = []"
| "b64_encode [a] = (let x = of_char a in [b64_char (x div 4), b64_char (x mod 4 * 16)])"
| "b64_encode [a, b] = (let x = of_char a; y = of_char b in
     [b64_char (x div 4), b64_char (x mod 4 * 16 + y div 16), b64_char (y mod 16 * 4)])"
| "b64_encode (a # b # c # rest) = (let x = of_char a; y = of_char b; z = of_char c in
     b64_char (x div 4) # b64_char (x mod 4 * 16 + y div 16) # b64_char (y mod 16 * 4 + z div 64) #
     b64_char (z mod 64) # b64_encode rest)"

text \<open>The decoder skips line breaks, rejects every other byte outside the alphabet and a
  group of one character, and ignores the left-over bits of the last group.\<close>

fun b64_groups :: "nat list \<Rightarrow> string option" where
  "b64_groups [] = Some []"
| "b64_groups [a] = None"
| "b64_groups [a, b] = Some [char_of (a * 4 + b div 16)]"
| "b64_groups [a, b, c] = Some [char_of (a * 4 + b div 16), char_of (b mod 16 * 16 + c div 4)]"
| "b64_groups (a # b # c # d # rest) = map_option (\<lambda>s. char_of (a * 4 + b div 16) #
     char_of (b mod 16 * 16 + c div 4) # char_of (c mod 4 * 64 + d) # s) (b64_groups rest)"

fun b64_vals :: "string \<Rightarrow> nat list option" where
  "b64_vals [] = Some []"
| "b64_vals (c # cs) = (case b64_val c of None \<Rightarrow> None | Some v \<Rightarrow> map_option ((#) v) (b64_vals cs))"

definition b64_decode :: "string \<Rightarrow> string option" where
  "b64_decode s = (case b64_vals (filter (\<lambda>c. c \<noteq> CHR 0x0A \<and> c \<noteq> CHR 0x0D) s) of
     None \<Rightarrow> None | Some vs \<Rightarrow> b64_groups vs)"

lemma b64_char_code: "n < 64 \<Longrightarrow> (of_char (b64_char n) :: nat) =
    (if n < 26 then 65 + n else if n < 52 then 71 + n else if n < 62 then n - 4 else if n = 62 then 45 else 95)"
  by (simp add: b64_char_def)

lemma b64_val_char [simp]: "n < 64 \<Longrightarrow> b64_val (b64_char n) = Some n"
  by (auto simp: b64_val_def b64_char_code Let_def)

lemma b64_char_no_break: "n < 64 \<Longrightarrow> b64_char n \<noteq> CHR 0x0A \<and> b64_char n \<noteq> CHR 0x0D"
  using b64_char_code [of n] by (auto split: if_splits)

lemma byte_bounds: "(of_char c :: nat) div 4 < 64" "(of_char c :: nat) div 16 < 16" "(of_char c :: nat) div 64 < 4"
  using nat_of_char_less_256 [of c] by (auto simp: div_less_iff_less_mult)

lemma byte_parts:
  fixes x y z :: nat
  assumes "y div 16 < 16" "z div 64 < 4"
  shows "x mod 4 * 16 + y div 16 < 64 \<and> y mod 16 * 4 + z div 64 < 64 \<and> z mod 64 < 64 \<and>
    x div 4 * 4 + (x mod 4 * 16 + y div 16) div 16 = x \<and>
    (x mod 4 * 16 + y div 16) mod 16 * 16 + (y mod 16 * 4 + z div 64) div 4 = y \<and>
    (y mod 16 * 4 + z div 64) mod 4 * 64 + z mod 64 = z"
proof -
  have "x mod 4 < 4" "y mod 16 < 16" by simp_all
  with assms have "x mod 4 * 16 + y div 16 < 64" "y mod 16 * 4 + z div 64 < 64" by linarith+
  with assms show ?thesis by (simp add: div_mult_mod_eq)
qed

text \<open>The encoding is a text of sextets, all in range, from which the groups recover the
  bytes.\<close>

lemma b64_encode_sextets:
  "\<exists>vs. b64_encode s = map b64_char vs \<and> (\<forall>v \<in> set vs. v < 64) \<and> b64_groups vs = Some s"
proof (induction s rule: b64_encode.induct)
  case 1
  then show ?case by simp
next
  case (2 a)
  let ?x = "of_char a :: nat"
  show ?case
    using byte_bounds(1) [of a] byte_parts [of 0 0 ?x]
    by (intro exI [of _ "[?x div 4, ?x mod 4 * 16]"]) (simp add: Let_def)
next
  case (3 a b)
  let ?x = "of_char a :: nat" and ?y = "of_char b :: nat"
  show ?case
    using byte_bounds(1) [of a] byte_bounds(2) [of b] byte_parts [of ?y 0 ?x]
    by (intro exI [of _ "[?x div 4, ?x mod 4 * 16 + ?y div 16, ?y mod 16 * 4]"]) (simp add: Let_def)
next
  case (4 a b c rest)
  let ?x = "of_char a :: nat" and ?y = "of_char b :: nat" and ?z = "of_char c :: nat"
  from 4 obtain vs where vs: "b64_encode rest = map b64_char vs" "\<forall>v \<in> set vs. v < 64" "b64_groups vs = Some rest"
    by blast
  show ?case
    using byte_bounds(1) [of a] byte_bounds(2) [of b] byte_bounds(3) [of c] vs
      byte_parts [of ?y ?z ?x]
    by (intro exI [of _ "?x div 4 # (?x mod 4 * 16 + ?y div 16) # (?y mod 16 * 4 + ?z div 64) # ?z mod 64 # vs"])
      (simp add: Let_def)
qed

lemma b64_vals_map: "\<forall>v \<in> set vs. v < 64 \<Longrightarrow> b64_vals (map b64_char vs) = Some vs"
  by (induction vs) auto

lemma b64_roundtrip: "b64_decode (b64_encode s) = Some s"
proof -
  obtain vs where vs: "b64_encode s = map b64_char vs" "\<forall>v \<in> set vs. v < 64" "b64_groups vs = Some s"
    using b64_encode_sextets by blast
  have "filter (\<lambda>c. c \<noteq> CHR 0x0A \<and> c \<noteq> CHR 0x0D) (b64_encode s) = b64_encode s"
    using vs(2) by (auto simp: vs(1) filter_id_conv b64_char_no_break)
  with vs show ?thesis by (simp add: b64_decode_def b64_vals_map)
qed

lemma trim_by_strip:
  assumes "list_all p w" "list_all p w'" "x \<noteq> []" "\<And>c. c \<in> set x \<Longrightarrow> \<not> p c"
  shows "trim_by p (w @ x @ w') = x"
proof -
  have drop: "dropWhile p (u @ y @ z) = y @ z" if "list_all p u" "y \<noteq> []" "\<not> p (hd y)" for u y z
    using that by (cases y) (simp_all add: list_all_iff)
  have "dropWhile p (w @ x @ w') = x @ w'"
    using drop [OF assms(1,3)] assms(3,4) by simp
  moreover have "dropWhile p (rev w' @ rev x @ []) = rev x @ []"
    using assms(2-4) by (intro drop) (simp_all add: list_all_iff hd_rev)
  ultimately show ?thesis by (simp add: trim_by_def)
qed

text \<open>Trimming removes ASCII blanks around a text that starts and ends with other ASCII
  characters.\<close>

definition plain_char :: "char \<Rightarrow> bool" where
  "plain_char c = (\<not> is_space c \<and> c < CHR 0x80)"

lemma wide_space_chars: "wide_space w \<Longrightarrow> c \<in> set w \<Longrightarrow> \<not> plain_char c"
proof -
  assume w: "wide_space w" and c: "c \<in> set w"
  show ?thesis
  proof (cases "length w = 3 \<and> take 2 w = [CHR 0xE2, CHR 0x80] \<and> CHR 0x80 \<le> w ! 2")
    case True
    then have "w = [CHR 0xE2, CHR 0x80, w ! 2]" using take_Suc_conv_app_nth [of 2 w] by (simp add: numeral_eq_Suc)
    with c True have "c \<in> {CHR 0xE2, CHR 0x80, w ! 2}" by (metis list.set(1) list.simps(15))
    with True show ?thesis by (auto simp: plain_char_def less_char_def less_eq_char_def)
  next
    case False
    with w c show ?thesis by (auto simp: wide_space_def plain_char_def less_char_def)
  qed
qed

lemma space_width_plain:
  assumes "\<And>w. set (f w) = set w" "s \<noteq> []" "plain_char (hd s)"
  shows "trim_spaces f s = s"
proof -
  have "hd s \<in> set (f (take n s))" if "0 < n" for n using that assms(1,2) by (cases s; cases n) auto
  then have "\<not> wide_space (f (take n s))" if "0 < n" for n using that assms(3) wide_space_chars by blast
  with assms(3) show ?thesis by (simp add: trim_spaces.simps space_width_def plain_char_def)
qed

lemma trim_spaces_blanks: "list_all is_space w \<Longrightarrow> trim_spaces f (w @ s) = trim_spaces f s"
  by (induction w) (simp_all add: trim_spaces.simps [of f "_ # _"] space_width_def)

lemma TrimSpace_Nil [simp]: "TrimSpace [] = []"
  by (simp add: TrimSpace_def trim_spaces.simps space_width_def)

lemma TrimSpace_strip:
  assumes "list_all is_space w" "list_all is_space w'" "x \<noteq> []" "plain_char (hd x)" "plain_char (last x)"
  shows "TrimSpace (w @ x @ w') = x"
proof -
  have "trim_spaces (\<lambda>x. x) (w @ x @ w') = x @ w'"
    using assms by (simp add: trim_spaces_blanks space_width_plain)
  moreover have "trim_spaces rev (rev w' @ rev x) = rev x"
    using assms by (simp add: trim_spaces_blanks list_all_iff space_width_plain hd_rev)
  ultimately show ?thesis by (simp add: TrimSpace_def)
qed

lemma TrimSpace_plain: "plain_char (hd x) \<Longrightarrow> plain_char (last x) \<Longrightarrow> TrimSpace x = x"
  using TrimSpace_strip [of "[]" "[]" x] by (cases "x = []") simp_all

lemma TrimSpace_id: "(\<And>c. c \<in> set x \<Longrightarrow> plain_char c) \<Longrightarrow> TrimSpace x = x"
  by (cases x) (auto intro!: TrimSpace_plain)

text \<open>An encoded token has no blank at either end, so trimming keeps it.\<close>

lemma b64_encode_plain: "c \<in> set (b64_encode s) \<Longrightarrow> plain_char c"
proof -
  assume "c \<in> set (b64_encode s)"
  with b64_encode_sextets [of s] obtain v where "v < 64" "c = b64_char v" by (metis imageE list.set_map)
  with b64_char_code [of v] show "plain_char c" by (auto simp: plain_char_def is_space_def less_char_def split: if_splits)
qed

lemma TrimSpace_b64: "TrimSpace (b64_encode s) = b64_encode s"
  by (rule TrimSpace_id) (rule b64_encode_plain)

lemma b64_encode_ne: "s \<noteq> [] \<Longrightarrow> b64_encode s \<noteq> []"
  by (cases s rule: b64_encode.cases) (auto simp: Let_def)

end
