(* ===== verification/Schema.thy ===== *)
theory Schema
  imports OpenCaravan
begin

text \<open>
  The SQLite schema (storage/migrations/*.sql) as row records, the database
  as a record of tables, and INSERT, UPDATE and DELETE with the constraints the
  schema declares. Constraints are tried in SQLite's order: CHECK, then the
  PRIMARY KEY and UNIQUE indexes, then the foreign keys. Columns that no
  operation of the server reads or writes are left out; a nullable column is an
  \<open>option\<close>.
\<close>

section \<open>Rows\<close>

record account =
  acc_id :: string
  acc_open_caravan_id :: string
  acc_display_name :: string
  acc_created_at :: int
  acc_disabled_at :: "int option"

record client_app =
  ca_id :: string
  ca_user_id :: string
  ca_display_name :: string
  ca_created_time :: int

record client_app_invite =
  cai_token_hash :: string
  cai_scope :: string
  cai_created_time :: int
  cai_expiration_time :: int
  cai_used_time :: "int option"
  cai_used_by_client_app_id :: "string option"
  cai_created_by_user_id :: "string option"

record issued_certificate =
  ic_serial :: string
  ic_subject_cn :: string
  ic_not_before :: int
  ic_not_after :: int
  ic_issued_at :: int
  ic_revoked_at :: "int option"
  ic_user_id :: "string option"
  ic_client_app_id :: "string option"
  ic_cert_pem :: "string option"

record macaroon_root =
  mr_id :: string
  mr_key :: string
  mr_created_time :: int
  mr_rotated_time :: "int option"

record policy_snapshot =
  sp_id :: string
  sp_policy_hash :: string
  sp_document_json :: string
  sp_created_at :: string

record journey =
  j_id :: string
  j_open_caravan_id :: string
  j_host_account_id :: "string option"
  j_title :: string
  j_description :: string
  j_visibility :: string
  j_state :: string
  j_retention_mode :: string
  j_policy_hash :: string
  j_policy_json :: string
  j_created_at :: int
  j_deleted_at :: "int option"

record journey_participant =
  jp_id :: string
  jp_journey_id :: string
  jp_account_id :: "string option"
  jp_display_name :: string
  jp_role :: string
  jp_state :: string
  jp_sharing_state :: string
  jp_policy_hash :: string
  jp_joined_at :: "int option"

record telemetry_batch =
  tb_id :: string
  tb_journey_id :: string
  tb_participant_id :: string
  tb_device_id :: "string option"
  tb_client_batch_id :: string
  tb_sample_count :: int
  tb_received_at :: int
  tb_payload_digest :: string
  tb_driver_attestation_hash :: "string option"

record journey_vehicle =
  jv_id :: string
  jv_journey_id :: string
  jv_owner_user_id :: string
  jv_current_revision_version :: int
  jv_current_acl_version :: int
  jv_integrity :: integrity
  jv_canonical_payload :: string
  jv_avatar_blob_hash :: "string option"
  jv_banner_blob_hash :: "string option"
  jv_received_at :: int

record journey_vehicle_revision =
  jvr_id :: string
  jvr_journey_vehicle_id :: string
  jvr_revision_version :: int
  jvr_revision_time :: int
  jvr_integrity :: integrity
  jvr_canonical_payload :: string
  jvr_avatar_blob_hash :: "string option"
  jvr_banner_blob_hash :: "string option"
  jvr_received_at :: int

record acl_revision =
  ar_id :: string
  ar_journey_vehicle_id :: string
  ar_acl_version :: int
  ar_effective_time :: int
  ar_authorized_drivers_json :: string
  ar_emergency_rule_kind :: string
  ar_integrity :: integrity
  ar_canonical_payload :: string
  ar_received_at :: int

record attestation =
  at_id :: string
  at_journey_vehicle_id :: string
  at_segment_id :: string
  at_driver_user_id :: string
  at_effective_time :: int
  at_acl_version_consulted :: int
  at_prior_attestation_hash :: "string option"
  at_trust_flag :: string
  at_integrity :: integrity
  at_canonical_payload :: string
  at_received_at :: int

record garage_row =
  gr_id :: string
  gr_name :: string
  gr_current_revision_version :: int
  gr_current_revision_time :: int
  gr_created_at :: int

record garage_revision =
  grev_id :: string
  grev_garage_id :: string
  grev_revision_version :: int
  grev_revision_time :: int
  grev_signed_by :: string
  grev_integrity :: integrity
  grev_canonical_payload :: string
  grev_received_at :: int

record garage_owner_row =
  own_garage_id :: string
  own_user_id :: string
  own_added_time :: int
  own_added_in_revision_version :: int
  own_accepted_time :: "int option"

record acceptance_row =
  ac_id :: string
  ac_garage_id :: string
  ac_revision_version_accepted :: int
  ac_accepter_user_id :: string
  ac_accepted_time :: int
  ac_integrity :: integrity
  ac_canonical_payload :: string
  ac_received_at :: int

record garage_vehicle_row =
  gv_id :: string
  gv_garage_id :: string
  gv_current_revision_version :: int
  gv_signed_by_user_id :: string
  gv_integrity :: integrity
  gv_canonical_payload :: string
  gv_avatar_blob_hash :: "string option"
  gv_banner_blob_hash :: "string option"
  gv_received_at :: int

record garage_vehicle_revision =
  gvr_id :: string
  gvr_garage_vehicle_id :: string
  gvr_revision_version :: int
  gvr_revision_time :: int
  gvr_signed_by_user_id :: string
  gvr_integrity :: integrity
  gvr_canonical_payload :: string
  gvr_avatar_blob_hash :: "string option"
  gvr_banner_blob_hash :: "string option"
  gvr_received_at :: int

record garage_invite =
  gi_id :: string
  gi_garage_id :: string
  gi_created_by_user_id :: string
  gi_token_hash :: string
  gi_created_at :: int
  gi_expires_at :: int
  gi_max_redemptions :: int
  gi_redemption_count :: int
  gi_revoked_at :: "int option"

record redemption =
  rd_id :: string
  rd_garage_invite_id :: string
  rd_redeemer_user_id :: string
  rd_redeemed_at :: int

section \<open>The database\<close>

record db =
  accounts :: "account list"
  client_apps :: "client_app list"
  client_app_invites :: "client_app_invite list"
  issued_certificates :: "issued_certificate list"
  macaroon_roots :: "macaroon_root list"
  policy_snapshots :: "policy_snapshot list"
  journeys :: "journey list"
  journey_participants :: "journey_participant list"
  telemetry_batches :: "telemetry_batch list"
  journey_vehicles :: "journey_vehicle list"
  journey_vehicle_revisions :: "journey_vehicle_revision list"
  acl_revisions :: "acl_revision list"
  attestations :: "attestation list"
  garages :: "garage_row list"
  garage_revisions :: "garage_revision list"
  garage_owners :: "garage_owner_row list"
  acceptances :: "acceptance_row list"
  garage_vehicles :: "garage_vehicle_row list"
  garage_vehicle_revisions :: "garage_vehicle_revision list"
  garage_invites :: "garage_invite list"
  redemptions :: "redemption list"

definition empty_db :: db where
  "empty_db = \<lparr>accounts = [], client_apps = [], client_app_invites = [], issued_certificates = [],
     macaroon_roots = [], policy_snapshots = [], journeys = [], journey_participants = [],
     telemetry_batches = [], journey_vehicles = [], journey_vehicle_revisions = [], acl_revisions = [],
     attestations = [], garages = [], garage_revisions = [], garage_owners = [], acceptances = [],
     garage_vehicles = [], garage_vehicle_revisions = [], garage_invites = [], redemptions = []\<rparr>"

section \<open>Statements with the constraints of the schema\<close>

named_theorems table_defs \<open>definitions of the per-table statements\<close>

text \<open>The row a foreign key of the schema refers to exists.\<close>

definition has_account :: "db \<Rightarrow> string \<Rightarrow> bool" where
  "has_account d u = (u \<in> acc_id ` set (accounts d))"

definition has_client_app :: "db \<Rightarrow> string \<Rightarrow> bool" where
  "has_client_app d c = (c \<in> ca_id ` set (client_apps d))"

definition has_journey :: "db \<Rightarrow> string \<Rightarrow> bool" where
  "has_journey d j = (j \<in> j_id ` set (journeys d))"

definition has_participant :: "db \<Rightarrow> string \<Rightarrow> bool" where
  "has_participant d p = (p \<in> jp_id ` set (journey_participants d))"

definition has_journey_vehicle :: "db \<Rightarrow> string \<Rightarrow> bool" where
  "has_journey_vehicle d v = (v \<in> jv_id ` set (journey_vehicles d))"

definition has_garage :: "db \<Rightarrow> string \<Rightarrow> bool" where
  "has_garage d g = (g \<in> gr_id ` set (garages d))"

definition has_garage_vehicle :: "db \<Rightarrow> string \<Rightarrow> bool" where
  "has_garage_vehicle d v = (v \<in> gv_id ` set (garage_vehicles d))"

definition has_garage_invite :: "db \<Rightarrow> string \<Rightarrow> bool" where
  "has_garage_invite d i = (i \<in> gi_id ` set (garage_invites d))"

abbreviation null_or :: "('a \<Rightarrow> bool) \<Rightarrow> 'a option \<Rightarrow> bool" where
  "null_or P x \<equiv> (case x of None \<Rightarrow> True | Some a \<Rightarrow> P a)"

definition insert_account :: "account \<Rightarrow> db \<Rightarrow> sqlerr + (unit \<times> db)" where
  [table_defs]: "insert_account = sql_insert (\<lambda>r. True)
     (\<lambda>r r'. acc_id r = acc_id r' \<or> acc_open_caravan_id r = acc_open_caravan_id r')
     (\<lambda>d r. True) accounts accounts_update"

definition insert_client_app :: "client_app \<Rightarrow> db \<Rightarrow> sqlerr + (unit \<times> db)" where
  [table_defs]: "insert_client_app = sql_insert (\<lambda>r. True) (\<lambda>r r'. ca_id r = ca_id r')
     (\<lambda>d r. has_account d (ca_user_id r)) client_apps client_apps_update"

definition insert_client_app_invite :: "client_app_invite \<Rightarrow> db \<Rightarrow> sqlerr + (unit \<times> db)" where
  [table_defs]: "insert_client_app_invite = sql_insert
     (\<lambda>r. cai_scope r \<in> {''journey'', ''server_registration''})
     (\<lambda>r r'. cai_token_hash r = cai_token_hash r')
     (\<lambda>d r. null_or (has_account d) (cai_created_by_user_id r)) client_app_invites client_app_invites_update"

definition update_client_app_invites ::
  "(client_app_invite \<Rightarrow> bool) \<Rightarrow> (client_app_invite \<Rightarrow> client_app_invite) \<Rightarrow> db \<Rightarrow> sqlerr + (nat \<times> db)" where
  [table_defs]: "update_client_app_invites = sql_update
     (\<lambda>r. cai_scope r \<in> {''journey'', ''server_registration''})
     (\<lambda>d r. null_or (has_account d) (cai_created_by_user_id r)) client_app_invites client_app_invites_update"

definition insert_issued_certificate :: "issued_certificate \<Rightarrow> db \<Rightarrow> sqlerr + (unit \<times> db)" where
  [table_defs]: "insert_issued_certificate = sql_insert (\<lambda>r. True) (\<lambda>r r'. ic_serial r = ic_serial r')
     (\<lambda>d r. null_or (has_account d) (ic_user_id r) \<and> null_or (has_client_app d) (ic_client_app_id r))
     issued_certificates issued_certificates_update"

definition insert_macaroon_root :: "macaroon_root \<Rightarrow> db \<Rightarrow> sqlerr + (unit \<times> db)" where
  [table_defs]: "insert_macaroon_root = sql_insert (\<lambda>r. True) (\<lambda>r r'. mr_id r = mr_id r')
     (\<lambda>d r. True) macaroon_roots macaroon_roots_update"

text \<open>\<open>INSERT OR IGNORE\<close>: a clash leaves the table as it is.\<close>

definition insert_or_ignore_policy :: "policy_snapshot \<Rightarrow> db \<Rightarrow> sqlerr + (unit \<times> db)" where
  "insert_or_ignore_policy r d =
     (if list_ex (\<lambda>r'. sp_id r = sp_id r' \<or> sp_policy_hash r = sp_policy_hash r') (policy_snapshots d)
      then Inr ((), d) else Inr ((), d\<lparr>policy_snapshots := policy_snapshots d @ [r]\<rparr>))"

definition insert_journey :: "journey \<Rightarrow> db \<Rightarrow> sqlerr + (unit \<times> db)" where
  [table_defs]: "insert_journey = sql_insert
     (\<lambda>r. j_visibility r \<in> {''private'', ''invite'', ''server'', ''public''} \<and>
          j_state r \<in> {''planned'', ''active'', ''closed'', ''expired'', ''deleted''} \<and>
          j_retention_mode r \<in> {''ephemeral'', ''retained''})
     (\<lambda>r r'. j_id r = j_id r' \<or> j_open_caravan_id r = j_open_caravan_id r')
     (\<lambda>d r. null_or (has_account d) (j_host_account_id r)) journeys journeys_update"

definition insert_journey_participant :: "journey_participant \<Rightarrow> db \<Rightarrow> sqlerr + (unit \<times> db)" where
  [table_defs]: "insert_journey_participant = sql_insert
     (\<lambda>r. jp_role r \<in> {''host'', ''driver'', ''passenger'', ''observer''} \<and>
          jp_state r \<in> {''invited'', ''joined'', ''left'', ''removed''} \<and>
          jp_sharing_state r \<in> {''off'', ''live'', ''paused''})
     (\<lambda>r r'. jp_id r = jp_id r')
     (\<lambda>d r. has_journey d (jp_journey_id r) \<and> null_or (has_account d) (jp_account_id r))
     journey_participants journey_participants_update"

text \<open>UNIQUE (device_id, client_batch_id): SQLite treats NULLs as distinct.\<close>

definition insert_telemetry_batch :: "telemetry_batch \<Rightarrow> db \<Rightarrow> sqlerr + (unit \<times> db)" where
  [table_defs]: "insert_telemetry_batch = sql_insert (\<lambda>r. 0 \<le> tb_sample_count r)
     (\<lambda>r r'. tb_id r = tb_id r' \<or>
        tb_device_id r \<noteq> None \<and> tb_device_id r = tb_device_id r' \<and> tb_client_batch_id r = tb_client_batch_id r')
     (\<lambda>d r. has_journey d (tb_journey_id r) \<and> has_participant d (tb_participant_id r))
     telemetry_batches telemetry_batches_update"

definition jv_check :: "journey_vehicle \<Rightarrow> bool" where
  "jv_check r = (1 \<le> jv_current_revision_version r \<and> 1 \<le> jv_current_acl_version r)"

definition jv_fk :: "db \<Rightarrow> journey_vehicle \<Rightarrow> bool" where
  "jv_fk d r = (has_journey d (jv_journey_id r) \<and> has_account d (jv_owner_user_id r))"

definition insert_journey_vehicle :: "journey_vehicle \<Rightarrow> db \<Rightarrow> sqlerr + (unit \<times> db)" where
  [table_defs]: "insert_journey_vehicle = sql_insert jv_check
     (\<lambda>r r'. jv_id r = jv_id r' \<or>
        jv_journey_id r = jv_journey_id r' \<and> jv_owner_user_id r = jv_owner_user_id r')
     jv_fk journey_vehicles journey_vehicles_update"

definition update_journey_vehicles ::
  "(journey_vehicle \<Rightarrow> bool) \<Rightarrow> (journey_vehicle \<Rightarrow> journey_vehicle) \<Rightarrow> db \<Rightarrow> sqlerr + (nat \<times> db)" where
  [table_defs]: "update_journey_vehicles = sql_update jv_check jv_fk journey_vehicles journey_vehicles_update"

definition insert_journey_vehicle_revision :: "journey_vehicle_revision \<Rightarrow> db \<Rightarrow> sqlerr + (unit \<times> db)" where
  [table_defs]: "insert_journey_vehicle_revision = sql_insert (\<lambda>r. 1 \<le> jvr_revision_version r)
     (\<lambda>r r'. jvr_id r = jvr_id r' \<or>
        jvr_journey_vehicle_id r = jvr_journey_vehicle_id r' \<and> jvr_revision_version r = jvr_revision_version r')
     (\<lambda>d r. has_journey_vehicle d (jvr_journey_vehicle_id r))
     journey_vehicle_revisions journey_vehicle_revisions_update"

definition insert_acl_revision :: "acl_revision \<Rightarrow> db \<Rightarrow> sqlerr + (unit \<times> db)" where
  [table_defs]: "insert_acl_revision = sql_insert
     (\<lambda>r. 1 \<le> ar_acl_version r \<and> ar_emergency_rule_kind r \<in> {'''', ''none'', ''any_journey_participant''})
     (\<lambda>r r'. ar_id r = ar_id r' \<or>
        ar_journey_vehicle_id r = ar_journey_vehicle_id r' \<and> ar_acl_version r = ar_acl_version r')
     (\<lambda>d r. has_journey_vehicle d (ar_journey_vehicle_id r)) acl_revisions acl_revisions_update"

definition insert_attestation :: "attestation \<Rightarrow> db \<Rightarrow> sqlerr + (unit \<times> db)" where
  [table_defs]: "insert_attestation = sql_insert
     (\<lambda>r. 1 \<le> at_acl_version_consulted r \<and>
          at_trust_flag r \<in> {''authorized'', ''emergency_fallback'', ''acl_violation''})
     (\<lambda>r r'. at_id r = at_id r' \<or>
        at_journey_vehicle_id r = at_journey_vehicle_id r' \<and> at_driver_user_id r = at_driver_user_id r' \<and>
        at_effective_time r = at_effective_time r')
     (\<lambda>d r. has_journey_vehicle d (at_journey_vehicle_id r) \<and> has_account d (at_driver_user_id r))
     attestations attestations_update"

definition insert_garage :: "garage_row \<Rightarrow> db \<Rightarrow> sqlerr + (unit \<times> db)" where
  [table_defs]: "insert_garage = sql_insert (\<lambda>r. 1 \<le> gr_current_revision_version r)
     (\<lambda>r r'. gr_id r = gr_id r') (\<lambda>d r. True) garages garages_update"

definition update_garages ::
  "(garage_row \<Rightarrow> bool) \<Rightarrow> (garage_row \<Rightarrow> garage_row) \<Rightarrow> db \<Rightarrow> sqlerr + (nat \<times> db)" where
  [table_defs]: "update_garages = sql_update (\<lambda>r. 1 \<le> gr_current_revision_version r) (\<lambda>d r. True)
     garages garages_update"

definition insert_garage_revision :: "garage_revision \<Rightarrow> db \<Rightarrow> sqlerr + (unit \<times> db)" where
  [table_defs]: "insert_garage_revision = sql_insert (\<lambda>r. 1 \<le> grev_revision_version r)
     (\<lambda>r r'. grev_id r = grev_id r' \<or>
        grev_garage_id r = grev_garage_id r' \<and> grev_revision_version r = grev_revision_version r')
     (\<lambda>d r. has_garage d (grev_garage_id r) \<and> has_account d (grev_signed_by r))
     garage_revisions garage_revisions_update"

abbreviation own_key :: "garage_owner_row \<Rightarrow> string \<times> string" where
  "own_key r \<equiv> (own_garage_id r, own_user_id r)"

definition own_fk :: "db \<Rightarrow> garage_owner_row \<Rightarrow> bool" where
  "own_fk d r = (has_garage d (own_garage_id r) \<and> has_account d (own_user_id r))"

definition insert_garage_owner :: "garage_owner_row \<Rightarrow> db \<Rightarrow> sqlerr + (unit \<times> db)" where
  [table_defs]: "insert_garage_owner = sql_insert (\<lambda>r. 1 \<le> own_added_in_revision_version r)
     (\<lambda>r r'. own_key r = own_key r') own_fk garage_owners garage_owners_update"

definition update_garage_owners ::
  "(garage_owner_row \<Rightarrow> bool) \<Rightarrow> (garage_owner_row \<Rightarrow> garage_owner_row) \<Rightarrow> db \<Rightarrow> sqlerr + (nat \<times> db)" where
  [table_defs]: "update_garage_owners = sql_update (\<lambda>r. 1 \<le> own_added_in_revision_version r) own_fk
     garage_owners garage_owners_update"

definition delete_garage_owners :: "(garage_owner_row \<Rightarrow> bool) \<Rightarrow> db \<Rightarrow> sqlerr + (unit \<times> db)" where
  [table_defs]: "delete_garage_owners = sql_delete garage_owners garage_owners_update"

definition insert_acceptance :: "acceptance_row \<Rightarrow> db \<Rightarrow> sqlerr + (unit \<times> db)" where
  [table_defs]: "insert_acceptance = sql_insert (\<lambda>r. 1 \<le> ac_revision_version_accepted r)
     (\<lambda>r r'. ac_id r = ac_id r' \<or>
        ac_garage_id r = ac_garage_id r' \<and> ac_accepter_user_id r = ac_accepter_user_id r' \<and>
        ac_revision_version_accepted r = ac_revision_version_accepted r')
     (\<lambda>d r. has_garage d (ac_garage_id r) \<and> has_account d (ac_accepter_user_id r))
     acceptances acceptances_update"

definition gv_fk :: "db \<Rightarrow> garage_vehicle_row \<Rightarrow> bool" where
  "gv_fk d r = (has_garage d (gv_garage_id r) \<and> has_account d (gv_signed_by_user_id r))"

definition insert_garage_vehicle :: "garage_vehicle_row \<Rightarrow> db \<Rightarrow> sqlerr + (unit \<times> db)" where
  [table_defs]: "insert_garage_vehicle = sql_insert (\<lambda>r. 1 \<le> gv_current_revision_version r)
     (\<lambda>r r'. gv_id r = gv_id r') gv_fk garage_vehicles garage_vehicles_update"

definition update_garage_vehicles ::
  "(garage_vehicle_row \<Rightarrow> bool) \<Rightarrow> (garage_vehicle_row \<Rightarrow> garage_vehicle_row) \<Rightarrow> db \<Rightarrow> sqlerr + (nat \<times> db)" where
  [table_defs]: "update_garage_vehicles = sql_update (\<lambda>r. 1 \<le> gv_current_revision_version r) gv_fk
     garage_vehicles garage_vehicles_update"

definition insert_garage_vehicle_revision :: "garage_vehicle_revision \<Rightarrow> db \<Rightarrow> sqlerr + (unit \<times> db)" where
  [table_defs]: "insert_garage_vehicle_revision = sql_insert (\<lambda>r. 1 \<le> gvr_revision_version r)
     (\<lambda>r r'. gvr_id r = gvr_id r' \<or>
        gvr_garage_vehicle_id r = gvr_garage_vehicle_id r' \<and> gvr_revision_version r = gvr_revision_version r')
     (\<lambda>d r. has_garage_vehicle d (gvr_garage_vehicle_id r) \<and> has_account d (gvr_signed_by_user_id r))
     garage_vehicle_revisions garage_vehicle_revisions_update"

definition gi_check :: "garage_invite \<Rightarrow> bool" where
  "gi_check r = (1 \<le> gi_max_redemptions r \<and> 0 \<le> gi_redemption_count r \<and>
     gi_redemption_count r \<le> gi_max_redemptions r)"

definition gi_fk :: "db \<Rightarrow> garage_invite \<Rightarrow> bool" where
  "gi_fk d r = (has_garage d (gi_garage_id r) \<and> has_account d (gi_created_by_user_id r))"

definition insert_garage_invite :: "garage_invite \<Rightarrow> db \<Rightarrow> sqlerr + (unit \<times> db)" where
  [table_defs]: "insert_garage_invite = sql_insert gi_check
     (\<lambda>r r'. gi_id r = gi_id r' \<or> gi_token_hash r = gi_token_hash r') gi_fk garage_invites garage_invites_update"

definition update_garage_invites ::
  "(garage_invite \<Rightarrow> bool) \<Rightarrow> (garage_invite \<Rightarrow> garage_invite) \<Rightarrow> db \<Rightarrow> sqlerr + (nat \<times> db)" where
  [table_defs]: "update_garage_invites = sql_update gi_check gi_fk garage_invites garage_invites_update"

definition insert_redemption :: "redemption \<Rightarrow> db \<Rightarrow> sqlerr + (unit \<times> db)" where
  [table_defs]: "insert_redemption = sql_insert (\<lambda>r. True)
     (\<lambda>r r'. rd_id r = rd_id r' \<or>
        rd_garage_invite_id r = rd_garage_invite_id r' \<and> rd_redeemer_user_id r = rd_redeemer_user_id r')
     (\<lambda>d r. has_garage_invite d (rd_garage_invite_id r) \<and> has_account d (rd_redeemer_user_id r))
     redemptions redemptions_update"

text \<open>\<open>INSERT INTO garage_owners \<dots> ON CONFLICT (garage_id, user_id) DO UPDATE SET
  accepted_time = excluded.accepted_time\<close>.\<close>

definition upsert_garage_owner :: "garage_owner_row \<Rightarrow> db \<Rightarrow> sqlerr + (unit \<times> db)" where
  "upsert_garage_owner r d =
     (if own_added_in_revision_version r < 1 then Inl SQLCheck
      else if list_ex (\<lambda>r'. own_key r = own_key r') (garage_owners d)
      then (case update_garage_owners (\<lambda>r'. own_garage_id r' = own_garage_id r \<and> own_user_id r' = own_user_id r)
              (\<lambda>r'. r'\<lparr>own_accepted_time := own_accepted_time r\<rparr>) d of
            Inl e \<Rightarrow> Inl e | Inr (_, d') \<Rightarrow> Inr ((), d'))
      else insert_garage_owner r d)"

section \<open>Sample data\<close>

text \<open>A small database with two accounts and a journey, on which the
  conditions of the theorems are shown to be satisfiable.\<close>

definition demo_ig :: integrity where
  "demo_ig = \<lparr>ig_algorithm = ''ES256'', ig_key_id = ''k'', ig_signature = ''s''\<rparr>"

definition demo_account :: "string \<Rightarrow> account" where
  "demo_account u = \<lparr>acc_id = u, acc_open_caravan_id = u, acc_display_name = u,
     acc_created_at = 0, acc_disabled_at = None\<rparr>"

definition demo_journey :: "string \<Rightarrow> journey" where
  "demo_journey j = \<lparr>j_id = j, j_open_caravan_id = j, j_host_account_id = Some ''alice'', j_title = ''t'',
     j_description = '''', j_visibility = ''private'', j_state = ''planned'', j_retention_mode = ''ephemeral'',
     j_policy_hash = ''h'', j_policy_json = ''p'', j_created_at = 0, j_deleted_at = None\<rparr>"

definition demo_db :: db where
  "demo_db = empty_db\<lparr>accounts := [demo_account ''alice'', demo_account ''bob''], journeys := [demo_journey ''j1'']\<rparr>"

definition env_at :: "int \<Rightarrow> string \<Rightarrow> env" where
  "env_at t u = (now_env t)\<lparr>env_uuid := (\<lambda>n. Some (u @ replicate n (CHR ''x'')))\<rparr>"

end
