(* ===== verification/ServerState.thy ===== *)
theory ServerState
  imports Schema
begin

text \<open>
  The server's own records: macaroon root keys (storage/macaroon_root.go) and
  content-addressed policy snapshots (storage/server_policy.go). Random bytes, the
  JSON codec and the creation stamp are arguments.
\<close>

section \<open>Macaroon roots\<close>

definition macaroonRootKeyLen :: nat where
  "macaroonRootKeyLen = 32"

definition MacaroonRoot_Active :: "macaroon_root \<Rightarrow> bool" where
  "MacaroonRoot_Active r = (mr_rotated_time r = None)"

definition macaroon_root_row :: "string \<Rightarrow> string \<Rightarrow> int \<Rightarrow> macaroon_root" where
  "macaroon_root_row rid key now = \<lparr>mr_id = rid, mr_key = key, mr_created_time = now, mr_rotated_time = None\<rparr>"

text \<open>\<open>id_bytes\<close> and \<open>key_bytes\<close> are what \<open>rand.Read\<close> filled the two buffers with,
  \<open>None\<close> when the entropy source failed.\<close>

definition IssueMacaroonRoot :: "env \<Rightarrow> string option \<Rightarrow> string option \<Rightarrow> (db, macaroon_root) op" where
  "IssueMacaroonRoot env id_bytes key_bytes = op_require
     [(env_open env, ErrNotOpen),
      (id_bytes \<noteq> None, ErrGenerate ''generate macaroon root id''),
      (key_bytes \<noteq> None, ErrGenerate ''generate macaroon root key'')]
     (let row = macaroon_root_row (hex_encode (the id_bytes)) (the key_bytes) (env_now env)
      in auto_tx (tx_bind (tx_exec env ''record macaroon root'' SQLErr (insert_macaroon_root row))
           (\<lambda>_. tx_return row)))"

definition ActiveMacaroonRoot :: "env \<Rightarrow> db \<Rightarrow> serr + macaroon_root" where
  "ActiveMacaroonRoot env d =
     (if \<not> env_open env then Inl ErrNotOpen
      else if env_fault env ''load macaroon root'' then Inl (SQLErr (SQLDriver ''load macaroon root''))
      else case first_max mr_created_time (filter MacaroonRoot_Active (macaroon_roots d)) of
        None \<Rightarrow> Inl ErrNoActiveMacaroonRoot | Some r \<Rightarrow> Inr r)"

definition MacaroonRootByID :: "env \<Rightarrow> string \<Rightarrow> db \<Rightarrow> serr + macaroon_root" where
  "MacaroonRootByID env i d =
     (if \<not> env_open env then Inl ErrNotOpen
      else if i = [] then Inl ErrMacaroonRootNotFound
      else if env_fault env ''load macaroon root'' then Inl (SQLErr (SQLDriver ''load macaroon root''))
      else case find (\<lambda>r. mr_id r = i) (macaroon_roots d) of
        None \<Rightarrow> Inl ErrMacaroonRootNotFound | Some r \<Rightarrow> Inr r)"

lemma IssueMacaroonRoot_Inr:
  assumes "IssueMacaroonRoot env ib kb d = (Inr row, d')"
  shows "\<exists>i k. ib = Some i \<and> kb = Some k \<and> row = macaroon_root_row (hex_encode i) k (env_now env) \<and>
    (\<forall>r \<in> set (macaroon_roots d). hex_encode i \<noteq> mr_id r) \<and> d' = d\<lparr>macaroon_roots := macaroon_roots d @ [row]\<rparr>"
  using assms unfolding IssueMacaroonRoot_def Let_def
  by (auto simp: tx_Inr table_defs macaroon_root_row_def)

text \<open>A newly minted root is found under its id; it becomes the active issuer as soon as
  it is the latest one created; and every root known before is still found, so a macaroon
  signed by an older key stays verifiable.\<close>

theorem IssueMacaroonRoot_keeps_old:
  assumes "IssueMacaroonRoot env ib kb d = (Inr row, d')" "ib \<noteq> Some []"
    "env_open env'" "\<forall>l. \<not> env_fault env' l"
  shows "MacaroonRootByID env' (mr_id row) d' = Inr row \<and> Some (mr_key row) = kb \<and>
    (\<forall>i. i \<noteq> mr_id row \<longrightarrow> MacaroonRootByID env' i d' = MacaroonRootByID env' i d) \<and>
    ((\<forall>r \<in> set (macaroon_roots d). mr_created_time r < env_now env) \<longrightarrow> ActiveMacaroonRoot env' d' = Inr row)"
proof -
  from IssueMacaroonRoot_Inr [OF assms(1)] obtain i k where
    ik: "ib = Some i" "kb = Some k" "row = macaroon_root_row (hex_encode i) k (env_now env)"
    and fresh: "\<forall>r \<in> set (macaroon_roots d). hex_encode i \<noteq> mr_id r"
    and d': "d' = d\<lparr>macaroon_roots := macaroon_roots d @ [row]\<rparr>" by blast
  have ne: "hex_encode i \<noteq> []" using assms(2) ik(1) by (cases i) (auto simp: hex_encode_def)
  have none: "find (\<lambda>r. mr_id r = hex_encode i) (macaroon_roots d) = None"
    using fresh by (metis (mono_tags, lifting) find_None_iff')
  have act: "first_max mr_created_time (rs @ [row]) = Some row" if "\<forall>r \<in> set rs. mr_created_time r < mr_created_time row" for rs
    using that by (induction rs) auto
  have "ActiveMacaroonRoot env' d' = Inr row" if "\<forall>r \<in> set (macaroon_roots d). mr_created_time r < env_now env"
    using act [of "filter MacaroonRoot_Active (macaroon_roots d)"] that assms(3,4)
    by (auto simp: ActiveMacaroonRoot_def d' ik(3) macaroon_root_row_def MacaroonRoot_Active_def)
  moreover have "MacaroonRootByID env' j d' = MacaroonRootByID env' j d" if "j \<noteq> hex_encode i" for j
    using that by (simp add: MacaroonRootByID_def d' ik(3) macaroon_root_row_def find_append split: option.splits)
  ultimately show ?thesis
    using assms(3,4) none ne
    by (auto simp: MacaroonRootByID_def d' ik find_append macaroon_root_row_def)
qed

definition demo_root_db :: db where
  "demo_root_db = snd (IssueMacaroonRoot (now_env 3) (Some ''r1'') (Some ''k1'') empty_db)"

section \<open>Policy snapshots\<close>

text \<open>What a second \<open>Decode\<close> on the same reader reports.\<close>

datatype json_tail = TailEOF | TailDocument | TailError

text \<open>encoding/json as the source uses it: the first value of a document and what
  follows it, and the compact rendering with sorted keys.\<close>

record 'v json_lib =
  js_decode :: "string \<Rightarrow> ('v \<times> json_tail) option"
  js_marshal :: "'v \<Rightarrow> string option"

definition normalizedJSON :: "'v json_lib \<Rightarrow> string \<Rightarrow> serr + string" where
  "normalizedJSON J doc =
     (case js_decode J doc of None \<Rightarrow> Inl (ErrInvalid ''decode server policy JSON'')
      | Some (v, tail) \<Rightarrow> (case tail of
          TailEOF \<Rightarrow> (case js_marshal J v of None \<Rightarrow> Inl (ErrInvalid ''normalize server policy JSON'') | Some s \<Rightarrow> Inr s)
        | TailDocument \<Rightarrow> Inl (ErrInvalid ''server policy JSON must contain one document'')
        | TailError \<Rightarrow> Inl (ErrInvalid ''decode trailing server policy JSON'')))"

definition hashJSON :: "lib \<Rightarrow> string \<Rightarrow> string" where
  "hashJSON L doc = ''sha256:'' @ hex_encode (lib_sha256 L doc)"

definition ServerPolicySnapshot :: "env \<Rightarrow> string \<Rightarrow> db \<Rightarrow> serr + policy_snapshot" where
  "ServerPolicySnapshot env i d =
     (if \<not> env_open env then Inl ErrNotOpen
      else if env_fault env ''query server policy snapshot'' then Inl (SQLErr (SQLDriver ''query server policy snapshot''))
      else case find (\<lambda>r. sp_id r = i \<or> sp_policy_hash r = i) (policy_snapshots d) of
        None \<Rightarrow> Inl (ErrInvalid ''no rows'') | Some r \<Rightarrow> Inr r)"

text \<open>The insert commits by itself; the snapshot is read back after it.\<close>

definition EnsureServerPolicySnapshot ::
  "lib \<Rightarrow> 'v json_lib \<Rightarrow> env \<Rightarrow> string \<Rightarrow> string \<Rightarrow> (db, policy_snapshot) op" where
  "EnsureServerPolicySnapshot L J env stamp doc d =
     (if \<not> env_open env then (Inl ErrNotOpen, d)
      else case normalizedJSON J doc of
        Inl e \<Rightarrow> (Inl e, d)
      | Inr norm \<Rightarrow>
          let h = hashJSON L norm;
              row = \<lparr>sp_id = h, sp_policy_hash = h, sp_document_json = norm, sp_created_at = stamp\<rparr>
          in case auto_tx (tx_exec env ''record server policy snapshot'' SQLErr (insert_or_ignore_policy row)) d of
               (Inl e, d') \<Rightarrow> (Inl e, d')
             | (Inr _, d') \<Rightarrow> (ServerPolicySnapshot env h d', d'))"

text \<open>Snapshots are content-addressed: id and hash are the digest of the document, and
  digests are unique in the table.\<close>

definition policies_ok :: "lib \<Rightarrow> db \<Rightarrow> bool" where
  "policies_ok L d = (distinct (map sp_id (policy_snapshots d)) \<and>
     (\<forall>r \<in> set (policy_snapshots d). sp_id r = hashJSON L (sp_document_json r) \<and> sp_policy_hash r = sp_id r))"

lemma EnsureServerPolicySnapshot_policies:
  assumes "EnsureServerPolicySnapshot L J env stamp doc d = (r, d')"
  shows "d' = d \<or> (\<exists>norm. normalizedJSON J doc = Inr norm \<and>
    (\<forall>x \<in> set (policy_snapshots d). sp_id x \<noteq> hashJSON L norm \<and> sp_policy_hash x \<noteq> hashJSON L norm) \<and>
    d' = d\<lparr>policy_snapshots := policy_snapshots d @ [\<lparr>sp_id = hashJSON L norm, sp_policy_hash = hashJSON L norm,
      sp_document_json = norm, sp_created_at = stamp\<rparr>]\<rparr>)"
  using assms unfolding EnsureServerPolicySnapshot_def
  by (auto simp: Let_def auto_tx_def tx_exec_def insert_or_ignore_policy_def list_ex_iff split: if_splits sum.splits prod.splits)

lemma EnsureServerPolicySnapshot_ok:
  "policies_ok L d \<Longrightarrow> EnsureServerPolicySnapshot L J env stamp doc d = (r, d') \<Longrightarrow> policies_ok L d'"
  by (drule EnsureServerPolicySnapshot_policies) (fastforce simp: policies_ok_def)

text \<open>Recording a policy is idempotent on its content: the first call stores the
  normalized document under its digest, every later call with a document of the same
  normal form, at any time, returns that first snapshot with its creation time and leaves
  the table as it is (provided the digest does not collide with another stored document); a document that is not exactly one JSON value is refused.\<close>

theorem EnsureServerPolicySnapshot_idempotent:
  assumes "policies_ok L d"
    "\<forall>r \<in> set (policy_snapshots d). \<forall>norm. normalizedJSON J doc = Inr norm \<longrightarrow>
       hashJSON L (sp_document_json r) = hashJSON L norm \<longrightarrow> sp_document_json r = norm"
    "env_open env" "\<forall>l. \<not> env_fault env l" "env_open env'" "\<forall>l. \<not> env_fault env' l"
    "EnsureServerPolicySnapshot L J env stamp doc d = (res, d')" "normalizedJSON J doc' = normalizedJSON J doc"
  shows "case normalizedJSON J doc of
      Inl e \<Rightarrow> res = Inl e \<and> d' = d
    | Inr norm \<Rightarrow> (\<exists>s. res = Inr s \<and> sp_document_json s = norm \<and> sp_id s = hashJSON L norm \<and>
        EnsureServerPolicySnapshot L J env' stamp' doc' d' = (Inr s, d') \<and>
        (\<forall>i. i \<noteq> sp_id s \<longrightarrow> ServerPolicySnapshot env' i d' = ServerPolicySnapshot env' i d))"
proof (cases "normalizedJSON J doc")
  case (Inl e)
  with assms(3,7) show ?thesis by (simp add: EnsureServerPolicySnapshot_def)
next
  case (Inr norm)
  let ?h = "hashJSON L norm" and ?find = "\<lambda>i d. find (\<lambda>r. sp_id r = i \<or> sp_policy_hash r = i) (policy_snapshots d)"
  let ?row = "\<lparr>sp_id = ?h, sp_policy_hash = ?h, sp_document_json = norm, sp_created_at = stamp\<rparr>"
  note run = EnsureServerPolicySnapshot_def auto_tx_def tx_exec_def insert_or_ignore_policy_def Let_def ServerPolicySnapshot_def
  show ?thesis
  proof (cases "?find ?h d")
    case None
    then have new: "\<not> list_ex (\<lambda>r'. ?h = sp_id r' \<or> ?h = sp_policy_hash r') (policy_snapshots d)"
      by (auto simp: find_None_iff' list_ex_iff)
    then have d': "d' = d\<lparr>policy_snapshots := policy_snapshots d @ [?row]\<rparr>" "res = Inr ?row"
      using assms(3,4,7) None Inr by (auto simp: run find_append)
    have "?find i d' = ?find i d" if "i \<noteq> ?h" for i
      using that by (simp add: d'(1) find_append split: option.splits)
    moreover have "EnsureServerPolicySnapshot L J env' stamp' doc' d' = (Inr ?row, d')"
      using assms(5,6,8) Inr None by (simp add: run d'(1) find_append)
    ultimately show ?thesis using Inr d' by (simp add: ServerPolicySnapshot_def)
  next
    case (Some s)
    then have s: "s \<in> set (policy_snapshots d)" "sp_id s = ?h" "sp_document_json s = norm"
      using find_SomeD [OF Some] assms(1,2) Inr by (auto simp: policies_ok_def)
    then have old: "list_ex (\<lambda>r'. ?h = sp_id r' \<or> ?h = sp_policy_hash r') (policy_snapshots d)"
      by (auto simp: list_ex_iff intro!: bexI [of _ s])
    then have "d' = d" "res = Inr s" using assms(3,4,7) Some Inr by (auto simp: run)
    with Inr Some s old assms(5,6,8) show ?thesis by (auto simp: run)
  qed
qed

definition demo_json :: "string json_lib" where
  "demo_json = \<lparr>js_decode = (\<lambda>s. Some (filter (\<lambda>c. c \<noteq> CHR '' '') s, TailEOF)), js_marshal = Some\<rparr>"

end
