(* ===== verification/Macaroons.thy ===== *)
theory Macaroons
  imports GoLib ServerState
begin

text \<open>
  Session macaroons (platform/auth/macaroon): the issuer, which composes the caveats of
  a session, and the verifier, which checks the signature, parses the caveats and
  evaluates them against what a request asks for. The macaroon.v2 and opencaravan-go
  packages are the parameter record \<open>mac_lib\<close>, polymorphic in the macaroon type; what
  the theorems rely on is stated by \<open>mac_laws\<close>.
\<close>

section \<open>Library interface\<close>

datatype caveat_kind = CaveatKindTimeBefore | CaveatKindJourney | CaveatKindUser | CaveatKindClientApp
  | CaveatKindAction | CaveatKindUnknown | CaveatKindOther string

record caveat =
  cv_kind :: caveat_kind
  cv_time :: int
  cv_uuid :: string
  cv_action :: string
  cv_raw :: string

text \<open>A raw caveat of a macaroon is its location (empty for a first-party caveat) and id.\<close>

record 'm mac_lib =
  ml_new :: "string \<Rightarrow> string \<Rightarrow> string \<Rightarrow> 'm option"
  ml_add :: "'m \<Rightarrow> string \<Rightarrow> 'm option"
  ml_marshal :: "'m \<Rightarrow> string option"
  ml_unmarshal :: "string \<Rightarrow> 'm option"
  ml_location :: "'m \<Rightarrow> string"
  ml_id :: "'m \<Rightarrow> string"
  ml_caveats :: "'m \<Rightarrow> (string \<times> string) list"
  ml_verify :: "'m \<Rightarrow> string \<Rightarrow> (string \<Rightarrow> bool) \<Rightarrow> bool"
  ml_parse_caveat :: "string \<Rightarrow> caveat option"
  ml_caveat_user :: "string \<Rightarrow> string"
  ml_caveat_client_app :: "string \<Rightarrow> string"
  ml_caveat_journey :: "string \<Rightarrow> string"
  ml_caveat_action :: "string \<Rightarrow> string"
  ml_caveat_time_before :: "int \<Rightarrow> string"
  ml_uuid_valid :: "string \<Rightarrow> bool"
  ml_action_valid :: "string \<Rightarrow> bool"
  ml_action_journey_read :: string
  ml_action_journey_write :: string
  ml_action_telemetry_write :: string
  ml_action_media_upload :: string

datatype merr = ErrInvalidSessionParams string | ErrMacaroon string
  | ErrVerifyFailed string | ErrTransportFailure string

definition Location :: string where
  "Location = ''spivot-server''"

definition RootKeyLen :: nat where
  "RootKeyLen = 32"

section \<open>Issuer\<close>

record issuer =
  is_root_id :: string
  is_root_key :: string

definition NewIssuer :: "string \<Rightarrow> string \<Rightarrow> merr + issuer" where
  "NewIssuer rid key =
     (if rid = [] then Inl (ErrMacaroon ''root id must be set'')
      else if length key \<noteq> RootKeyLen then Inl (ErrMacaroon ''root key length'')
      else Inr \<lparr>is_root_id = rid, is_root_key = key\<rparr>)"

fun add_predicates :: "'m mac_lib \<Rightarrow> string list \<Rightarrow> 'm \<Rightarrow> merr + 'm" where
  "add_predicates M [] m = Inr m"
| "add_predicates M (p # ps) m =
     (if p = [] then Inl (ErrMacaroon ''predicates must be non-empty'')
      else case ml_add M m p of None \<Rightarrow> Inl (ErrMacaroon ''add caveat'') | Some m' \<Rightarrow> add_predicates M ps m')"

definition Issue :: "'m mac_lib \<Rightarrow> issuer \<Rightarrow> string list \<Rightarrow> merr + ('m \<times> string)" where
  "Issue M i predicates =
     (case ml_new M (is_root_key i) (is_root_id i) Location of None \<Rightarrow> Inl (ErrMacaroon ''new'')
      | Some m0 \<Rightarrow> (case add_predicates M predicates m0 of Inl e \<Rightarrow> Inl e
          | Inr m \<Rightarrow> (case ml_marshal M m of None \<Rightarrow> Inl (ErrMacaroon ''marshal'') | Some s \<Rightarrow> Inr (m, s))))"

record session_params =
  sp_user_id :: string
  sp_client_app_id :: string
  sp_journey_id :: string
  sp_action :: string
  sp_expiration :: int
  sp_now :: int

definition requiresJourney :: "'m mac_lib \<Rightarrow> string \<Rightarrow> bool" where
  "requiresJourney M a = (a = ml_action_journey_read M \<or> a = ml_action_journey_write M \<or>
     a = ml_action_telemetry_write M \<or> a = ml_action_media_upload M)"

text \<open>\<open>wall\<close> is the clock that \<open>time.Now\<close> reads when the parameters carry no time.\<close>

definition validate_session :: "'m mac_lib \<Rightarrow> int \<Rightarrow> session_params \<Rightarrow> merr option" where
  "validate_session M wall p =
     (if \<not> ml_uuid_valid M (sp_user_id p) then Some (ErrInvalidSessionParams ''user id must be a valid UUID'')
      else if \<not> ml_uuid_valid M (sp_client_app_id p) then Some (ErrInvalidSessionParams ''client app id must be a valid UUID'')
      else if sp_journey_id p \<noteq> [] \<and> \<not> ml_uuid_valid M (sp_journey_id p)
        then Some (ErrInvalidSessionParams ''journey id must be a valid UUID when set'')
      else if \<not> ml_action_valid M (sp_action p) then Some (ErrInvalidSessionParams ''action is not a known OpenCaravan value'')
      else if requiresJourney M (sp_action p) \<and> sp_journey_id p = []
        then Some (ErrInvalidSessionParams ''action requires a journey id'')
      else let now = (if sp_now p = zero_time then wall else sp_now p)
           in if \<not> now < sp_expiration p then Some (ErrInvalidSessionParams ''expiration must be in the future'') else None)"

definition session_predicates :: "'m mac_lib \<Rightarrow> session_params \<Rightarrow> string list" where
  "session_predicates M p = [ml_caveat_user M (sp_user_id p), ml_caveat_client_app M (sp_client_app_id p)] @
     (if sp_journey_id p \<noteq> [] then [ml_caveat_journey M (sp_journey_id p)] else []) @
     [ml_caveat_action M (sp_action p), ml_caveat_time_before M (sp_expiration p)]"

definition IssueSession :: "'m mac_lib \<Rightarrow> int \<Rightarrow> issuer \<Rightarrow> session_params \<Rightarrow> merr + ('m \<times> string)" where
  "IssueSession M wall i p =
     (case validate_session M wall p of Some e \<Rightarrow> Inl e | None \<Rightarrow> Issue M i (session_predicates M p))"

section \<open>Verifier\<close>

datatype resolve_err = ErrUnknownRoot | ResolveTransport string

type_synonym resolver = "string \<Rightarrow> resolve_err + string"

record constraints =
  cn_journey_id :: string
  cn_action :: string
  cn_user_id :: string
  cn_client_app_id :: string

record verified =
  vf_root_id :: string
  vf_location :: string
  vf_caveats :: "caveat list"
  vf_expiration :: int

text \<open>The loop of \<open>parseCaveats\<close>: the caveats parsed so far and the earliest expiry, the
  zero time while there is none.\<close>

fun parse_loop :: "'m mac_lib \<Rightarrow> (string \<times> string) list \<Rightarrow> caveat list \<Rightarrow> int \<Rightarrow> string + caveat list \<times> int" where
  "parse_loop M [] parsed earliest = Inr (parsed, earliest)"
| "parse_loop M ((loc, i) # raws) parsed earliest =
     (if loc \<noteq> [] then Inl ''third-party caveat not supported''
      else case ml_parse_caveat M i of None \<Rightarrow> Inl ''parse caveat''
        | Some c \<Rightarrow>
            if cv_kind c = CaveatKindUnknown then Inl ''unknown caveat predicate''
            else parse_loop M raws (parsed @ [c])
              (if cv_kind c = CaveatKindTimeBefore \<and> (earliest = zero_time \<or> cv_time c < earliest)
               then cv_time c else earliest))"

definition parseCaveats :: "'m mac_lib \<Rightarrow> (string \<times> string) list \<Rightarrow> string + caveat list \<times> int" where
  "parseCaveats M raws =
     (case parse_loop M raws [] zero_time of Inl e \<Rightarrow> Inl e
      | Inr (parsed, earliest) \<Rightarrow>
          if earliest = zero_time then Inl ''macaroon has no time<T caveat'' else Inr (parsed, earliest))"

definition wellformed_predicate :: "'m mac_lib \<Rightarrow> string \<Rightarrow> bool" where
  "wellformed_predicate M p = (case ml_parse_caveat M p of None \<Rightarrow> False | Some c \<Rightarrow> cv_kind c \<noteq> CaveatKindUnknown)"

definition VerifySignature :: "'m mac_lib \<Rightarrow> resolver \<Rightarrow> string \<Rightarrow> merr + verified" where
  "VerifySignature M resolve serialized =
     (case ml_unmarshal M serialized of None \<Rightarrow> Inl (ErrVerifyFailed ''unmarshal'')
      | Some m \<Rightarrow>
          if ml_location M m \<noteq> Location then Inl (ErrVerifyFailed ''location not recognized'')
          else if ml_id M m = [] then Inl (ErrVerifyFailed ''root id missing from macaroon'')
          else case resolve (ml_id M m) of
            Inl ErrUnknownRoot \<Rightarrow> Inl (ErrVerifyFailed ''unknown root id'')
          | Inl (ResolveTransport e) \<Rightarrow> Inl (ErrTransportFailure e)
          | Inr key \<Rightarrow>
              if \<not> ml_verify M m key (wellformed_predicate M) then Inl (ErrVerifyFailed ''verify'')
              else case parseCaveats M (ml_caveats M m) of Inl e \<Rightarrow> Inl (ErrVerifyFailed e)
                | Inr (parsed, expiry) \<Rightarrow> Inr \<lparr>vf_root_id = ml_id M m, vf_location = ml_location M m,
                    vf_caveats = parsed, vf_expiration = expiry\<rparr>)"

definition evaluateCaveat :: "caveat \<Rightarrow> int \<Rightarrow> constraints \<Rightarrow> string option" where
  "evaluateCaveat cv now c = (case cv_kind cv of
     CaveatKindTimeBefore \<Rightarrow> if \<not> now < cv_time cv then Some ''macaroon expired'' else None
   | CaveatKindJourney \<Rightarrow> if cn_journey_id c = [] then Some ''journey caveat present but no journey id in constraints''
       else if cn_journey_id c \<noteq> cv_uuid cv then Some ''journey caveat'' else None
   | CaveatKindUser \<Rightarrow> if cn_user_id c = [] then Some ''user caveat present but no user id in constraints''
       else if cn_user_id c \<noteq> cv_uuid cv then Some ''user caveat'' else None
   | CaveatKindClientApp \<Rightarrow> if cn_client_app_id c = [] then Some ''client_app caveat present but no client app id in constraints''
       else if cn_client_app_id c \<noteq> cv_uuid cv then Some ''client_app caveat'' else None
   | CaveatKindAction \<Rightarrow> if cn_action c = [] then Some ''action caveat present but no action in constraints''
       else if cn_action c \<noteq> cv_action cv then Some ''action caveat'' else None
   | CaveatKindUnknown \<Rightarrow> Some ''unknown caveat predicate''
   | CaveatKindOther k \<Rightarrow> Some ''unhandled caveat kind'')"

fun check_caveats :: "caveat list \<Rightarrow> int \<Rightarrow> constraints \<Rightarrow> merr option" where
  "check_caveats [] now c = None"
| "check_caveats (cv # cvs) now c =
     (case evaluateCaveat cv now c of Some e \<Rightarrow> Some (ErrVerifyFailed e) | None \<Rightarrow> check_caveats cvs now c)"

definition CheckConstraints :: "verified \<Rightarrow> int \<Rightarrow> constraints \<Rightarrow> merr option" where
  "CheckConstraints v now c = check_caveats (vf_caveats v) now c"

definition Verify :: "'m mac_lib \<Rightarrow> resolver \<Rightarrow> int \<Rightarrow> string \<Rightarrow> constraints \<Rightarrow> merr + verified" where
  "Verify M resolve now serialized c =
     (case VerifySignature M resolve serialized of
        Inl (ErrVerifyFailed e) \<Rightarrow> Inl (ErrVerifyFailed e)
      | Inl (ErrTransportFailure e) \<Rightarrow> Inl (ErrVerifyFailed e)
      | Inl (ErrMacaroon e) \<Rightarrow> Inl (ErrVerifyFailed e)
      | Inl (ErrInvalidSessionParams e) \<Rightarrow> Inl (ErrVerifyFailed e)
      | Inr v \<Rightarrow> (case CheckConstraints v now c of Some e \<Rightarrow> Inl e | None \<Rightarrow> Inr v))"

section \<open>What the package promises\<close>

text \<open>Documented behaviour of macaroon.v2 and of the caveat constructors: a new macaroon has
  the id and location it was given and verifies under its key; adding a first-party
  caveat appends it and makes verification also check it; the binary form decodes to the
  macaroon; a UUID and an action are not empty, and a caveat built by a constructor
  parses back.\<close>

definition mac_laws :: "'m mac_lib \<Rightarrow> bool" where
  "mac_laws M =
     ((\<forall>k i l m. ml_new M k i l = Some m \<longrightarrow> ml_id M m = i \<and> ml_location M m = l \<and> ml_caveats M m = [] \<and>
         (\<forall>chk. ml_verify M m k chk)) \<and>
      (\<forall>m p m'. ml_add M m p = Some m' \<longrightarrow> ml_id M m' = ml_id M m \<and> ml_location M m' = ml_location M m \<and>
         ml_caveats M m' = ml_caveats M m @ [([], p)] \<and> (\<forall>k chk. ml_verify M m' k chk = (ml_verify M m k chk \<and> chk p))) \<and>
      (\<forall>m s. ml_marshal M m = Some s \<longrightarrow> ml_unmarshal M s = Some m) \<and>
      \<not> ml_uuid_valid M [] \<and> \<not> ml_action_valid M [] \<and>
      (\<forall>u. ml_uuid_valid M u \<longrightarrow>
         (\<exists>c. ml_parse_caveat M (ml_caveat_user M u) = Some c \<and> cv_kind c = CaveatKindUser \<and> cv_uuid c = u) \<and>
         (\<exists>c. ml_parse_caveat M (ml_caveat_client_app M u) = Some c \<and> cv_kind c = CaveatKindClientApp \<and> cv_uuid c = u) \<and>
         (\<exists>c. ml_parse_caveat M (ml_caveat_journey M u) = Some c \<and> cv_kind c = CaveatKindJourney \<and> cv_uuid c = u)) \<and>
      (\<forall>a. ml_action_valid M a \<longrightarrow>
         (\<exists>c. ml_parse_caveat M (ml_caveat_action M a) = Some c \<and> cv_kind c = CaveatKindAction \<and> cv_action c = a)))"

section \<open>Caveat evaluation\<close>

text \<open>The specification of a caveat: what a request must be for the caveat to hold.\<close>

definition caveat_holds :: "int \<Rightarrow> constraints \<Rightarrow> caveat \<Rightarrow> bool" where
  "caveat_holds now c cv = (case cv_kind cv of
     CaveatKindTimeBefore \<Rightarrow> now < cv_time cv
   | CaveatKindJourney \<Rightarrow> cn_journey_id c \<noteq> [] \<and> cv_uuid cv = cn_journey_id c
   | CaveatKindUser \<Rightarrow> cn_user_id c \<noteq> [] \<and> cv_uuid cv = cn_user_id c
   | CaveatKindClientApp \<Rightarrow> cn_client_app_id c \<noteq> [] \<and> cv_uuid cv = cn_client_app_id c
   | CaveatKindAction \<Rightarrow> cn_action c \<noteq> [] \<and> cv_action cv = cn_action c
   | _ \<Rightarrow> False)"

lemma evaluateCaveat_None: "evaluateCaveat cv now c = None \<longleftrightarrow> caveat_holds now c cv"
  by (auto simp: evaluateCaveat_def caveat_holds_def split: caveat_kind.splits)

lemma check_caveats_None: "check_caveats cvs now c = None \<longleftrightarrow> (\<forall>cv \<in> set cvs. caveat_holds now c cv)"
proof (induction cvs)
  case (Cons cv cvs)
  then show ?case
    by (cases "evaluateCaveat cv now c") (auto simp: evaluateCaveat_None [symmetric])
qed simp

lemma check_caveats_Some: "check_caveats cvs now c = Some e \<Longrightarrow> \<exists>x. e = ErrVerifyFailed x"
  by (induction cvs) (auto split: option.splits)

lemma CheckConstraints_None: "CheckConstraints v now c = None \<longleftrightarrow> (\<forall>cv \<in> set (vf_caveats v). caveat_holds now c cv)"
  by (simp add: CheckConstraints_def check_caveats_None)

section \<open>Parsing\<close>

definition times_of :: "caveat list \<Rightarrow> int set" where
  "times_of cs = cv_time ` {c \<in> set cs. cv_kind c = CaveatKindTimeBefore}"

lemma times_of_simps [simp]:
  "times_of [] = {}" "times_of (cs @ ds) = times_of cs \<union> times_of ds"
  "times_of (c # cs) = (if cv_kind c = CaveatKindTimeBefore then insert (cv_time c) (times_of cs) else times_of cs)"
  by (auto simp: times_of_def)

definition parses_to :: "'m mac_lib \<Rightarrow> string \<times> string \<Rightarrow> caveat \<Rightarrow> bool" where
  "parses_to M raw c = (fst raw = [] \<and> ml_parse_caveat M (snd raw) = Some c \<and> cv_kind c \<noteq> CaveatKindUnknown)"

lemma parse_loop_Inr:
  assumes "parse_loop M raws parsed e = Inr (cs, e')"
  shows "\<exists>ds. cs = parsed @ ds \<and> list_all2 (parses_to M) raws ds \<and> (e' = e \<or> e' \<in> times_of ds) \<and>
    (zero_time \<notin> times_of ds \<longrightarrow> (\<forall>t \<in> times_of ds. e' \<le> t) \<and> (e \<noteq> zero_time \<longrightarrow> e' \<le> e) \<and>
      (e' = zero_time \<longrightarrow> e = zero_time \<and> times_of ds = {}))"
  using assms
proof (induction M raws parsed e rule: parse_loop.induct)
  case (2 M loc i raws parsed e)
  then obtain c where c: "loc = []" "ml_parse_caveat M i = Some c" "cv_kind c \<noteq> CaveatKindUnknown"
    by (auto split: if_splits option.splits)
  define e1 where "e1 = (if cv_kind c = CaveatKindTimeBefore \<and> (e = zero_time \<or> cv_time c < e) then cv_time c else e)"
  from "2.IH" [OF _ c(2,3)] "2.prems" c obtain ds where ds: "cs = (parsed @ [c]) @ ds" "list_all2 (parses_to M) raws ds"
    "e' = e1 \<or> e' \<in> times_of ds"
    "zero_time \<notin> times_of ds \<longrightarrow> (\<forall>t \<in> times_of ds. e' \<le> t) \<and> (e1 \<noteq> zero_time \<longrightarrow> e' \<le> e1) \<and>
      (e' = zero_time \<longrightarrow> e1 = zero_time \<and> times_of ds = {})"
    by (auto simp: e1_def)
  have "list_all2 (parses_to M) ((loc, i) # raws) (c # ds)" using ds(2) c by (simp add: parses_to_def)
  moreover have "e' = e \<or> e' \<in> times_of (c # ds)" using ds(3) by (auto simp: e1_def split: if_splits)
  moreover have "(\<forall>t \<in> times_of (c # ds). e' \<le> t) \<and> (e \<noteq> zero_time \<longrightarrow> e' \<le> e) \<and>
      (e' = zero_time \<longrightarrow> e = zero_time \<and> times_of (c # ds) = {})" if z: "zero_time \<notin> times_of (c # ds)"
  proof -
    have "zero_time \<notin> times_of ds" using z by (auto split: if_splits)
    with ds(4) have h: "\<forall>t \<in> times_of ds. e' \<le> t" "e1 \<noteq> zero_time \<longrightarrow> e' \<le> e1" "e' = zero_time \<longrightarrow> e1 = zero_time \<and> times_of ds = {}"
      by blast+
    show ?thesis
    proof (cases "cv_kind c = CaveatKindTimeBefore")
      case True
      with z have "cv_time c \<noteq> zero_time" by auto
      with h True show ?thesis by (auto simp: e1_def split: if_splits)
    next
      case False
      with h show ?thesis by (simp add: e1_def)
    qed
  qed
  ultimately show ?case using ds(1) by (intro exI [of _ "c # ds"]) simp
qed auto

lemma parseCaveats_Inr:
  assumes "parseCaveats M raws = Inr (cs, t)"
  shows "list_all2 (parses_to M) raws cs \<and> t \<noteq> zero_time \<and> t \<in> times_of cs \<and>
    (zero_time \<notin> times_of cs \<longrightarrow> (\<forall>u \<in> times_of cs. t \<le> u))"
  using assms parse_loop_Inr [of M raws "[]" zero_time cs t]
  by (auto simp: parseCaveats_def split: sum.splits if_splits)

lemma parse_loop_complete:
  "list_all2 (parses_to M) raws cs \<Longrightarrow> \<exists>e'. parse_loop M raws parsed e = Inr (parsed @ cs, e')"
proof (induction raws cs arbitrary: parsed e rule: list_all2_induct)
  case (Cons raw raws c cs)
  obtain i where raw: "raw = ([], i)" "ml_parse_caveat M i = Some c" "cv_kind c \<noteq> CaveatKindUnknown"
    using Cons.hyps(1) by (cases raw) (auto simp: parses_to_def)
  then show ?case using Cons.IH [of "parsed @ [c]"] by simp
qed simp

lemma parseCaveats_complete:
  assumes "list_all2 (parses_to M) raws cs" "zero_time \<notin> times_of cs" "times_of cs \<noteq> {}"
  shows "\<exists>t. parseCaveats M raws = Inr (cs, t)"
proof -
  from parse_loop_complete [OF assms(1), of "[]" zero_time] obtain e' where e: "parse_loop M raws [] zero_time = Inr (cs, e')"
    by auto
  from parse_loop_Inr [OF e] assms(2,3) have "e' \<noteq> zero_time" by auto
  with e show ?thesis by (simp add: parseCaveats_def)
qed

lemma parses_to_unique: "list_all2 (parses_to M) raws cs \<Longrightarrow> list_all2 (parses_to M) raws ds \<Longrightarrow> cs = ds"
  by (induction raws cs arbitrary: ds rule: list_all2_induct) (auto simp: list_all2_Cons1 parses_to_def)

lemma VerifySignature_Inr:
  assumes "VerifySignature M resolve s = Inr v"
  shows "\<exists>m key. ml_unmarshal M s = Some m \<and> ml_location M m = Location \<and> vf_root_id v = ml_id M m \<and> ml_id M m \<noteq> [] \<and>
    resolve (ml_id M m) = Inr key \<and> ml_verify M m key (wellformed_predicate M) \<and>
    parseCaveats M (ml_caveats M m) = Inr (vf_caveats v, vf_expiration v)"
  using assms
  by (auto simp: VerifySignature_def split: option.splits if_splits sum.splits resolve_err.splits)

section \<open>Properties\<close>




lemma mac_laws_parse:
  assumes "mac_laws M"
  shows "ml_uuid_valid M u \<Longrightarrow> \<exists>c. ml_parse_caveat M (ml_caveat_user M u) = Some c \<and> cv_kind c = CaveatKindUser \<and> cv_uuid c = u"
    "ml_uuid_valid M u \<Longrightarrow> \<exists>c. ml_parse_caveat M (ml_caveat_client_app M u) = Some c \<and> cv_kind c = CaveatKindClientApp \<and> cv_uuid c = u"
    "ml_uuid_valid M u \<Longrightarrow> \<exists>c. ml_parse_caveat M (ml_caveat_journey M u) = Some c \<and> cv_kind c = CaveatKindJourney \<and> cv_uuid c = u"
    "ml_action_valid M a \<Longrightarrow> \<exists>c. ml_parse_caveat M (ml_caveat_action M a) = Some c \<and> cv_kind c = CaveatKindAction \<and> cv_action c = a"
  using assms unfolding mac_laws_def by blast+

lemma add_predicates_Inr:
  assumes "mac_laws M" "add_predicates M ps m = Inr m'"
  shows "ml_id M m' = ml_id M m \<and> ml_location M m' = ml_location M m \<and>
    ml_caveats M m' = ml_caveats M m @ map (Pair []) ps \<and> ml_verify M m' k chk = (ml_verify M m k chk \<and> list_all chk ps)"
  using assms(2)
proof (induction ps arbitrary: m)
  case (Cons p ps)
  then obtain m1 where m1: "ml_add M m p = Some m1" "add_predicates M ps m1 = Inr m'"
    by (auto split: if_splits option.splits)
  with assms(1) have "ml_id M m1 = ml_id M m \<and> ml_location M m1 = ml_location M m \<and>
      ml_caveats M m1 = ml_caveats M m @ [([], p)] \<and> (\<forall>k chk. ml_verify M m1 k chk = (ml_verify M m k chk \<and> chk p))"
    unfolding mac_laws_def by blast
  with Cons.IH [OF m1(2)] show ?case by simp
qed simp

lemma Issue_Inr:
  assumes "mac_laws M" "Issue M i ps = Inr (m, s)"
  shows "ml_unmarshal M s = Some m \<and> ml_id M m = is_root_id i \<and> ml_location M m = Location \<and>
    ml_caveats M m = map (Pair []) ps \<and> ml_verify M m (is_root_key i) chk = list_all chk ps"
proof -
  from assms(2) obtain m0 where m0: "ml_new M (is_root_key i) (is_root_id i) Location = Some m0"
    "add_predicates M ps m0 = Inr m" "ml_marshal M m = Some s"
    by (auto simp: Issue_def split: option.splits sum.splits)
  from assms(1) m0(1) have "ml_id M m0 = is_root_id i \<and> ml_location M m0 = Location \<and> ml_caveats M m0 = [] \<and>
      (\<forall>chk. ml_verify M m0 (is_root_key i) chk)" unfolding mac_laws_def by blast
  moreover from assms(1) m0(3) have "ml_unmarshal M s = Some m" unfolding mac_laws_def by blast
  ultimately show ?thesis using add_predicates_Inr [OF assms(1) m0(2), of "is_root_key i" chk] by simp
qed

lemma session_signature:
  assumes "mac_laws M" "NewIssuer rid key = Inr i" "IssueSession M wall i p = Inr (m, s)" "resolve rid = Inr key"
    "ml_parse_caveat M (ml_caveat_time_before M (sp_expiration p)) = Some tc" "cv_kind tc = CaveatKindTimeBefore"
    "cv_time tc = sp_expiration p" "sp_expiration p \<noteq> zero_time"
  shows "\<exists>v. VerifySignature M resolve s = Inr v \<and> vf_root_id v = rid \<and> vf_expiration v = sp_expiration p \<and>
    (\<forall>now c. (CheckConstraints v now c = None) = (now < sp_expiration p \<and> cn_user_id c = sp_user_id p \<and>
       cn_client_app_id c = sp_client_app_id p \<and> cn_action c = sp_action p \<and>
       (sp_journey_id p \<noteq> [] \<longrightarrow> cn_journey_id c = sp_journey_id p)))"
proof -
  from assms(2) have i: "is_root_id i = rid" "is_root_key i = key" "rid \<noteq> []" by (auto simp: NewIssuer_def split: if_splits)
  from assms(3) have val: "validate_session M wall p = None" and iss: "Issue M i (session_predicates M p) = Inr (m, s)"
    by (auto simp: IssueSession_def split: option.splits)
  have ok: "ml_uuid_valid M (sp_user_id p)" "ml_uuid_valid M (sp_client_app_id p)"
    "sp_journey_id p \<noteq> [] \<longrightarrow> ml_uuid_valid M (sp_journey_id p)" "ml_action_valid M (sp_action p)"
    using val by (auto simp: validate_session_def Let_def split: if_splits)
  have ne: "sp_user_id p \<noteq> []" "sp_client_app_id p \<noteq> []" "sp_action p \<noteq> []"
    using ok assms(1) by (auto simp: mac_laws_def)
  obtain cu where cu: "ml_parse_caveat M (ml_caveat_user M (sp_user_id p)) = Some cu"
    "cv_kind cu = CaveatKindUser" "cv_uuid cu = sp_user_id p"
    using mac_laws_parse(1) [OF assms(1) ok(1)] by blast
  obtain ca where ca: "ml_parse_caveat M (ml_caveat_client_app M (sp_client_app_id p)) = Some ca"
    "cv_kind ca = CaveatKindClientApp" "cv_uuid ca = sp_client_app_id p"
    using mac_laws_parse(2) [OF assms(1) ok(2)] by blast
  obtain cj where cj: "sp_journey_id p \<noteq> [] \<longrightarrow> ml_parse_caveat M (ml_caveat_journey M (sp_journey_id p)) = Some cj \<and>
      cv_kind cj = CaveatKindJourney \<and> cv_uuid cj = sp_journey_id p"
    using mac_laws_parse(3) [OF assms(1)] ok(3) by blast
  obtain cact where cact: "ml_parse_caveat M (ml_caveat_action M (sp_action p)) = Some cact"
    "cv_kind cact = CaveatKindAction" "cv_action cact = sp_action p"
    using mac_laws_parse(4) [OF assms(1) ok(4)] by blast
  define cs where "cs = [cu, ca] @ (if sp_journey_id p \<noteq> [] then [cj] else []) @ [cact, tc]"
  note m = Issue_Inr [OF assms(1) iss, of "wellformed_predicate M", unfolded i]
  have wf: "list_all (wellformed_predicate M) (session_predicates M p)"
    using cu ca cact cj assms(5,6) by (auto simp: session_predicates_def wellformed_predicate_def)
  have par: "list_all2 (parses_to M) (map (Pair []) (session_predicates M p)) cs"
    using cu ca cact cj assms(5,6) by (auto simp: session_predicates_def cs_def parses_to_def)
  have ts: "times_of cs = {sp_expiration p}" using cu ca cact cj assms(6,7) by (auto simp: cs_def)
  from parseCaveats_complete [OF par] ts assms(8) obtain t where pc: "parseCaveats M (ml_caveats M m) = Inr (cs, t)"
    using m by auto
  with parseCaveats_Inr [OF pc] ts have t: "t = sp_expiration p" by auto
  have vs: "VerifySignature M resolve s = Inr \<lparr>vf_root_id = rid, vf_location = Location, vf_caveats = cs, vf_expiration = t\<rparr>"
    using m wf pc assms(4) i(3) by (simp add: VerifySignature_def)
  have holds: "check_caveats cs now c = None \<longleftrightarrow> now < sp_expiration p \<and> cn_user_id c = sp_user_id p \<and>
      cn_client_app_id c = sp_client_app_id p \<and> cn_action c = sp_action p \<and>
      (sp_journey_id p \<noteq> [] \<longrightarrow> cn_journey_id c = sp_journey_id p)" for now c
    unfolding check_caveats_None using cu ca cact cj assms(6,7) ne by (auto simp: cs_def caveat_holds_def)
  show ?thesis using vs holds t by (simp add: CheckConstraints_def)
qed

text \<open>Issuing and verifying a session fit together: a session macaroon verifies for exactly
  the requests it was issued for, its user, client app, action and (if it has one)
  journey, strictly before its expiration, and for no other.\<close>

theorem session_roundtrip:
  assumes "mac_laws M" "NewIssuer rid key = Inr i" "IssueSession M wall i p = Inr (m, s)" "resolve rid = Inr key"
    "ml_parse_caveat M (ml_caveat_time_before M (sp_expiration p)) = Some tc" "cv_kind tc = CaveatKindTimeBefore"
    "cv_time tc = sp_expiration p" "sp_expiration p \<noteq> zero_time"
  shows "if now < sp_expiration p \<and> cn_user_id c = sp_user_id p \<and> cn_client_app_id c = sp_client_app_id p \<and>
        cn_action c = sp_action p \<and> (sp_journey_id p \<noteq> [] \<longrightarrow> cn_journey_id c = sp_journey_id p)
      then \<exists>v. Verify M resolve now s c = Inr v \<and> vf_root_id v = rid \<and> vf_expiration v = sp_expiration p
      else \<exists>e. Verify M resolve now s c = Inl (ErrVerifyFailed e)"
proof -
  from session_signature [where resolve = resolve, OF assms] obtain v where v: "VerifySignature M resolve s = Inr v" "vf_root_id v = rid"
    "vf_expiration v = sp_expiration p"
    "(CheckConstraints v now c = None) = (now < sp_expiration p \<and> cn_user_id c = sp_user_id p \<and>
       cn_client_app_id c = sp_client_app_id p \<and> cn_action c = sp_action p \<and>
       (sp_journey_id p \<noteq> [] \<longrightarrow> cn_journey_id c = sp_journey_id p))" for now c by blast
  have "\<exists>x. e = ErrVerifyFailed x" if "CheckConstraints v now c = Some e" for e
    using that check_caveats_Some by (simp add: CheckConstraints_def)
  with v(1-3) show ?thesis
    unfolding v(4) [symmetric] by (cases "CheckConstraints v now c") (auto simp: Verify_def)
qed

section \<open>A concrete package\<close>

text \<open>A macaroon as a text of lines: key, id, location and the caveats. It satisfies the laws,
  so the theorems above apply to it; times are written in unary.\<close>

abbreviation NL :: char where
  "NL \<equiv> CHR 0x0A"

definition line_ok :: "string \<Rightarrow> bool" where
  "line_ok s = (NL \<notin> set s)"

definition text_caveat :: "string \<Rightarrow> caveat option" where
  "text_caveat s = (case s of [] \<Rightarrow> None | c # r \<Rightarrow>
     if c = CHR ''u'' then Some \<lparr>cv_kind = CaveatKindUser, cv_time = 0, cv_uuid = r, cv_action = [], cv_raw = s\<rparr>
     else if c = CHR ''c'' then Some \<lparr>cv_kind = CaveatKindClientApp, cv_time = 0, cv_uuid = r, cv_action = [], cv_raw = s\<rparr>
     else if c = CHR ''j'' then Some \<lparr>cv_kind = CaveatKindJourney, cv_time = 0, cv_uuid = r, cv_action = [], cv_raw = s\<rparr>
     else if c = CHR ''a'' then Some \<lparr>cv_kind = CaveatKindAction, cv_time = 0, cv_uuid = [], cv_action = r, cv_raw = s\<rparr>
     else if c = CHR ''t'' then Some \<lparr>cv_kind = CaveatKindTimeBefore, cv_time = int (length r), cv_uuid = [], cv_action = [], cv_raw = s\<rparr>
     else Some \<lparr>cv_kind = CaveatKindUnknown, cv_time = 0, cv_uuid = [], cv_action = [], cv_raw = s\<rparr>)"

definition text_lib :: "string mac_lib" where
  "text_lib = \<lparr>ml_new = (\<lambda>k i l. if line_ok k \<and> line_ok i \<and> line_ok l then Some (k @ [NL] @ i @ [NL] @ l) else None),
     ml_add = (\<lambda>m p. if line_ok p \<and> 3 \<le> length (Split m NL) then Some (m @ [NL] @ p) else None),
     ml_marshal = Some, ml_unmarshal = Some,
     ml_location = (\<lambda>m. Split m NL ! 2), ml_id = (\<lambda>m. Split m NL ! 1),
     ml_caveats = (\<lambda>m. map (Pair []) (drop 3 (Split m NL))),
     ml_verify = (\<lambda>m k chk. hd (Split m NL) = k \<and> list_all chk (drop 3 (Split m NL))),
     ml_parse_caveat = text_caveat, ml_caveat_user = (#) (CHR ''u''), ml_caveat_client_app = (#) (CHR ''c''),
     ml_caveat_journey = (#) (CHR ''j''), ml_caveat_action = (#) (CHR ''a''),
     ml_caveat_time_before = (\<lambda>t. CHR ''t'' # replicate (nat t) (CHR ''1'')),
     ml_uuid_valid = (\<lambda>u. u \<noteq> [] \<and> line_ok u), ml_action_valid = (\<lambda>a. a \<noteq> [] \<and> line_ok a),
     ml_action_journey_read = ''journey.read'', ml_action_journey_write = ''journey.write'',
     ml_action_telemetry_write = ''telemetry.write'', ml_action_media_upload = ''media.upload''\<rparr>"

lemma text_laws: "mac_laws text_lib"
proof -
  have new: "ml_id text_lib m = i \<and> ml_location text_lib m = l \<and> ml_caveats text_lib m = [] \<and> (\<forall>chk. ml_verify text_lib m k chk)"
    if "ml_new text_lib k i l = Some m" for k i l m
  proof -
    from that have "Split m NL = [k, i, l]"
      by (auto simp: text_lib_def line_ok_def Split_append Split_single split: if_splits)
    then show ?thesis by (simp add: text_lib_def)
  qed
  have add: "ml_id text_lib m' = ml_id text_lib m \<and> ml_location text_lib m' = ml_location text_lib m \<and>
      ml_caveats text_lib m' = ml_caveats text_lib m @ [([], p)] \<and>
      (\<forall>k chk. ml_verify text_lib m' k chk = (ml_verify text_lib m k chk \<and> chk p))"
    if "ml_add text_lib m p = Some m'" for m p m'
  proof -
    from that have "Split m' NL = Split m NL @ [p]" "3 \<le> length (Split m NL)"
      by (auto simp: text_lib_def line_ok_def Split_append Split_single split: if_splits)
    then show ?thesis using Split_ne [of m NL] by (auto simp: text_lib_def nth_append)
  qed
  have rest: "\<forall>m s. ml_marshal text_lib m = Some s \<longrightarrow> ml_unmarshal text_lib s = Some m"
    "\<not> ml_uuid_valid text_lib []" "\<not> ml_action_valid text_lib []"
    "\<exists>c. ml_parse_caveat text_lib (ml_caveat_user text_lib u) = Some c \<and> cv_kind c = CaveatKindUser \<and> cv_uuid c = u"
    "\<exists>c. ml_parse_caveat text_lib (ml_caveat_client_app text_lib u) = Some c \<and> cv_kind c = CaveatKindClientApp \<and> cv_uuid c = u"
    "\<exists>c. ml_parse_caveat text_lib (ml_caveat_journey text_lib u) = Some c \<and> cv_kind c = CaveatKindJourney \<and> cv_uuid c = u"
    "\<exists>c. ml_parse_caveat text_lib (ml_caveat_action text_lib u) = Some c \<and> cv_kind c = CaveatKindAction \<and> cv_action c = u"
    for u by (simp_all add: text_lib_def text_caveat_def)
  from new add rest show ?thesis unfolding mac_laws_def by blast
qed

definition demo_key :: string where
  "demo_key = replicate 32 (CHR ''k'')"

definition demo_issuer :: issuer where
  "demo_issuer = \<lparr>is_root_id = ''root'', is_root_key = demo_key\<rparr>"

definition demo_session :: session_params where
  "demo_session = \<lparr>sp_user_id = ''alice'', sp_client_app_id = ''app'', sp_journey_id = ''j1'',
     sp_action = ''journey.read'', sp_expiration = 9, sp_now = 5\<rparr>"

definition demo_resolver :: resolver where
  "demo_resolver i = (if i = ''root'' then Inr demo_key else Inl ErrUnknownRoot)"

definition demo_macaroon :: string where
  "demo_macaroon = (case IssueSession text_lib 0 demo_issuer demo_session of Inl _ \<Rightarrow> [] | Inr (m, s) \<Rightarrow> s)"

lemma demo_issue: "IssueSession text_lib 0 demo_issuer demo_session = Inr (demo_macaroon, demo_macaroon)"
  by code_simp

definition demo_verified :: "string \<Rightarrow> verified" where
  "demo_verified s = (case VerifySignature text_lib demo_resolver s of Inl _ \<Rightarrow>
     \<lparr>vf_root_id = [], vf_location = [], vf_caveats = [], vf_expiration = 0\<rparr> | Inr v \<Rightarrow> v)"



end
