(* ===== verification/Invites.thy ===== *)
theory Invites
  imports Schema
begin

text \<open>
  Client-app invites (storage/invite.go), enrollment (storage/enrollment.go), the
  lookups from a certificate to an enrolled identity (storage/identity.go), and the
  founding admin. An invite token is single-use; enrollment consumes it in the same
  transaction that creates the account, the client app and the certificate row.
\<close>

section \<open>Projections\<close>

text \<open>The \<open>Invite\<close> struct: NULL user and client-app columns are empty strings.\<close>

record invite =
  iv_token_hash :: string
  iv_scope :: string
  iv_created_time :: int
  iv_expiration_time :: int
  iv_used_time :: "int option"
  iv_used_by_client_app_id :: string
  iv_created_by_user_id :: string

definition null_str :: "string option \<Rightarrow> string" where
  "null_str x = (case x of None \<Rightarrow> '''' | Some s \<Rightarrow> s)"

definition scanInviteRow :: "client_app_invite \<Rightarrow> invite" where
  "scanInviteRow r = \<lparr>iv_token_hash = cai_token_hash r, iv_scope = cai_scope r,
     iv_created_time = cai_created_time r, iv_expiration_time = cai_expiration_time r,
     iv_used_time = cai_used_time r, iv_used_by_client_app_id = null_str (cai_used_by_client_app_id r),
     iv_created_by_user_id = null_str (cai_created_by_user_id r)\<rparr>"

definition Invite_Active :: "invite \<Rightarrow> int \<Rightarrow> bool" where
  "Invite_Active i now = (if iv_used_time i \<noteq> None then False else now < iv_expiration_time i)"

record client_app_registration =
  reg_user_id :: string
  reg_user_display_name :: string
  reg_open_caravan_id :: string
  reg_client_app_id :: string
  reg_client_app_display_name :: string
  reg_invite_token_value :: string
  reg_certificate :: "x509_cert option"

record cert_identity =
  ci_user_id :: string
  ci_client_app_id :: string
  ci_serial :: string
  ci_subject_cn :: string
  ci_not_after :: int

record enrolled_cert =
  ec_identity :: cert_identity
  ec_certificate :: x509_cert

section \<open>Issuing and consuming invites\<close>

definition invite_row ::
  "lib \<Rightarrow> string \<Rightarrow> string \<Rightarrow> int \<Rightarrow> int \<Rightarrow> string option \<Rightarrow> client_app_invite" where
  "invite_row L tok scope now lifetime by =
     \<lparr>cai_token_hash = hashInviteToken L tok, cai_scope = scope, cai_created_time = now,
      cai_expiration_time = now + lifetime, cai_used_time = None, cai_used_by_client_app_id = None,
      cai_created_by_user_id = by\<rparr>"

definition IssueInvite :: "lib \<Rightarrow> env \<Rightarrow> string \<Rightarrow> int \<Rightarrow> (db, string \<times> invite) op" where
  "IssueInvite L env scope lifetime = op_require
     [(env_open env, ErrNotOpen),
      (lib_scope_valid L scope, ErrInvalid ''invite scope is not a known OpenCaravan value''),
      (0 < lifetime, ErrInvalid ''invite lifetime must be positive''),
      (env_token env \<noteq> None, ErrGenerate ''generate invite token'')]
     (let tok = the (env_token env); row = invite_row L tok scope (env_now env) lifetime None
      in auto_tx (tx_bind (tx_exec env ''record invite'' SQLErr (insert_client_app_invite row))
           (\<lambda>_. tx_return (tok, scanInviteRow row))))"

definition outstanding :: "db \<Rightarrow> string \<Rightarrow> string \<Rightarrow> int \<Rightarrow> nat" where
  "outstanding d u scope now = length (filter (\<lambda>r. cai_created_by_user_id r = Some u \<and> cai_scope r = scope \<and>
     cai_used_time r = None \<and> now < cai_expiration_time r) (client_app_invites d))"

definition IssueInviteBy :: "lib \<Rightarrow> env \<Rightarrow> string \<Rightarrow> int \<Rightarrow> string \<Rightarrow> int \<Rightarrow> (db, string \<times> invite) op" where
  "IssueInviteBy L env scope lifetime createdBy maxOutstanding = op_require
     [(env_open env, ErrNotOpen),
      (lib_scope_valid L scope, ErrInvalid ''invite scope is not a known OpenCaravan value''),
      (0 < lifetime, ErrInvalid ''invite lifetime must be positive''),
      (createdBy \<noteq> [], ErrInvalid ''created_by_user_id must be set''),
      (1 \<le> maxOutstanding, ErrInvalid ''maxOutstanding must be at least 1''),
      (env_token env \<noteq> None, ErrGenerate ''generate invite token'')]
     (let tok = the (env_token env); now = env_now env; row = invite_row L tok scope now lifetime (Some createdBy)
      in run_tx env
       (tx_bind (tx_query env ''count outstanding invites'' (\<lambda>d. outstanding d createdBy scope now))
        (\<lambda>n. tx_bind (tx_guard (int n < maxOutstanding) ErrInviteOutstandingLimit)
        (\<lambda>_. tx_bind (tx_exec env ''record invite'' SQLErr (insert_client_app_invite row))
        (\<lambda>_. tx_return (tok, scanInviteRow row))))))"

definition InvitesCreatedBy :: "env \<Rightarrow> string \<Rightarrow> db \<Rightarrow> serr + invite list" where
  "InvitesCreatedBy env u d =
     (if \<not> env_open env then Inl ErrNotOpen
      else if env_fault env ''query invites by creator'' then Inl (SQLErr (SQLDriver ''query invites by creator''))
      else Inr (map scanInviteRow (order_desc cai_created_time
        (filter (\<lambda>r. cai_created_by_user_id r = Some u) (client_app_invites d)))))"

definition lookupInviteByHash :: "env \<Rightarrow> string \<Rightarrow> db \<Rightarrow> serr + invite" where
  "lookupInviteByHash env h d =
     (if env_fault env ''load invite'' then Inl (SQLErr (SQLDriver ''load invite''))
      else case find (\<lambda>r. cai_token_hash r = h) (client_app_invites d) of
        None \<Rightarrow> Inl ErrInviteNotFound | Some r \<Rightarrow> Inr (scanInviteRow r))"

text \<open>\<open>LookupInvite\<close> and \<open>ConsumeInvite\<close> return the loaded invite together with the
  error when it is not redeemable: Go's pair of an invite and an error.\<close>

definition LookupInvite :: "lib \<Rightarrow> env \<Rightarrow> string \<Rightarrow> db \<Rightarrow> invite option \<times> serr option" where
  "LookupInvite L env tok d =
     (if \<not> env_open env then (None, Some ErrNotOpen)
      else case lookupInviteByHash env (hashInviteToken L tok) d of
        Inl e \<Rightarrow> (None, Some e)
      | Inr i \<Rightarrow> if iv_used_time i \<noteq> None then (Some i, Some ErrInviteAlreadyUsed)
                 else if \<not> env_now env < iv_expiration_time i then (Some i, Some ErrInviteExpired)
                 else (Some i, None))"

definition consume_where :: "string \<Rightarrow> int \<Rightarrow> client_app_invite \<Rightarrow> bool" where
  "consume_where h now r = (cai_token_hash r = h \<and> cai_used_time r = None \<and> now < cai_expiration_time r)"

definition consume_set :: "int \<Rightarrow> string \<Rightarrow> client_app_invite \<Rightarrow> client_app_invite" where
  "consume_set now app r = r\<lparr>cai_used_time := Some now, cai_used_by_client_app_id := Some app\<rparr>"

definition ConsumeInvite :: "lib \<Rightarrow> env \<Rightarrow> string \<Rightarrow> string \<Rightarrow> db \<Rightarrow> (invite option \<times> serr option) \<times> db" where
  "ConsumeInvite L env tok app d =
     (if \<not> env_open env then ((None, Some ErrNotOpen), d)
      else if app = [] then ((None, Some (ErrInvalid ''client app id must be set when consuming invite'')), d)
      else let h = hashInviteToken L tok; now = env_now env in
       if env_fault env ''consume invite'' then ((None, Some (SQLErr (SQLDriver ''consume invite''))), d)
       else case update_client_app_invites (consume_where h now) (consume_set now app) d of
         Inl e \<Rightarrow> ((None, Some (SQLErr e)), d)
       | Inr (updated, d') \<Rightarrow>
           if env_fault env ''rows affected'' then ((None, Some (SQLErr (SQLDriver ''rows affected''))), d')
           else if updated = 0 then
             (case lookupInviteByHash env h d' of
                Inl e \<Rightarrow> ((None, Some e), d')
              | Inr i \<Rightarrow> if iv_used_time i \<noteq> None then ((Some i, Some ErrInviteAlreadyUsed), d')
                         else ((Some i, Some ErrInviteExpired), d'))
           else (case lookupInviteByHash env h d' of
                Inl e \<Rightarrow> ((None, Some e), d') | Inr i \<Rightarrow> ((Some i, None), d')))"

definition UnconsumedInviteCount :: "env \<Rightarrow> string \<Rightarrow> db \<Rightarrow> serr + nat" where
  "UnconsumedInviteCount env scope d =
     (if \<not> env_open env then Inl ErrNotOpen
      else if env_fault env ''count unconsumed invites'' then Inl (SQLErr (SQLDriver ''count unconsumed invites''))
      else Inr (length (filter (\<lambda>r. cai_scope r = scope \<and> cai_used_time r = None \<and>
        env_now env < cai_expiration_time r) (client_app_invites d))))"

definition count_table :: "env \<Rightarrow> string \<Rightarrow> (db \<Rightarrow> 'r list) \<Rightarrow> db \<Rightarrow> serr + nat" where
  "count_table env l get d =
     (if \<not> env_open env then Inl ErrNotOpen
      else if env_fault env l then Inl (SQLErr (SQLDriver l)) else Inr (length (get d)))"

definition AccountCount :: "env \<Rightarrow> db \<Rightarrow> serr + nat" where
  "AccountCount env = count_table env ''count accounts'' accounts"

definition ClientAppCount :: "env \<Rightarrow> db \<Rightarrow> serr + nat" where
  "ClientAppCount env = count_table env ''count client_apps'' client_apps"

definition IssuedCertificateCount :: "env \<Rightarrow> db \<Rightarrow> serr + nat" where
  "IssuedCertificateCount env = count_table env ''count issued_certificates'' issued_certificates"

section \<open>Enrollment\<close>

definition lookupInviteByHashTx :: "env \<Rightarrow> string \<Rightarrow> (db, invite) tx" where
  "lookupInviteByHashTx env h =
     tx_bind (tx_query env ''load invite in tx'' (\<lambda>d. find (\<lambda>r. cai_token_hash r = h) (client_app_invites d)))
       (\<lambda>r. tx_bind (tx_opt ErrInviteNotFound r)
       (\<lambda>row. tx_return ((scanInviteRow row)\<lparr>iv_created_by_user_id := ''''\<rparr>)))"

definition tx_wrap :: "(serr \<Rightarrow> serr) \<Rightarrow> ('s, 'a) tx \<Rightarrow> ('s, 'a) tx" where
  "tx_wrap h m s = (case m s of Inl e \<Rightarrow> Inl (h e) | Inr x \<Rightarrow> Inr x)"

definition registration_account :: "client_app_registration \<Rightarrow> int \<Rightarrow> account" where
  "registration_account reg now = \<lparr>acc_id = reg_user_id reg, acc_open_caravan_id = reg_open_caravan_id reg,
     acc_display_name = reg_user_display_name reg, acc_created_at = now, acc_disabled_at = None\<rparr>"

definition registration_client_app :: "client_app_registration \<Rightarrow> int \<Rightarrow> client_app" where
  "registration_client_app reg now = \<lparr>ca_id = reg_client_app_id reg, ca_user_id = reg_user_id reg,
     ca_display_name = reg_client_app_display_name reg, ca_created_time = now\<rparr>"

definition registration_certificate ::
  "client_app_registration \<Rightarrow> x509_cert \<Rightarrow> string \<Rightarrow> int \<Rightarrow> issued_certificate" where
  "registration_certificate reg cert pem now =
     \<lparr>ic_serial = hex_nat (xc_serial cert), ic_subject_cn = xc_subject_cn cert, ic_not_before = xc_not_before cert,
      ic_not_after = xc_not_after cert, ic_issued_at = now, ic_revoked_at = None,
      ic_user_id = Some (reg_user_id reg), ic_client_app_id = Some (reg_client_app_id reg), ic_cert_pem = Some pem\<rparr>"

definition register_body :: "lib \<Rightarrow> env \<Rightarrow> client_app_registration \<Rightarrow> x509_cert \<Rightarrow> (db, invite) tx" where
  "register_body L env reg cert =
     (let now = env_now env; h = hashInviteToken L (reg_invite_token_value reg) in
      tx_bind (tx_exec env ''insert account'' SQLErr (insert_account (registration_account reg now)))
      (\<lambda>_. tx_bind (tx_exec env ''insert client_app'' SQLErr (insert_client_app (registration_client_app reg now)))
      (\<lambda>_. tx_bind (tx_exec env ''consume invite'' SQLErr
             (update_client_app_invites (consume_where h now) (consume_set now (reg_client_app_id reg))))
      (\<lambda>updated. tx_bind (tx_query env ''consume invite rows'' (\<lambda>_. ()))
      (\<lambda>_. tx_bind
          (if updated = 0
           then tx_bind (lookupInviteByHashTx env h)
             (\<lambda>existing. tx_throw (if iv_used_time existing \<noteq> None then ErrInviteAlreadyUsed else ErrInviteExpired))
           else tx_return ())
      (\<lambda>_. tx_bind (lookupInviteByHashTx env h)
      (\<lambda>consumed. tx_bind (tx_opt (ErrInvalid ''encode certificate PEM'') (lib_pem_encode L (xc_raw cert)))
      (\<lambda>pem. tx_bind (tx_exec env ''insert issued_certificate'' SQLErr
             (insert_issued_certificate (registration_certificate reg cert pem now)))
      (\<lambda>_. tx_return consumed)))))))))"

text \<open>Every failure after \<open>BeginTx\<close> is wrapped in \<open>ErrEnrollmentRolledBack\<close>, a failed
  commit too.\<close>

definition RegisterClientApp :: "lib \<Rightarrow> env \<Rightarrow> client_app_registration \<Rightarrow> (db, invite) op" where
  "RegisterClientApp L env reg = op_require
     [(env_open env, ErrNotOpen),
      (reg_user_id reg \<noteq> [] \<and> reg_client_app_id reg \<noteq> [] \<and> reg_open_caravan_id reg \<noteq> [],
         ErrInvalid ''registration requires UserID, ClientAppID, and OpenCaravanID''),
      (reg_invite_token_value reg \<noteq> [], ErrInvalid ''registration requires InviteTokenValue''),
      (reg_certificate reg \<noteq> None, ErrInvalid ''registration requires a signed Certificate'')]
     (\<lambda>d. case run_tx env (tx_wrap ErrEnrollmentRolledBack (register_body L env reg (the (reg_certificate reg)))) d of
        (Inl e, d') \<Rightarrow> (Inl (if e = SQLErr (SQLDriver ''commit'') then ErrEnrollmentRolledBack e else e), d')
      | (Inr i, d') \<Rightarrow> (Inr i, d'))"

definition ClientAppByID :: "env \<Rightarrow> string \<Rightarrow> db \<Rightarrow> serr + client_app" where
  "ClientAppByID env i d =
     (if \<not> env_open env then Inl ErrNotOpen
      else if env_fault env ''load client_app'' then Inl (SQLErr (SQLDriver ''load client_app''))
      else case find (\<lambda>r. ca_id r = i) (client_apps d) of None \<Rightarrow> Inl ErrClientAppNotFound | Some r \<Rightarrow> Inr r)"

section \<open>Identities\<close>

definition identity_of_row :: "issued_certificate \<Rightarrow> cert_identity" where
  "identity_of_row r = \<lparr>ci_user_id = null_str (ic_user_id r), ci_client_app_id = null_str (ic_client_app_id r),
     ci_serial = ic_serial r, ci_subject_cn = ic_subject_cn r, ci_not_after = ic_not_after r\<rparr>"

definition IdentityBySerial :: "env \<Rightarrow> string \<Rightarrow> db \<Rightarrow> serr + cert_identity" where
  "IdentityBySerial env serial d =
     (if \<not> env_open env then Inl ErrNotOpen
      else if serial = [] then Inl ErrCertNotEnrolled
      else if env_fault env ''load identity'' then Inl (SQLErr (SQLDriver ''load identity''))
      else case find (\<lambda>r. ic_serial r = serial \<and> ic_revoked_at r = None \<and> ic_user_id r \<noteq> None \<and>
          ic_client_app_id r \<noteq> None) (issued_certificates d) of
        None \<Rightarrow> Inl ErrCertNotEnrolled | Some r \<Rightarrow> Inr (identity_of_row r))"

definition EnrolledCertByClientAppID :: "lib \<Rightarrow> env \<Rightarrow> string \<Rightarrow> db \<Rightarrow> serr + enrolled_cert" where
  "EnrolledCertByClientAppID L env app d =
     (if \<not> env_open env then Inl ErrNotOpen
      else if app = [] then Inl ErrCertNotEnrolled
      else if env_fault env ''load enrolled cert'' then Inl (SQLErr (SQLDriver ''load enrolled cert''))
      else case first_max ic_issued_at (filter (\<lambda>r. ic_client_app_id r = Some app \<and> ic_revoked_at r = None \<and>
          ic_user_id r \<noteq> None) (issued_certificates d)) of
        None \<Rightarrow> Inl ErrCertNotEnrolled
      | Some r \<Rightarrow> (case ic_cert_pem r of None \<Rightarrow> Inl ErrEnrolledCertMissingPEM
          | Some pem \<Rightarrow> (case lib_pem_decode L pem of None \<Rightarrow> Inl (ErrDecode ''PEM'')
              | Some der \<Rightarrow> (case lib_parse_certificate L der of None \<Rightarrow> Inl (ErrDecode ''certificate'')
                  | Some cert \<Rightarrow> Inr \<lparr>ec_identity = identity_of_row r, ec_certificate = cert\<rparr>))))"

section \<open>The founding admin\<close>

definition FoundingAdminUserID :: "env \<Rightarrow> db \<Rightarrow> serr + string" where
  "FoundingAdminUserID env d =
     (if \<not> env_open env then Inl ErrNotOpen
      else if env_fault env ''query founding admin'' then Inl (SQLErr (SQLDriver ''query founding admin''))
      else case first_min (\<lambda>a. (acc_created_at a, acc_id a)) (filter (\<lambda>a. acc_disabled_at a = None) (accounts d)) of
        None \<Rightarrow> Inr '''' | Some a \<Rightarrow> Inr (acc_id a))"

definition IsFoundingAdmin :: "env \<Rightarrow> string \<Rightarrow> db \<Rightarrow> serr + bool" where
  "IsFoundingAdmin env u d =
     (if u = [] then Inr False
      else case FoundingAdminUserID env d of Inl e \<Rightarrow> Inl e | Inr a \<Rightarrow> Inr (a \<noteq> [] \<and> a = u))"

section \<open>What a successful operation did\<close>

lemma tx_wrap_Inr [tx_Inr]: "tx_wrap h m s = Inr x \<longleftrightarrow> m s = Inr x"
  by (auto simp: tx_wrap_def split: sum.splits)

lemma lookupInviteByHashTx_Inr [tx_Inr]:
  "lookupInviteByHashTx env h d = Inr (i, d') \<longleftrightarrow> \<not> env_fault env ''load invite in tx'' \<and> d' = d \<and>
     (\<exists>r. find (\<lambda>r. cai_token_hash r = h) (client_app_invites d) = Some r \<and>
        i = (scanInviteRow r)\<lparr>iv_created_by_user_id := ''''\<rparr>)"
  by (auto simp: lookupInviteByHashTx_def tx_Inr)

lemma IssueInvite_Inr:
  assumes "IssueInvite L env scope lifetime d = (Inr (tok, i), d')"
  shows "env_token env = Some tok \<and> 0 < lifetime \<and>
    i = scanInviteRow (invite_row L tok scope (env_now env) lifetime None) \<and>
    (\<forall>r \<in> set (client_app_invites d). cai_token_hash r \<noteq> hashInviteToken L tok) \<and>
    d' = d\<lparr>client_app_invites := client_app_invites d @ [invite_row L tok scope (env_now env) lifetime None]\<rparr>"
  using assms unfolding IssueInvite_def Let_def
  by (auto simp: tx_Inr table_defs invite_row_def)

lemma IssueInviteBy_Inr:
  assumes "IssueInviteBy L env scope lifetime u m d = (Inr (tok, i), d')"
  shows "env_token env = Some tok \<and> 0 < lifetime \<and>
    i = scanInviteRow (invite_row L tok scope (env_now env) lifetime (Some u)) \<and>
    int (outstanding d u scope (env_now env)) < m \<and>
    (\<forall>r \<in> set (client_app_invites d). cai_token_hash r \<noteq> hashInviteToken L tok) \<and>
    d' = d\<lparr>client_app_invites := client_app_invites d @ [invite_row L tok scope (env_now env) lifetime (Some u)]\<rparr>"
  using assms unfolding IssueInviteBy_def Let_def
  by (auto simp: tx_Inr table_defs invite_row_def)

definition registered_db :: "lib \<Rightarrow> client_app_registration \<Rightarrow> x509_cert \<Rightarrow> string \<Rightarrow> int \<Rightarrow> db \<Rightarrow> db" where
  "registered_db L reg cert pem now d = d\<lparr>accounts := accounts d @ [registration_account reg now],
     client_apps := client_apps d @ [registration_client_app reg now],
     client_app_invites := set_where (consume_where (hashInviteToken L (reg_invite_token_value reg)) now)
       (consume_set now (reg_client_app_id reg)) (client_app_invites d),
     issued_certificates := issued_certificates d @ [registration_certificate reg cert pem now]\<rparr>"

lemma consume_set_sel [simp]:
  "cai_token_hash (consume_set now app r) = cai_token_hash r" "cai_scope (consume_set now app r) = cai_scope r"
  "cai_created_time (consume_set now app r) = cai_created_time r"
  "cai_expiration_time (consume_set now app r) = cai_expiration_time r"
  "cai_used_time (consume_set now app r) = Some now"
  "cai_used_by_client_app_id (consume_set now app r) = Some app"
  "cai_created_by_user_id (consume_set now app r) = cai_created_by_user_id r"
  by (simp_all add: consume_set_def)

lemma find_consumed:
  "find (\<lambda>r. cai_token_hash r = h) (set_where (consume_where h' now) (consume_set now app) rows) =
     map_option (\<lambda>r. if consume_where h' now r then consume_set now app r else r) (find (\<lambda>r. cai_token_hash r = h) rows)"
  by (rule find_set_where) simp

lemma RegisterClientApp_body:
  "RegisterClientApp L env reg d = (Inr i, d') \<longleftrightarrow>
    env_open env \<and> reg_user_id reg \<noteq> [] \<and> reg_client_app_id reg \<noteq> [] \<and> reg_open_caravan_id reg \<noteq> [] \<and>
    reg_invite_token_value reg \<noteq> [] \<and> (\<exists>cert. reg_certificate reg = Some cert \<and>
    \<not> env_fault env ''begin'' \<and> \<not> env_fault env ''commit'' \<and> register_body L env reg cert d = Inr (i, d'))"
  unfolding RegisterClientApp_def
  by (auto simp: op_require_simps run_tx_def tx_wrap_def split: sum.splits prod.splits if_splits)

lemma RegisterClientApp_Inr:
  assumes "RegisterClientApp L env reg d = (Inr i, d')"
  shows "\<exists>cert pem. reg_certificate reg = Some cert \<and> lib_pem_encode L (xc_raw cert) = Some pem \<and>
    d' = registered_db L reg cert pem (env_now env) d \<and>
    (\<forall>a \<in> set (accounts d). acc_id a \<noteq> reg_user_id reg \<and> acc_open_caravan_id a \<noteq> reg_open_caravan_id reg) \<and>
    (\<forall>c \<in> set (client_apps d). ca_id c \<noteq> reg_client_app_id reg) \<and>
    (\<forall>c \<in> set (issued_certificates d). ic_serial c \<noteq> hex_nat (xc_serial cert)) \<and>
    (\<exists>r. consume_where (hashInviteToken L (reg_invite_token_value reg)) (env_now env) r \<and> r \<in> set (client_app_invites d)) \<and>
    (\<exists>r. find (\<lambda>r. cai_token_hash r = hashInviteToken L (reg_invite_token_value reg)) (client_app_invites d) = Some r \<and>
      i = (scanInviteRow (if consume_where (hashInviteToken L (reg_invite_token_value reg)) (env_now env) r
             then consume_set (env_now env) (reg_client_app_id reg) r else r))\<lparr>iv_created_by_user_id := ''''\<rparr>)"
proof -
  from assms obtain cert where c: "reg_certificate reg = Some cert" "register_body L env reg cert d = Inr (i, d')"
    by (auto simp: RegisterClientApp_body)
  from c show ?thesis
    unfolding register_body_def Let_def
    by (auto simp: tx_Inr table_defs registered_db_def registration_account_def registration_client_app_def
      registration_certificate_def find_consumed filter_empty_conv split: if_splits)
qed

section \<open>Invariant\<close>

text \<open>Unique keys of the enrollment tables, and every certificate belongs to a
  registered client app.\<close>

definition enrollment_ok :: "db \<Rightarrow> bool" where
  "enrollment_ok d = (distinct (map acc_id (accounts d)) \<and> distinct (map ca_id (client_apps d)) \<and>
     distinct (map cai_token_hash (client_app_invites d)) \<and> distinct (map ic_serial (issued_certificates d)) \<and>
     (\<forall>c \<in> set (issued_certificates d). \<forall>a. ic_client_app_id c = Some a \<longrightarrow> has_client_app d a))"

lemma enrollment_ok_empty: "enrollment_ok empty_db"
  by (simp add: enrollment_ok_def empty_db_def)

lemma enrollment_ok_frame:
  "enrollment_ok d \<Longrightarrow> accounts d' = accounts d \<Longrightarrow> client_apps d' = client_apps d \<Longrightarrow>
   client_app_invites d' = client_app_invites d \<Longrightarrow> issued_certificates d' = issued_certificates d \<Longrightarrow> enrollment_ok d'"
  by (simp add: enrollment_ok_def has_client_app_def)

lemma IssueInvite_ok:
  "enrollment_ok d \<Longrightarrow> IssueInvite L env scope lifetime d = (Inr (tok, i), d') \<Longrightarrow> enrollment_ok d'"
  by (drule IssueInvite_Inr) (auto simp: enrollment_ok_def has_client_app_def invite_row_def)

lemma IssueInviteBy_ok:
  "enrollment_ok d \<Longrightarrow> IssueInviteBy L env scope lifetime u m d = (Inr (tok, i), d') \<Longrightarrow> enrollment_ok d'"
  by (drule IssueInviteBy_Inr) (auto simp: enrollment_ok_def has_client_app_def invite_row_def)

lemma ConsumeInvite_tables:
  assumes "ConsumeInvite L env tok app d = (r, d')"
  shows "d' = d \<or> d' = d\<lparr>client_app_invites := set_where (consume_where (hashInviteToken L tok) (env_now env))
     (consume_set (env_now env) app) (client_app_invites d)\<rparr>"
proof (cases "update_client_app_invites (consume_where (hashInviteToken L tok) (env_now env))
    (consume_set (env_now env) app) d")
  case (Inl e)
  with assms show ?thesis by (auto simp: ConsumeInvite_def Let_def split: if_splits)
next
  case (Inr x)
  then obtain n d'' where x: "x = (n, d'')" "d'' = d\<lparr>client_app_invites := set_where
      (consume_where (hashInviteToken L tok) (env_now env)) (consume_set (env_now env) app) (client_app_invites d)\<rparr>"
    by (cases x) (auto simp: table_defs tx_Inr)
  from assms have "d' = d \<or> d' = d''"
    unfolding ConsumeInvite_def Let_def Inr x(1) by (auto split: if_splits sum.splits)
  with x(2) show ?thesis by simp
qed

lemma ConsumeInvite_ok:
  assumes "enrollment_ok d" "ConsumeInvite L env tok app d = (r, d')"
  shows "enrollment_ok d'"
  using ConsumeInvite_tables [OF assms(2)] assms(1)
  by (auto simp: enrollment_ok_def has_client_app_def)

lemma RegisterClientApp_ok:
  assumes "enrollment_ok d" "RegisterClientApp L env reg d = (Inr i, d')"
  shows "enrollment_ok d'"
proof -
  from RegisterClientApp_Inr [OF assms(2)] obtain cert pem where
    d': "d' = registered_db L reg cert pem (env_now env) d" and
    fresh: "\<forall>a \<in> set (accounts d). acc_id a \<noteq> reg_user_id reg" "\<forall>c \<in> set (client_apps d). ca_id c \<noteq> reg_client_app_id reg"
      "\<forall>c \<in> set (issued_certificates d). ic_serial c \<noteq> hex_nat (xc_serial cert)"
    by blast
  have "has_client_app d' x" if "has_client_app d x" for x
    using that by (auto simp: d' registered_db_def has_client_app_def)
  with assms(1) fresh show ?thesis
    by (auto simp: enrollment_ok_def d' registered_db_def registration_account_def registration_client_app_def
      registration_certificate_def has_client_app_def)
qed

section \<open>Properties\<close>

text \<open>A successful enrollment: the token named an invite that was neither used nor
  expired; afterwards the certificate's serial resolves to the new account and client app,
  the client app resolves to the certificate with its key (given that PEM and DER decode
  what they encode), the invite records the app that used it, and no other invite
  or certificate lookup has changed.\<close>

theorem RegisterClientApp_enrolls:
  assumes "enrollment_ok d" "RegisterClientApp L env reg d = (Inr i, d')" "reg_certificate reg = Some cert"
    "\<forall>raw pem. lib_pem_encode L raw = Some pem \<longrightarrow> lib_pem_decode L pem = Some raw"
    "lib_parse_certificate L (xc_raw cert) = Some cert"
    "env_open env'" "\<forall>l. \<not> env_fault env' l"
  shows "(\<exists>r \<in> set (client_app_invites d). cai_token_hash r = hashInviteToken L (reg_invite_token_value reg) \<and>
      cai_used_time r = None \<and> env_now env < cai_expiration_time r) \<and>
    iv_used_time i = Some (env_now env) \<and> iv_used_by_client_app_id i = reg_client_app_id reg \<and>
    (\<exists>i'. LookupInvite L env' (reg_invite_token_value reg) d' = (Some i', Some ErrInviteAlreadyUsed)) \<and>
    (\<forall>tok. hashInviteToken L tok \<noteq> hashInviteToken L (reg_invite_token_value reg) \<longrightarrow>
       LookupInvite L env' tok d' = LookupInvite L env' tok d) \<and>
    IdentityBySerial env' (hex_nat (xc_serial cert)) d' =
      Inr \<lparr>ci_user_id = reg_user_id reg, ci_client_app_id = reg_client_app_id reg, ci_serial = hex_nat (xc_serial cert),
           ci_subject_cn = xc_subject_cn cert, ci_not_after = xc_not_after cert\<rparr> \<and>
    (\<forall>s. s \<noteq> hex_nat (xc_serial cert) \<longrightarrow> IdentityBySerial env' s d' = IdentityBySerial env' s d) \<and>
    (\<exists>ec. EnrolledCertByClientAppID L env' (reg_client_app_id reg) d' = Inr ec \<and> ec_certificate ec = cert \<and>
       ci_user_id (ec_identity ec) = reg_user_id reg) \<and>
    (\<exists>app. ClientAppByID env' (reg_client_app_id reg) d' = Inr app \<and> ca_user_id app = reg_user_id reg)"
proof -
  let ?h = "hashInviteToken L (reg_invite_token_value reg)" and ?now = "env_now env"
  from RegisterClientApp_Inr [OF assms(2)] assms(3) obtain pem r0 r where
    pem: "lib_pem_encode L (xc_raw cert) = Some pem" and
    d': "d' = registered_db L reg cert pem ?now d" and
    fapp: "\<forall>c \<in> set (client_apps d). ca_id c \<noteq> reg_client_app_id reg" and
    fser: "\<forall>c \<in> set (issued_certificates d). ic_serial c \<noteq> hex_nat (xc_serial cert)" and
    r0: "consume_where ?h ?now r0" "r0 \<in> set (client_app_invites d)" and
    r: "find (\<lambda>r. cai_token_hash r = ?h) (client_app_invites d) = Some r" and
    i: "i = (scanInviteRow (if consume_where ?h ?now r then consume_set ?now (reg_client_app_id reg) r else r))
      \<lparr>iv_created_by_user_id := ''''\<rparr>"
    by auto
  have ne: "hex_nat (xc_serial cert) \<noteq> []" "reg_client_app_id reg \<noteq> []"
    using assms(2) by (auto simp: RegisterClientApp_body hex_nat.simps [of "xc_serial cert"])
  have rr: "r = r0"
    using find_key_iff [of cai_token_hash "client_app_invites d" ?h r0] assms(1) r r0
    by (auto simp: enrollment_ok_def consume_where_def)
  have c0: "filter (\<lambda>c. ic_client_app_id c = Some (reg_client_app_id reg) \<and> ic_revoked_at c = None \<and> ic_user_id c \<noteq> None)
      (issued_certificates d) = []"
    using assms(1) fapp by (fastforce simp: enrollment_ok_def has_client_app_def filter_empty_conv)
  have invite: "\<exists>r \<in> set (client_app_invites d). cai_token_hash r = ?h \<and> cai_used_time r = None \<and> ?now < cai_expiration_time r"
    using r0 by (auto simp: consume_where_def)
  have used: "iv_used_time i = Some ?now" "iv_used_by_client_app_id i = reg_client_app_id reg"
    using i rr r0(1) by (simp_all add: scanInviteRow_def null_str_def)
  have look: "\<exists>i'. LookupInvite L env' (reg_invite_token_value reg) d' = (Some i', Some ErrInviteAlreadyUsed)"
    using r rr r0(1) assms(6,7)
    by (simp add: LookupInvite_def lookupInviteByHash_def d' registered_db_def find_consumed scanInviteRow_def)
  have other: "LookupInvite L env' tok d' = LookupInvite L env' tok d" if n: "hashInviteToken L tok \<noteq> ?h" for tok
  proof -
    have "find (\<lambda>r. cai_token_hash r = hashInviteToken L tok) (client_app_invites d') =
      find (\<lambda>r. cai_token_hash r = hashInviteToken L tok) (client_app_invites d)"
      using n by (cases "find (\<lambda>r. cai_token_hash r = hashInviteToken L tok) (client_app_invites d)")
        (auto simp: d' registered_db_def find_consumed consume_where_def dest: find_SomeD)
    then show ?thesis by (simp add: LookupInvite_def lookupInviteByHash_def)
  qed
  note cert_simps = d' registered_db_def registration_certificate_def identity_of_row_def null_str_def
  have ident: "IdentityBySerial env' (hex_nat (xc_serial cert)) d' =
      Inr \<lparr>ci_user_id = reg_user_id reg, ci_client_app_id = reg_client_app_id reg, ci_serial = hex_nat (xc_serial cert),
           ci_subject_cn = xc_subject_cn cert, ci_not_after = xc_not_after cert\<rparr>"
  proof -
    have "find (\<lambda>c. ic_serial c = hex_nat (xc_serial cert) \<and> ic_revoked_at c = None \<and> ic_user_id c \<noteq> None \<and>
        ic_client_app_id c \<noteq> None) (issued_certificates d) = None"
      using fser by (auto simp: find_None_iff')
    with ne assms(6,7) show ?thesis by (simp add: IdentityBySerial_def find_append cert_simps)
  qed
  have ident': "IdentityBySerial env' s d' = IdentityBySerial env' s d" if "s \<noteq> hex_nat (xc_serial cert)" for s
    using that by (simp add: IdentityBySerial_def find_append cert_simps split: option.splits)
  have enr: "\<exists>ec. EnrolledCertByClientAppID L env' (reg_client_app_id reg) d' = Inr ec \<and> ec_certificate ec = cert \<and>
       ci_user_id (ec_identity ec) = reg_user_id reg"
    using ne c0 pem assms(4-7) by (simp add: EnrolledCertByClientAppID_def cert_simps)
  have app: "\<exists>app. ClientAppByID env' (reg_client_app_id reg) d' = Inr app \<and> ca_user_id app = reg_user_id reg"
  proof -
    have "find (\<lambda>c. ca_id c = reg_client_app_id reg) (client_apps d) = None" using fapp by (auto simp: find_None_iff')
    with assms(6,7) show ?thesis
      by (simp add: ClientAppByID_def find_append d' registered_db_def registration_client_app_def)
  qed
  show ?thesis using invite used look other ident ident' enr app by blast
qed

text \<open>An enrollment whose invite cannot be redeemed changes nothing and reports why: an
  unknown token, a used invite and an expired one each surface as their sentinel inside
  \<open>ErrEnrollmentRolledBack\<close>, so that \<open>errors.Is\<close> finds both.\<close>

theorem RegisterClientApp_refuses:
  assumes "env_open env" "\<forall>l. \<not> env_fault env l" "reg_certificate reg = Some cert" "enrollment_ok d"
    "reg_user_id reg \<noteq> []" "reg_client_app_id reg \<noteq> []" "reg_open_caravan_id reg \<noteq> []" "reg_invite_token_value reg \<noteq> []"
    "\<forall>a \<in> set (accounts d). acc_id a \<noteq> reg_user_id reg \<and> acc_open_caravan_id a \<noteq> reg_open_caravan_id reg"
    "\<forall>c \<in> set (client_apps d). ca_id c \<noteq> reg_client_app_id reg"
    "snd (LookupInvite L env (reg_invite_token_value reg) d) = Some e"
  shows "RegisterClientApp L env reg d = (Inl (ErrEnrollmentRolledBack e), d) \<and>
    e \<in> {ErrInviteNotFound, ErrInviteAlreadyUsed, ErrInviteExpired} \<and>
    errors_is (ErrEnrollmentRolledBack e) e"
proof -
  let ?h = "hashInviteToken L (reg_invite_token_value reg)" and ?now = "env_now env"
  let ?d1 = "d\<lparr>accounts := accounts d @ [registration_account reg ?now],
    client_apps := client_apps d @ [registration_client_app reg ?now]\<rparr>"
  have none: "\<not> consume_where ?h ?now r" if r: "r \<in> set (client_app_invites d)" for r
  proof
    assume c: "consume_where ?h ?now r"
    with r assms(4) have "find (\<lambda>r. cai_token_hash r = ?h) (client_app_invites d) = Some r"
      by (simp add: find_key_iff enrollment_ok_def consume_where_def)
    with c assms(1,2,11) show False
      by (simp add: LookupInvite_def lookupInviteByHash_def consume_where_def scanInviteRow_def)
  qed
  have upd: "update_client_app_invites (consume_where ?h ?now) (consume_set ?now (reg_client_app_id reg)) ?d1 = Inr (0, ?d1)"
  proof -
    have "set_where (consume_where ?h ?now) (consume_set ?now (reg_client_app_id reg)) (client_app_invites d) =
      client_app_invites d"
      by (rule set_where_id) (rule none)
    then show ?thesis by (auto simp: table_defs tx_Inr none filter_empty_conv)
  qed
  have acc: "insert_account (registration_account reg ?now) d = Inr ((), d\<lparr>accounts := accounts d @ [registration_account reg ?now]\<rparr>)"
    using assms(9) by (auto simp: table_defs tx_Inr registration_account_def)
  have app: "insert_client_app (registration_client_app reg ?now) (d\<lparr>accounts := accounts d @ [registration_account reg ?now]\<rparr>) =
      Inr ((), ?d1)"
    using assms(10) by (auto simp: table_defs tx_Inr registration_client_app_def registration_account_def has_account_def)
  have "register_body L env reg cert d = Inl e \<and> e \<in> {ErrInviteNotFound, ErrInviteAlreadyUsed, ErrInviteExpired}"
    using assms(1,2,11)
    by (auto simp: register_body_def Let_def tx_bind_def tx_exec_def tx_query_def acc app upd lookupInviteByHashTx_def
      tx_opt_def tx_throw_def tx_return_def LookupInvite_def lookupInviteByHash_def scanInviteRow_def
      split: option.splits if_splits)
  moreover have "errors_is e e" if "e \<in> {ErrInviteNotFound, ErrInviteAlreadyUsed, ErrInviteExpired}"
    using that by auto
  ultimately show ?thesis
    using assms(1-3,5-8)
    by (auto simp: RegisterClientApp_def op_require_simps run_tx_def tx_wrap_def)
qed

text \<open>Minting by a user: the mint succeeds only below the cap, afterwards the user's
  outstanding invites of that scope are one more and within the cap, nobody else's count
  and no other token's lookup has changed, and the token is redeemable exactly until its
  lifetime has passed.\<close>

theorem IssueInviteBy_cap:
  assumes "enrollment_ok d" "IssueInviteBy L env scope lifetime u m d = (Inr (tok, i), d')"
    "env_open env'" "\<forall>l. \<not> env_fault env' l"
  shows "outstanding d' u scope (env_now env) = Suc (outstanding d u scope (env_now env)) \<and>
    int (outstanding d' u scope (env_now env)) \<le> m \<and>
    (\<forall>u' scope' t. (u', scope') \<noteq> (u, scope) \<longrightarrow> outstanding d' u' scope' t = outstanding d u' scope' t) \<and>
    LookupInvite L env' tok d' = (Some i, if env_now env' < env_now env + lifetime then None else Some ErrInviteExpired) \<and>
    (\<forall>t'. hashInviteToken L t' \<noteq> hashInviteToken L tok \<longrightarrow> LookupInvite L env' t' d' = LookupInvite L env' t' d) \<and>
    iv_created_by_user_id i = u"
proof -
  let ?row = "invite_row L tok scope (env_now env) lifetime (Some u)"
  from IssueInviteBy_Inr [OF assms(2)] have
    i: "0 < lifetime" "i = scanInviteRow ?row" "int (outstanding d u scope (env_now env)) < m"
    and fresh: "\<forall>r \<in> set (client_app_invites d). cai_token_hash r \<noteq> hashInviteToken L tok"
    and d': "d' = d\<lparr>client_app_invites := client_app_invites d @ [?row]\<rparr>"
    by blast+
  have f: "find (\<lambda>r. cai_token_hash r = hashInviteToken L t) (client_app_invites d') =
      (if hashInviteToken L t = hashInviteToken L tok then Some ?row
       else find (\<lambda>r. cai_token_hash r = hashInviteToken L t) (client_app_invites d))" for t
    using fresh
    by (cases "find (\<lambda>r. cai_token_hash r = hashInviteToken L t) (client_app_invites d)")
      (auto simp: d' find_append invite_row_def dest: find_SomeD)
  have "outstanding d' u scope (env_now env) = Suc (outstanding d u scope (env_now env))"
    using i(1) by (simp add: outstanding_def d' invite_row_def)
  moreover have "outstanding d' u' scope' t = outstanding d u' scope' t" if "(u', scope') \<noteq> (u, scope)" for u' scope' t
    using that by (auto simp: outstanding_def d' invite_row_def)
  ultimately show ?thesis
    using i assms(3,4)
    by (auto simp: LookupInvite_def lookupInviteByHash_def f i(2) scanInviteRow_def invite_row_def null_str_def)
qed

text \<open>Consuming an invite decides as looking it up does, consumes at most that invite,
  and a token is consumed at most once: after a successful consume every later attempt,
  at any time and by any app, is refused as already used and changes nothing.\<close>

theorem ConsumeInvite_once:
  assumes "enrollment_ok d" "env_open env" "\<forall>l. \<not> env_fault env l" "app \<noteq> []"
    "\<forall>r \<in> set (client_app_invites d). cai_scope r \<in> {''journey'', ''server_registration''} \<and>
       null_or (has_account d) (cai_created_by_user_id r)"
    "ConsumeInvite L env tok app d = ((i, e), d')"
    "env_open env'" "\<forall>l. \<not> env_fault env' l" "app' \<noteq> []"
  shows "e = snd (LookupInvite L env tok d) \<and> (e \<noteq> None \<longrightarrow> d' = d) \<and>
    (e = None \<longrightarrow> (\<exists>v. i = Some v \<and> iv_used_time v = Some (env_now env) \<and> iv_used_by_client_app_id v = app) \<and>
       ConsumeInvite L env' tok app' d' = ((i, Some ErrInviteAlreadyUsed), d'))"
proof -
  let ?h = "hashInviteToken L tok" and ?now = "env_now env"
  let ?d' = "d\<lparr>client_app_invites := set_where (consume_where ?h ?now) (consume_set ?now app) (client_app_invites d)\<rparr>"
  have upd: "update_client_app_invites (consume_where h t) (consume_set t a) x =
      Inr (length (filter (consume_where h t) (client_app_invites x)),
        x\<lparr>client_app_invites := set_where (consume_where h t) (consume_set t a) (client_app_invites x)\<rparr>)"
    if "\<forall>r \<in> set (client_app_invites x). cai_scope r \<in> {''journey'', ''server_registration''} \<and>
       null_or (has_account x) (cai_created_by_user_id r)" for h t a x
    using that by (auto simp: table_defs tx_Inr)
  have ok': "\<forall>r \<in> set (client_app_invites ?d'). cai_scope r \<in> {''journey'', ''server_registration''} \<and>
       null_or (has_account ?d') (cai_created_by_user_id r)"
    using assms(5) by (auto simp: set_set_where has_account_def cong: option.case_cong)
  show ?thesis
  proof (cases "\<exists>r \<in> set (client_app_invites d). consume_where ?h ?now r")
    case False
    then have id: "?d' = d"
      by (simp add: set_where_id)
    from False have len: "filter (consume_where ?h ?now) (client_app_invites d) = []" by (auto simp: filter_empty_conv)
    have "case find (\<lambda>r. cai_token_hash r = ?h) (client_app_invites d) of None \<Rightarrow> True
        | Some r \<Rightarrow> cai_used_time r \<noteq> None \<or> cai_expiration_time r \<le> ?now"
      using False by (auto simp: consume_where_def not_less split: option.splits dest!: find_SomeD)
    with assms(2-4,6) upd [OF assms(5), of ?h ?now app] len id show ?thesis
      by (auto simp: ConsumeInvite_def LookupInvite_def lookupInviteByHash_def scanInviteRow_def Let_def
        split: option.splits if_splits)
  next
    case True
    then obtain r where r: "r \<in> set (client_app_invites d)" "consume_where ?h ?now r" by blast
    then have f: "find (\<lambda>r. cai_token_hash r = ?h) (client_app_invites d) = Some r"
      using assms(1) by (simp add: find_key_iff enrollment_ok_def consume_where_def)
    have f': "find (\<lambda>r. cai_token_hash r = ?h) (client_app_invites ?d') = Some (consume_set ?now app r)"
      using f r by (simp add: find_consumed)
    have len: "length (filter (consume_where ?h ?now) (client_app_invites d)) \<noteq> 0"
      using r by (auto simp: filter_empty_conv)
    have d': "d' = ?d'" "e = None" "i = Some (scanInviteRow (consume_set ?now app r))"
      using assms(2-4,6) upd [OF assms(5), of ?h ?now app] len f'
      by (auto simp: ConsumeInvite_def lookupInviteByHash_def Let_def split: if_splits)
    have uniq: "x = r" if "x \<in> set (client_app_invites d)" "cai_token_hash x = ?h" for x
      using find_key_iff [of cai_token_hash "client_app_invites d" ?h x] f that assms(1) by (auto simp: enrollment_ok_def)
    have "\<not> consume_where ?h t x" if "x \<in> set (client_app_invites d')" for x t
      using that uniq r by (auto simp: d'(1) set_set_where consume_where_def)
    then have none: "filter (consume_where ?h t) (client_app_invites d') = []" "set_where (consume_where ?h t) g (client_app_invites d') = client_app_invites d'" for t g
      by (auto simp: filter_empty_conv intro!: set_where_id)
    have "update_client_app_invites (consume_where ?h t) (consume_set t a) d' = Inr (0, d')" for t a
      using upd [OF ok'] none by (simp add: d'(1) [symmetric])
    moreover have "find (\<lambda>r. cai_token_hash r = ?h) (client_app_invites d') = Some (consume_set ?now app r)"
      using f' by (simp add: d'(1) [symmetric])
    ultimately have "ConsumeInvite L env' tok app' d' = ((i, Some ErrInviteAlreadyUsed), d')"
      using assms(7-9) by (simp add: ConsumeInvite_def lookupInviteByHash_def Let_def d'(3) scanInviteRow_def)
    with d' f r assms(2,3) show ?thesis
      by (simp add: LookupInvite_def lookupInviteByHash_def scanInviteRow_def null_str_def consume_where_def)
  qed
qed

text \<open>The founding admin is the enabled account that enrolled first, ties broken by
  id; nobody is admin of a server without enabled accounts, and an enrollment made after
  the founder's cannot change who it is.\<close>

theorem founding_admin_stable:
  assumes "env_open env'" "\<forall>l. \<not> env_fault env' l"
  shows "IsFoundingAdmin env' u d = Inr (u \<noteq> [] \<and> (\<exists>a \<in> set (accounts d). acc_id a = u \<and> acc_disabled_at a = None \<and>
      (\<forall>b \<in> set (accounts d). acc_disabled_at b = None \<longrightarrow> (acc_created_at a, acc_id a) \<le> (acc_created_at b, acc_id b)))) \<and>
    (IsFoundingAdmin env' u d = Inr True \<and> RegisterClientApp L env reg d = (Inr i, d') \<and>
     (\<forall>a \<in> set (accounts d). acc_created_at a < env_now env) \<longrightarrow> IsFoundingAdmin env' u d' = Inr True)"
proof -
  let ?min = "\<lambda>d a. a \<in> set (accounts d) \<and> acc_disabled_at a = None \<and> (\<forall>b \<in> set (accounts d).
    acc_disabled_at b = None \<longrightarrow> (acc_created_at a, acc_id a) \<le> (acc_created_at b, acc_id b))"
  have main: "IsFoundingAdmin env' u d = Inr (u \<noteq> [] \<and> (\<exists>a. acc_id a = u \<and> ?min d a))" for d
  proof (cases "first_min (\<lambda>a. (acc_created_at a, acc_id a)) (filter (\<lambda>a. acc_disabled_at a = None) (accounts d))")
    case None
    then have "\<forall>a \<in> set (accounts d). acc_disabled_at a \<noteq> None" by (auto simp: filter_empty_conv)
    with None assms show ?thesis by (auto simp: IsFoundingAdmin_def FoundingAdminUserID_def first_min_def)
  next
    case (Some m)
    from first_min_SomeD [OF Some] have m: "?min d m" by auto
    have "(\<exists>a. acc_id a = u \<and> ?min d a) \<longleftrightarrow> acc_id m = u"
    proof
      assume "\<exists>a. acc_id a = u \<and> ?min d a"
      then obtain a where a: "acc_id a = u" "?min d a" by blast
      with m have "(acc_created_at a, acc_id a) = (acc_created_at m, acc_id m)"
        by (meson order_antisym)
      with a show "acc_id m = u" by simp
    qed (use m in blast)
    with Some assms show ?thesis by (auto simp: IsFoundingAdmin_def FoundingAdminUserID_def)
  qed
  have "IsFoundingAdmin env' u d' = Inr True"
    if h: "IsFoundingAdmin env' u d = Inr True" "RegisterClientApp L env reg d = (Inr i, d')"
      "\<forall>a \<in> set (accounts d). acc_created_at a < env_now env"
  proof -
    from h(1) obtain a where a: "u \<noteq> []" "acc_id a = u" "?min d a" by (auto simp: main)
    from RegisterClientApp_Inr [OF h(2)] have acc: "accounts d' = accounts d @ [registration_account reg (env_now env)]"
      by (auto simp: registered_db_def)
    have "acc_created_at a < env_now env" using a h(3) by blast
    then have "?min d' a"
      using a(3) by (auto simp: acc registration_account_def)
    with a show ?thesis by (auto simp: main)
  qed
  with main [of d] show ?thesis by auto
qed

section \<open>Sample enrollment\<close>

definition demo_cert :: x509_cert where
  "demo_cert = \<lparr>xc_serial = 1, xc_subject_cn = ''cert'', xc_not_before = 0, xc_not_after = 100,
     xc_raw = ''cert'', xc_public_key = ''cert'', xc_ecdsa = True\<rparr>"

definition demo_reg :: client_app_registration where
  "demo_reg = \<lparr>reg_user_id = ''carol'', reg_user_display_name = ''Carol'', reg_open_caravan_id = ''oc'',
     reg_client_app_id = ''app'', reg_client_app_display_name = ''phone'', reg_invite_token_value = ''tok'',
     reg_certificate = Some demo_cert\<rparr>"

definition demo_enroll_db :: db where
  "demo_enroll_db = snd (IssueInviteBy demo_lib (now_env 5) ''server_registration'' 100 ''alice'' 2 demo_db)"

lemma demo_issue_run: "IssueInviteBy demo_lib (now_env 5) ''server_registration'' 100 ''alice'' 2 demo_db =
  (Inr (''tok'', scanInviteRow (invite_row demo_lib ''tok'' ''server_registration'' 5 100 (Some ''alice''))), demo_enroll_db)"
  by code_simp

lemma demo_db_enrollment_ok: "enrollment_ok demo_db"
  by (simp add: enrollment_ok_def demo_db_def empty_db_def demo_account_def)

lemma demo_enrollment_ok: "enrollment_ok demo_enroll_db"
  by (rule IssueInviteBy_ok [OF demo_db_enrollment_ok demo_issue_run])

lemma demo_register_run: "RegisterClientApp demo_lib (now_env 9) demo_reg demo_enroll_db =
  (Inr ((scanInviteRow (consume_set 9 ''app''
     (invite_row demo_lib ''tok'' ''server_registration'' 5 100 (Some ''alice''))))\<lparr>iv_created_by_user_id := ''''\<rparr>),
   snd (RegisterClientApp demo_lib (now_env 9) demo_reg demo_enroll_db))"
  by code_simp

end
