(* ===== verification/Startup.thy ===== *)
theory Startup
  imports Macaroons Invites
begin

text \<open>
  What the server does with the store before it serves requests (cmd/spivot-server):
  print a bootstrap invite on the first run, load or mint the macaroon root, and wire
  the verifier's key lookup to the store.
\<close>

definition bootstrapInviteLifetime :: int where
  "bootstrapInviteLifetime = 24 * 3600 * 1000000000"

text \<open>The result is the token printed on the banner, if one was issued.\<close>

definition emitBootstrapInviteIfNeeded :: "lib \<Rightarrow> env \<Rightarrow> (db, string option) op" where
  "emitBootstrapInviteIfNeeded L env d =
     (case AccountCount env d of Inl e \<Rightarrow> (Inl e, d)
      | Inr accountCount \<Rightarrow>
          if 0 < accountCount then (Inr None, d)
          else case UnconsumedInviteCount env ''server_registration'' d of Inl e \<Rightarrow> (Inl e, d)
            | Inr pending \<Rightarrow>
                if 0 < pending then (Inr None, d)
                else case IssueInvite L env ''server_registration'' bootstrapInviteLifetime d of
                    (Inl e, d') \<Rightarrow> (Inl e, d')
                  | (Inr (tok, invite), d') \<Rightarrow> (Inr (Some tok), d'))"

definition loadOrMintMacaroonIssuer :: "env \<Rightarrow> string option \<Rightarrow> string option \<Rightarrow> (db, issuer) op" where
  "loadOrMintMacaroonIssuer env id_bytes key_bytes d =
     (let new = (\<lambda>root. case NewIssuer (mr_id root) (mr_key root) of Inl _ \<Rightarrow> Inl (ErrInvalid ''macaroon issuer'') | Inr i \<Rightarrow> Inr i)
      in case ActiveMacaroonRoot env d of
        Inr root \<Rightarrow> (new root, d)
      | Inl e \<Rightarrow>
          if errors_is e ErrNoActiveMacaroonRoot
          then (case IssueMacaroonRoot env id_bytes key_bytes d of
              (Inl e, d') \<Rightarrow> (Inl e, d') | (Inr root, d') \<Rightarrow> (new root, d'))
          else (Inl e, d))"

definition store_resolver :: "env \<Rightarrow> db \<Rightarrow> resolver" where
  "store_resolver env d i =
     (case MacaroonRootByID env i d of
        Inl e \<Rightarrow> if errors_is e ErrMacaroonRootNotFound then Inl ErrUnknownRoot else Inl (ResolveTransport ''store'')
      | Inr root \<Rightarrow> Inr (mr_key root))"

text \<open>C21. After start-up an operator can always get in: a successful bootstrap leaves a server that
  has an account or a live registration invite; it prints a token exactly when it had
  neither, the token is then redeemable for its whole lifetime, and running it again prints
  nothing and changes nothing.\<close>

theorem bootstrap_invite:
  assumes "lib_scope_valid L ''server_registration''" "env_open env" "\<forall>l. \<not> env_fault env l" "env_token env = Some tok"
    "\<forall>r \<in> set (client_app_invites d). cai_token_hash r \<noteq> hashInviteToken L tok"
    "emitBootstrapInviteIfNeeded L env d = (r, d')"
  shows "(if accounts d = [] \<and> (\<forall>x \<in> set (client_app_invites d). cai_scope x = ''server_registration'' \<longrightarrow>
          cai_used_time x \<noteq> None \<or> cai_expiration_time x \<le> env_now env)
      then r = Inr (Some tok) \<and> (\<forall>env'. env_open env' \<and> (\<forall>l. \<not> env_fault env' l) \<and>
          env_now env' < env_now env + bootstrapInviteLifetime \<longrightarrow> snd (LookupInvite L env' tok d') = None)
      else r = Inr None \<and> d' = d) \<and>
    emitBootstrapInviteIfNeeded L env d' = (Inr None, d')"
proof -
  let ?row = "invite_row L tok ''server_registration'' (env_now env) bootstrapInviteLifetime None"
  let ?live = "\<lambda>x. cai_scope x = ''server_registration'' \<and> cai_used_time x = None \<and> env_now env < cai_expiration_time x"
  have acc: "AccountCount env d = Inr (length (accounts d))"
    "UnconsumedInviteCount env ''server_registration'' d = Inr (length (filter ?live (client_app_invites d)))" for d
    using assms(2,3) by (simp_all add: AccountCount_def count_table_def UnconsumedInviteCount_def)
  have pos: "0 < bootstrapInviteLifetime" by (simp add: bootstrapInviteLifetime_def)
  show ?thesis
  proof (cases "accounts d = [] \<and> filter ?live (client_app_invites d) = []")
    case True
    have iss: "IssueInvite L env ''server_registration'' bootstrapInviteLifetime d =
      (Inr (tok, scanInviteRow ?row), d\<lparr>client_app_invites := client_app_invites d @ [?row]\<rparr>)"
      using assms(1-5) pos
      by (auto simp: IssueInvite_def Let_def op_require_simps auto_tx_def tx_bind_def tx_exec_def tx_return_def
        insert_client_app_invite_def sql_insert_def invite_row_def list_ex_iff)
    with assms(6) True have r: "r = Inr (Some tok)" "d' = d\<lparr>client_app_invites := client_app_invites d @ [?row]\<rparr>"
      by (auto simp: emitBootstrapInviteIfNeeded_def acc)
    have "snd (LookupInvite L env' tok d') = None"
      if "env_open env'" "\<forall>l. \<not> env_fault env' l" "env_now env' < env_now env + bootstrapInviteLifetime" for env'
    proof -
      have "find (\<lambda>r. cai_token_hash r = hashInviteToken L tok) (client_app_invites d) = None"
        using assms(5) by (auto simp: find_None_iff')
      with that show ?thesis
        by (simp add: LookupInvite_def lookupInviteByHash_def r(2) find_append invite_row_def scanInviteRow_def)
    qed
    moreover have "?live ?row" using pos by (simp add: invite_row_def)
    then have "emitBootstrapInviteIfNeeded L env d' = (Inr None, d')"
      using True by (simp add: emitBootstrapInviteIfNeeded_def acc r(2))
    moreover have "\<forall>x \<in> set (client_app_invites d). cai_scope x = ''server_registration'' \<longrightarrow>
          cai_used_time x \<noteq> None \<or> cai_expiration_time x \<le> env_now env"
      using True by (auto simp: filter_empty_conv)
    ultimately show ?thesis using True r(1) by auto
  next
    case False
    then have "emitBootstrapInviteIfNeeded L env d = (Inr None, d)"
      by (auto simp: emitBootstrapInviteIfNeeded_def acc)
    with False assms(6) show ?thesis by (fastforce simp: filter_empty_conv)
  qed
qed

theorem bootstrap_invite_witness:
  "snd (LookupInvite demo_lib (now_env 100) ''tok'' (snd (emitBootstrapInviteIfNeeded demo_lib (now_env 5) empty_db))) = None"
proof -
  have h: "lib_scope_valid demo_lib ''server_registration''" "env_open (now_env 5)" "\<forall>l. \<not> env_fault (now_env 5) l"
    "env_token (now_env 5) = Some ''tok''"
    "\<forall>r \<in> set (client_app_invites empty_db). cai_token_hash r \<noteq> hashInviteToken demo_lib ''tok''"
    by (simp_all add: demo_lib_def empty_db_def)
  have e: "accounts empty_db = []" "client_app_invites empty_db = []" by (simp_all add: empty_db_def)
  show ?thesis
    using bootstrap_invite [OF h surjective_pairing] e by (auto simp: bootstrapInviteLifetime_def)
qed

text \<open>The issuer that start-up returns signs with a root the store resolves.\<close>

lemma loadOrMint_resolves:
  assumes "loadOrMintMacaroonIssuer env ib kb d = (Inr i, d')" "distinct (map mr_id (macaroon_roots d))"
    "env_open env'" "\<forall>l. \<not> env_fault env' l"
  shows "store_resolver env' d' (is_root_id i) = Inr (is_root_key i) \<and> NewIssuer (is_root_id i) (is_root_key i) = Inr i \<and>
    (d' = d \<or> (\<exists>row. IssueMacaroonRoot env ib kb d = (Inr row, d')))"
proof -
  have fin: "store_resolver env' x (is_root_id i) = Inr (is_root_key i) \<and> NewIssuer (is_root_id i) (is_root_key i) = Inr i"
    if r: "r \<in> set (macaroon_roots x)" "distinct (map mr_id (macaroon_roots x))" "NewIssuer (mr_id r) (mr_key r) = Inr i" for r x
  proof -
    from r(3) have i: "is_root_id i = mr_id r" "is_root_key i = mr_key r" "mr_id r \<noteq> []"
      by (auto simp: NewIssuer_def split: if_splits)
    with r assms(3,4) find_key_iff [OF r(2), of "mr_id r" r] show ?thesis
      by (simp add: store_resolver_def MacaroonRootByID_def)
  qed
  show ?thesis
  proof (cases "ActiveMacaroonRoot env d")
    case (Inr root)
    then have "root \<in> set (macaroon_roots d)"
      by (auto simp: ActiveMacaroonRoot_def split: if_splits option.splits dest!: first_max_SomeD)
    moreover from assms(1) Inr have "d' = d" "NewIssuer (mr_id root) (mr_key root) = Inr i"
      by (auto simp: loadOrMintMacaroonIssuer_def Let_def split: sum.splits)
    ultimately show ?thesis using fin assms(2) by blast
  next
    case (Inl e)
    with assms(1) obtain root where r: "IssueMacaroonRoot env ib kb d = (Inr root, d')" "NewIssuer (mr_id root) (mr_key root) = Inr i"
      by (auto simp: loadOrMintMacaroonIssuer_def Let_def split: if_splits sum.splits prod.splits)
    from IssueMacaroonRoot_Inr [OF r(1)] have "macaroon_roots d' = macaroon_roots d @ [root]" "\<forall>x \<in> set (macaroon_roots d). mr_id root \<noteq> mr_id x"
      by (auto simp: macaroon_root_row_def)
    then have "root \<in> set (macaroon_roots d')" "distinct (map mr_id (macaroon_roots d'))"
      using assms(2) by auto
    with r fin show ?thesis by blast
  qed
qed

end
