(* ===== verification/Proxy.thy ===== *)
theory Proxy
  imports GoLib
begin

text \<open>
  What the server believes about the peer of a request (platform/proxy): the client
  address, scheme and host, and the client certificate, taken from the TLS connection
  or, when the peer is a trusted proxy, from forwarded headers. The address and URL
  parsers of the standard library are arguments (\<open>net_lib\<close>).
\<close>

section \<open>Requests and configuration\<close>

text \<open>The part of \<open>http.Request\<close> that is read: the TLS peer certificates (\<open>None\<close> for a
  plain connection), and the first value of each header.\<close>

record http_request =
  hr_remote_addr :: string
  hr_host :: string
  hr_tls :: "x509_cert list option"
  hr_header :: "string \<Rightarrow> string"
  hr_path_value :: "string \<Rightarrow> string"

record ('ip, 'net) net_lib =
  nl_split_host_port :: "string \<Rightarrow> string option"
  nl_parse_ip :: "string \<Rightarrow> 'ip option"
  nl_ip_string :: "'ip \<Rightarrow> string"
  nl_contains :: "'net \<Rightarrow> 'ip \<Rightarrow> bool"
  nl_parse_cidr :: "string \<Rightarrow> 'net option"
  nl_query_unescape :: "string \<Rightarrow> string option"
  nl_pem_block :: "string \<Rightarrow> (string \<times> string) option"
  nl_parse_rfc3339 :: "string \<Rightarrow> int option"

record 'net proxy_config =
  pc_trust_forwarded_headers :: bool
  pc_trust_client_cert_headers :: bool
  pc_trusted_networks :: "'net list"

record client_cert =
  cc_subject_cn :: string
  cc_serial :: string
  cc_not_after :: int
  cc_fingerprint :: string

record request_info =
  ri_client_ip :: string
  ri_scheme :: string
  ri_host :: string
  ri_trusted_proxy :: bool
  ri_client_cert :: "client_cert option"

fun ParseCIDRs :: "('ip, 'net) net_lib \<Rightarrow> string list \<Rightarrow> 'net list option" where
  "ParseCIDRs N [] = Some []"
| "ParseCIDRs N (v # vs) =
     (if TrimSpace v = [] then ParseCIDRs N vs
      else case nl_parse_cidr N (TrimSpace v) of None \<Rightarrow> None | Some n \<Rightarrow> map_option ((#) n) (ParseCIDRs N vs))"

section \<open>Client certificates\<close>

definition certFingerprint :: "lib \<Rightarrow> x509_cert \<Rightarrow> string" where
  "certFingerprint L c = hex_encode (lib_sha256 L (xc_raw c))"

definition clientCertFrom :: "lib \<Rightarrow> x509_cert \<Rightarrow> client_cert" where
  "clientCertFrom L leaf = \<lparr>cc_subject_cn = xc_subject_cn leaf, cc_serial = hex_nat (xc_serial leaf),
     cc_not_after = xc_not_after leaf, cc_fingerprint = certFingerprint L leaf\<rparr>"

definition clientCertFromTLS :: "lib \<Rightarrow> http_request \<Rightarrow> client_cert option" where
  "clientCertFromTLS L r = (case hr_tls r of None \<Rightarrow> None | Some [] \<Rightarrow> None
     | Some (leaf # _) \<Rightarrow> Some (clientCertFrom L leaf))"

definition parseForwardedClientCertPEM :: "lib \<Rightarrow> ('ip, 'net) net_lib \<Rightarrow> string \<Rightarrow> client_cert option" where
  "parseForwardedClientCertPEM L N h =
     (case nl_query_unescape N (takeWhile (\<lambda>c. c \<noteq> CHR '','') h) of None \<Rightarrow> None
      | Some decoded \<Rightarrow> (case nl_pem_block N decoded of None \<Rightarrow> None
          | Some (ty, bytes) \<Rightarrow>
              if ty \<noteq> ''CERTIFICATE'' then None
              else map_option (clientCertFrom L) (lib_parse_certificate L bytes)))"

definition canonicalSerial :: "string \<Rightarrow> string option" where
  "canonicalSerial raw =
     (let t = TrimPrefix (TrimPrefix (TrimSpace raw) ''0x'') ''0X'';
          t = filter (\<lambda>c. c \<noteq> CHR ''-'') (filter (\<lambda>c. c \<noteq> CHR '':'') t)
      in if t = [] then None
         else case big_SetString16 t of None \<Rightarrow> None
           | Some n \<Rightarrow> if n \<le> 0 then None else Some (hex_nat (nat n)))"

fun subject_cn_of :: "string list \<Rightarrow> string" where
  "subject_cn_of [] = ''''"
| "subject_cn_of (p # ps) =
     (case Cut (TrimSpace p) (CHR ''='') of None \<Rightarrow> subject_cn_of ps
      | Some (k, v) \<Rightarrow> if EqualFold (TrimSpace k) ''CN'' then TrimSpace v else subject_cn_of ps)"

definition subjectCommonName :: "string \<Rightarrow> string" where
  "subjectCommonName rdn = subject_cn_of (Split rdn (CHR '',''))"

text \<open>The fields of the info header as an association list: \<open>out[k] = v\<close> replaces the value
  of a key that is already there.\<close>

fun put_field :: "string \<Rightarrow> string \<Rightarrow> (string \<times> string) list \<Rightarrow> (string \<times> string) list" where
  "put_field k v [] = [(k, v)]"
| "put_field k v ((k', v') # fs) = (if k' = k then (k, v) # fs else (k', v') # put_field k v fs)"

definition emit_field :: "string \<Rightarrow> (string \<times> string) list \<Rightarrow> (string \<times> string) list" where
  "emit_field raw out =
     (case Cut raw (CHR ''='') of None \<Rightarrow> out
      | Some (k, v) \<Rightarrow>
          let k = TrimSpace k; v = trim_by (\<lambda>c. c = CHR 0x22) (TrimSpace v)
          in if k = [] \<or> v = [] then out else put_field k v out)"

text \<open>The scanner: the remaining bytes, whether it is inside quotes, and the token so far.\<close>

fun scan_fields :: "string \<Rightarrow> bool \<Rightarrow> string \<Rightarrow> (string \<times> string) list \<Rightarrow> (string \<times> string) list" where
  "scan_fields [] q tok out = (if tok = [] then out else emit_field tok out)"
| "scan_fields (c # cs) q tok out =
     (if c = CHR 0x22 then scan_fields cs (\<not> q) (tok @ [c]) out
      else if c = CHR '';''
      then (if q then scan_fields cs q (tok @ [c]) out else scan_fields cs q [] (emit_field tok out))
      else scan_fields cs q (tok @ [c]) out)"

definition splitInfoFields :: "string \<Rightarrow> (string \<times> string) list" where
  "splitInfoFields h = scan_fields h False [] []"

definition info_field :: "('ip, 'net) net_lib \<Rightarrow> string \<times> string \<Rightarrow> client_cert \<Rightarrow> client_cert" where
  "info_field N f out =
     (let k = ToLower (fst f); v = snd f in
      if k = ''subject'' then out\<lparr>cc_subject_cn := subjectCommonName v\<rparr>
      else if k = ''serialnumber'' \<or> k = ''sn'' then
        (case canonicalSerial v of None \<Rightarrow> out | Some s \<Rightarrow> out\<lparr>cc_serial := s\<rparr>)
      else if k = ''notafter'' then
        (case nl_parse_rfc3339 N v of None \<Rightarrow> out | Some t \<Rightarrow> out\<lparr>cc_not_after := t\<rparr>)
      else out)"

text \<open>Go ranges over the field map in an unspecified order: \<open>ord\<close> arranges the fields.\<close>

definition parseForwardedClientCertInfo ::
  "('ip, 'net) net_lib \<Rightarrow> ((string \<times> string) list \<Rightarrow> (string \<times> string) list) \<Rightarrow> string \<Rightarrow> client_cert option" where
  "parseForwardedClientCertInfo N ord h =
     (let fields = splitInfoFields h;
          out = fold (info_field N) (ord fields)
            \<lparr>cc_subject_cn = '''', cc_serial = '''', cc_not_after = zero_time, cc_fingerprint = ''''\<rparr>
      in if fields = [] then None
         else if cc_subject_cn out = [] \<and> cc_serial out = [] \<and> cc_not_after out = zero_time then None
         else Some out)"

section \<open>The request info\<close>

definition remoteAddrIP :: "('ip, 'net) net_lib \<Rightarrow> string \<Rightarrow> string" where
  "remoteAddrIP N addr =
     (let host = (case nl_split_host_port N addr of None \<Rightarrow> addr | Some h \<Rightarrow> h)
      in case nl_parse_ip N host of None \<Rightarrow> host | Some ip \<Rightarrow> nl_ip_string N ip)"

definition requestScheme :: "http_request \<Rightarrow> string" where
  "requestScheme r = (if hr_tls r \<noteq> None then ''https'' else ''http'')"

definition isTrusted :: "('ip, 'net) net_lib \<Rightarrow> string \<Rightarrow> 'net list \<Rightarrow> bool" where
  "isTrusted N ip networks = (case nl_parse_ip N ip of None \<Rightarrow> False | Some a \<Rightarrow> list_ex (\<lambda>n. nl_contains N n a) networks)"

definition firstForwardedValue :: "string \<Rightarrow> string" where
  "firstForwardedValue v = TrimSpace (takeWhile (\<lambda>c. c \<noteq> CHR '','') v)"

definition forwarded_addresses :: "('ip, 'net) net_lib \<Rightarrow> http_request \<Rightarrow> request_info \<Rightarrow> request_info" where
  "forwarded_addresses N r info =
     (let f = firstForwardedValue (hr_header r ''X-Forwarded-For'');
          proto = firstForwardedValue (hr_header r ''X-Forwarded-Proto'');
          host = firstForwardedValue (hr_header r ''X-Forwarded-Host'');
          info = info\<lparr>ri_trusted_proxy := True\<rparr>;
          info = (if f = [] then info else case nl_parse_ip N f of None \<Rightarrow> info
            | Some ip \<Rightarrow> info\<lparr>ri_client_ip := nl_ip_string N ip\<rparr>);
          info = (if proto = ''http'' \<or> proto = ''https'' then info\<lparr>ri_scheme := proto\<rparr> else info)
      in if host = [] then info else info\<lparr>ri_host := host\<rparr>)"

definition forwarded_cert ::
  "lib \<Rightarrow> ('ip, 'net) net_lib \<Rightarrow> ((string \<times> string) list \<Rightarrow> (string \<times> string) list) \<Rightarrow> http_request \<Rightarrow> client_cert option" where
  "forwarded_cert L N ord r =
     (let p = hr_header r ''X-Forwarded-Tls-Client-Cert''; i = hr_header r ''X-Forwarded-Tls-Client-Cert-Info'';
          cert = (if p = [] then None else parseForwardedClientCertPEM L N p)
      in if cert = None \<and> i \<noteq> [] then parseForwardedClientCertInfo N ord i else cert)"

definition RequestInfoFrom ::
  "lib \<Rightarrow> ('ip, 'net) net_lib \<Rightarrow> ((string \<times> string) list \<Rightarrow> (string \<times> string) list) \<Rightarrow> http_request \<Rightarrow> 'net proxy_config \<Rightarrow> request_info" where
  "RequestInfoFrom L N ord r cfg =
     (let remote = remoteAddrIP N (hr_remote_addr r);
          info = \<lparr>ri_client_ip = remote, ri_scheme = requestScheme r, ri_host = hr_host r,
                  ri_trusted_proxy = False, ri_client_cert = clientCertFromTLS L r\<rparr>
      in if \<not> pc_trust_forwarded_headers cfg \<and> \<not> pc_trust_client_cert_headers cfg then info
         else if \<not> isTrusted N remote (pc_trusted_networks cfg) then info
         else let info = (if pc_trust_forwarded_headers cfg then forwarded_addresses N r info else info)
              in if pc_trust_client_cert_headers cfg \<and> ri_client_cert info = None
                 then info\<lparr>ri_client_cert := forwarded_cert L N ord r\<rparr> else info)"

section \<open>Properties\<close>

text \<open>C19. Forwarded headers of an untrusted peer are ignored: unless the peer's address is in a
  trusted network and the operator turned the feature on, the request info does not
  depend on any header, and a certificate can only be the TLS leaf. A certificate from the
  TLS handshake is never replaced, and the address headers never touch the certificate.\<close>

theorem RequestInfoFrom_untrusted:
  fixes N :: "('ip, 'net) net_lib"
  shows "(\<not> isTrusted N (remoteAddrIP N (hr_remote_addr r)) (pc_trusted_networks cfg) \<or>
      \<not> pc_trust_forwarded_headers cfg \<and> \<not> pc_trust_client_cert_headers cfg \<longrightarrow>
      RequestInfoFrom L N ord r cfg = RequestInfoFrom L N ord (r\<lparr>hr_header := h\<rparr>) cfg \<and>
      \<not> ri_trusted_proxy (RequestInfoFrom L N ord r cfg) \<and>
      ri_client_ip (RequestInfoFrom L N ord r cfg) = remoteAddrIP N (hr_remote_addr r) \<and>
      ri_client_cert (RequestInfoFrom L N ord r cfg) = clientCertFromTLS L r) \<and>
    (\<not> pc_trust_client_cert_headers cfg \<or> clientCertFromTLS L r \<noteq> None \<longrightarrow>
      ri_client_cert (RequestInfoFrom L N ord r cfg) = clientCertFromTLS L r)"
proof -
  have tls: "clientCertFromTLS L (r\<lparr>hr_header := h\<rparr>) = clientCertFromTLS L r"
    "requestScheme (r\<lparr>hr_header := h\<rparr>) = requestScheme r"
    by (simp_all add: clientCertFromTLS_def requestScheme_def)
  have fwd: "ri_client_cert (forwarded_addresses N r i) = ri_client_cert i" for i
    by (simp add: forwarded_addresses_def Let_def split: option.splits)
  show ?thesis
    by (auto simp: RequestInfoFrom_def Let_def tls fwd)
qed

lemma hex_val_lower: "hex_val (lower_char c) = hex_val c"
proof -
  let ?n = "of_char c :: nat"
  have code: "(CHR ''A'' \<le> c) = (65 \<le> ?n)" "(c \<le> CHR ''Z'') = (?n \<le> 90)"
    by (simp_all add: less_eq_char_def)
  show ?thesis
  proof (cases "65 \<le> ?n \<and> ?n \<le> 90")
    case True
    then have "(of_char (lower_char c) :: nat) = ?n + 32"
      using nat_of_char_less_256 [of c] by (simp add: lower_char_def code)
    with True show ?thesis by (auto simp: hex_val_def Let_def)
  next
    case False
    then show ?thesis by (auto simp: lower_char_def code)
  qed
qed

lemma parse_hex_lower: "parse_hex_digits a (ToLower s) = parse_hex_digits a s"
  by (induction a s rule: parse_hex_digits.induct) (auto simp: ToLower_def hex_val_lower split: option.splits)

lemma parse_hex_zeros: "parse_hex_digits 0 (replicate k (CHR ''0'') @ s) = parse_hex_digits 0 s"
proof (induction k)
  case (Suc k)
  have "hex_val (CHR ''0'') = Some 0" by code_simp
  with Suc show ?case by simp
qed simp

text \<open>A serial in some other spelling: any mix of case, leading zeros and separators.\<close>

definition serial_spelling :: "nat \<Rightarrow> string \<Rightarrow> bool" where
  "serial_spelling n s = (\<exists>k. ToLower (filter (\<lambda>c. c \<noteq> CHR '':'' \<and> c \<noteq> CHR ''-'') s) = replicate k (CHR ''0'') @ hex_nat n)"

lemma hex_val_plain: "hex_val c \<noteq> None \<Longrightarrow> plain_char c"
  by (auto simp: hex_val_def Let_def plain_char_def is_space_def less_char_def split: if_splits)

lemma spelling_chars:
  assumes "serial_spelling n s" "c \<in> set s" "c \<noteq> CHR '':''" "c \<noteq> CHR ''-''"
  shows "hex_val c \<noteq> None"
proof -
  let ?f = "filter (\<lambda>c. c \<noteq> CHR '':'' \<and> c \<noteq> CHR ''-'') s"
  have "c \<in> set ?f" using assms(2-4) by simp
  then have "lower_char c \<in> set (ToLower ?f)" by (simp add: ToLower_def)
  with assms(1) obtain k where "lower_char c \<in> set (replicate k (CHR ''0'') @ hex_nat n)"
    unfolding serial_spelling_def by metis
  then have "lower_char c = CHR ''0'' \<or> (\<exists>j < 16. lower_char c = hex_digit j)"
    by (auto dest: hex_nat_chars)
  moreover have "hex_val (CHR ''0'') \<noteq> None" by code_simp
  ultimately have "hex_val (lower_char c) \<noteq> None" by auto
  then show ?thesis by (simp add: hex_val_lower)
qed

lemma spelling_plain:
  assumes "serial_spelling n s" "c \<in> set s"
  shows "plain_char c"
proof (cases "c \<in> {CHR '':'', CHR ''-''}")
  case True
  then show ?thesis by (auto simp: plain_char_def is_space_def less_char_def)
next
  case False
  with spelling_chars [OF assms] show ?thesis by (intro hex_val_plain) simp
qed

lemma spelling_prefix:
  assumes "serial_spelling n s" "p \<in> {'''', ''0x'', ''0X''}"
  shows "TrimPrefix (TrimPrefix (p @ s) ''0x'') ''0X'' = s"
proof -
  have nx: "CHR ''x'' \<notin> set s" "CHR ''X'' \<notin> set s"
    using spelling_chars [OF assms(1), of "CHR ''x''"] spelling_chars [OF assms(1), of "CHR ''X''"]
    by (auto simp: hex_val_def Let_def)
  have "TrimPrefix s [CHR ''0'', x] = s" if "x \<notin> set s" for x
    using that by (cases s; cases "tl s") (auto simp: TrimPrefix_def)
  with nx have stay: "TrimPrefix s ''0x'' = s" "TrimPrefix s ''0X'' = s" by blast+
  have strip: "TrimPrefix (''0x'' @ s) ''0x'' = s" "TrimPrefix (''0X'' @ s) ''0X'' = s"
    "TrimPrefix (''0X'' @ s) ''0x'' = ''0X'' @ s"
    by (simp_all add: TrimPrefix_def)
  from assms(2) consider "p = ''''" | "p = ''0x''" | "p = ''0X''" by blast
  then show ?thesis by cases (simp_all only: strip stay append_Nil)
qed

lemma spelling_number:
  assumes "serial_spelling n s"
  defines "f \<equiv> filter (\<lambda>c. c \<noteq> CHR ''-'') (filter (\<lambda>c. c \<noteq> CHR '':'') s)"
  shows "f \<noteq> []" "big_SetString16 f = Some (int n)"
proof -
  obtain k where k: "ToLower f = replicate k (CHR ''0'') @ hex_nat n"
    using assms by (auto simp: serial_spelling_def conj_commute)
  then show ne: "f \<noteq> []" by (auto simp: ToLower_def hex_nat_ne)
  from ne have "hd f \<in> set f" by (rule hd_in_set)
  moreover from this have "hex_val (hd f) \<noteq> None" using spelling_chars [OF assms(1)] by (simp add: f_def)
  ultimately have "hd f \<noteq> CHR ''-''" "hd f \<noteq> CHR ''+''" by (auto simp: hex_val_def Let_def)
  moreover have "parse_hex_digits 0 f = Some n"
    using parse_hex_lower [of 0 f] k by (simp add: parse_hex_zeros parse_hex_nat)
  ultimately show "big_SetString16 f = Some (int n)"
    using ne by (cases f) (auto simp: big_SetString16_def)
qed

lemma canonicalSerial_spelling:
  assumes "0 < n" "serial_spelling n s" "p \<in> {'''', ''0x'', ''0X''}" "list_all is_space w" "list_all is_space w'"
  shows "canonicalSerial (w @ p @ s @ w') = Some (hex_nat n)"
proof -
  have "s \<noteq> []" using spelling_number(1) [OF assms(2)] by auto
  have "plain_char c" if "c \<in> set (p @ s)" for c
    using that assms(3) spelling_plain [OF assms(2)] by (auto simp: plain_char_def is_space_def less_char_def)
  with \<open>s \<noteq> []\<close> have "plain_char (hd (p @ s))" "plain_char (last (p @ s))" by (metis append_is_Nil_conv list.set_sel(1) last_in_set)+
  then have "TrimSpace (w @ p @ s @ w') = p @ s"
    using TrimSpace_strip [OF assms(4,5), of "p @ s"] \<open>s \<noteq> []\<close> by simp
  with assms(1) spelling_number [OF assms(2)] spelling_prefix [OF assms(2,3)] show ?thesis
    unfolding canonicalSerial_def Let_def by simp
qed

lemma hex_nat_spelling: "serial_spelling m (hex_nat m)"
proof -
  have "lower_char (hex_digit j) = hex_digit j" if "j < 16" for j
    using hex_digit_code [OF that] by (auto simp: lower_char_def less_eq_char_def split: if_splits)
  then have "ToLower (hex_nat m) = hex_nat m"
    unfolding ToLower_def by (intro map_idI) (auto dest: hex_nat_chars)
  moreover have "filter (\<lambda>c. c \<noteq> CHR '':'' \<and> c \<noteq> CHR ''-'') (hex_nat m) = hex_nat m"
    using hex_nat_no [of "CHR '':''" m] hex_nat_no [of "CHR ''-''" m] by (auto simp: filter_id_conv)
  ultimately show ?thesis by (auto simp: serial_spelling_def intro: exI [of _ 0])
qed

text \<open>C20. However a proxy spells a serial number (upper or lower case, colons or dashes
  between the bytes, leading zeros, a 0x prefix, surrounding blanks), it is brought to the
  one form that enrollment stores; and what comes out is always such a form.\<close>

theorem canonicalSerial_canonical:
  "(0 < n \<and> serial_spelling n s \<and> p \<in> {'''', ''0x'', ''0X''} \<and> list_all is_space w \<and> list_all is_space w' \<longrightarrow>
      canonicalSerial (w @ p @ s @ w') = Some (hex_nat n)) \<and>
   (canonicalSerial raw = Some t \<longrightarrow> (\<exists>m > 0. t = hex_nat m) \<and> canonicalSerial t = Some t)"
proof -
  have "\<exists>m > 0. t = hex_nat m" if "canonicalSerial raw = Some t"
    using that by (auto simp: canonicalSerial_def Let_def split: if_splits option.splits intro!: exI [of _ "nat _"])
  moreover have "canonicalSerial (hex_nat m) = Some (hex_nat m)" if "m > 0" for m
    using canonicalSerial_spelling [OF that hex_nat_spelling, of "[]" "[]" "[]"] by simp
  ultimately show ?thesis using canonicalSerial_spelling by blast
qed

theorem canonicalSerial_canonical_witness:
  "canonicalSerial '' 0x00:A:b '' = Some ''ab'' \<and> canonicalSerial ''0'' = None"
proof -
  have h: "hex_nat 171 = ''ab''" by (simp add: hex_nat.simps hex_digit_def) code_simp
  have "ToLower (filter (\<lambda>c. c \<noteq> CHR '':'' \<and> c \<noteq> CHR ''-'') ''00:A:b'') = replicate 2 (CHR ''0'') @ hex_nat 171"
    unfolding h by code_simp
  then have "serial_spelling 171 ''00:A:b''" unfolding serial_spelling_def by blast
  moreover have "list_all is_space '' ''" by code_simp
  ultimately have "canonicalSerial ('' '' @ ''0x'' @ ''00:A:b'' @ '' '') = Some (hex_nat 171)"
    using canonicalSerial_canonical [of 171 "''00:A:b''" "''0x''" "'' ''" "'' ''"] by simp
  moreover have "canonicalSerial ''0'' = None" by code_simp
  ultimately show ?thesis by (simp add: h)
qed

text \<open>The header as a proxy writes it: quoted values, separated by semicolons.\<close>

definition render_field :: "string \<times> string \<Rightarrow> string" where
  "render_field f = fst f @ [CHR ''='', CHR 0x22] @ snd f @ [CHR 0x22]"

fun render_fields :: "(string \<times> string) list \<Rightarrow> string" where
  "render_fields [] = []"
| "render_fields [f] = render_field f"
| "render_fields (f # fs) = render_field f @ [CHR '';''] @ render_fields fs"

definition field_ok :: "string \<times> string \<Rightarrow> bool" where
  "field_ok f = (fst f \<noteq> [] \<and> snd f \<noteq> [] \<and> CHR 0x22 \<notin> set (snd f) \<and>
     (\<forall>c \<in> set (fst f). plain_char c \<and> c \<notin> {CHR '';'', CHR ''='', CHR 0x22}))"

lemma scan_plain:
  "\<forall>c \<in> set s. c \<noteq> CHR 0x22 \<and> c \<noteq> CHR '';'' \<Longrightarrow> scan_fields (s @ rest) q tok out = scan_fields rest q (tok @ s) out"
  by (induction s arbitrary: tok) auto

lemma scan_quoted:
  "CHR 0x22 \<notin> set v \<Longrightarrow> scan_fields (v @ rest) True tok out = scan_fields rest True (tok @ v) out"
  by (induction v arbitrary: tok) auto

lemma scan_field:
  assumes "field_ok f"
  shows "scan_fields (render_field f @ rest) False [] out = scan_fields rest False (render_field f) out"
proof -
  have k: "\<forall>c \<in> set (fst f @ [CHR ''='']). c \<noteq> CHR 0x22 \<and> c \<noteq> CHR '';''" and v: "CHR 0x22 \<notin> set (snd f)"
    using assms by (auto simp: field_ok_def)
  show ?thesis
    using scan_plain [OF k, of "CHR 0x22 # snd f @ CHR 0x22 # rest" False "[]" out]
      scan_quoted [OF v, of "CHR 0x22 # rest" "fst f @ [CHR ''='', CHR 0x22]" out]
    by (simp add: render_field_def)
qed

lemma emit_rendered:
  assumes "field_ok f"
  shows "emit_field (render_field f) out = put_field (fst f) (snd f) out"
proof -
  have ne: "CHR ''='' \<notin> set (fst f)" using assms by (auto simp: field_ok_def)
  then have cut: "Cut (render_field f) (CHR ''='') = Some (fst f, [CHR 0x22] @ snd f @ [CHR 0x22])"
    by (auto simp: Cut_def render_field_def takeWhile_tail dropWhile_append)
  have k: "TrimSpace (fst f) = fst f" using assms by (intro TrimSpace_id) (auto simp: field_ok_def)
  have v: "TrimSpace ([CHR 0x22] @ snd f @ [CHR 0x22]) = [CHR 0x22] @ snd f @ [CHR 0x22]"
    by (rule TrimSpace_plain) (simp_all add: plain_char_def is_space_def less_char_def)
  have "trim_by (\<lambda>c. c = CHR 0x22) ([CHR 0x22] @ snd f @ [CHR 0x22]) = snd f"
    using assms by (intro trim_by_strip) (auto simp: field_ok_def)
  with cut k v assms show ?thesis by (simp add: emit_field_def field_ok_def)
qed

lemma put_field_new: "k \<notin> fst ` set out \<Longrightarrow> put_field k v out = out @ [(k, v)]"
  by (induction k v out rule: put_field.induct) auto

lemma scan_rendered:
  "\<forall>f \<in> set fs. field_ok f \<Longrightarrow> distinct (map fst (out @ fs)) \<Longrightarrow> scan_fields (render_fields fs) False [] out = out @ fs"
proof (induction fs arbitrary: out rule: render_fields.induct)
  case (2 f)
  have "render_field f \<noteq> []" by (simp add: render_field_def)
  with 2 scan_field [of f "[]" out] show ?case by (simp add: emit_rendered put_field_new)
next
  case (3 f g fs)
  from 3 have "scan_fields (render_fields (f # g # fs)) False [] out =
      scan_fields (render_fields (g # fs)) False [] (out @ [f])"
    using scan_field [of f "[CHR '';''] @ render_fields (g # fs)" out] by (simp add: emit_rendered put_field_new)
  also have "\<dots> = out @ f # g # fs" using "3.IH" [of "out @ [f]"] "3.prems" by simp
  finally show ?case .
qed simp

text \<open>The info header splits back into the fields a proxy wrote into it, also when a quoted
  value (a distinguished name) contains semicolons, commas, equal signs or blanks.\<close>

theorem splitInfoFields_roundtrip:
  assumes "\<forall>f \<in> set fs. field_ok f" "distinct (map fst fs)"
  shows "splitInfoFields (render_fields fs) = fs"
  using scan_rendered [OF assms(1), of "[]"] assms(2) by (simp add: splitInfoFields_def)

definition demo_net :: "(string, string) net_lib" where
  "demo_net = \<lparr>nl_split_host_port = Some, nl_parse_ip = Some, nl_ip_string = (\<lambda>s. s), nl_contains = (=),
     nl_parse_cidr = Some, nl_query_unescape = Some, nl_pem_block = (\<lambda>s. Some (''CERTIFICATE'', s)),
     nl_parse_rfc3339 = (\<lambda>_. None)\<rparr>"

theorem RequestInfoFrom_untrusted_witness:
  "ri_client_cert (RequestInfoFrom demo_lib demo_net (\<lambda>fs. fs)
      \<lparr>hr_remote_addr = ''evil'', hr_host = ''h'', hr_tls = None, hr_header = (\<lambda>_. ''sn=1''), hr_path_value = (\<lambda>_. '''')\<rparr>
      \<lparr>pc_trust_forwarded_headers = True, pc_trust_client_cert_headers = True, pc_trusted_networks = [''proxy'']\<rparr>) = None"
  (is "ri_client_cert (RequestInfoFrom _ _ _ ?r ?cfg) = None")
proof -
  have "\<not> isTrusted demo_net (remoteAddrIP demo_net (hr_remote_addr ?r)) (pc_trusted_networks ?cfg)"
    by (simp add: isTrusted_def remoteAddrIP_def demo_net_def)
  then have "ri_client_cert (RequestInfoFrom demo_lib demo_net (\<lambda>fs. fs) ?r ?cfg) = clientCertFromTLS demo_lib ?r"
    using RequestInfoFrom_untrusted [of demo_net ?r ?cfg demo_lib "\<lambda>fs. fs" "\<lambda>_. ''''"] by blast
  then show ?thesis by (simp add: clientCertFromTLS_def)
qed

end
