(* ===== verification/Middleware.thy ===== *)
theory Middleware
  imports Startup Proxy
begin

text \<open>
  The authentication middleware (server/middleware): attaching the identity behind a
  client certificate and the session behind a macaroon to a request, and the guards that
  require them. A handler maps a request with its context to a response; a middleware
  maps a handler to a handler. Log lines are left out.
\<close>

section \<open>Requests with context, responses\<close>

record identity =
  id_user_id :: string
  id_client_app_id :: string
  id_serial :: string
  id_subject_cn :: string
  id_not_after :: int
  id_fingerprint :: string

record session =
  ss_verified :: verified
  ss_root_id :: string
  ss_user_id :: string
  ss_client_app_id :: string
  ss_journey_id :: string
  ss_action :: string
  ss_expiration :: int

record request_ctx =
  rc_request :: http_request
  rc_info :: "request_info option"
  rc_identity :: "identity option"
  rc_session :: "session option"

text \<open>A problem+json response with its status and code, or whatever the handler replied.\<close>

datatype 'a response = Problem int string | Reply 'a

type_synonym 'a handler = "request_ctx \<Rightarrow> 'a response"

section \<open>Identity\<close>

definition AttachIdentity ::
  "lib \<Rightarrow> ('ip, 'net) net_lib \<Rightarrow> ((string \<times> string) list \<Rightarrow> (string \<times> string) list) \<Rightarrow> 'net proxy_config \<Rightarrow>
    env \<Rightarrow> db \<Rightarrow> 'a handler \<Rightarrow> 'a handler" where
  "AttachIdentity L N ord cfg env d nxt rc =
     (let info = (case rc_info rc of Some i \<Rightarrow> i | None \<Rightarrow> RequestInfoFrom L N ord (rc_request rc) cfg)
      in case ri_client_cert info of None \<Rightarrow> nxt rc
        | Some cert \<Rightarrow>
            if cc_serial cert = [] then nxt rc
            else case IdentityBySerial env (cc_serial cert) d of
                Inl e \<Rightarrow> nxt rc
              | Inr r \<Rightarrow> nxt (rc\<lparr>rc_identity := Some \<lparr>id_user_id = ci_user_id r, id_client_app_id = ci_client_app_id r,
                    id_serial = ci_serial r, id_subject_cn = ci_subject_cn r, id_not_after = ci_not_after r,
                    id_fingerprint = cc_fingerprint cert\<rparr>\<rparr>))"

definition RequireIdentity :: "'a handler \<Rightarrow> 'a handler" where
  "RequireIdentity nxt rc = (case rc_identity rc of None \<Rightarrow> Problem 401 ''unauthenticated'' | Some _ \<Rightarrow> nxt rc)"

section \<open>Session\<close>

datatype header_err = NoAuthHeader | BadAuthHeader string

definition macaroon_prefix :: string where
  "macaroon_prefix = ''Macaroon ''"

definition extractMacaroonHeader :: "http_request \<Rightarrow> header_err + string" where
  "extractMacaroonHeader r =
     (let header = hr_header r ''Authorization'' in
      if header = [] then Inl NoAuthHeader
      else if length header < length macaroon_prefix \<or> \<not> EqualFold (take (length macaroon_prefix) header) macaroon_prefix
      then Inl (BadAuthHeader ''authorization scheme is not Macaroon'')
      else let token = TrimSpace (drop (length macaroon_prefix) header) in
        if token = [] then Inl (BadAuthHeader ''macaroon token is empty'')
        else case b64_decode token of None \<Rightarrow> Inl (BadAuthHeader ''macaroon token is not unpadded base64url'')
          | Some s \<Rightarrow> Inr s)"

text \<open>One caveat of the loop in \<open>sessionFromVerified\<close>: a field that is still empty takes the
  value, a field that is set is emptied.\<close>

definition set_or_clear :: "string \<Rightarrow> string \<Rightarrow> string" where
  "set_or_clear old new = (if old = [] then new else [])"

definition session_caveat :: "caveat \<Rightarrow> session \<Rightarrow> session" where
  "session_caveat c s = (case cv_kind c of
     CaveatKindUser \<Rightarrow> s\<lparr>ss_user_id := set_or_clear (ss_user_id s) (cv_uuid c)\<rparr>
   | CaveatKindClientApp \<Rightarrow> s\<lparr>ss_client_app_id := set_or_clear (ss_client_app_id s) (cv_uuid c)\<rparr>
   | CaveatKindJourney \<Rightarrow> s\<lparr>ss_journey_id := set_or_clear (ss_journey_id s) (cv_uuid c)\<rparr>
   | CaveatKindAction \<Rightarrow> s\<lparr>ss_action := set_or_clear (ss_action s) (cv_action c)\<rparr>
   | _ \<Rightarrow> s)"

definition sessionFromVerified :: "verified \<Rightarrow> session" where
  "sessionFromVerified v = fold session_caveat (vf_caveats v)
     \<lparr>ss_verified = v, ss_root_id = vf_root_id v, ss_user_id = [], ss_client_app_id = [], ss_journey_id = [],
      ss_action = [], ss_expiration = vf_expiration v\<rparr>"

definition AttachSession :: "'m mac_lib \<Rightarrow> resolver \<Rightarrow> 'a handler \<Rightarrow> 'a handler" where
  "AttachSession M resolve nxt rc =
     (case extractMacaroonHeader (rc_request rc) of Inl e \<Rightarrow> nxt rc
      | Inr serialized \<Rightarrow> (case VerifySignature M resolve serialized of Inl e \<Rightarrow> nxt rc
          | Inr v \<Rightarrow> nxt (rc\<lparr>rc_session := Some (sessionFromVerified v)\<rparr>)))"

type_synonym constraints_for_request = "http_request \<Rightarrow> string + constraints"

text \<open>The identity behind the certificate fills the user and client app that the route left
  open.\<close>

definition bind_identity :: "identity option \<Rightarrow> constraints \<Rightarrow> constraints" where
  "bind_identity i c = (case i of None \<Rightarrow> c
     | Some x \<Rightarrow> c\<lparr>cn_user_id := (if cn_user_id c = [] then id_user_id x else cn_user_id c),
                   cn_client_app_id := (if cn_client_app_id c = [] then id_client_app_id x else cn_client_app_id c)\<rparr>)"

definition RequireSession :: "int \<Rightarrow> constraints_for_request \<Rightarrow> 'a handler \<Rightarrow> 'a handler" where
  "RequireSession now build nxt rc =
     (case rc_session rc of None \<Rightarrow> Problem 401 ''no_session''
      | Some s \<Rightarrow> (case build (rc_request rc) of Inl e \<Rightarrow> Problem 500 ''constraints_builder_failed''
          | Inr c \<Rightarrow> (case CheckConstraints (ss_verified s) now (bind_identity (rc_identity rc) c) of
                Some e \<Rightarrow> Problem 401 ''session_constraint_failed'' | None \<Rightarrow> nxt rc)))"

definition SessionAction :: "string \<Rightarrow> constraints_for_request" where
  "SessionAction action r = Inr \<lparr>cn_journey_id = [], cn_action = action, cn_user_id = [], cn_client_app_id = []\<rparr>"

definition SessionActionJourneyFromPath :: "string \<Rightarrow> string \<Rightarrow> constraints_for_request" where
  "SessionActionJourneyFromPath action pathParam r =
     (let journey = hr_path_value r pathParam in
      if journey = [] then Inl ''path value is empty''
      else Inr \<lparr>cn_journey_id = journey, cn_action = action, cn_user_id = [], cn_client_app_id = []\<rparr>)"

section \<open>Properties\<close>

lemma fold_session_verified: "ss_verified (fold session_caveat cs s) = ss_verified s"
  by (induction cs arbitrary: s) (auto simp: session_caveat_def split: caveat_kind.splits)

lemma fold_session_expiration: "ss_expiration (fold session_caveat cs s) = ss_expiration s"
  by (induction cs arbitrary: s) (auto simp: session_caveat_def split: caveat_kind.splits)

lemma sessionFromVerified_sel [simp]: "ss_verified (sessionFromVerified v) = v"
  by (simp add: sessionFromVerified_def fold_session_verified)

text \<open>A route behind the identity guard is reached exactly by requests whose client
  certificate is enrolled and not revoked at that moment; the handler then sees that
  certificate's account and client app, and every other request is answered 401 without
  running it.\<close>

theorem identity_guard:
  assumes "rc_identity rc = None" "rc_info rc = None" "env_open env" "\<forall>l. \<not> env_fault env l"
  shows "AttachIdentity L N ord cfg env d (RequireIdentity nxt) rc =
    (case ri_client_cert (RequestInfoFrom L N ord (rc_request rc) cfg) of None \<Rightarrow> Problem 401 ''unauthenticated''
     | Some cert \<Rightarrow> (case find (\<lambda>r. ic_serial r = cc_serial cert \<and> ic_revoked_at r = None \<and> ic_user_id r \<noteq> None \<and>
           ic_client_app_id r \<noteq> None) (issued_certificates d) of
         None \<Rightarrow> Problem 401 ''unauthenticated''
       | Some r \<Rightarrow> if cc_serial cert = [] then Problem 401 ''unauthenticated''
           else nxt (rc\<lparr>rc_identity := Some \<lparr>id_user_id = the (ic_user_id r), id_client_app_id = the (ic_client_app_id r),
               id_serial = cc_serial cert, id_subject_cn = ic_subject_cn r, id_not_after = ic_not_after r,
               id_fingerprint = cc_fingerprint cert\<rparr>\<rparr>)))"
proof -
  have sel: "ci_user_id (identity_of_row r) = the (ic_user_id r) \<and> ci_client_app_id (identity_of_row r) = the (ic_client_app_id r) \<and>
      ci_serial (identity_of_row r) = ic_serial r \<and> ci_subject_cn (identity_of_row r) = ic_subject_cn r \<and>
      ci_not_after (identity_of_row r) = ic_not_after r"
    if "ic_user_id r \<noteq> None" "ic_client_app_id r \<noteq> None" for r
    using that by (auto simp: identity_of_row_def null_str_def)
  show ?thesis
    using assms sel
    by (auto simp: AttachIdentity_def RequireIdentity_def IdentityBySerial_def Let_def split: option.splits dest!: find_SomeD)
qed

text \<open>The header a client sends for a macaroon is read back to exactly those bytes.\<close>

lemma extract_roundtrip:
  assumes "s \<noteq> []" "hr_header r ''Authorization'' = macaroon_prefix @ b64_encode s"
  shows "extractMacaroonHeader r = Inr s"
proof -
  note TrimSpace_b64 [of s]
  moreover have "macaroon_prefix \<noteq> []" by (simp add: macaroon_prefix_def)
  ultimately show ?thesis
    using assms by (simp add: extractMacaroonHeader_def Let_def EqualFold_def b64_encode_ne b64_roundtrip)
qed


definition demo_mw_db :: db where
  "demo_mw_db = empty_db\<lparr>macaroon_roots := [macaroon_root_row ''root'' demo_key 0]\<rparr>"

definition demo_rc :: request_ctx where
  "demo_rc = \<lparr>rc_request = \<lparr>hr_remote_addr = ''peer'', hr_host = ''h'', hr_tls = None,
       hr_header = (\<lambda>_. ''Macaroon '' @ b64_encode demo_macaroon), hr_path_value = (\<lambda>_. ''j1'')\<rparr>,
     rc_info = None, rc_identity = Some \<lparr>id_user_id = ''alice'', id_client_app_id = ''app'', id_serial = ''1'',
       id_subject_cn = [], id_not_after = 0, id_fingerprint = []\<rparr>, rc_session = None\<rparr>"



definition user_caveat :: "string \<Rightarrow> caveat" where
  "user_caveat u = \<lparr>cv_kind = CaveatKindUser, cv_time = 0, cv_uuid = u, cv_action = [], cv_raw = []\<rparr>"


end
