(* ===== verification/Http.thy ===== *)
theory Http
  imports Middleware
begin

text \<open>
  The common part of the HTTP handlers (server/api). A handler runs against the database
  and answers either a problem (status and code) or a reply; it is written in a small
  monad whose \<open>h_require\<close> is the source's \<open>writeProblem \<dots> return\<close>, \<open>h_read\<close> a call of a
  reading store method and \<open>h_call\<close> a call of a changing one, each with the source's
  mapping of storage errors to problems. Log lines and the detail texts of problems are
  left out. The JSON decoder's outcome is an argument of the handler: \<open>None\<close> for a body it
  rejects.
\<close>

named_theorems h_simps \<open>when a handler replies\<close>

section \<open>The handler monad\<close>

record problem =
  pr_status :: int
  pr_code :: string

type_synonym 'a hm = "db \<Rightarrow> (problem + 'a) \<times> db"

definition mk_problem :: "int \<Rightarrow> string \<Rightarrow> problem" where
  "mk_problem st c = \<lparr>pr_status = st, pr_code = c\<rparr>"

definition h_return :: "'a \<Rightarrow> 'a hm" where
  "h_return a d = (Inr a, d)"

definition h_fail :: "problem \<Rightarrow> 'a hm" where
  "h_fail p d = (Inl p, d)"

definition h_bind :: "'a hm \<Rightarrow> ('a \<Rightarrow> 'b hm) \<Rightarrow> 'b hm" where
  "h_bind m f d = (case m d of (Inl p, d') \<Rightarrow> (Inl p, d') | (Inr a, d') \<Rightarrow> f a d')"

definition h_require :: "bool \<Rightarrow> int \<Rightarrow> string \<Rightarrow> 'a hm \<Rightarrow> 'a hm" where
  "h_require b st c m = (if b then m else h_fail (mk_problem st c))"

definition h_opt :: "'a option \<Rightarrow> int \<Rightarrow> string \<Rightarrow> ('a \<Rightarrow> 'b hm) \<Rightarrow> 'b hm" where
  "h_opt x st c f = (case x of None \<Rightarrow> h_fail (mk_problem st c) | Some a \<Rightarrow> f a)"

text \<open>The \<open>switch\<close> over \<open>errors.Is\<close> that ends in \<open>internal_error\<close>.\<close>

definition problem_of :: "(serr \<times> int \<times> string) list \<Rightarrow> serr \<Rightarrow> problem" where
  "problem_of tab e = (case find (\<lambda>t. errors_is e (fst t)) tab of
     Some (_, st, c) \<Rightarrow> mk_problem st c | None \<Rightarrow> mk_problem 500 ''internal_error'')"

definition h_read :: "(serr \<times> int \<times> string) list \<Rightarrow> (db \<Rightarrow> serr + 'a) \<Rightarrow> ('a \<Rightarrow> 'b hm) \<Rightarrow> 'b hm" where
  "h_read tab q f d = (case q d of Inl e \<Rightarrow> (Inl (problem_of tab e), d) | Inr a \<Rightarrow> f a d)"

definition h_call :: "(serr \<times> int \<times> string) list \<Rightarrow> (db, 'a) op \<Rightarrow> ('a \<Rightarrow> 'b hm) \<Rightarrow> 'b hm" where
  "h_call tab m f d = (case m d of (Inl e, d') \<Rightarrow> (Inl (problem_of tab e), d') | (Inr a, d') \<Rightarrow> f a d')"

text \<open>The stores and the verifier a server is configured with (\<open>api.Config\<close>): the handlers
  answer 503 when one they need is missing.\<close>

record server_cfg =
  cfg_vehicle_store :: bool
  cfg_journey_store :: bool
  cfg_attestation_store :: bool
  cfg_telemetry_store :: bool
  cfg_garage_store :: bool
  cfg_invite_store :: bool
  cfg_enrollment_store :: bool
  cfg_ca_signer :: bool
  cfg_macaroon_issuer :: bool
  cfg_integrity_verifier :: bool

definition full_cfg :: server_cfg where
  "full_cfg = \<lparr>cfg_vehicle_store = True, cfg_journey_store = True, cfg_attestation_store = True,
     cfg_telemetry_store = True, cfg_garage_store = True, 
     cfg_invite_store = True, cfg_enrollment_store = True, cfg_ca_signer = True, cfg_macaroon_issuer = True,
     cfg_integrity_verifier = True\<rparr>"

section \<open>Inversion\<close>

lemma h_return_Inr [h_simps]: "h_return a d = (Inr b, d') \<longleftrightarrow> b = a \<and> d' = d"
  by (auto simp: h_return_def)

lemma h_fail_Inr [h_simps]: "h_fail p d \<noteq> (Inr b, d')"
  by (simp add: h_fail_def)

lemma h_bind_Inr [h_simps]:
  "h_bind m f d = (Inr b, d'') \<longleftrightarrow> (\<exists>a d'. m d = (Inr a, d') \<and> f a d' = (Inr b, d''))"
  by (auto simp: h_bind_def split: prod.splits sum.splits)

lemma h_require_Inr [h_simps]: "h_require g st c m d = (Inr b, d') \<longleftrightarrow> g \<and> m d = (Inr b, d')"
  by (auto simp: h_require_def h_fail_def)

lemma h_opt_Inr [h_simps]: "h_opt x st c f d = (Inr b, d') \<longleftrightarrow> (\<exists>a. x = Some a \<and> f a d = (Inr b, d'))"
  by (auto simp: h_opt_def h_fail_def split: option.splits)

lemma h_read_Inr [h_simps]: "h_read tab q f d = (Inr b, d') \<longleftrightarrow> (\<exists>a. q d = Inr a \<and> f a d = (Inr b, d'))"
  by (auto simp: h_read_def split: sum.splits)

lemma h_call_Inr [h_simps]:
  "h_call tab m f d = (Inr b, d'') \<longleftrightarrow> (\<exists>a d'. m d = (Inr a, d') \<and> f a d' = (Inr b, d''))"
  by (auto simp: h_call_def split: prod.splits sum.splits)

section \<open>Handlers that change nothing when they answer a problem\<close>

text \<open>\<open>h_atomic m\<close>: a problem answered by \<open>m\<close> leaves the database alone; \<open>h_pure m\<close>: \<open>m\<close>
  never changes it. Both are closed under the monad, so that a handler is atomic when at
  most its last step can fail after a change.\<close>

definition h_atomic :: "'a hm \<Rightarrow> bool" where
  "h_atomic m = (\<forall>d p d'. m d = (Inl p, d') \<longrightarrow> d' = d)"

definition h_pure :: "'a hm \<Rightarrow> bool" where
  "h_pure m = (\<forall>d. snd (m d) = d)"

definition h_total :: "'a hm \<Rightarrow> bool" where
  "h_total m = (\<forall>d p d'. m d \<noteq> (Inl p, d'))"

definition op_atomic :: "(db, 'a) op \<Rightarrow> bool" where
  "op_atomic m = (\<forall>d e d'. m d = (Inl e, d') \<longrightarrow> d' = d)"

named_theorems h_atomic_intros \<open>handlers that change nothing when they answer a problem\<close>

lemma h_pure_atomic: "h_pure m \<Longrightarrow> h_atomic m"
  unfolding h_pure_def h_atomic_def by (metis snd_conv)

lemma h_total_atomic: "h_total m \<Longrightarrow> h_atomic m"
  by (simp add: h_total_def h_atomic_def)

lemma h_pure_return [h_atomic_intros]: "h_pure (h_return a)"
  by (simp add: h_pure_def h_return_def)

lemma h_pure_fail [h_atomic_intros]: "h_pure (h_fail p)"
  by (simp add: h_pure_def h_fail_def)

lemma h_pure_bind [h_atomic_intros]: "h_pure m \<Longrightarrow> (\<And>a. h_pure (f a)) \<Longrightarrow> h_pure (h_bind m f)"
  by (simp add: h_pure_def h_bind_def split: prod.splits sum.splits) (metis snd_conv)

lemma h_pure_require [h_atomic_intros]: "(b \<Longrightarrow> h_pure m) \<Longrightarrow> h_pure (h_require b st c m)"
  by (simp add: h_require_def h_pure_fail)

lemma h_pure_opt [h_atomic_intros]: "(\<And>a. x = Some a \<Longrightarrow> h_pure (f a)) \<Longrightarrow> h_pure (h_opt x st c f)"
  by (simp add: h_opt_def h_pure_fail split: option.splits)

lemma h_pure_read [h_atomic_intros]: "(\<And>a. h_pure (f a)) \<Longrightarrow> h_pure (h_read tab q f)"
  by (simp add: h_pure_def h_read_def split: sum.splits)

lemma h_pure_if [h_atomic_intros]: "(b \<Longrightarrow> h_pure m) \<Longrightarrow> (\<not> b \<Longrightarrow> h_pure n) \<Longrightarrow> h_pure (if b then m else n)"
  by simp

lemma h_atomic_return [h_atomic_intros]: "h_atomic (h_return a)"
  by (simp add: h_pure_atomic h_pure_return)

lemma h_atomic_fail [h_atomic_intros]: "h_atomic (h_fail p)"
  by (simp add: h_pure_atomic h_pure_fail)

lemma h_atomic_pure_bind [h_atomic_intros]: "h_pure m \<Longrightarrow> (\<And>a. h_atomic (f a)) \<Longrightarrow> h_atomic (h_bind m f)"
  unfolding h_pure_def h_atomic_def h_bind_def
  by (auto split: prod.splits sum.splits) (metis snd_conv)+

lemma h_atomic_require [h_atomic_intros]: "(b \<Longrightarrow> h_atomic m) \<Longrightarrow> h_atomic (h_require b st c m)"
  by (simp add: h_require_def h_atomic_fail)

lemma h_atomic_opt [h_atomic_intros]: "(\<And>a. x = Some a \<Longrightarrow> h_atomic (f a)) \<Longrightarrow> h_atomic (h_opt x st c f)"
  by (simp add: h_opt_def h_atomic_fail split: option.splits)

lemma h_atomic_read [h_atomic_intros]: "(\<And>a. h_atomic (f a)) \<Longrightarrow> h_atomic (h_read tab q f)"
  by (auto simp: h_atomic_def h_read_def split: sum.splits)

lemma h_atomic_call [h_atomic_intros]: "op_atomic m \<Longrightarrow> (\<And>a. h_total (f a)) \<Longrightarrow> h_atomic (h_call tab m f)"
  unfolding op_atomic_def h_atomic_def h_call_def h_total_def
  by (auto split: prod.splits sum.splits)

lemma h_total_return [h_atomic_intros]: "h_total (h_return a)"
  by (simp add: h_total_def h_return_def)

lemma op_atomic_run_tx [h_atomic_intros]: "op_atomic (run_tx env m)"
  by (simp add: op_atomic_def run_tx_error_unchanged)

lemma op_atomic_auto_tx [h_atomic_intros]: "op_atomic (auto_tx m)"
  by (auto simp: op_atomic_def dest: auto_tx_error_unchanged)

lemma op_atomic_require [h_atomic_intros]: "op_atomic m \<Longrightarrow> op_atomic (op_require gs m)"
  unfolding op_atomic_def using op_require_error_unchanged [of m _ gs] by blast

lemma h_atomic_call_dep:
  "op_atomic m \<Longrightarrow> (\<And>d a d' p d''. m d = (Inr a, d') \<Longrightarrow> f a d' \<noteq> (Inl p, d'')) \<Longrightarrow> h_atomic (h_call tab m f)"
  unfolding op_atomic_def h_atomic_def h_call_def by (auto split: prod.splits sum.splits)

lemma h_atomic_bind_total:
  "h_atomic m \<Longrightarrow> (\<And>a. h_total (f a)) \<Longrightarrow> h_atomic (h_bind m f)"
  unfolding h_atomic_def h_bind_def h_total_def by (auto split: prod.splits sum.splits)

lemma h_atomic_unchanged: "h_atomic m \<Longrightarrow> (\<And>a d'. m d \<noteq> (Inr a, d')) \<Longrightarrow> snd (m d) = d"
  unfolding h_atomic_def by (metis prod.collapse sum.exhaust)

section \<open>What a handler leaves behind\<close>

text \<open>\<open>h_post m d Q\<close>: whatever \<open>m\<close> answers on \<open>d\<close>, a problem after a committed change
  included, it leaves \<open>d\<close> alone or satisfies \<open>Q\<close>.\<close>

definition h_post :: "'a hm \<Rightarrow> db \<Rightarrow> (db \<Rightarrow> bool) \<Rightarrow> bool" where
  "h_post m d Q = (snd (m d) = d \<or> Q (snd (m d)))"

named_theorems h_post_intros \<open>what a handler leaves behind\<close>

lemma h_post_pure: "h_pure m \<Longrightarrow> h_post m d Q"
  by (simp add: h_post_def h_pure_def)

lemma h_post_require [h_post_intros]: "(b \<Longrightarrow> h_post m d Q) \<Longrightarrow> h_post (h_require b st c m) d Q"
  by (simp add: h_post_def h_require_def h_fail_def)

lemma h_post_opt [h_post_intros]: "(\<And>a. x = Some a \<Longrightarrow> h_post (f a) d Q) \<Longrightarrow> h_post (h_opt x st c f) d Q"
  by (simp add: h_post_def h_opt_def h_fail_def split: option.splits)

lemma h_post_read [h_post_intros]: "(\<And>a. q d = Inr a \<Longrightarrow> h_post (f a) d Q) \<Longrightarrow> h_post (h_read tab q f) d Q"
  by (simp add: h_post_def h_read_def split: sum.splits)

lemma h_post_bind [h_post_intros]:
  "h_pure m \<Longrightarrow> (\<And>a. m d = (Inr a, d) \<Longrightarrow> h_post (f a) d Q) \<Longrightarrow> h_post (h_bind m f) d Q"
  unfolding h_post_def h_bind_def h_pure_def by (cases "m d"; cases "fst (m d)") (auto dest: spec [of _ d])

lemma h_post_call [h_post_intros]:
  "op_atomic m \<Longrightarrow> (\<And>a d'. m d = (Inr a, d') \<Longrightarrow> Q d') \<Longrightarrow> (\<And>a. h_pure (f a)) \<Longrightarrow> h_post (h_call tab m f) d Q"
  unfolding h_post_def h_call_def h_pure_def op_atomic_def by (cases "m d"; cases "fst (m d)") auto

lemma h_post_False: "h_post m d (\<lambda>_. False) \<Longrightarrow> snd (m d) = d"
  by (simp add: h_post_def)

section \<open>A guarded route\<close>

text \<open>Running a handler behind the middleware: the middleware may answer itself.\<close>

definition serve :: "'a hm response \<Rightarrow> 'a hm" where
  "serve r = (case r of Problem st c \<Rightarrow> h_fail (mk_problem st c) | Reply m \<Rightarrow> m)"

end
