(* ===== verification/Integrity.thy ===== *)
theory Integrity
  imports Http
begin

text \<open>
  Verification of signed payloads (platform/auth/integrity and
  server/api/integrity_verify.go): the envelope and signature checks, the key resolver
  backed by the enrolled certificates, and the handlers' common
  \<open>verifySignedPayload\<close>. The base64 and DER decoders of Go's library are modelled; ECDSA,
  the curve of a key and the protocol library's envelope validation are the parameters
  \<open>verifier_lib\<close>.
\<close>

section \<open>base64.StdEncoding\<close>

definition b64std_val :: "char \<Rightarrow> nat option" where
  "b64std_val c =
     (let n = of_char c :: nat in
      if 65 \<le> n \<and> n \<le> 90 then Some (n - 65)
      else if 97 \<le> n \<and> n \<le> 122 then Some (n - 71)
      else if 48 \<le> n \<and> n \<le> 57 then Some (n + 4)
      else if n = 43 then Some 62 else if n = 47 then Some 63 else None)"

text \<open>Groups of four characters; only the last may be padded.\<close>

fun b64std_groups :: "string \<Rightarrow> string option" where
  "b64std_groups [] = Some []"
| "b64std_groups (a # b # c # e # rest) =
     (case (b64std_val a, b64std_val b) of
        (Some x, Some y) \<Rightarrow>
          (if rest = [] \<and> c = CHR ''='' \<and> e = CHR ''='' then Some [char_of (x * 4 + y div 16)]
           else (case b64std_val c of None \<Rightarrow> None
             | Some z \<Rightarrow>
                 (if rest = [] \<and> e = CHR ''='' then Some [char_of (x * 4 + y div 16), char_of (y mod 16 * 16 + z div 4)]
                  else (case b64std_val e of None \<Rightarrow> None
                    | Some w \<Rightarrow> map_option (\<lambda>s. char_of (x * 4 + y div 16) # char_of (y mod 16 * 16 + z div 4) #
                        char_of (z mod 4 * 64 + w) # s) (b64std_groups rest)))))
      | _ \<Rightarrow> None)"
| "b64std_groups _ = None"

definition b64std_decode :: "string \<Rightarrow> string option" where
  "b64std_decode s = b64std_groups (filter (\<lambda>c. c \<noteq> CHR 0x0A \<and> c \<noteq> CHR 0x0D) s)"

section \<open>encoding/asn1\<close>

text \<open>Definite lengths in the shortest form; a value of at least \<open>2 ^ 23\<close> may not grow
  further.\<close>

fun der_len_bytes :: "nat \<Rightarrow> nat \<Rightarrow> string \<Rightarrow> (nat \<times> string) option" where
  "der_len_bytes 0 acc bs = Some (acc, bs)"
| "der_len_bytes (Suc n) acc [] = None"
| "der_len_bytes (Suc n) acc (b # bs) =
     (if 8388608 \<le> acc then None
      else let v = acc * 256 + of_char b in if v = 0 then None else der_len_bytes n v bs)"

definition der_length :: "string \<Rightarrow> (nat \<times> string) option" where
  "der_length s = (case s of [] \<Rightarrow> None
     | b # bs \<Rightarrow>
         (let n = of_char b :: nat in
          if n < 128 then Some (n, bs)
          else if n = 128 then None
          else (case der_len_bytes (n - 128) 0 bs of None \<Rightarrow> None
            | Some (v, rest) \<Rightarrow> if v < 128 then None else Some (v, rest))))"

text \<open>An element with the expected identifier octet: its contents and what follows.\<close>

definition der_element :: "nat \<Rightarrow> string \<Rightarrow> (string \<times> string) option" where
  "der_element tag s = (case s of [] \<Rightarrow> None
     | t # bs \<Rightarrow>
         (if of_char t \<noteq> tag then None
          else case der_length bs of None \<Rightarrow> None
            | Some (n, rest) \<Rightarrow> if length rest < n then None else Some (take n rest, drop n rest)))"

definition be_nat :: "string \<Rightarrow> nat" where
  "be_nat bs = fold (\<lambda>b acc. acc * 256 + of_char b) bs 0"

text \<open>\<open>parseBigInt\<close>: two's complement in the fewest bytes.\<close>

definition der_integer :: "string \<Rightarrow> int option" where
  "der_integer bs = (case bs of [] \<Rightarrow> None
     | b # rest \<Rightarrow>
         (let n = of_char b :: nat;
              v = (if n < 128 then int (be_nat bs) else int (be_nat bs) - 256 ^ length bs)
          in case rest of [] \<Rightarrow> Some v
            | c # _ \<Rightarrow> if n = 0 \<and> (of_char c :: nat) < 128 \<or> n = 255 \<and> 128 \<le> (of_char c :: nat) then None else Some v))"

text \<open>\<open>asn1.Unmarshal\<close> into a struct of two integers: what follows them inside the sequence
  is ignored, what follows the sequence is returned.\<close>

definition asn1_Unmarshal_rs :: "string \<Rightarrow> ((int \<times> int) \<times> string) option" where
  "asn1_Unmarshal_rs s =
     (case der_element 48 s of None \<Rightarrow> None
      | Some (inner, rest) \<Rightarrow>
          (case der_element 2 inner of None \<Rightarrow> None
           | Some (rb, inner') \<Rightarrow>
               (case der_integer rb of None \<Rightarrow> None
                | Some r \<Rightarrow>
                    (case der_element 2 inner' of None \<Rightarrow> None
                     | Some (sb, _) \<Rightarrow>
                         (case der_integer sb of None \<Rightarrow> None | Some t \<Rightarrow> Some ((r, t), rest))))))"

section \<open>The verifier\<close>

datatype ierr = ErrEnvelope | ErrEmptyCanonicalPayload | ErrUnsupportedAlgorithm | ErrSignatureMalformed
  | ErrKeyIDUnresolved | ErrResolverTransport serr | ErrKeyTypeMismatch | ErrSignatureInvalid

text \<open>A public key of any type; \<open>pk_ecdsa\<close> holds for a non-nil \<open>*ecdsa.PublicKey\<close>.\<close>

record pubkey =
  pk_ecdsa :: bool
  pk_bytes :: string

record verifier_lib =
  vl_integrity_validate :: "integrity \<Rightarrow> bool"
  vl_p256 :: "string \<Rightarrow> bool"
  vl_ecdsa_verify :: "string \<Rightarrow> string \<Rightarrow> string \<Rightarrow> bool"

definition AlgorithmECDSAP256SHA256 :: string where
  "AlgorithmECDSAP256SHA256 = ''ecdsa-p256-sha256''"

definition validateECDSASignatureASN1 :: "string \<Rightarrow> string option" where
  "validateECDSASignatureASN1 sig = (case asn1_Unmarshal_rs sig of
      None \<Rightarrow> Some ''asn1 unmarshal''
    | Some ((r, s), rest) \<Rightarrow>
        if rest \<noteq> [] then Some ''asn1 has trailing bytes''
        else if r \<le> 0 \<or> s \<le> 0 then Some ''asn1 R/S must be positive'' else None)"

definition preverify :: "verifier_lib \<Rightarrow> string \<Rightarrow> integrity \<Rightarrow> ierr option" where
  "preverify V payload ig =
     (if \<not> vl_integrity_validate V ig then Some ErrEnvelope
      else if payload = [] then Some ErrEmptyCanonicalPayload
      else if ig_algorithm ig \<noteq> AlgorithmECDSAP256SHA256 then Some ErrUnsupportedAlgorithm
      else case b64std_decode (ig_signature ig) of None \<Rightarrow> Some ErrSignatureMalformed
        | Some sig \<Rightarrow> (case validateECDSASignatureASN1 sig of Some _ \<Rightarrow> Some ErrSignatureMalformed | None \<Rightarrow> None))"

definition verifyParsedKey :: "lib \<Rightarrow> verifier_lib \<Rightarrow> string \<Rightarrow> integrity \<Rightarrow> pubkey \<Rightarrow> ierr option" where
  "verifyParsedKey L V payload ig pub =
     (if \<not> pk_ecdsa pub then Some ErrKeyTypeMismatch
      else if \<not> vl_p256 V (pk_bytes pub) then Some ErrKeyTypeMismatch
      else let sig = (case b64std_decode (ig_signature ig) of None \<Rightarrow> [] | Some s \<Rightarrow> s)
        in if \<not> vl_ecdsa_verify V (pk_bytes pub) (lib_sha256 L payload) sig then Some ErrSignatureInvalid else None)"

definition VerifyPayloadWithKey :: "lib \<Rightarrow> verifier_lib \<Rightarrow> string \<Rightarrow> integrity \<Rightarrow> pubkey \<Rightarrow> ierr option" where
  "VerifyPayloadWithKey L V payload ig pub = (case preverify V payload ig of
     Some e \<Rightarrow> Some e | None \<Rightarrow> verifyParsedKey L V payload ig pub)"

datatype key_err = KeyIDUnresolved | KeyTransport serr

definition VerifyPayload ::
  "lib \<Rightarrow> verifier_lib \<Rightarrow> (string \<Rightarrow> key_err + pubkey) \<Rightarrow> string \<Rightarrow> integrity \<Rightarrow> ierr option" where
  "VerifyPayload L V resolver payload ig = (case preverify V payload ig of
     Some e \<Rightarrow> Some e
   | None \<Rightarrow> (case resolver (ig_key_id ig) of
       Inl KeyIDUnresolved \<Rightarrow> Some ErrKeyIDUnresolved
     | Inl (KeyTransport e) \<Rightarrow> Some (ErrResolverTransport e)
     | Inr pub \<Rightarrow> verifyParsedKey L V payload ig pub))"

definition cert_key :: "x509_cert \<Rightarrow> pubkey" where
  "cert_key c = \<lparr>pk_ecdsa = xc_ecdsa c, pk_bytes = xc_public_key c\<rparr>"

text \<open>The store never returns a record without its certificate.\<close>

definition NewStoreResolver :: "lib \<Rightarrow> env \<Rightarrow> db \<Rightarrow> string \<Rightarrow> key_err + pubkey" where
  "NewStoreResolver L env d keyID = (case EnrolledCertByClientAppID L env keyID d of
     Inl e \<Rightarrow> (if errors_is e ErrCertNotEnrolled \<or> errors_is e ErrEnrolledCertMissingPEM
                then Inl KeyIDUnresolved else Inl (KeyTransport e))
   | Inr rec \<Rightarrow> Inr (cert_key (ec_certificate rec)))"

section \<open>The handlers' check\<close>

definition writeIntegrityVerifyProblem :: "ierr \<Rightarrow> problem" where
  "writeIntegrityVerifyProblem e = (case e of
     ErrUnsupportedAlgorithm \<Rightarrow> mk_problem 400 ''unsupported_algorithm''
   | ErrSignatureMalformed \<Rightarrow> mk_problem 400 ''signature_malformed''
   | ErrKeyIDUnresolved \<Rightarrow> mk_problem 403 ''signer_not_enrolled''
   | ErrSignatureInvalid \<Rightarrow> mk_problem 403 ''signature_invalid''
   | _ \<Rightarrow> mk_problem 500 ''internal_error'')"

definition verifySignedPayload ::
  "lib \<Rightarrow> verifier_lib \<Rightarrow> env \<Rightarrow> bool \<Rightarrow> string \<Rightarrow> integrity \<Rightarrow> string \<Rightarrow> unit hm" where
  "verifySignedPayload L V env verifier canonical envelope expectedSignerUserID =
     h_require verifier 503 ''integrity_unavailable''
     (h_read [(ErrCertNotEnrolled, 403, ''signer_not_enrolled''), (ErrEnrolledCertMissingPEM, 403, ''signer_not_enrolled'')]
       (EnrolledCertByClientAppID L env (ig_key_id envelope))
     (\<lambda>certRec. h_require (ci_user_id (ec_identity certRec) = expectedSignerUserID) 403 ''signer_owner_mismatch''
     (case VerifyPayloadWithKey L V canonical envelope (cert_key (ec_certificate certRec)) of
        Some e \<Rightarrow> h_fail (writeIntegrityVerifyProblem e) | None \<Rightarrow> h_return ())))"

text \<open>What an accepted signature means: an ECDSA P-256 signature over the digest of the
  payload, under the key of the unrevoked certificate that the envelope's key id names,
  enrolled for the user.\<close>

definition signed_by :: "lib \<Rightarrow> verifier_lib \<Rightarrow> db \<Rightarrow> string \<Rightarrow> integrity \<Rightarrow> string \<Rightarrow> bool" where
  "signed_by L V d payload ig user =
     (\<exists>rec sig. EnrolledCertByClientAppID L (now_env 0) (ig_key_id ig) d = Inr rec \<and>
        ci_user_id (ec_identity rec) = user \<and> xc_ecdsa (ec_certificate rec) \<and>
        vl_p256 V (xc_public_key (ec_certificate rec)) \<and>
        b64std_decode (ig_signature ig) = Some sig \<and> validateECDSASignatureASN1 sig = None \<and>
        ig_algorithm ig = AlgorithmECDSAP256SHA256 \<and> payload \<noteq> [] \<and>
        vl_ecdsa_verify V (xc_public_key (ec_certificate rec)) (lib_sha256 L payload) sig)"

section \<open>What the checks establish\<close>

lemma VerifyPayloadWithKey_None:
  "VerifyPayloadWithKey L V payload ig pub = None \<longleftrightarrow>
     vl_integrity_validate V ig \<and> payload \<noteq> [] \<and> ig_algorithm ig = AlgorithmECDSAP256SHA256 \<and>
     pk_ecdsa pub \<and> vl_p256 V (pk_bytes pub) \<and>
     (\<exists>sig. b64std_decode (ig_signature ig) = Some sig \<and> validateECDSASignatureASN1 sig = None \<and>
        vl_ecdsa_verify V (pk_bytes pub) (lib_sha256 L payload) sig)"
  by (auto simp: VerifyPayloadWithKey_def preverify_def verifyParsedKey_def split: option.splits)

lemma EnrolledCert_env:
  "EnrolledCertByClientAppID L env app d = Inr rec \<Longrightarrow> EnrolledCertByClientAppID L (now_env t) app d = Inr rec"
  by (auto simp: EnrolledCertByClientAppID_def split: if_splits option.splits)

lemma verifySignedPayload_Inr [h_simps]:
  "verifySignedPayload L V env verifier canonical envelope u d = (Inr x, d') \<longleftrightarrow>
     verifier \<and> d' = d \<and> (\<exists>rec. EnrolledCertByClientAppID L env (ig_key_id envelope) d = Inr rec \<and>
       ci_user_id (ec_identity rec) = u \<and>
       VerifyPayloadWithKey L V canonical envelope (cert_key (ec_certificate rec)) = None)"
  unfolding verifySignedPayload_def h_simps
  by (auto simp: h_return_def h_fail_def split: option.splits)

lemma verifySignedPayload_signed:
  "verifySignedPayload L V env verifier canonical envelope u d = (Inr x, d') \<Longrightarrow> signed_by L V d canonical envelope u"
  unfolding verifySignedPayload_Inr signed_by_def VerifyPayloadWithKey_None
  by (fastforce simp: cert_key_def dest: EnrolledCert_env [where t = 0])

lemma verifySignedPayload_D:
  "verifySignedPayload L V env verifier canonical envelope u d = (Inr x, d') \<Longrightarrow>
    d' = d \<and> signed_by L V d canonical envelope u"
  using verifySignedPayload_signed verifySignedPayload_Inr by metis

lemma verifySignedPayload_pure [h_atomic_intros]: "h_pure (verifySignedPayload L V env verifier canonical envelope u)"
  unfolding verifySignedPayload_def
  by (intro h_atomic_intros) (simp split: option.splits add: h_pure_return h_pure_fail)

text \<open>Enrolling another client app does not change who signed what.\<close>

lemma signed_by_cong:
  assumes "filter (\<lambda>r. ic_client_app_id r = Some (ig_key_id ig)) (issued_certificates d') =
    filter (\<lambda>r. ic_client_app_id r = Some (ig_key_id ig)) (issued_certificates d)"
  shows "signed_by L V d' payload ig u = signed_by L V d payload ig u"
proof -
  let ?f = "\<lambda>r. ic_client_app_id r = Some (ig_key_id ig) \<and> ic_revoked_at r = None \<and> ic_user_id r \<noteq> None"
  have s: "filter ?f rs = filter (\<lambda>r. ic_revoked_at r = None \<and> ic_user_id r \<noteq> None)
      (filter (\<lambda>r. ic_client_app_id r = Some (ig_key_id ig)) rs)" for rs
    by (simp add: conj_commute conj_ac)
  have "filter ?f (issued_certificates d') = filter ?f (issued_certificates d)"
    unfolding s assms by (rule refl)
  then have "EnrolledCertByClientAppID L (now_env 0) (ig_key_id ig) d' = EnrolledCertByClientAppID L (now_env 0) (ig_key_id ig) d"
    unfolding EnrolledCertByClientAppID_def by (simp only:)
  then show ?thesis by (simp only: signed_by_def)
qed

lemma verifySignedPayload_equiv_facts:
  assumes "env_open env" "\<not> env_fault env ''load enrolled cert''"
  shows "verifySignedPayload L V env True canonical ig u d = (Inr (), d) \<longleftrightarrow>
      VerifyPayload L V (NewStoreResolver L env d) canonical ig = None \<and>
      (\<exists>rec. EnrolledCertByClientAppID L env (ig_key_id ig) d = Inr rec \<and> ci_user_id (ec_identity rec) = u)"
    "EnrolledCertByClientAppID L env (ig_key_id ig) d = Inr rec \<Longrightarrow> ci_user_id (ec_identity rec) \<noteq> u \<Longrightarrow>
      verifySignedPayload L V env True canonical ig u d = (Inl (mk_problem 403 ''signer_owner_mismatch''), d)"
    "VerifyPayload L V (NewStoreResolver L env d) canonical ig = Some e \<Longrightarrow>
      EnrolledCertByClientAppID L env (ig_key_id ig) d = Inr rec \<Longrightarrow> ci_user_id (ec_identity rec) = u \<Longrightarrow>
      verifySignedPayload L V env True canonical ig u d = (Inl (writeIntegrityVerifyProblem e), d)"
    "snd (verifySignedPayload L V env True canonical ig u d) = d"
proof -
  have res: "VerifyPayload L V (NewStoreResolver L env d) canonical ig =
      VerifyPayloadWithKey L V canonical ig (cert_key (ec_certificate r))"
    if "EnrolledCertByClientAppID L env (ig_key_id ig) d = Inr r" for r
    using that by (simp add: VerifyPayload_def VerifyPayloadWithKey_def NewStoreResolver_def split: option.splits)
  show "verifySignedPayload L V env True canonical ig u d = (Inr (), d) \<longleftrightarrow>
      VerifyPayload L V (NewStoreResolver L env d) canonical ig = None \<and>
      (\<exists>rec. EnrolledCertByClientAppID L env (ig_key_id ig) d = Inr rec \<and> ci_user_id (ec_identity rec) = u)"
    unfolding verifySignedPayload_Inr by (auto simp: res)
  show "verifySignedPayload L V env True canonical ig u d = (Inl (mk_problem 403 ''signer_owner_mismatch''), d)"
    if "EnrolledCertByClientAppID L env (ig_key_id ig) d = Inr rec" "ci_user_id (ec_identity rec) \<noteq> u"
    using that by (simp add: verifySignedPayload_def h_require_def h_read_def h_fail_def)
  show "verifySignedPayload L V env True canonical ig u d = (Inl (writeIntegrityVerifyProblem e), d)"
    if "VerifyPayload L V (NewStoreResolver L env d) canonical ig = Some e"
      "EnrolledCertByClientAppID L env (ig_key_id ig) d = Inr rec" "ci_user_id (ec_identity rec) = u"
    using that by (simp add: res verifySignedPayload_def h_require_def h_read_def h_fail_def)
  show "snd (verifySignedPayload L V env True canonical ig u d) = d"
    using verifySignedPayload_pure unfolding h_pure_def by blast
qed


section \<open>DER signatures\<close>

fun be_bytes :: "nat \<Rightarrow> string" where
  "be_bytes n = (if n < 256 then [char_of n] else be_bytes (n div 256) @ [char_of (n mod 256)])"

declare be_bytes.simps [simp del]

definition der_int_bytes :: "nat \<Rightarrow> string" where
  "der_int_bytes n = (let bs = be_bytes n in if (of_char (hd bs) :: nat) < 128 then bs else CHR 0x00 # bs)"

definition der_tlv :: "nat \<Rightarrow> string \<Rightarrow> string" where
  "der_tlv tag bs = char_of tag # char_of (length bs) # bs"

definition der_signature :: "nat \<Rightarrow> nat \<Rightarrow> string \<Rightarrow> string" where
  "der_signature r s extra = der_tlv 48 (der_tlv 2 (der_int_bytes r) @ der_tlv 2 (der_int_bytes s) @ extra)"

lemma be_nat_snoc: "be_nat (bs @ [c]) = be_nat bs * 256 + of_char c"
  by (simp add: be_nat_def)

lemma be_nat_bytes: "be_nat (be_bytes n) = n"
proof (induction n rule: be_bytes.induct)
  case (1 n)
  show ?case
  proof (cases "n < 256")
    case True
    then show ?thesis by (subst be_bytes.simps) (simp add: be_nat_def)
  next
    case False
    with 1 show ?thesis by (subst be_bytes.simps) (simp add: be_nat_snoc)
  qed
qed

lemma be_bytes_hd: "0 < n \<Longrightarrow> be_bytes n \<noteq> [] \<and> 0 < (of_char (hd (be_bytes n)) :: nat)"
proof (induction n rule: be_bytes.induct)
  case (1 n)
  show ?case
  proof (cases "n < 256")
    case True
    with 1 show ?thesis by (subst (1 2) be_bytes.simps) simp
  next
    case False
    with 1 show ?thesis by (subst (1 2) be_bytes.simps) (simp add: div_greater_zero_iff)
  qed
qed

lemma be_bytes_length: "n < 256 ^ k \<Longrightarrow> 0 < k \<Longrightarrow> length (be_bytes n) \<le> k"
proof (induction k arbitrary: n)
  case (Suc k)
  show ?case
  proof (cases "n < 256")
    case True
    then show ?thesis by (subst be_bytes.simps) simp
  next
    case False
    then have "0 < k" "n div 256 < 256 ^ k" using Suc.prems by (cases k; simp add: less_mult_imp_div_less mult.commute)+
    with Suc.IH [of "n div 256"] False show ?thesis by (subst be_bytes.simps) simp
  qed
qed simp

lemma der_integer_bytes: "0 < n \<Longrightarrow> der_integer (der_int_bytes n) = Some (int n)"
  using be_bytes_hd [of n] be_nat_bytes [of n]
  by (cases "be_bytes n") (auto simp: der_int_bytes_def der_integer_def Let_def be_nat_def split: list.splits)

lemma der_element_tlv:
  "tag < 256 \<Longrightarrow> length bs < 128 \<Longrightarrow> der_element tag (der_tlv tag bs @ rest) = Some (bs, rest)"
  by (simp add: der_element_def der_tlv_def der_length_def)

lemma der_int_bytes_length: "n < 256 ^ 32 \<Longrightarrow> length (der_int_bytes n) \<le> 33"
  using be_bytes_length [of n 32] by (simp add: der_int_bytes_def Let_def)

lemma validateECDSASignatureASN1_shape_facts:
  assumes "0 < r" "r < 2 ^ 256" "0 < s" "s < 2 ^ 256" "length extra \<le> 50"
  shows "validateECDSASignatureASN1 (der_signature r s extra) = None"
    "t \<noteq> [] \<Longrightarrow> validateECDSASignatureASN1 (der_signature r s extra @ t) = Some ''asn1 has trailing bytes''"
proof -
  have "(2::nat) ^ 256 = 256 ^ 32" by (simp flip: power_mult add: power_mult [of 2 8 32, simplified])
  with assms have l: "length (der_int_bytes r) \<le> 33" "length (der_int_bytes s) \<le> 33"
    by (auto intro: der_int_bytes_length)
  let ?inner = "der_tlv 2 (der_int_bytes r) @ der_tlv 2 (der_int_bytes s) @ extra"
  have "length ?inner < 128" using l assms by (simp add: der_tlv_def)
  then have "der_element 48 (der_signature r s extra @ t) = Some (?inner, t)" for t
    unfolding der_signature_def by (intro der_element_tlv) auto
  moreover have "der_element 2 ?inner = Some (der_int_bytes r, der_tlv 2 (der_int_bytes s) @ extra)"
    "der_element 2 (der_tlv 2 (der_int_bytes s) @ extra) = Some (der_int_bytes s, extra)"
    using l by (intro der_element_tlv; simp)+
  ultimately have u: "asn1_Unmarshal_rs (der_signature r s extra @ t) = Some ((int r, int s), t)" for t
    using der_integer_bytes assms by (simp add: asn1_Unmarshal_rs_def)
  from u [of "[]"] assms show "validateECDSASignatureASN1 (der_signature r s extra) = None"
    by (simp add: validateECDSASignatureASN1_def)
  from u [of t] show "t \<noteq> [] \<Longrightarrow> validateECDSASignatureASN1 (der_signature r s extra @ t) = Some ''asn1 has trailing bytes''"
    by (simp add: validateECDSASignatureASN1_def)
qed



text \<open>A small verifier: a signature is valid when the digest is the key.\<close>

definition demo_verifier :: verifier_lib where
  "demo_verifier = \<lparr>vl_integrity_validate = (\<lambda>_. True), vl_p256 = (\<lambda>_. True),
     vl_ecdsa_verify = (\<lambda>k dg sig. k = dg)\<rparr>"

definition demo_envelope :: integrity where
  "demo_envelope = \<lparr>ig_algorithm = AlgorithmECDSAP256SHA256, ig_key_id = ''app'', ig_signature = ''MAYCAQECAQE=''\<rparr>"

definition demo_enrolled_db :: db where
  "demo_enrolled_db = snd (RegisterClientApp demo_lib (now_env 9) demo_reg demo_enroll_db)"


end
