(* ===== verification/Chains.thy ===== *)
theory Chains
  imports Prelude
begin

text \<open>
  The contract that the server's four append-only revision histories share: the
  ACL chain and the metadata chain of a journey vehicle, the garage chain and
  the garage-vehicle chain. Each keeps a head version per entity and one row per
  accepted revision. The locale \<open>revision_chain\<close> states what a successful create
  and a successful append do to the head and to the recorded versions; its
  lemmas are proved once here and used through the interpretations in
  JourneyVehicles, Garages and GarageVehicles.
\<close>

text \<open>A well-formed history: the recorded versions are strictly increasing in
  the order they were recorded, and the head is the last one.\<close>

definition history_ok :: "int option \<Rightarrow> int list \<Rightarrow> bool" where
  "history_ok ho vs =
     (case ho of None \<Rightarrow> vs = [] | Some h \<Rightarrow> vs \<noteq> [] \<and> last vs = h \<and> sorted_wrt (<) vs)"

definition chain_ok :: "('db \<Rightarrow> 'k \<Rightarrow> int option) \<Rightarrow> ('db \<Rightarrow> 'k \<Rightarrow> int list) \<Rightarrow> 'db \<Rightarrow> bool" where
  "chain_ok head versions d = (\<forall>k. history_ok (head d k) (versions d k))"

lemma history_ok_None [simp]: "history_ok None vs = (vs = [])"
  by (simp add: history_ok_def)

lemma history_ok_Some [simp]:
  "history_ok (Some h) vs = (vs \<noteq> [] \<and> last vs = h \<and> sorted_wrt (<) vs)"
  by (simp add: history_ok_def)

lemma chain_okD: "chain_ok head versions d \<Longrightarrow> head d k = ho \<Longrightarrow> history_ok ho (versions d k)"
  by (auto simp: chain_ok_def)

lemma chain_ok_update:
  assumes "chain_ok head versions d" "head d' = (head d)(k := ho)" "versions d' = (versions d)(k := vs)"
    "history_ok ho vs"
  shows "chain_ok head versions d'"
  using assms by (simp add: chain_ok_def)

text \<open>No head moves back, and no entity disappears.\<close>

definition head_le :: "('db \<Rightarrow> 'k \<Rightarrow> int option) \<Rightarrow> 'db \<Rightarrow> 'db \<Rightarrow> bool" where
  "head_le head d d' = (\<forall>k h. head d k = Some h \<longrightarrow> (\<exists>h'. head d' k = Some h' \<and> h \<le> h'))"

lemma head_le_refl [simp]: "head_le head d d"
  by (simp add: head_le_def)

lemma head_le_trans: "head_le head d d' \<Longrightarrow> head_le head d' d'' \<Longrightarrow> head_le head d d''"
  unfolding head_le_def by (meson order_trans)

lemma head_le_same: "head d' = head d \<Longrightarrow> head_le head d d'"
  by (simp add: head_le_def)

lemma sorted_wrt_last_max:
  "sorted_wrt (<) xs \<Longrightarrow> xs \<noteq> [] \<Longrightarrow> x \<in> set xs \<Longrightarrow> x \<le> (last xs :: int)"
proof (induction xs)
  case (Cons y ys)
  then show ?case using last_in_set [of ys] by (cases "ys = []") (auto intro: less_imp_le)
qed simp

locale revision_chain =
  fixes head :: "'db \<Rightarrow> 'k \<Rightarrow> int option"
    and versions :: "'db \<Rightarrow> 'k \<Rightarrow> int list"
    and created :: "'db \<Rightarrow> 'k \<Rightarrow> int \<Rightarrow> 'db \<Rightarrow> bool"
    and appended :: "'db \<Rightarrow> 'k \<Rightarrow> int \<Rightarrow> 'db \<Rightarrow> bool"
  assumes create_guard: "created d k v d' \<Longrightarrow> head d k = None"
    and create_head: "created d k v d' \<Longrightarrow> head d' = (head d)(k \<mapsto> v)"
    and create_versions: "created d k v d' \<Longrightarrow> versions d' = (versions d)(k := versions d k @ [v])"
    and append_guard: "appended d k v d' \<Longrightarrow> \<exists>h. head d k = Some h \<and> h < v"
    and append_head: "appended d k v d' \<Longrightarrow> head d' = (head d)(k \<mapsto> v)"
    and append_versions: "appended d k v d' \<Longrightarrow> versions d' = (versions d)(k := versions d k @ [v])"
begin

lemma created_ok:
  assumes "chain_ok head versions d" "created d k v d'"
  shows "chain_ok head versions d'"
  using chain_okD [OF assms(1) create_guard [OF assms(2)]]
  by (intro chain_ok_update [OF assms(1) create_head [OF assms(2)] create_versions [OF assms(2)]]) simp

lemma appended_ok:
  assumes "chain_ok head versions d" "appended d k v d'"
  shows "chain_ok head versions d'"
proof -
  from append_guard [OF assms(2)] obtain h where h: "head d k = Some h" "h < v" by blast
  note ok = chain_okD [OF assms(1) h(1), simplified]
  have "sorted_wrt (<) (versions d k @ [v])"
    using ok h by (auto simp: sorted_wrt_append dest!: sorted_wrt_last_max)
  then show ?thesis
    by (intro chain_ok_update [OF assms(1) append_head [OF assms(2)] append_versions [OF assms(2)]]) simp
qed

lemma frame_ok:
  "chain_ok head versions d \<Longrightarrow> head d' = head d \<Longrightarrow> versions d' = versions d \<Longrightarrow> chain_ok head versions d'"
  unfolding chain_ok_def by metis

lemma created_le: "created d k v d' \<Longrightarrow> head_le head d d'"
  by (auto simp: head_le_def create_head dest: create_guard)

lemma appended_le: "appended d k v d' \<Longrightarrow> head_le head d d'"
  by (frule append_guard) (auto simp: head_le_def append_head)

text \<open>The head is the greatest recorded version.\<close>

lemma head_max:
  assumes "chain_ok head versions d" "head d k = Some h"
  shows "h \<in> set (versions d k) \<and> (\<forall>v \<in> set (versions d k). v \<le> h)"
  using chain_okD [OF assms] by (auto dest: sorted_wrt_last_max)

lemma versions_distinct:
  assumes "chain_ok head versions d"
  shows "distinct (versions d k)"
  using chain_okD [OF assms refl, of k] by (cases "head d k") (auto simp: strict_sorted_iff)

text \<open>Once a version is in the history, no state that comes later accepts that
  version or an older one.\<close>

lemma no_replay:
  assumes "chain_ok head versions d" "v \<in> set (versions d k)" "head_le head d d1" "v' \<le> v"
  shows "\<not> appended d1 k v' d2"
proof
  assume "appended d1 k v' d2"
  then obtain h1 where h1: "head d1 k = Some h1" "h1 < v'" using append_guard by blast
  obtain h where h: "head d k = Some h"
    using chain_okD [OF assms(1) refl, of k] assms(2) by (cases "head d k") auto
  moreover from h assms(3) h1 have "h \<le> h1" unfolding head_le_def by (metis option.inject)
  ultimately show False using assms(2,4) head_max [OF assms(1) h] h1 by force
qed

end

end
