(* ===== verification/JourneyVehicles.thy ===== *)
theory JourneyVehicles
  imports Schema Chains
begin

text \<open>
  Journey vehicles (storage/journey_vehicle.go): a vehicle uploaded to a
  journey, its signed metadata revisions and its signed ACL revisions. The
  operations are the transactions of the source; the theorems say that the two
  histories are strictly monotone and append-only, that creation reports the
  right duplicate, and which ACL revision governs an instant.
\<close>

section \<open>Parameters\<close>

record journey_vehicle_create_params =
  jvc_journey_id :: string
  jvc_vehicle :: vehicle
  jvc_initial_acl :: vehicle_acl
  jvc_canonical_vehicle :: string
  jvc_canonical_acl :: string

record acl_append_params =
  jva_journey_vehicle_id :: string
  jva_acl :: vehicle_acl
  jva_canonical :: string

record revision_append_params =
  jvra_journey_vehicle_id :: string
  jvra_vehicle :: vehicle
  jvra_canonical :: string

section \<open>Operations\<close>

text \<open>The rows the transactions write, from the request and the environment.\<close>

definition vehicle_head_row :: "journey_vehicle_create_params \<Rightarrow> integrity \<Rightarrow> int \<Rightarrow> journey_vehicle" where
  "vehicle_head_row p ig now =
     \<lparr>jv_id = v_id (jvc_vehicle p), jv_journey_id = jvc_journey_id p,
      jv_owner_user_id = v_owner_user_id (jvc_vehicle p),
      jv_current_revision_version = v_revision_version (jvc_vehicle p),
      jv_current_acl_version = acl_acl_version (jvc_initial_acl p),
      jv_integrity = ig, jv_canonical_payload = jvc_canonical_vehicle p,
      jv_avatar_blob_hash = blobRefHash (v_avatar_blob (jvc_vehicle p)),
      jv_banner_blob_hash = blobRefHash (v_banner_blob (jvc_vehicle p)),
      jv_received_at = now\<rparr>"

definition vehicle_revision_row ::
  "string \<Rightarrow> string \<Rightarrow> vehicle \<Rightarrow> integrity \<Rightarrow> string \<Rightarrow> int \<Rightarrow> journey_vehicle_revision" where
  "vehicle_revision_row rid vid v ig canonical now =
     \<lparr>jvr_id = rid, jvr_journey_vehicle_id = vid, jvr_revision_version = v_revision_version v,
      jvr_revision_time = v_revision_time v, jvr_integrity = ig, jvr_canonical_payload = canonical,
      jvr_avatar_blob_hash = blobRefHash (v_avatar_blob v),
      jvr_banner_blob_hash = blobRefHash (v_banner_blob v), jvr_received_at = now\<rparr>"

definition acl_revision_row ::
  "lib \<Rightarrow> string \<Rightarrow> string \<Rightarrow> vehicle_acl \<Rightarrow> integrity \<Rightarrow> string \<Rightarrow> int \<Rightarrow> acl_revision" where
  "acl_revision_row L rid vid acl ig canonical now =
     \<lparr>ar_id = rid, ar_journey_vehicle_id = vid, ar_acl_version = acl_acl_version acl,
      ar_effective_time = acl_effective_time acl,
      ar_authorized_drivers_json = lib_marshal_drivers L (acl_authorized_drivers acl),
      ar_emergency_rule_kind = emergencyRuleKind (acl_emergency_rule acl),
      ar_integrity = ig, ar_canonical_payload = canonical, ar_received_at = now\<rparr>"

text \<open>The checks before the transaction, in the order of the source.\<close>

definition create_vehicle_checks :: "lib \<Rightarrow> env \<Rightarrow> journey_vehicle_create_params \<Rightarrow> (bool \<times> serr) list" where
  "create_vehicle_checks L env p =
     [(env_open env, ErrNotOpen),
      (jvc_journey_id p \<noteq> [], ErrInvalid ''journey id must be set''),
      (jvc_canonical_vehicle p \<noteq> [], ErrInvalid ''canonical vehicle payload must be supplied''),
      (jvc_canonical_acl p \<noteq> [], ErrInvalid ''canonical acl payload must be supplied''),
      (lib_vehicle_validate L (jvc_vehicle p), ErrInvalid ''vehicle validate''),
      (v_integrity (jvc_vehicle p) \<noteq> None, ErrInvalid ''vehicle must carry an Integrity envelope''),
      (lib_acl_validate L (jvc_initial_acl p), ErrInvalid ''initial acl validate''),
      (acl_integrity (jvc_initial_acl p) \<noteq> None, ErrInvalid ''initial acl must carry an Integrity envelope''),
      (acl_vehicle_id (jvc_initial_acl p) = v_id (jvc_vehicle p), ErrInvalid ''initial acl vehicle_id''),
      (acl_owner_user_id (jvc_initial_acl p) = v_owner_user_id (jvc_vehicle p), ErrInvalid ''initial acl owner''),
      (v_revision_version (jvc_vehicle p) = 1, ErrInvalid ''revision_version must be 1 on create''),
      (acl_acl_version (jvc_initial_acl p) = 1, ErrInvalid ''acl_version must be 1 on create''),
      (env_uuid env 0 \<noteq> None, ErrGenerate ''mint revision id''),
      (env_uuid env 1 \<noteq> None, ErrGenerate ''mint acl revision id'')]"

definition CreateJourneyVehicle ::
  "lib \<Rightarrow> env \<Rightarrow> journey_vehicle_create_params \<Rightarrow> (db, journey_vehicle) op" where
  "CreateJourneyVehicle L env p = op_require (create_vehicle_checks L env p)
     (let ig = the (v_integrity (jvc_vehicle p)); aig = the (acl_integrity (jvc_initial_acl p));
          revisionID = the (env_uuid env 0); aclRevID = the (env_uuid env 1);
          now = env_now env; vid = v_id (jvc_vehicle p); row = vehicle_head_row p ig now
      in run_tx env
       (tx_bind (tx_query env ''pre-check vehicle id'' (\<lambda>d. find (\<lambda>r. jv_id r = vid) (journey_vehicles d)))
        (\<lambda>existing. tx_bind (tx_guard (existing = None) ErrJourneyVehicleDuplicateID)
        (\<lambda>_. tx_bind (tx_exec env ''insert journey vehicle''
               (\<lambda>e. if isUniqueViolation e then ErrJourneyVehicleDuplicateOwner else SQLErr e)
               (insert_journey_vehicle row))
        (\<lambda>_. tx_bind (tx_exec env ''insert initial vehicle revision'' SQLErr
               (insert_journey_vehicle_revision
                 (vehicle_revision_row revisionID vid (jvc_vehicle p) ig (jvc_canonical_vehicle p) now)))
        (\<lambda>_. tx_bind (tx_exec env ''insert initial acl revision'' SQLErr
               (insert_acl_revision
                 (acl_revision_row L aclRevID vid (jvc_initial_acl p) aig (jvc_canonical_acl p) now)))
        (\<lambda>_. tx_return row)))))))"

definition JourneyVehicleByID :: "env \<Rightarrow> string \<Rightarrow> string \<Rightarrow> db \<Rightarrow> serr + journey_vehicle" where
  "JourneyVehicleByID env jid vid d =
     (if \<not> env_open env then Inl ErrNotOpen
      else if jid = [] \<or> vid = [] then Inl ErrJourneyVehicleNotFound
      else if env_fault env ''scan journey vehicle'' then Inl (SQLErr (SQLDriver ''scan journey vehicle''))
      else case find (\<lambda>r. jv_journey_id r = jid \<and> jv_id r = vid) (journey_vehicles d) of
        None \<Rightarrow> Inl ErrJourneyVehicleNotFound | Some r \<Rightarrow> Inr r)"

definition ListJourneyVehicles :: "env \<Rightarrow> string \<Rightarrow> db \<Rightarrow> serr + journey_vehicle list" where
  "ListJourneyVehicles env jid d =
     (if \<not> env_open env then Inl ErrNotOpen
      else if env_fault env ''query journey vehicles'' then Inl (SQLErr (SQLDriver ''query journey vehicles''))
      else Inr (sort_key jv_received_at (filter (\<lambda>r. jv_journey_id r = jid) (journey_vehicles d))))"

definition AppendJourneyVehicleACL :: "lib \<Rightarrow> env \<Rightarrow> acl_append_params \<Rightarrow> (db, acl_revision) op" where
  "AppendJourneyVehicleACL L env p = op_require
     [(env_open env, ErrNotOpen),
      (lib_acl_validate L (jva_acl p), ErrInvalid ''acl validate''),
      (acl_integrity (jva_acl p) \<noteq> None, ErrInvalid ''acl must carry an Integrity envelope''),
      (jva_canonical p \<noteq> [], ErrInvalid ''canonical payload must be supplied''),
      (env_uuid env 0 \<noteq> None, ErrGenerate ''mint acl revision id'')]
     (let vid = jva_journey_vehicle_id p; v = acl_acl_version (jva_acl p);
          row = acl_revision_row L (the (env_uuid env 0)) vid (jva_acl p) (the (acl_integrity (jva_acl p)))
                  (jva_canonical p) (env_now env)
      in run_tx env
       (tx_bind (tx_query env ''load current acl version'' (\<lambda>d. find (\<lambda>r. jv_id r = vid) (journey_vehicles d)))
        (\<lambda>cur. tx_bind (tx_opt ErrJourneyVehicleNotFound cur)
        (\<lambda>jv. tx_bind (tx_guard (jv_current_acl_version jv < v) ErrJourneyVehicleACLVersionConflict)
        (\<lambda>_. tx_bind (tx_exec env ''insert acl revision''
               (\<lambda>e. if isUniqueViolation e then ErrJourneyVehicleACLVersionConflict else SQLErr e)
               (insert_acl_revision row))
        (\<lambda>_. tx_bind (tx_exec env ''advance current acl'' SQLErr
               (update_journey_vehicles (\<lambda>r. jv_id r = vid \<and> jv_current_acl_version r < v)
                  (\<lambda>r. r\<lparr>jv_current_acl_version := v\<rparr>)))
        (\<lambda>affected. tx_bind (tx_guard (affected \<noteq> 0) ErrJourneyVehicleACLVersionConflict)
        (\<lambda>_. tx_return row))))))))"

definition AppendJourneyVehicleRevision ::
  "lib \<Rightarrow> env \<Rightarrow> revision_append_params \<Rightarrow> (db, journey_vehicle_revision) op" where
  "AppendJourneyVehicleRevision L env p = op_require
     [(env_open env, ErrNotOpen),
      (lib_vehicle_validate L (jvra_vehicle p), ErrInvalid ''vehicle validate''),
      (v_integrity (jvra_vehicle p) \<noteq> None, ErrInvalid ''vehicle must carry an Integrity envelope''),
      (jvra_canonical p \<noteq> [], ErrInvalid ''canonical payload must be supplied''),
      (env_uuid env 0 \<noteq> None, ErrGenerate ''mint revision id'')]
     (let vid = jvra_journey_vehicle_id p; veh = jvra_vehicle p; v = v_revision_version veh;
          ig = the (v_integrity veh);
          row = vehicle_revision_row (the (env_uuid env 0)) vid veh ig (jvra_canonical p) (env_now env)
      in run_tx env
       (tx_bind (tx_query env ''load current revision'' (\<lambda>d. find (\<lambda>r. jv_id r = vid) (journey_vehicles d)))
        (\<lambda>cur. tx_bind (tx_opt ErrJourneyVehicleNotFound cur)
        (\<lambda>jv. tx_bind (tx_guard (jv_current_revision_version jv < v) ErrJourneyVehicleRevisionConflict)
        (\<lambda>_. tx_bind (tx_exec env ''insert vehicle revision''
               (\<lambda>e. if isUniqueViolation e then ErrJourneyVehicleRevisionConflict else SQLErr e)
               (insert_journey_vehicle_revision row))
        (\<lambda>_. tx_bind (tx_exec env ''advance current revision'' SQLErr
               (update_journey_vehicles (\<lambda>r. jv_id r = vid \<and> jv_current_revision_version r < v)
                  (\<lambda>r. r\<lparr>jv_current_revision_version := v, jv_integrity := ig,
                         jv_canonical_payload := jvra_canonical p,
                         jv_avatar_blob_hash := blobRefHash (v_avatar_blob veh),
                         jv_banner_blob_hash := blobRefHash (v_banner_blob veh)\<rparr>)))
        (\<lambda>affected. tx_bind (tx_guard (affected \<noteq> 0) ErrJourneyVehicleRevisionConflict)
        (\<lambda>_. tx_return row))))))))"

definition JourneyVehicleACLAt :: "env \<Rightarrow> string \<Rightarrow> int \<Rightarrow> db \<Rightarrow> serr + acl_revision" where
  "JourneyVehicleACLAt env vid at d =
     (if \<not> env_open env then Inl ErrNotOpen
      else if env_fault env ''load acl'' then Inl (SQLErr (SQLDriver ''load acl''))
      else case first_max ar_acl_version
          (filter (\<lambda>r. ar_journey_vehicle_id r = vid \<and> ar_effective_time r \<le> at) (acl_revisions d)) of
        None \<Rightarrow> Inl ErrJourneyVehicleNotFound | Some r \<Rightarrow> Inr r)"

section \<open>What a successful operation did\<close>

lemma row_sels [simp]:
  "jv_id (vehicle_head_row p ig now) = v_id (jvc_vehicle p)"
  "jv_journey_id (vehicle_head_row p ig now) = jvc_journey_id p"
  "jv_owner_user_id (vehicle_head_row p ig now) = v_owner_user_id (jvc_vehicle p)"
  "jv_current_revision_version (vehicle_head_row p ig now) = v_revision_version (jvc_vehicle p)"
  "jv_current_acl_version (vehicle_head_row p ig now) = acl_acl_version (jvc_initial_acl p)"
  "jvr_journey_vehicle_id (vehicle_revision_row rid vid v ig c now) = vid"
  "jvr_revision_version (vehicle_revision_row rid vid v ig c now) = v_revision_version v"
  "jvr_id (vehicle_revision_row rid vid v ig c now) = rid"
  "ar_journey_vehicle_id (acl_revision_row L rid vid acl ig c now) = vid"
  "ar_acl_version (acl_revision_row L rid vid acl ig c now) = acl_acl_version acl"
  "ar_id (acl_revision_row L rid vid acl ig c now) = rid"
  "ar_effective_time (acl_revision_row L rid vid acl ig c now) = acl_effective_time acl"
  "ar_authorized_drivers_json (acl_revision_row L rid vid acl ig c now) =
     lib_marshal_drivers L (acl_authorized_drivers acl)"
  "ar_emergency_rule_kind (acl_revision_row L rid vid acl ig c now) = emergencyRuleKind (acl_emergency_rule acl)"
  by (simp_all add: vehicle_head_row_def vehicle_revision_row_def acl_revision_row_def)

lemma CreateJourneyVehicle_Inr:
  assumes "CreateJourneyVehicle L env p d = (Inr row, d')"
  shows "row = vehicle_head_row p (the (v_integrity (jvc_vehicle p))) (env_now env) \<and>
    v_revision_version (jvc_vehicle p) = 1 \<and> acl_acl_version (jvc_initial_acl p) = 1 \<and>
    (\<forall>r \<in> set (journey_vehicles d). jv_id r \<noteq> v_id (jvc_vehicle p) \<and>
       (jv_journey_id r = jvc_journey_id p \<longrightarrow> jv_owner_user_id r \<noteq> v_owner_user_id (jvc_vehicle p))) \<and>
    d' = d\<lparr>journey_vehicles := journey_vehicles d @ [row],
       journey_vehicle_revisions := journey_vehicle_revisions d @
         [vehicle_revision_row (the (env_uuid env 0)) (v_id (jvc_vehicle p)) (jvc_vehicle p)
            (the (v_integrity (jvc_vehicle p))) (jvc_canonical_vehicle p) (env_now env)],
       acl_revisions := acl_revisions d @
         [acl_revision_row L (the (env_uuid env 1)) (v_id (jvc_vehicle p)) (jvc_initial_acl p)
            (the (acl_integrity (jvc_initial_acl p))) (jvc_canonical_acl p) (env_now env)]\<rparr>"
  using assms unfolding CreateJourneyVehicle_def create_vehicle_checks_def Let_def
  by (auto simp: tx_Inr table_defs)

lemma AppendJourneyVehicleACL_Inr:
  assumes "AppendJourneyVehicleACL L env p d = (Inr row, d')"
  shows "(\<exists>jv. find (\<lambda>r. jv_id r = jva_journey_vehicle_id p) (journey_vehicles d) = Some jv \<and>
      jv_current_acl_version jv < acl_acl_version (jva_acl p)) \<and>
    row = acl_revision_row L (the (env_uuid env 0)) (jva_journey_vehicle_id p) (jva_acl p)
       (the (acl_integrity (jva_acl p))) (jva_canonical p) (env_now env) \<and>
    d' = d\<lparr>acl_revisions := acl_revisions d @ [row],
           journey_vehicles := set_where
             (\<lambda>r. jv_id r = jva_journey_vehicle_id p \<and> jv_current_acl_version r < acl_acl_version (jva_acl p))
             (\<lambda>r. r\<lparr>jv_current_acl_version := acl_acl_version (jva_acl p)\<rparr>) (journey_vehicles d)\<rparr>"
  using assms unfolding AppendJourneyVehicleACL_def Let_def
  by (auto simp: tx_Inr table_defs)

lemma AppendJourneyVehicleRevision_Inr:
  assumes "AppendJourneyVehicleRevision L env p d = (Inr row, d')"
  shows "(\<exists>jv. find (\<lambda>r. jv_id r = jvra_journey_vehicle_id p) (journey_vehicles d) = Some jv \<and>
      jv_current_revision_version jv < v_revision_version (jvra_vehicle p)) \<and>
    row = vehicle_revision_row (the (env_uuid env 0)) (jvra_journey_vehicle_id p) (jvra_vehicle p)
       (the (v_integrity (jvra_vehicle p))) (jvra_canonical p) (env_now env) \<and>
    d' = d\<lparr>journey_vehicle_revisions := journey_vehicle_revisions d @ [row],
           journey_vehicles := set_where
             (\<lambda>r. jv_id r = jvra_journey_vehicle_id p \<and>
                  jv_current_revision_version r < v_revision_version (jvra_vehicle p))
             (\<lambda>r. r\<lparr>jv_current_revision_version := v_revision_version (jvra_vehicle p),
                    jv_integrity := the (v_integrity (jvra_vehicle p)),
                    jv_canonical_payload := jvra_canonical p,
                    jv_avatar_blob_hash := blobRefHash (v_avatar_blob (jvra_vehicle p)),
                    jv_banner_blob_hash := blobRefHash (v_banner_blob (jvra_vehicle p))\<rparr>)
             (journey_vehicles d)\<rparr>"
  using assms unfolding AppendJourneyVehicleRevision_def Let_def
  by (auto simp: tx_Inr table_defs)

section \<open>The two histories\<close>

definition acl_head :: "db \<Rightarrow> string \<Rightarrow> int option" where
  "acl_head d v = map_option jv_current_acl_version (find (\<lambda>r. jv_id r = v) (journey_vehicles d))"

definition acl_versions :: "db \<Rightarrow> string \<Rightarrow> int list" where
  "acl_versions d v = map ar_acl_version (filter (\<lambda>r. ar_journey_vehicle_id r = v) (acl_revisions d))"

definition meta_head :: "db \<Rightarrow> string \<Rightarrow> int option" where
  "meta_head d v = map_option jv_current_revision_version (find (\<lambda>r. jv_id r = v) (journey_vehicles d))"

definition meta_versions :: "db \<Rightarrow> string \<Rightarrow> int list" where
  "meta_versions d v =
     map jvr_revision_version (filter (\<lambda>r. jvr_journey_vehicle_id r = v) (journey_vehicle_revisions d))"

definition vehicle_created :: "db \<Rightarrow> string \<Rightarrow> int \<Rightarrow> db \<Rightarrow> bool" where
  "vehicle_created d v n d' = (\<exists>L env p row. CreateJourneyVehicle L env p d = (Inr row, d') \<and>
     v = v_id (jvc_vehicle p) \<and> n = 1)"

definition acl_appended :: "db \<Rightarrow> string \<Rightarrow> int \<Rightarrow> db \<Rightarrow> bool" where
  "acl_appended d v n d' = (\<exists>L env p row. AppendJourneyVehicleACL L env p d = (Inr row, d') \<and>
     v = jva_journey_vehicle_id p \<and> n = acl_acl_version (jva_acl p))"

definition meta_appended :: "db \<Rightarrow> string \<Rightarrow> int \<Rightarrow> db \<Rightarrow> bool" where
  "meta_appended d v n d' = (\<exists>L env p row. AppendJourneyVehicleRevision L env p d = (Inr row, d') \<and>
     v = jvra_journey_vehicle_id p \<and> n = v_revision_version (jvra_vehicle p))"

lemmas jv_chain_defs = acl_head_def acl_versions_def meta_head_def meta_versions_def

lemma vehicle_created_effect:
  assumes "vehicle_created d v n d'"
  shows "acl_head d v = None" "meta_head d v = None"
    "acl_head d' = (acl_head d)(v \<mapsto> n)" "meta_head d' = (meta_head d)(v \<mapsto> n)"
    "acl_versions d' = (acl_versions d)(v := acl_versions d v @ [n])"
    "meta_versions d' = (meta_versions d)(v := meta_versions d v @ [n])"
  using assms unfolding vehicle_created_def
  by (auto dest!: CreateJourneyVehicle_Inr simp: jv_chain_defs fun_eq_iff find_append find_None_iff'
      split: option.splits dest!: find_SomeD)

lemma acl_appended_effect:
  assumes "acl_appended d v n d'"
  shows "\<exists>h. acl_head d v = Some h \<and> h < n" "acl_head d' = (acl_head d)(v \<mapsto> n)" "meta_head d' = meta_head d"
    "acl_versions d' = (acl_versions d)(v := acl_versions d v @ [n])" "meta_versions d' = meta_versions d"
proof -
  from assms obtain L env p row where r: "AppendJourneyVehicleACL L env p d = (Inr row, d')"
    "v = jva_journey_vehicle_id p" "n = acl_acl_version (jva_acl p)"
    by (auto simp: acl_appended_def)
  note e = AppendJourneyVehicleACL_Inr [OF r(1), folded r(2,3)]
  then obtain jv where jv: "find (\<lambda>r. jv_id r = v) (journey_vehicles d) = Some jv" "jv_current_acl_version jv < n"
    by blast
  show "\<exists>h. acl_head d v = Some h \<and> h < n"
    using jv by (simp add: acl_head_def)
  show "acl_head d' = (acl_head d)(v \<mapsto> n)"
    using e jv by (auto simp: acl_head_def fun_eq_iff find_set_where option.map_comp o_def dest: find_SomeD
        intro!: option.map_cong)
  show "meta_head d' = meta_head d"
    using e by (auto simp: meta_head_def fun_eq_iff find_set_where option.map_comp o_def intro!: option.map_cong)
  show "acl_versions d' = (acl_versions d)(v := acl_versions d v @ [n])" "meta_versions d' = meta_versions d"
    using e r(3) by (auto simp: acl_versions_def meta_versions_def fun_eq_iff)
qed

lemma meta_appended_effect:
  assumes "meta_appended d v n d'"
  shows "\<exists>h. meta_head d v = Some h \<and> h < n" "meta_head d' = (meta_head d)(v \<mapsto> n)" "acl_head d' = acl_head d"
    "meta_versions d' = (meta_versions d)(v := meta_versions d v @ [n])" "acl_versions d' = acl_versions d"
proof -
  from assms obtain L env p row where r: "AppendJourneyVehicleRevision L env p d = (Inr row, d')"
    "v = jvra_journey_vehicle_id p" "n = v_revision_version (jvra_vehicle p)"
    by (auto simp: meta_appended_def)
  note e = AppendJourneyVehicleRevision_Inr [OF r(1), folded r(2,3)]
  then obtain jv where jv: "find (\<lambda>r. jv_id r = v) (journey_vehicles d) = Some jv"
    "jv_current_revision_version jv < n"
    by blast
  show "\<exists>h. meta_head d v = Some h \<and> h < n"
    using jv by (simp add: meta_head_def)
  show "meta_head d' = (meta_head d)(v \<mapsto> n)"
    using e jv by (auto simp: meta_head_def fun_eq_iff find_set_where option.map_comp o_def dest: find_SomeD
        intro!: option.map_cong)
  show "acl_head d' = acl_head d"
    using e by (auto simp: acl_head_def fun_eq_iff find_set_where option.map_comp o_def intro!: option.map_cong)
  show "meta_versions d' = (meta_versions d)(v := meta_versions d v @ [n])" "acl_versions d' = acl_versions d"
    using e r(3) by (auto simp: acl_versions_def meta_versions_def fun_eq_iff)
qed

interpretation acl: revision_chain acl_head acl_versions vehicle_created acl_appended
  by unfold_locales (fact vehicle_created_effect acl_appended_effect)+

interpretation meta: revision_chain meta_head meta_versions vehicle_created meta_appended
  by unfold_locales (fact vehicle_created_effect meta_appended_effect)+

definition demo_vehicle :: "string \<Rightarrow> int \<Rightarrow> vehicle" where
  "demo_vehicle vid n = \<lparr>v_id = vid, v_owner_user_id = ''alice'', v_revision_version = n, v_revision_time = 5,
     v_avatar_blob = None, v_banner_blob = None, v_integrity = Some demo_ig, v_rest = ''''\<rparr>"

definition demo_acl :: "string \<Rightarrow> int \<Rightarrow> int \<Rightarrow> vehicle_acl" where
  "demo_acl vid n t = \<lparr>acl_vehicle_id = vid, acl_owner_user_id = ''alice'', acl_acl_version = n,
     acl_effective_time = t, acl_authorized_drivers = [''bob''], acl_emergency_rule = None,
     acl_integrity = Some demo_ig, acl_rest = ''''\<rparr>"

definition demo_create :: "string \<Rightarrow> journey_vehicle_create_params" where
  "demo_create vid = \<lparr>jvc_journey_id = ''j1'', jvc_vehicle = demo_vehicle vid 1,
     jvc_initial_acl = demo_acl vid 1 10, jvc_canonical_vehicle = ''cv'', jvc_canonical_acl = ''ca''\<rparr>"

definition demo_acl_append :: "string \<Rightarrow> int \<Rightarrow> int \<Rightarrow> acl_append_params" where
  "demo_acl_append vid n t = \<lparr>jva_journey_vehicle_id = vid, jva_acl = demo_acl vid n t, jva_canonical = ''ca''\<rparr>"

definition demo_jv_db :: db where
  "demo_jv_db = snd (CreateJourneyVehicle demo_lib (env_at 20 ''a'') (demo_create ''v'') demo_db)"

section \<open>Properties\<close>

lemma acl_at_Inr_iff:
  assumes "chain_ok acl_head acl_versions d" "env_open env" "\<not> env_fault env ''load acl''"
  shows "JourneyVehicleACLAt env vid at d = Inr r \<longleftrightarrow>
    r \<in> set (acl_revisions d) \<and> ar_journey_vehicle_id r = vid \<and> ar_effective_time r \<le> at \<and>
    (\<forall>r' \<in> set (acl_revisions d). ar_journey_vehicle_id r' = vid \<longrightarrow> ar_effective_time r' \<le> at \<longrightarrow>
       ar_acl_version r' \<le> ar_acl_version r)" (is "?l = ?r")
proof -
  let ?rows = "filter (\<lambda>r. ar_journey_vehicle_id r = vid \<and> ar_effective_time r \<le> at) (acl_revisions d)"
  have inj: "inj_on ar_acl_version {r \<in> set (acl_revisions d). ar_journey_vehicle_id r = vid}"
    using acl.versions_distinct [OF assms(1), of vid] by (simp add: acl_versions_def distinct_map)
  have l: "?l = (first_max ar_acl_version ?rows = Some r)"
    using assms by (simp add: JourneyVehicleACLAt_def split: option.splits)
  show ?thesis
  proof
    assume ?l
    then show ?r using first_max_SomeD [of ar_acl_version ?rows r] by (auto simp: l)
  next
    assume r: ?r
    then obtain m where m: "first_max ar_acl_version ?rows = Some m"
      by (cases "first_max ar_acl_version ?rows") (auto simp: filter_empty_conv)
    from first_max_SomeD [OF m] r have "ar_acl_version m = ar_acl_version r" by (force intro: antisym)
    with first_max_SomeD [OF m] r inj have "m = r" by (auto dest: inj_onD)
    with m l show ?l by simp
  qed
qed

lemma acl_at_cong:
  assumes "filter (\<lambda>r. ar_journey_vehicle_id r = vid \<and> ar_effective_time r \<le> at) (acl_revisions d') =
    filter (\<lambda>r. ar_journey_vehicle_id r = vid \<and> ar_effective_time r \<le> at) (acl_revisions d)"
  shows "JourneyVehicleACLAt env vid at d' = JourneyVehicleACLAt env vid at d"
  using assms by (simp add: JourneyVehicleACLAt_def)

lemma acl_at_append:
  assumes "chain_ok acl_head acl_versions d" "AppendJourneyVehicleACL L env p d = (Inr row, d')"
    "env_open env'" "\<not> env_fault env' ''load acl''"
  shows "JourneyVehicleACLAt env' v at d' =
    (if v = jva_journey_vehicle_id p \<and> acl_effective_time (jva_acl p) \<le> at then Inr row
     else JourneyVehicleACLAt env' v at d)"
proof -
  let ?vid = "jva_journey_vehicle_id p" and ?n = "acl_acl_version (jva_acl p)"
  note e = AppendJourneyVehicleACL_Inr [OF assms(2)]
  then have rows: "acl_revisions d' = acl_revisions d @ [row]"
    and row: "ar_journey_vehicle_id row = ?vid" "ar_acl_version row = ?n"
      "ar_effective_time row = acl_effective_time (jva_acl p)" by auto
  have app: "acl_appended d ?vid ?n d'" using assms(2) by (auto simp: acl_appended_def)
  have ok': "chain_ok acl_head acl_versions d'" using acl.appended_ok [OF assms(1) app] .
  obtain h where h: "acl_head d ?vid = Some h" "h < ?n" using acl_appended_effect(1) [OF app] by blast
  have old: "ar_acl_version r \<le> ?n" if "r \<in> set (acl_revisions d)" "ar_journey_vehicle_id r = ?vid" for r
    using acl.head_max [OF assms(1) h(1)] h(2) that by (force simp: acl_versions_def)
  show ?thesis
  proof (cases "v = ?vid \<and> acl_effective_time (jva_acl p) \<le> at")
    case True
    then have "JourneyVehicleACLAt env' v at d' = Inr row"
      unfolding acl_at_Inr_iff [OF ok' assms(3,4)] using rows row old by auto
    with True show ?thesis by simp
  next
    case False
    then have "JourneyVehicleACLAt env' v at d' = JourneyVehicleACLAt env' v at d"
      using rows row by (intro acl_at_cong) auto
    with False show ?thesis by (simp only: if_False)
  qed
qed

text \<open>An accepted ACL revision governs every instant from its effective time on,
  whatever was recorded before, and leaves the ACL of all earlier instants and of
  all other vehicles as it was.\<close>

theorem append_acl_governs:
  assumes "chain_ok acl_head acl_versions d" "AppendJourneyVehicleACL L env p d = (Inr row, d')"
    "env_open env'" "\<not> env_fault env' ''load acl''"
  shows "JourneyVehicleACLAt env' v at d' =
    (if v = jva_journey_vehicle_id p \<and> acl_effective_time (jva_acl p) \<le> at then Inr row
     else JourneyVehicleACLAt env' v at d)"
  using assms by (rule acl_at_append)

lemma demo_jv_chain: "chain_ok acl_head acl_versions demo_jv_db"
proof -
  have "chain_ok acl_head acl_versions demo_db"
    by (simp add: chain_ok_def acl_head_def acl_versions_def demo_db_def empty_db_def)
  moreover have "vehicle_created demo_db ''v'' 1 demo_jv_db"
    unfolding vehicle_created_def demo_jv_db_def
    by (intro exI [of _ demo_lib] exI [of _ "env_at 20 ''a''"] exI [of _ "demo_create ''v''"]
        exI [of _ "vehicle_head_row (demo_create ''v'') demo_ig 20"]) code_simp
  ultimately show ?thesis by (rule acl.created_ok)
qed

text \<open>A vehicle upload that passes the checks on a working driver fails with
  \<open>ErrJourneyVehicleDuplicateID\<close> exactly when the id is taken, in any journey, and
  with \<open>ErrJourneyVehicleDuplicateOwner\<close> exactly when the id is free and the owner
  already has a vehicle in this journey.\<close>

theorem CreateJourneyVehicle_duplicates:
  assumes "\<forall>g \<in> set (create_vehicle_checks L env p). fst g" "\<forall>l. \<not> env_fault env l"
  shows "(fst (CreateJourneyVehicle L env p d) = Inl ErrJourneyVehicleDuplicateID) =
      (v_id (jvc_vehicle p) \<in> jv_id ` set (journey_vehicles d)) \<and>
    (fst (CreateJourneyVehicle L env p d) = Inl ErrJourneyVehicleDuplicateOwner) =
      (v_id (jvc_vehicle p) \<notin> jv_id ` set (journey_vehicles d) \<and>
       (jvc_journey_id p, v_owner_user_id (jvc_vehicle p)) \<in>
         (\<lambda>r. (jv_journey_id r, jv_owner_user_id r)) ` set (journey_vehicles d))"
proof -
  let ?rows = "set (journey_vehicles d)" and ?vid = "v_id (jvc_vehicle p)"
  let ?dup = "(jvc_journey_id p, v_owner_user_id (jvc_vehicle p)) \<in> (\<lambda>r. (jv_journey_id r, jv_owner_user_id r)) ` ?rows"
  note run = CreateJourneyVehicle_def op_require_True [OF assms(1)] Let_def run_tx_def tx_bind_def tx_query_def
    tx_guard_def tx_throw_def tx_return_def tx_exec_def insert_journey_vehicle_def sql_insert_def
  from assms(1) have v: "v_revision_version (jvc_vehicle p) = 1" "acl_acl_version (jvc_initial_acl p) = 1"
    by (auto simp: create_vehicle_checks_def)
  consider "?vid \<in> jv_id ` ?rows" | "?vid \<notin> jv_id ` ?rows" ?dup | "?vid \<notin> jv_id ` ?rows" "\<not> ?dup" by blast
  then show ?thesis
  proof cases
    case 1
    then obtain r where "find (\<lambda>r. jv_id r = ?vid) (journey_vehicles d) = Some r"
      by (cases "find (\<lambda>r. jv_id r = ?vid) (journey_vehicles d)") (auto simp: find_None_iff')
    with 1 assms(2) show ?thesis by (simp add: run)
  next
    case 2
    then have "find (\<lambda>r. jv_id r = ?vid) (journey_vehicles d) = None" by (force simp: find_None_iff')
    moreover have "list_ex (\<lambda>r'. ?vid = jv_id r' \<or> jvc_journey_id p = jv_journey_id r' \<and>
        v_owner_user_id (jvc_vehicle p) = jv_owner_user_id r') (journey_vehicles d)"
      using 2 by (auto simp: list_ex_iff)
    ultimately show ?thesis using 2 assms(2) v by (simp add: run jv_check_def)
  next
    case 3
    then have "find (\<lambda>r. jv_id r = ?vid) (journey_vehicles d) = None" by (force simp: find_None_iff')
    moreover have "\<not> list_ex (\<lambda>r'. ?vid = jv_id r' \<or> jvc_journey_id p = jv_journey_id r' \<and>
        v_owner_user_id (jvc_vehicle p) = jv_owner_user_id r') (journey_vehicles d)"
      using 3 by (auto simp: list_ex_iff)
    ultimately show ?thesis using 3 assms(2) v
      by (simp add: run jv_check_def split: sum.splits)
  qed
qed

text \<open>What an upload stored is what a lookup returns: after a successful create
  the vehicle's projection is found under its journey and id.\<close>

theorem CreateJourneyVehicle_lookup:
  assumes "CreateJourneyVehicle L env p d = (Inr row, d')" "v_id (jvc_vehicle p) \<noteq> []"
    "env_open env'" "\<not> env_fault env' ''scan journey vehicle''"
  shows "JourneyVehicleByID env' j v d' =
    (if j = jvc_journey_id p \<and> v = v_id (jvc_vehicle p) then Inr row else JourneyVehicleByID env' j v d)"
proof -
  have "jvc_journey_id p \<noteq> []"
    using assms(1) by (auto simp: CreateJourneyVehicle_def create_vehicle_checks_def tx_Inr)
  with CreateJourneyVehicle_Inr [OF assms(1)] assms(2-) show ?thesis
    by (auto simp: JourneyVehicleByID_def find_append find_None_iff' split: option.splits dest: find_SomeD)
qed

text \<open>A metadata revision replaces the signed payload and the blob references of
  the vehicle's projection and moves its revision head, and nothing else: the ACL
  head, the owner and the journey stay, and so do all other vehicles.\<close>

theorem AppendJourneyVehicleRevision_lookup:
  assumes "AppendJourneyVehicleRevision L env p d = (Inr rv, d')"
    "JourneyVehicleByID env' j v d = Inr r" "distinct (map jv_id (journey_vehicles d))"
  shows "JourneyVehicleByID env' j v d' = Inr
    (if v = jvra_journey_vehicle_id p
     then r\<lparr>jv_current_revision_version := v_revision_version (jvra_vehicle p),
            jv_integrity := the (v_integrity (jvra_vehicle p)),
            jv_canonical_payload := jvra_canonical p,
            jv_avatar_blob_hash := blobRefHash (v_avatar_blob (jvra_vehicle p)),
            jv_banner_blob_hash := blobRefHash (v_banner_blob (jvra_vehicle p))\<rparr>
     else r)"
proof -
  note e = AppendJourneyVehicleRevision_Inr [OF assms(1)]
  from e obtain jv where jv: "find (\<lambda>r. jv_id r = jvra_journey_vehicle_id p) (journey_vehicles d) = Some jv"
      "jv_current_revision_version jv < v_revision_version (jvra_vehicle p)" by blast
  from assms(2) have f: "find (\<lambda>r. jv_journey_id r = j \<and> jv_id r = v) (journey_vehicles d) = Some r"
    by (auto simp: JourneyVehicleByID_def split: if_splits option.splits)
  with jv assms(3) have same: "v = jvra_journey_vehicle_id p \<Longrightarrow> jv = r"
    using find_key_iff [OF assms(3), of v r] find_key_iff [OF assms(3), of v jv] find_SomeD [OF f] by auto
  have "find (\<lambda>r. jv_journey_id r = j \<and> jv_id r = v) (journey_vehicles d') =
     Some (if v = jvra_journey_vehicle_id p then r\<lparr>jv_current_revision_version := v_revision_version (jvra_vehicle p),
            jv_integrity := the (v_integrity (jvra_vehicle p)),
            jv_canonical_payload := jvra_canonical p,
            jv_avatar_blob_hash := blobRefHash (v_avatar_blob (jvra_vehicle p)),
            jv_banner_blob_hash := blobRefHash (v_banner_blob (jvra_vehicle p))\<rparr> else r)"
    using e f same jv find_SomeD [OF f] by (auto simp: find_set_where)
  with assms(2) show ?thesis
    by (auto simp: JourneyVehicleByID_def split: if_splits option.splits)
qed

definition demo_revision_append :: "string \<Rightarrow> int \<Rightarrow> revision_append_params" where
  "demo_revision_append vid n =
     \<lparr>jvra_journey_vehicle_id = vid, jvra_vehicle = demo_vehicle vid n, jvra_canonical = ''cv2''\<rparr>"

end
