(* ===== verification/Journeys.thy ===== *)
theory Journeys
  imports Schema
begin

text \<open>
  Journeys, their host participant and telemetry batches (storage/journey.go,
  storage/telemetry.go). A journey is created together with its host
  participant in one transaction; telemetry rows hang off a participant.
\<close>

section \<open>Parameters and projections\<close>

record journey_create_params =
  jc_title :: string
  jc_description :: string
  jc_host_user_id :: string
  jc_policy_hash :: string
  jc_policy_json :: string

text \<open>The \<open>Journey\<close> and \<open>JourneyParticipant\<close> structs: a NULL host or account is
  the empty string, a NULL join time the zero time.\<close>

record journey_view =
  jw_id :: string
  jw_title :: string
  jw_description :: string
  jw_host_user_id :: string
  jw_state :: string
  jw_visibility :: string
  jw_retention_mode :: string
  jw_policy_hash :: string
  jw_created_at :: int

record participant_view =
  pw_id :: string
  pw_journey_id :: string
  pw_user_id :: string
  pw_role :: string
  pw_state :: string
  pw_joined_at :: "int option"

record telemetry_params =
  tp_journey_id :: string
  tp_participant_id :: string
  tp_client_batch_id :: string
  tp_sample_count :: int
  tp_payload_digest :: string
  tp_driver_attestation_hash :: "string option"

definition null_string :: "string option \<Rightarrow> string" where
  "null_string x = (case x of None \<Rightarrow> '''' | Some s \<Rightarrow> s)"

definition journey_of_row :: "journey \<Rightarrow> journey_view" where
  "journey_of_row r = \<lparr>jw_id = j_id r, jw_title = j_title r, jw_description = j_description r,
     jw_host_user_id = null_string (j_host_account_id r), jw_state = j_state r, jw_visibility = j_visibility r,
     jw_retention_mode = j_retention_mode r, jw_policy_hash = j_policy_hash r, jw_created_at = j_created_at r\<rparr>"

definition participant_of_row :: "journey_participant \<Rightarrow> participant_view" where
  "participant_of_row r = \<lparr>pw_id = jp_id r, pw_journey_id = jp_journey_id r,
     pw_user_id = null_string (jp_account_id r), pw_role = jp_role r, pw_state = jp_state r,
     pw_joined_at = jp_joined_at r\<rparr>"

section \<open>Operations\<close>

definition journey_row :: "journey_create_params \<Rightarrow> string \<Rightarrow> int \<Rightarrow> journey" where
  "journey_row p journeyID now =
     \<lparr>j_id = journeyID, j_open_caravan_id = journeyID, j_host_account_id = Some (jc_host_user_id p),
      j_title = jc_title p, j_description = jc_description p, j_visibility = ''private'',
      j_state = ''planned'', j_retention_mode = ''ephemeral'', j_policy_hash = jc_policy_hash p,
      j_policy_json = jc_policy_json p, j_created_at = now, j_deleted_at = None\<rparr>"

definition host_row :: "journey_create_params \<Rightarrow> string \<Rightarrow> string \<Rightarrow> int \<Rightarrow> journey_participant" where
  "host_row p participantID journeyID now =
     \<lparr>jp_id = participantID, jp_journey_id = journeyID, jp_account_id = Some (jc_host_user_id p),
      jp_display_name = '''', jp_role = ''host'', jp_state = ''joined'', jp_sharing_state = ''off'',
      jp_policy_hash = jc_policy_hash p, jp_joined_at = Some now\<rparr>"

definition CreateJourney :: "env \<Rightarrow> journey_create_params \<Rightarrow> (db, journey_view) op" where
  "CreateJourney env p = op_require
     [(env_open env, ErrNotOpen),
      (jc_title p \<noteq> [], ErrInvalid ''journey title must be set''),
      (jc_host_user_id p \<noteq> [], ErrInvalid ''journey host user id must be set''),
      (jc_policy_hash p \<noteq> [] \<and> jc_policy_json p \<noteq> [], ErrInvalid ''journey policy hash and json must be set''),
      (env_uuid env 0 \<noteq> None, ErrGenerate ''mint journey id''),
      (env_uuid env 1 \<noteq> None, ErrGenerate ''mint participant id'')]
     (let now = env_now env; journeyID = the (env_uuid env 0); participantID = the (env_uuid env 1)
      in run_tx env
       (tx_bind (tx_exec env ''insert journey'' SQLErr (insert_journey (journey_row p journeyID now)))
        (\<lambda>_. tx_bind (tx_exec env ''insert host participant'' SQLErr (insert_journey_participant (host_row p participantID journeyID now)))
        (\<lambda>_. tx_return
          \<lparr>jw_id = journeyID, jw_title = jc_title p, jw_description = jc_description p,
           jw_host_user_id = jc_host_user_id p, jw_state = ''planned'', jw_visibility = ''private'',
           jw_retention_mode = ''ephemeral'', jw_policy_hash = jc_policy_hash p, jw_created_at = now\<rparr>))))"

definition JourneyByID :: "env \<Rightarrow> string \<Rightarrow> db \<Rightarrow> serr + journey_view" where
  "JourneyByID env i d =
     (if \<not> env_open env then Inl ErrNotOpen
      else if i = [] then Inl ErrJourneyNotFound
      else if env_fault env ''load journey'' then Inl (SQLErr (SQLDriver ''load journey''))
      else case find (\<lambda>r. j_id r = i \<and> j_deleted_at r = None) (journeys d) of
        None \<Rightarrow> Inl ErrJourneyNotFound | Some r \<Rightarrow> Inr (journey_of_row r))"

definition JourneyParticipantByUserAndJourney ::
  "env \<Rightarrow> string \<Rightarrow> string \<Rightarrow> db \<Rightarrow> serr + participant_view" where
  "JourneyParticipantByUserAndJourney env u j d =
     (if \<not> env_open env then Inl ErrNotOpen
      else if u = [] \<or> j = [] then Inl ErrJourneyParticipantNotFound
      else if env_fault env ''load participant'' then Inl (SQLErr (SQLDriver ''load participant''))
      else case find (\<lambda>r. jp_account_id r = Some u \<and> jp_journey_id r = j \<and> jp_state r = ''joined'')
          (journey_participants d) of
        None \<Rightarrow> Inl ErrJourneyParticipantNotFound | Some r \<Rightarrow> Inr (participant_of_row r))"

definition RecordTelemetryBatch :: "env \<Rightarrow> telemetry_params \<Rightarrow> (db, telemetry_batch) op" where
  "RecordTelemetryBatch env p = op_require
     [(env_open env, ErrNotOpen),
      (tp_journey_id p \<noteq> [], ErrInvalid ''telemetry journey id must be set''),
      (tp_participant_id p \<noteq> [], ErrInvalid ''telemetry participant id must be set''),
      (tp_client_batch_id p \<noteq> [], ErrInvalid ''telemetry client batch id must be set''),
      (0 \<le> tp_sample_count p, ErrInvalid ''telemetry sample count must be non-negative''),
      (tp_payload_digest p \<noteq> [], ErrInvalid ''telemetry payload digest must be set''),
      (env_uuid env 0 \<noteq> None, ErrGenerate ''mint telemetry batch id'')]
     (let row = \<lparr>tb_id = the (env_uuid env 0), tb_journey_id = tp_journey_id p,
                 tb_participant_id = tp_participant_id p, tb_device_id = None,
                 tb_client_batch_id = tp_client_batch_id p, tb_sample_count = tp_sample_count p,
                 tb_received_at = env_now env, tb_payload_digest = tp_payload_digest p,
                 tb_driver_attestation_hash = tp_driver_attestation_hash p\<rparr>
      in auto_tx
       (tx_bind (tx_exec env ''insert telemetry batch''
           (\<lambda>e. if isUniqueViolation e then ErrTelemetryBatchDuplicate else SQLErr e)
           (insert_telemetry_batch row))
        (\<lambda>_. tx_return row)))"

section \<open>Properties\<close>

text \<open>The rows a successful create appended.\<close>

lemma CreateJourney_Inr:
  assumes "CreateJourney env p d = (Inr j, d')"
  shows "jc_host_user_id p \<noteq> [] \<and> has_account d (jc_host_user_id p) \<and>
    the (env_uuid env 0) \<notin> j_id ` set (journeys d) \<and>
    j = journey_of_row (journey_row p (the (env_uuid env 0)) (env_now env)) \<and>
    d' = d\<lparr>journeys := journeys d @ [journey_row p (the (env_uuid env 0)) (env_now env)],
      journey_participants := journey_participants d @
        [host_row p (the (env_uuid env 1)) (the (env_uuid env 0)) (env_now env)]\<rparr>"
  using assms unfolding CreateJourney_def Let_def
  by (auto simp: tx_Inr table_defs journey_row_def host_row_def journey_of_row_def null_string_def)

text \<open>Journey creation is complete: the new journey is found under its id and
  the creator is found as its joined host participant, while every other journey
  and every other participant lookup gives what it gave before.\<close>

theorem CreateJourney_host:
  assumes "CreateJourney env p d = (Inr j, d')" "jw_id j \<noteq> []"
    "\<forall>r \<in> set (journey_participants d). has_journey d (jp_journey_id r)"
    "env_open env'" "\<forall>l. \<not> env_fault env' l"
  shows "JourneyByID env' (jw_id j) d' = Inr j \<and>
    (\<exists>w. JourneyParticipantByUserAndJourney env' (jc_host_user_id p) (jw_id j) d' = Inr w \<and> pw_role w = ''host'') \<and>
    (\<forall>i. i \<noteq> jw_id j \<longrightarrow> JourneyByID env' i d' = JourneyByID env' i d) \<and>
    (\<forall>u i. (u, i) \<noteq> (jc_host_user_id p, jw_id j) \<longrightarrow>
       JourneyParticipantByUserAndJourney env' u i d' = JourneyParticipantByUserAndJourney env' u i d)"
proof -
  let ?row = "journey_row p (the (env_uuid env 0)) (env_now env)"
    and ?host = "host_row p (the (env_uuid env 1)) (the (env_uuid env 0)) (env_now env)"
  note e = CreateJourney_Inr [OF assms(1)]
  then have id: "jw_id j = the (env_uuid env 0)" by (simp add: journey_of_row_def journey_row_def)
  have j: "find (\<lambda>r. j_id r = jw_id j \<and> j_deleted_at r = None) (journeys d) = None"
    using e id by (force simp: find_None_iff' image_iff)
  have q: "find (\<lambda>r. jp_account_id r = Some (jc_host_user_id p) \<and> jp_journey_id r = jw_id j \<and>
      jp_state r = ''joined'') (journey_participants d) = None"
    using e id assms(3) by (force simp: find_None_iff' has_journey_def)
  have sel: "j_id ?row = jw_id j" "j_deleted_at ?row = None" "jp_journey_id ?host = jw_id j"
    "jp_account_id ?host = Some (jc_host_user_id p)" "jp_state ?host = ''joined''" "jp_role ?host = ''host''"
    by (simp_all add: journey_row_def host_row_def id)
  show ?thesis
    using assms(2,4,5) e j q sel
    by (auto simp: JourneyByID_def JourneyParticipantByUserAndJourney_def find_append participant_of_row_def
        split: option.splits)
qed

definition demo_journey_params :: journey_create_params where
  "demo_journey_params = \<lparr>jc_title = ''trip'', jc_description = '''', jc_host_user_id = ''alice'',
     jc_policy_hash = ''h'', jc_policy_json = ''p''\<rparr>"

text \<open>C12. Telemetry retries are not deduplicated: whether a batch is accepted does
  not depend on the client batch ids already recorded, and a batch is rejected as
  a duplicate only on a clash of the generated row id.\<close>

theorem RecordTelemetryBatch_not_idempotent:
  assumes "RecordTelemetryBatch env p d = (Inl ErrTelemetryBatchDuplicate, d')"
  shows "\<exists>r \<in> set (telemetry_batches d). env_uuid env 0 = Some (tb_id r)"
  using assms unfolding RecordTelemetryBatch_def Let_def
  by (auto simp: op_require_simps tx_Inl tx_Inr table_defs split: if_splits sqlerr.splits)

theorem RecordTelemetryBatch_not_idempotent_witness:
  "\<exists>d p. RecordTelemetryBatch (env_at 9 ''t'') p d = (Inl ErrTelemetryBatchDuplicate, d) \<and>
     (\<exists>r \<in> set (telemetry_batches d). env_uuid (env_at 9 ''t'') 0 = Some (tb_id r))"
proof -
  define d where "d = snd (CreateJourney (env_at 7 ''n'') demo_journey_params demo_db)"
  define p where "p = \<lparr>tp_journey_id = ''n'', tp_participant_id = ''nx'', tp_client_batch_id = ''b1'',
    tp_sample_count = 3, tp_payload_digest = ''dg'', tp_driver_attestation_hash = None\<rparr>"
  define d1 where "d1 = snd (RecordTelemetryBatch (env_at 8 ''t'') p d)"
  have "RecordTelemetryBatch (env_at 9 ''t'') p d1 = (Inl ErrTelemetryBatchDuplicate, d1)"
    unfolding d1_def d_def p_def by code_simp
  with RecordTelemetryBatch_not_idempotent [OF this] show ?thesis by blast
qed

end
