(* ===== verification/Attestations.thy ===== *)
theory Attestations
  imports JourneyVehicles Journeys
begin

text \<open>
  Driver attestations (storage/driver_attestation.go) and the trust evaluator
  that labels them (server/api/driver_attestation_trust.go). An attestation is
  recorded once per (vehicle, driver, effective time) and never changed; its
  trust flag comes from the ACL revision in force at the effective time.
\<close>

section \<open>Trust flags\<close>

definition TrustAuthorized :: string where
  "TrustAuthorized = ''authorized''"

definition TrustEmergencyFallback :: string where
  "TrustEmergencyFallback = ''emergency_fallback''"

definition TrustACLViolation :: string where
  "TrustACLViolation = ''acl_violation''"

lemmas trust_defs = TrustAuthorized_def TrustEmergencyFallback_def TrustACLViolation_def

definition Trust_Valid :: "string \<Rightarrow> bool" where
  "Trust_Valid t = (t = TrustAuthorized \<or> t = TrustEmergencyFallback \<or> t = TrustACLViolation)"

section \<open>Store operations\<close>

record attestation_params =
  dap_attestation :: driver_attestation
  dap_journey_vehicle_id :: string
  dap_trust_flag :: string
  dap_canonical :: string

definition attestation_row :: "attestation_params \<Rightarrow> string \<Rightarrow> int \<Rightarrow> attestation" where
  "attestation_row p recordID now = (let a = dap_attestation p in
     \<lparr>at_id = recordID, at_journey_vehicle_id = dap_journey_vehicle_id p, at_segment_id = da_segment_id a,
      at_driver_user_id = da_driver_user_id a, at_effective_time = da_effective_time a,
      at_acl_version_consulted = da_acl_version_consulted a,
      at_prior_attestation_hash = da_prior_attestation_hash a, at_trust_flag = dap_trust_flag p,
      at_integrity = the (da_integrity a), at_canonical_payload = dap_canonical p, at_received_at = now\<rparr>)"

definition attestation_checks :: "lib \<Rightarrow> env \<Rightarrow> attestation_params \<Rightarrow> (bool \<times> serr) list" where
  "attestation_checks L env p =
     [(env_open env, ErrNotOpen),
      (dap_journey_vehicle_id p \<noteq> [], ErrInvalid ''journey vehicle id must be set''),
      (Trust_Valid (dap_trust_flag p), ErrInvalid ''trust flag is not a known value''),
      (dap_canonical p \<noteq> [], ErrInvalid ''canonical payload must be supplied''),
      (lib_attestation_validate L (dap_attestation p), ErrInvalid ''attestation validate''),
      (da_integrity (dap_attestation p) \<noteq> None, ErrInvalid ''attestation must carry an Integrity envelope''),
      (env_uuid env 0 \<noteq> None, ErrGenerate ''mint attestation id'')]"

definition RecordDriverAttestation :: "lib \<Rightarrow> env \<Rightarrow> attestation_params \<Rightarrow> (db, attestation) op" where
  "RecordDriverAttestation L env p = op_require (attestation_checks L env p)
     (let row = attestation_row p (the (env_uuid env 0)) (env_now env)
      in auto_tx
       (tx_bind (tx_exec env ''insert driver attestation''
           (\<lambda>e. if isUniqueViolation e then ErrDriverAttestationDuplicate else SQLErr e)
           (insert_attestation row))
        (\<lambda>_. tx_return row)))"

definition scanDriverAttestation :: "attestation option \<Rightarrow> serr + attestation" where
  "scanDriverAttestation r = (case r of None \<Rightarrow> Inl ErrDriverAttestationNotFound | Some a \<Rightarrow> Inr a)"

definition CurrentDriverForJourneyVehicle :: "env \<Rightarrow> string \<Rightarrow> int \<Rightarrow> db \<Rightarrow> serr + attestation" where
  "CurrentDriverForJourneyVehicle env vid at d =
     (if \<not> env_open env then Inl ErrNotOpen
      else if env_fault env ''scan driver attestation'' then Inl (SQLErr (SQLDriver ''scan driver attestation''))
      else scanDriverAttestation (first_max (\<lambda>r. (at_effective_time r, at_received_at r))
        (filter (\<lambda>r. at_journey_vehicle_id r = vid \<and> at_effective_time r \<le> at) (attestations d))))"

definition DriverAttestationByReplayKey ::
  "env \<Rightarrow> string \<Rightarrow> string \<Rightarrow> int \<Rightarrow> db \<Rightarrow> serr + attestation" where
  "DriverAttestationByReplayKey env vid u t d =
     (if \<not> env_open env then Inl ErrNotOpen
      else if env_fault env ''scan driver attestation'' then Inl (SQLErr (SQLDriver ''scan driver attestation''))
      else scanDriverAttestation (find (\<lambda>r. at_journey_vehicle_id r = vid \<and> at_driver_user_id r = u \<and>
        at_effective_time r = t) (attestations d)))"

definition ListDriverAttestations :: "env \<Rightarrow> string \<Rightarrow> db \<Rightarrow> serr + attestation list" where
  "ListDriverAttestations env vid d =
     (if \<not> env_open env then Inl ErrNotOpen
      else if env_fault env ''query driver attestations'' then Inl (SQLErr (SQLDriver ''query driver attestations''))
      else Inr (sort_key (\<lambda>r. (at_effective_time r, at_received_at r))
        (filter (\<lambda>r. at_journey_vehicle_id r = vid) (attestations d))))"

definition DriverAttestationForkSiblings :: "env \<Rightarrow> string \<Rightarrow> string \<Rightarrow> db \<Rightarrow> serr + attestation list" where
  "DriverAttestationForkSiblings env vid h d =
     (if \<not> env_open env then Inl ErrNotOpen
      else if h = [] then Inr []
      else if env_fault env ''query fork siblings'' then Inl (SQLErr (SQLDriver ''query fork siblings''))
      else Inr (sort_key (\<lambda>r. (at_effective_time r, at_received_at r))
        (filter (\<lambda>r. at_journey_vehicle_id r = vid \<and> at_prior_attestation_hash r = Some h) (attestations d))))"

section \<open>The trust evaluator\<close>

definition classify :: "lib \<Rightarrow> env \<Rightarrow> string \<Rightarrow> string \<Rightarrow> driver_attestation \<Rightarrow> db \<Rightarrow> serr + string" where
  "classify L env journeyID vehicleOwnerUserID a d =
     (case JourneyVehicleACLAt env (da_vehicle_id a) (da_effective_time a) d of
        Inl e \<Rightarrow> Inl e
      | Inr rv \<Rightarrow>
          (let driverID = da_driver_user_id a in
           if driverID = vehicleOwnerUserID then Inr TrustAuthorized
           else case lib_unmarshal_drivers L (ar_authorized_drivers_json rv) of
             None \<Rightarrow> Inl (ErrDecode ''authorized_drivers'')
           | Some authorized \<Rightarrow>
               if driverID \<in> set authorized then Inr TrustAuthorized
               else if ar_emergency_rule_kind rv \<noteq> ''any_journey_participant'' then Inr TrustACLViolation
               else case JourneyParticipantByUserAndJourney env driverID journeyID d of
                 Inl e \<Rightarrow> if e = ErrJourneyParticipantNotFound then Inr TrustACLViolation else Inl e
               | Inr w \<Rightarrow> if pw_state w \<noteq> ''joined'' then Inr TrustACLViolation
                          else Inr TrustEmergencyFallback))"

text \<open>The specification: the flag as a function of the ACL in force and of
  whether the driver is a joined participant.\<close>

definition trust_spec :: "string list \<Rightarrow> string \<Rightarrow> string \<Rightarrow> string \<Rightarrow> bool \<Rightarrow> string" where
  "trust_spec drivers rule own driver joined =
     (if driver = own \<or> driver \<in> set drivers then TrustAuthorized
      else if rule = ''any_journey_participant'' \<and> joined then TrustEmergencyFallback
      else TrustACLViolation)"

definition joined_participant :: "db \<Rightarrow> string \<Rightarrow> string \<Rightarrow> bool" where
  "joined_participant d u j = (u \<noteq> [] \<and> j \<noteq> [] \<and>
     list_ex (\<lambda>r. jp_account_id r = Some u \<and> jp_journey_id r = j \<and> jp_state r = ''joined'') (journey_participants d))"

section \<open>Properties\<close>

lemma participant_lookup:
  assumes "env_open env" "\<forall>l. \<not> env_fault env l"
  shows "(case JourneyParticipantByUserAndJourney env u j d of
      Inl e \<Rightarrow> e = ErrJourneyParticipantNotFound \<and> \<not> joined_participant d u j
    | Inr w \<Rightarrow> pw_state w = ''joined'' \<and> joined_participant d u j)"
  using assms
  by (auto simp: JourneyParticipantByUserAndJourney_def joined_participant_def list_ex_iff find_None_iff'
      participant_of_row_def split: option.splits dest: find_SomeD)

lemma classify_spec:
  assumes "env_open env" "\<forall>l. \<not> env_fault env l"
    "JourneyVehicleACLAt env (da_vehicle_id a) (da_effective_time a) d = Inr rv"
    "lib_unmarshal_drivers L (ar_authorized_drivers_json rv) = Some ds"
  shows "classify L env j own a d =
    Inr (trust_spec ds (ar_emergency_rule_kind rv) own (da_driver_user_id a)
      (joined_participant d (da_driver_user_id a) j))"
  using assms(3,4) participant_lookup [OF assms(1,2), where u = "da_driver_user_id a" and j = j and d = d]
  by (auto simp: classify_def trust_spec_def Let_def split: sum.splits)

text \<open>C11. The trust flag refines its specification: the evaluator consults the
  highest ACL version in force at the attestation's effective time, trusts the
  vehicle's owner and the listed drivers, grants the emergency fallback only under
  the any-participant rule to a driver who is joined to the journey, and labels
  everything else a violation. Without an ACL in force it reports that none
  exists.\<close>

theorem classify_refines:
  assumes "chain_ok acl_head acl_versions d" "env_open env" "\<forall>l. \<not> env_fault env l"
    "\<forall>r \<in> set (acl_revisions d). \<exists>ds. lib_unmarshal_drivers L (ar_authorized_drivers_json r) = Some ds"
  shows "(\<exists>rv ds. rv \<in> set (acl_revisions d) \<and> ar_journey_vehicle_id rv = da_vehicle_id a \<and>
        ar_effective_time rv \<le> da_effective_time a \<and>
        (\<forall>r \<in> set (acl_revisions d). ar_journey_vehicle_id r = da_vehicle_id a \<longrightarrow>
           ar_effective_time r \<le> da_effective_time a \<longrightarrow> ar_acl_version r \<le> ar_acl_version rv) \<and>
        lib_unmarshal_drivers L (ar_authorized_drivers_json rv) = Some ds \<and>
        classify L env j own a d = Inr (trust_spec ds (ar_emergency_rule_kind rv) own (da_driver_user_id a)
          (joined_participant d (da_driver_user_id a) j))) \<or>
    (\<forall>r \<in> set (acl_revisions d). ar_journey_vehicle_id r = da_vehicle_id a \<longrightarrow>
       da_effective_time a < ar_effective_time r) \<and>
    classify L env j own a d = Inl ErrJourneyVehicleNotFound"
proof (cases "JourneyVehicleACLAt env (da_vehicle_id a) (da_effective_time a) d")
  case (Inl e)
  with assms(2,3) show ?thesis
    by (force simp: JourneyVehicleACLAt_def classify_def filter_empty_conv split: option.splits)
next
  case (Inr rv)
  note m = acl_at_Inr_iff [OF assms(1,2), THEN iffD1, OF _ Inr]
  with assms(3,4) obtain ds where ds: "lib_unmarshal_drivers L (ar_authorized_drivers_json rv) = Some ds" by blast
  from classify_spec [OF assms(2,3) Inr ds] m assms(3) ds show ?thesis by blast
qed

text \<open>C10. An accepted ACL revision decides the trust of every later attestation of
  its vehicle: a driver it lists is authorized, and one it drops is not, unless
  the emergency rule of that very revision applies.\<close>

theorem acl_revision_decides_trust:
  assumes "chain_ok acl_head acl_versions d" "AppendJourneyVehicleACL L env0 p d = (Inr row, d')"
    "\<forall>ds. lib_unmarshal_drivers L (lib_marshal_drivers L ds) = Some ds"
    "env_open env" "\<forall>l. \<not> env_fault env l"
    "da_vehicle_id a = jva_journey_vehicle_id p" "acl_effective_time (jva_acl p) \<le> da_effective_time a"
  shows "classify L env j own a d' =
    Inr (trust_spec (acl_authorized_drivers (jva_acl p)) (emergencyRuleKind (acl_emergency_rule (jva_acl p)))
      own (da_driver_user_id a) (joined_participant d (da_driver_user_id a) j))"
proof -
  note e = AppendJourneyVehicleACL_Inr [OF assms(2)]
  have at: "JourneyVehicleACLAt env (da_vehicle_id a) (da_effective_time a) d' = Inr row"
    using acl_at_append [OF assms(1,2,4)] assms(5-7) by simp
  have ds: "lib_unmarshal_drivers L (ar_authorized_drivers_json row) = Some (acl_authorized_drivers (jva_acl p))"
    and k: "ar_emergency_rule_kind row = emergencyRuleKind (acl_emergency_rule (jva_acl p))"
    using e assms(3) by simp_all
  have "joined_participant d' u j = joined_participant d u j" for u
    using e by (simp add: joined_participant_def)
  then show ?thesis
    using classify_spec [OF assms(4,5) at ds, of j own] k by simp
qed

lemma attestation_row_sels [simp]:
  "at_id (attestation_row p rid now) = rid"
  "at_journey_vehicle_id (attestation_row p rid now) = dap_journey_vehicle_id p"
  "at_driver_user_id (attestation_row p rid now) = da_driver_user_id (dap_attestation p)"
  "at_effective_time (attestation_row p rid now) = da_effective_time (dap_attestation p)"
  "at_acl_version_consulted (attestation_row p rid now) = da_acl_version_consulted (dap_attestation p)"
  "at_trust_flag (attestation_row p rid now) = dap_trust_flag p"
  "at_received_at (attestation_row p rid now) = now"
  by (simp_all add: attestation_row_def Let_def)

lemma RecordDriverAttestation_Inr:
  assumes "RecordDriverAttestation L env p d = (Inr row, d')"
  shows "row = attestation_row p (the (env_uuid env 0)) (env_now env) \<and>
    Trust_Valid (dap_trust_flag p) \<and> has_journey_vehicle d (dap_journey_vehicle_id p) \<and>
    (\<forall>r \<in> set (attestations d). at_id r \<noteq> at_id row \<and> (at_journey_vehicle_id r, at_driver_user_id r, at_effective_time r) \<noteq>
       (at_journey_vehicle_id row, at_driver_user_id row, at_effective_time row)) \<and>
    d' = d\<lparr>attestations := attestations d @ [row]\<rparr>"
  using assms unfolding RecordDriverAttestation_def attestation_checks_def Let_def
  by (auto simp: tx_Inr table_defs)

text \<open>Gossip replays are idempotent: once an attestation is recorded, recording
  any attestation with the same vehicle, driver and effective time again, on a
  working driver, is refused as a duplicate without changing the database, and the
  lookup by replay key returns the attestation recorded first.\<close>

theorem attestation_replay_idempotent:
  assumes "RecordDriverAttestation L env p d = (Inr row, d')"
    "\<forall>g \<in> set (attestation_checks L env2 q). fst g" "\<forall>l. \<not> env_fault env2 l"
    "dap_journey_vehicle_id q = dap_journey_vehicle_id p"
    "da_driver_user_id (dap_attestation q) = da_driver_user_id (dap_attestation p)"
    "da_effective_time (dap_attestation q) = da_effective_time (dap_attestation p)"
    "1 \<le> da_acl_version_consulted (dap_attestation q)"
  shows "RecordDriverAttestation L env2 q d' = (Inl ErrDriverAttestationDuplicate, d') \<and>
    DriverAttestationByReplayKey env2 (dap_journey_vehicle_id q) (da_driver_user_id (dap_attestation q))
      (da_effective_time (dap_attestation q)) d' = Inr row"
proof -
  note e = RecordDriverAttestation_Inr [OF assms(1)]
  have c: "Trust_Valid (dap_trust_flag q)" "env_open env2" using assms(2) by (auto simp: attestation_checks_def)
  have "find (\<lambda>r. at_journey_vehicle_id r = dap_journey_vehicle_id q \<and>
      at_driver_user_id r = da_driver_user_id (dap_attestation q) \<and>
      at_effective_time r = da_effective_time (dap_attestation q)) (attestations d) = None"
    using e assms(4-6) by (auto simp: find_None_iff')
  moreover have "RecordDriverAttestation L env2 q d' = (Inl ErrDriverAttestationDuplicate, d')"
    using e assms(3-7) c
    by (simp add: RecordDriverAttestation_def op_require_True [OF assms(2)] Let_def auto_tx_def tx_bind_def tx_exec_def
        insert_attestation_def sql_insert_def Trust_Valid_def trust_defs)
  ultimately show ?thesis
    using e assms(3-6) c by (auto simp: DriverAttestationByReplayKey_def scanDriverAttestation_def find_append)
qed

text \<open>The current driver at an instant is an attestation of that vehicle in effect
  by then, with the latest effective time and, among those, the latest arrival;
  there is none exactly when no attestation of the vehicle is in effect by then.\<close>

theorem current_driver_latest:
  assumes "env_open env" "\<forall>l. \<not> env_fault env l"
  shows "(\<exists>r \<in> set (attestations d). at_journey_vehicle_id r = vid \<and> at_effective_time r \<le> at \<and>
        CurrentDriverForJourneyVehicle env vid at d = Inr r \<and>
        (\<forall>r' \<in> set (attestations d). at_journey_vehicle_id r' = vid \<longrightarrow> at_effective_time r' \<le> at \<longrightarrow>
           at_effective_time r' < at_effective_time r \<or>
           at_effective_time r' = at_effective_time r \<and> at_received_at r' \<le> at_received_at r)) \<or>
    CurrentDriverForJourneyVehicle env vid at d = Inl ErrDriverAttestationNotFound \<and>
      (\<forall>r \<in> set (attestations d). at_journey_vehicle_id r = vid \<longrightarrow> at < at_effective_time r)"
proof -
  let ?rows = "filter (\<lambda>r. at_journey_vehicle_id r = vid \<and> at_effective_time r \<le> at) (attestations d)"
  let ?key = "\<lambda>r. (at_effective_time r, at_received_at r)"
  show ?thesis
  proof (cases "first_max ?key ?rows")
    case None
    then have "?rows = []" by simp
    with None assms show ?thesis
      by (auto simp: CurrentDriverForJourneyVehicle_def scanDriverAttestation_def filter_empty_conv)
  next
    case (Some m)
    from first_max_SomeD [OF Some] Some assms show ?thesis
      by (fastforce simp: CurrentDriverForJourneyVehicle_def scanDriverAttestation_def)
  qed
qed

text \<open>Two attestations that name the same predecessor are a fork, and the fork
  query finds both: it returns exactly the vehicle's attestations with that prior
  hash, ordered by effective time.\<close>

theorem fork_siblings_complete:
  assumes "DriverAttestationForkSiblings env vid h d = Inr rs" "h \<noteq> []"
  shows "set rs = {r \<in> set (attestations d). at_journey_vehicle_id r = vid \<and> at_prior_attestation_hash r = Some h} \<and>
    length rs = length (filter (\<lambda>r. at_journey_vehicle_id r = vid \<and> at_prior_attestation_hash r = Some h) (attestations d)) \<and>
    sorted (map at_effective_time rs)"
proof -
  let ?key = "\<lambda>r. (at_effective_time r, at_received_at r)"
  let ?f = "filter (\<lambda>r. at_journey_vehicle_id r = vid \<and> at_prior_attestation_hash r = Some h) (attestations d)"
  have rs: "rs = sort_key ?key ?f"
    using assms by (auto simp: DriverAttestationForkSiblings_def split: if_splits)
  have "sorted (map at_effective_time rs)"
    using sorted_sort_key [of ?key ?f] unfolding rs sorted_map
    by (rule sorted_wrt_mono_rel [rotated]) auto
  with rs show ?thesis by auto
qed


section \<open>Witnesses\<close>

definition demo_attestation :: "string \<Rightarrow> int \<Rightarrow> string option \<Rightarrow> driver_attestation" where
  "demo_attestation u t h = \<lparr>da_vehicle_id = ''v'', da_segment_id = ''s1'', da_driver_user_id = u,
     da_effective_time = t, da_acl_version_consulted = 1, da_prior_attestation_hash = h,
     da_integrity = Some demo_ig, da_rest = ''''\<rparr>"

definition demo_att_params :: "string \<Rightarrow> int \<Rightarrow> string option \<Rightarrow> attestation_params" where
  "demo_att_params u t h = \<lparr>dap_attestation = demo_attestation u t h, dap_journey_vehicle_id = ''v'',
     dap_trust_flag = TrustAuthorized, dap_canonical = ''ca''\<rparr>"

definition demo_att_db :: db where
  "demo_att_db = snd (RecordDriverAttestation demo_lib (env_at 42 ''q'') (demo_att_params ''alice'' 41 (Some ''h''))
     (snd (RecordDriverAttestation demo_lib (env_at 40 ''p'') (demo_att_params ''bob'' 39 (Some ''h'')) demo_jv_db)))"

text \<open>A lossless encoding of driver lists, for the round-trip law: a driver id is
  written with each character doubled by a marker and a separator after it.\<close>

fun enc_drivers :: "string list \<Rightarrow> string" where
  "enc_drivers [] = []"
| "enc_drivers ([] # ds) = CHR ''0'' # enc_drivers ds"
| "enc_drivers ((c # cs) # ds) = CHR ''1'' # c # enc_drivers (cs # ds)"

fun dec_drivers :: "string \<Rightarrow> string list option" where
  "dec_drivers [] = Some []"
| "dec_drivers (m # s) = (if m = CHR ''0'' then map_option (\<lambda>ds. [] # ds) (dec_drivers s)
     else case s of [] \<Rightarrow> None
       | c # s' \<Rightarrow> (case dec_drivers s' of Some (d # ds) \<Rightarrow> Some ((c # d) # ds) | _ \<Rightarrow> None))"

lemma dec_enc_drivers: "dec_drivers (enc_drivers ds) = Some ds"
  by (induction ds rule: enc_drivers.induct) auto

definition demo_lib' :: lib where
  "demo_lib' = demo_lib\<lparr>lib_marshal_drivers := enc_drivers, lib_unmarshal_drivers := dec_drivers\<rparr>"

theorem classify_refines_witness:
  "\<exists>rv ds. rv \<in> set (acl_revisions demo_jv_db) \<and>
     lib_unmarshal_drivers demo_lib (ar_authorized_drivers_json rv) = Some ds \<and>
     classify demo_lib (env_at 0 '''') ''j1'' ''alice'' (demo_attestation ''bob'' 15 None) demo_jv_db =
       Inr (trust_spec ds (ar_emergency_rule_kind rv) ''alice'' ''bob'' False)"
proof -
  let ?env = "env_at 0 ''''" and ?a = "demo_attestation ''bob'' 15 None"
  have h: "env_open ?env" "\<forall>l. \<not> env_fault ?env l"
    "\<forall>r \<in> set (acl_revisions demo_jv_db). \<exists>ds. lib_unmarshal_drivers demo_lib (ar_authorized_drivers_json r) = Some ds"
    by (simp_all add: env_at_def demo_lib_def)
  have "\<not> joined_participant demo_jv_db ''bob'' ''j1''" "da_driver_user_id ?a = ''bob''"
    "classify demo_lib ?env ''j1'' ''alice'' ?a demo_jv_db \<noteq> Inl ErrJourneyVehicleNotFound"
    by code_simp+
  with classify_refines [OF demo_jv_chain h, of ?a "''j1''" "''alice''"] show ?thesis by auto
qed

theorem acl_revision_decides_trust_witness:
  "classify demo_lib' (env_at 0 '''') ''j1'' ''alice'' (demo_attestation ''eve'' 25 None)
     (snd (AppendJourneyVehicleACL demo_lib' (env_at 30 ''b'') (demo_acl_append ''v'' 4 20) demo_jv_db)) =
   Inr TrustACLViolation"
proof -
  let ?env = "env_at 0 ''''" and ?a = "demo_attestation ''eve'' 25 None"
  have run: "AppendJourneyVehicleACL demo_lib' (env_at 30 ''b'') (demo_acl_append ''v'' 4 20) demo_jv_db =
    (Inr (acl_revision_row demo_lib' ''b'' ''v'' (demo_acl ''v'' 4 20) demo_ig ''ca'' 30),
     snd (AppendJourneyVehicleACL demo_lib' (env_at 30 ''b'') (demo_acl_append ''v'' 4 20) demo_jv_db))"
    by code_simp
  have law: "\<forall>ds. lib_unmarshal_drivers demo_lib' (lib_marshal_drivers demo_lib' ds) = Some ds"
    by (simp add: demo_lib'_def dec_enc_drivers)
  have h: "env_open ?env" "\<forall>l. \<not> env_fault ?env l" "da_vehicle_id ?a = jva_journey_vehicle_id (demo_acl_append ''v'' 4 20)"
    "acl_effective_time (jva_acl (demo_acl_append ''v'' 4 20)) \<le> da_effective_time ?a"
    by (simp_all add: env_at_def demo_attestation_def demo_acl_append_def demo_acl_def)
  show ?thesis
    unfolding acl_revision_decides_trust [OF demo_jv_chain run law h] by code_simp
qed

end
