(* ===== verification/ApiVehicles.thy ===== *)
theory ApiVehicles
  imports Integrity Attestations
begin

text \<open>
  The journey-vehicle and driver-attestation handlers (server/api/journey_vehicles.go and
  driver_attestations.go). The clock is read once per request. The canonical encoders and
  decoders of the protocol library, and RFC 3339 parsing of the \<open>at\<close> query value, are the
  parameter \<open>wire_lib\<close>.
\<close>

section \<open>Wire encodings\<close>

record wire_lib =
  wl_vehicle_canonical :: "vehicle \<Rightarrow> string option"
  wl_acl_canonical :: "vehicle_acl \<Rightarrow> string option"
  wl_attestation_canonical :: "driver_attestation \<Rightarrow> string option"
  wl_garage_canonical :: "garage \<Rightarrow> string option"
  wl_acceptance_canonical :: "ownership_acceptance \<Rightarrow> string option"
  wl_garage_vehicle_canonical :: "garage_vehicle \<Rightarrow> string option"
  wl_unmarshal_vehicle :: "string \<Rightarrow> vehicle option"
  wl_unmarshal_garage :: "string \<Rightarrow> garage option"
  wl_unmarshal_garage_vehicle :: "string \<Rightarrow> garage_vehicle option"
  wl_parse_time :: "string \<Rightarrow> int option"

text \<open>The decoders accept what the encoders produce.\<close>

definition wire_laws :: "wire_lib \<Rightarrow> bool" where
  "wire_laws W = ((\<forall>v c. wl_vehicle_canonical W v = Some c \<longrightarrow> wl_unmarshal_vehicle W c \<noteq> None) \<and>
     (\<forall>g c. wl_garage_canonical W g = Some c \<longrightarrow> wl_unmarshal_garage W c \<noteq> None) \<and>
     (\<forall>v c. wl_garage_vehicle_canonical W v = Some c \<longrightarrow> wl_unmarshal_garage_vehicle W c \<noteq> None))"

section \<open>Requests and responses\<close>

record vehicle_create_request =
  vcr_vehicle :: vehicle
  vcr_initial_acl :: vehicle_acl

record journey_vehicle_response =
  jvs_id :: string
  jvs_journey_id :: string
  jvs_owner_user_id :: string
  jvs_current_revision_version :: int
  jvs_current_acl_version :: int
  jvs_vehicle :: vehicle
  jvs_received_at :: int

record acl_revision_response =
  ars_id :: string
  ars_journey_vehicle_id :: string
  ars_acl_version :: int
  ars_effective_time :: int
  ars_emergency_rule :: "string option"
  ars_integrity :: integrity
  ars_received_at :: int

record vehicle_revision_response =
  vrs_id :: string
  vrs_journey_vehicle_id :: string
  vrs_revision_version :: int
  vrs_revision_time :: int
  vrs_vehicle :: vehicle
  vrs_received_at :: int

definition journeyVehicleResponseFromRecord :: "wire_lib \<Rightarrow> journey_vehicle \<Rightarrow> journey_vehicle_response option" where
  "journeyVehicleResponseFromRecord W rec = (case wl_unmarshal_vehicle W (jv_canonical_payload rec) of
      None \<Rightarrow> None
    | Some v \<Rightarrow> Some \<lparr>jvs_id = jv_id rec, jvs_journey_id = jv_journey_id rec, jvs_owner_user_id = jv_owner_user_id rec,
        jvs_current_revision_version = jv_current_revision_version rec,
        jvs_current_acl_version = jv_current_acl_version rec,
        jvs_vehicle = v\<lparr>v_integrity := Some (jv_integrity rec)\<rparr>, jvs_received_at = jv_received_at rec\<rparr>)"

definition decodeEmergencyRule :: "string \<Rightarrow> string option" where
  "decodeEmergencyRule kind = (if kind = [] then None else Some kind)"

section \<open>Journey vehicles\<close>

definition handleJourneyVehicleCreate ::
  "lib \<Rightarrow> verifier_lib \<Rightarrow> wire_lib \<Rightarrow> env \<Rightarrow> server_cfg \<Rightarrow> request_ctx \<Rightarrow> vehicle_create_request option \<Rightarrow>
    (int \<times> journey_vehicle_response) hm" where
  "handleJourneyVehicleCreate L V W env cfg rc body =
     h_require (cfg_vehicle_store cfg) 503 ''vehicles_unavailable''
     (h_opt (rc_identity rc) 401 ''unauthenticated'' (\<lambda>id.
      let journeyID = hr_path_value (rc_request rc) ''id'' in
      h_opt body 400 ''invalid_request'' (\<lambda>b.
      let vehicle = vcr_vehicle b; acl = vcr_initial_acl b in
      h_require (lib_vehicle_validate L vehicle) 400 ''invalid_vehicle''
     (h_opt (v_integrity vehicle) 400 ''invalid_vehicle'' (\<lambda>vig.
      h_require (lib_acl_validate L acl) 400 ''invalid_acl''
     (h_opt (acl_integrity acl) 400 ''invalid_acl'' (\<lambda>aig.
      h_require (acl_vehicle_id acl = v_id vehicle) 400 ''invalid_acl''
     (h_require (acl_owner_user_id acl = v_owner_user_id vehicle) 400 ''invalid_acl''
     (h_require (v_revision_version vehicle = 1) 400 ''invalid_vehicle''
     (h_require (acl_acl_version acl = 1) 400 ''invalid_acl''
     (h_require (v_owner_user_id vehicle = id_user_id id) 403 ''owner_mismatch''
     (h_opt (wl_vehicle_canonical W vehicle) 500 ''internal_error'' (\<lambda>vehicleCanonical.
      h_opt (wl_acl_canonical W acl) 500 ''internal_error'' (\<lambda>aclCanonical.
      h_bind (verifySignedPayload L V env (cfg_integrity_verifier cfg) vehicleCanonical vig (v_owner_user_id vehicle)) (\<lambda>_.
      h_bind (verifySignedPayload L V env (cfg_integrity_verifier cfg) aclCanonical aig (acl_owner_user_id acl)) (\<lambda>_.
      h_call [(ErrJourneyVehicleDuplicateOwner, 409, ''vehicle_already_exists''),
              (ErrJourneyVehicleDuplicateID, 409, ''vehicle_id_in_use'')]
        (CreateJourneyVehicle L env \<lparr>jvc_journey_id = journeyID, jvc_vehicle = vehicle, jvc_initial_acl = acl,
           jvc_canonical_vehicle = vehicleCanonical, jvc_canonical_acl = aclCanonical\<rparr>) (\<lambda>rec.
      h_opt (journeyVehicleResponseFromRecord W rec) 500 ''internal_error'' (\<lambda>resp.
      h_return (201, resp)))))))))))))))))))"

definition handleJourneyVehicleList ::
  "wire_lib \<Rightarrow> env \<Rightarrow> server_cfg \<Rightarrow> request_ctx \<Rightarrow> (int \<times> journey_vehicle_response list) hm" where
  "handleJourneyVehicleList W env cfg rc =
     h_require (cfg_vehicle_store cfg) 503 ''vehicles_unavailable''
     (h_read [] (ListJourneyVehicles env (hr_path_value (rc_request rc) ''id'')) (\<lambda>records.
      h_opt (those (map (journeyVehicleResponseFromRecord W) records)) 500 ''internal_error'' (\<lambda>out.
      h_return (200, out))))"

definition handleJourneyVehicleGet ::
  "wire_lib \<Rightarrow> env \<Rightarrow> server_cfg \<Rightarrow> request_ctx \<Rightarrow> (int \<times> journey_vehicle_response) hm" where
  "handleJourneyVehicleGet W env cfg rc =
     h_require (cfg_vehicle_store cfg) 503 ''vehicles_unavailable''
     (h_read [(ErrJourneyVehicleNotFound, 404, ''vehicle_not_found'')]
        (JourneyVehicleByID env (hr_path_value (rc_request rc) ''id'') (hr_path_value (rc_request rc) ''vid'')) (\<lambda>rec.
      h_opt (journeyVehicleResponseFromRecord W rec) 500 ''internal_error'' (\<lambda>resp.
      h_return (200, resp))))"

definition authorizeJourneyVehicleOwner :: "env \<Rightarrow> server_cfg \<Rightarrow> string \<Rightarrow> string \<Rightarrow> string \<Rightarrow> unit hm" where
  "authorizeJourneyVehicleOwner env cfg sessionUserID journeyID vehicleID =
     h_read [(ErrJourneyVehicleNotFound, 404, ''vehicle_not_found'')] (JourneyVehicleByID env journeyID vehicleID) (\<lambda>stored.
     h_require (jv_owner_user_id stored = sessionUserID) 403 ''owner_mismatch''
     (h_require (cfg_journey_store cfg) 503 ''journey_unavailable''
     (h_read [(ErrJourneyParticipantNotFound, 403, ''owner_not_a_participant'')]
        (JourneyParticipantByUserAndJourney env (jv_owner_user_id stored) journeyID) (\<lambda>_.
      h_return ()))))"

definition handleJourneyVehicleACLAppend ::
  "lib \<Rightarrow> verifier_lib \<Rightarrow> wire_lib \<Rightarrow> env \<Rightarrow> server_cfg \<Rightarrow> request_ctx \<Rightarrow> vehicle_acl option \<Rightarrow>
    (int \<times> acl_revision_response) hm" where
  "handleJourneyVehicleACLAppend L V W env cfg rc body =
     h_require (cfg_vehicle_store cfg) 503 ''vehicles_unavailable''
     (h_opt (rc_identity rc) 401 ''unauthenticated'' (\<lambda>id.
      let journeyID = hr_path_value (rc_request rc) ''id''; vehicleID = hr_path_value (rc_request rc) ''vid'' in
      h_bind (authorizeJourneyVehicleOwner env cfg (id_user_id id) journeyID vehicleID) (\<lambda>_.
      h_opt body 400 ''invalid_request'' (\<lambda>acl.
      h_require (lib_acl_validate L acl) 400 ''invalid_acl''
     (h_opt (acl_integrity acl) 400 ''invalid_acl'' (\<lambda>aig.
      h_require (acl_vehicle_id acl = vehicleID) 400 ''invalid_acl''
     (h_require (acl_owner_user_id acl = id_user_id id) 403 ''owner_mismatch''
     (h_opt (wl_acl_canonical W acl) 500 ''internal_error'' (\<lambda>canonical.
      h_bind (verifySignedPayload L V env (cfg_integrity_verifier cfg) canonical aig (acl_owner_user_id acl)) (\<lambda>_.
      h_call [(ErrJourneyVehicleACLVersionConflict, 409, ''acl_version_conflict''),
              (ErrJourneyVehicleNotFound, 404, ''vehicle_not_found'')]
        (AppendJourneyVehicleACL L env \<lparr>jva_journey_vehicle_id = vehicleID, jva_acl = acl, jva_canonical = canonical\<rparr>) (\<lambda>rev.
      h_return (201, \<lparr>ars_id = ar_id rev, ars_journey_vehicle_id = ar_journey_vehicle_id rev,
        ars_acl_version = ar_acl_version rev, ars_effective_time = ar_effective_time rev,
        ars_emergency_rule = decodeEmergencyRule (ar_emergency_rule_kind rev), ars_integrity = ar_integrity rev,
        ars_received_at = ar_received_at rev\<rparr>))))))))))))"

definition handleJourneyVehicleRevisionAppend ::
  "lib \<Rightarrow> verifier_lib \<Rightarrow> wire_lib \<Rightarrow> env \<Rightarrow> server_cfg \<Rightarrow> request_ctx \<Rightarrow> vehicle option \<Rightarrow>
    (int \<times> vehicle_revision_response) hm" where
  "handleJourneyVehicleRevisionAppend L V W env cfg rc body =
     h_require (cfg_vehicle_store cfg) 503 ''vehicles_unavailable''
     (h_opt (rc_identity rc) 401 ''unauthenticated'' (\<lambda>id.
      let journeyID = hr_path_value (rc_request rc) ''id''; vehicleID = hr_path_value (rc_request rc) ''vid'' in
      h_bind (authorizeJourneyVehicleOwner env cfg (id_user_id id) journeyID vehicleID) (\<lambda>_.
      h_opt body 400 ''invalid_request'' (\<lambda>vehicle.
      h_require (lib_vehicle_validate L vehicle) 400 ''invalid_vehicle''
     (h_opt (v_integrity vehicle) 400 ''invalid_vehicle'' (\<lambda>vig.
      h_require (v_id vehicle = vehicleID) 400 ''invalid_vehicle''
     (h_require (v_owner_user_id vehicle = id_user_id id) 403 ''owner_mismatch''
     (h_opt (wl_vehicle_canonical W vehicle) 500 ''internal_error'' (\<lambda>canonical.
      h_bind (verifySignedPayload L V env (cfg_integrity_verifier cfg) canonical vig (v_owner_user_id vehicle)) (\<lambda>_.
      h_call [(ErrJourneyVehicleRevisionConflict, 409, ''revision_version_conflict''),
              (ErrJourneyVehicleNotFound, 404, ''vehicle_not_found'')]
        (AppendJourneyVehicleRevision L env \<lparr>jvra_journey_vehicle_id = vehicleID, jvra_vehicle = vehicle,
           jvra_canonical = canonical\<rparr>) (\<lambda>rev.
      h_return (201, \<lparr>vrs_id = jvr_id rev, vrs_journey_vehicle_id = jvr_journey_vehicle_id rev,
        vrs_revision_version = jvr_revision_version rev, vrs_revision_time = jvr_revision_time rev,
        vrs_vehicle = vehicle, vrs_received_at = jvr_received_at rev\<rparr>))))))))))))"

section \<open>Driver attestations\<close>

record fork_sibling =
  fs_id :: string
  fs_driver_user_id :: string
  fs_effective_time :: int
  fs_trust_flag :: string

record attestation_response =
  ats_attestation :: attestation
  ats_fork_siblings :: "fork_sibling list"

record current_driver_response =
  cds_as_of :: int
  cds_attestation :: attestation_response
  cds_fork_siblings :: "fork_sibling list"

definition fork_sibling_of :: "attestation \<Rightarrow> fork_sibling" where
  "fork_sibling_of r = \<lparr>fs_id = at_id r, fs_driver_user_id = at_driver_user_id r,
     fs_effective_time = at_effective_time r, fs_trust_flag = at_trust_flag r\<rparr>"

text \<open>The response carries every field of the record but the canonical payload.\<close>

definition driverAttestationResponseFrom :: "attestation \<Rightarrow> fork_sibling list \<Rightarrow> attestation_response" where
  "driverAttestationResponseFrom rec sib =
     \<lparr>ats_attestation = rec\<lparr>at_canonical_payload := []\<rparr>, ats_fork_siblings = sib\<rparr>"

definition replayExistingAttestation :: "env \<Rightarrow> string \<Rightarrow> string \<Rightarrow> int \<Rightarrow> db \<Rightarrow> serr + attestation option" where
  "replayExistingAttestation env vid u t d = (case DriverAttestationByReplayKey env vid u t d of
     Inl e \<Rightarrow> if errors_is e ErrDriverAttestationNotFound then Inr None else Inl e
   | Inr a \<Rightarrow> Inr (Some a))"

text \<open>The branch that classifies and inserts a fresh attestation; the duplicate case is a
  concurrent submission that committed first.\<close>

definition record_fresh ::
  "lib \<Rightarrow> verifier_lib \<Rightarrow> wire_lib \<Rightarrow> env \<Rightarrow> server_cfg \<Rightarrow> string \<Rightarrow> string \<Rightarrow> string \<Rightarrow> string \<Rightarrow>
    driver_attestation \<Rightarrow> integrity \<Rightarrow> (int \<times> attestation) hm" where
  "record_fresh L V W env cfg journeyID vehicleID userID owner a aig =
     h_opt (wl_attestation_canonical W a) 500 ''internal_error'' (\<lambda>canonical.
     h_bind (verifySignedPayload L V env (cfg_integrity_verifier cfg) canonical aig (da_driver_user_id a)) (\<lambda>_.
     h_read [(ErrJourneyVehicleNotFound, 400, ''no_acl_at_effective_time'')] (classify L env journeyID owner a) (\<lambda>trust d.
       (case RecordDriverAttestation L env \<lparr>dap_attestation = a, dap_journey_vehicle_id = vehicleID, dap_trust_flag = trust,
            dap_canonical = canonical\<rparr> d of
          (Inr rec, d') \<Rightarrow> (Inr (201, rec), d')
        | (Inl e, d') \<Rightarrow>
            if errors_is e ErrDriverAttestationDuplicate
            then h_read [] (DriverAttestationByReplayKey env vehicleID userID (da_effective_time a))
                   (\<lambda>existing. h_return (200, existing)) d'
            else (Inl (mk_problem 500 ''internal_error''), d')))))"

definition siblings_of :: "env \<Rightarrow> string \<Rightarrow> attestation \<Rightarrow> db \<Rightarrow> attestation list" where
  "siblings_of env vid rec d = (case at_prior_attestation_hash rec of None \<Rightarrow> []
     | Some h \<Rightarrow> (case DriverAttestationForkSiblings env vid h d of Inl _ \<Rightarrow> [] | Inr rows \<Rightarrow> rows))"

definition handleDriverAttestationRecord ::
  "lib \<Rightarrow> verifier_lib \<Rightarrow> wire_lib \<Rightarrow> env \<Rightarrow> server_cfg \<Rightarrow> request_ctx \<Rightarrow> driver_attestation option \<Rightarrow>
    (int \<times> attestation_response) hm" where
  "handleDriverAttestationRecord L V W env cfg rc body =
     h_require (cfg_attestation_store cfg \<and> cfg_vehicle_store cfg) 503 ''attestations_unavailable''
     (h_require (cfg_journey_store cfg) 503 ''attestations_unavailable''
     (h_opt (rc_identity rc) 401 ''unauthenticated'' (\<lambda>id.
      let journeyID = hr_path_value (rc_request rc) ''id''; vehicleID = hr_path_value (rc_request rc) ''vid'' in
      h_read [(ErrJourneyVehicleNotFound, 404, ''vehicle_not_found'')] (JourneyVehicleByID env journeyID vehicleID) (\<lambda>stored.
      h_opt body 400 ''invalid_request'' (\<lambda>a.
      h_require (lib_attestation_validate L a) 400 ''invalid_attestation''
     (h_opt (da_integrity a) 400 ''invalid_attestation'' (\<lambda>aig.
      h_require (da_vehicle_id a = vehicleID) 400 ''invalid_attestation''
     (h_require (da_driver_user_id a = id_user_id id) 403 ''driver_mismatch''
     (h_read [] (replayExistingAttestation env vehicleID (id_user_id id) (da_effective_time a)) (\<lambda>replayed.
      h_bind (case replayed of Some rec \<Rightarrow> h_return (200, rec)
         | None \<Rightarrow> record_fresh L V W env cfg journeyID vehicleID (id_user_id id) (jv_owner_user_id stored) a aig)
     (\<lambda>(status, rec) d.
        h_return (status, driverAttestationResponseFrom rec (map fork_sibling_of (siblings_of env vehicleID rec d))) d)))))))))))"

definition handleDriverAttestationList ::
  "env \<Rightarrow> server_cfg \<Rightarrow> request_ctx \<Rightarrow> (int \<times> attestation_response list) hm" where
  "handleDriverAttestationList env cfg rc =
     h_require (cfg_attestation_store cfg \<and> cfg_vehicle_store cfg) 503 ''attestations_unavailable''
     (let journeyID = hr_path_value (rc_request rc) ''id''; vehicleID = hr_path_value (rc_request rc) ''vid'' in
      h_read [(ErrJourneyVehicleNotFound, 404, ''vehicle_not_found'')] (JourneyVehicleByID env journeyID vehicleID) (\<lambda>_.
      h_read [] (ListDriverAttestations env vehicleID) (\<lambda>records.
      h_return (200, map (\<lambda>rec. driverAttestationResponseFrom rec []) records))))"

text \<open>\<open>raw\<close> is the \<open>at\<close> query value, empty when missing.\<close>

definition handleCurrentDriver ::
  "wire_lib \<Rightarrow> env \<Rightarrow> server_cfg \<Rightarrow> request_ctx \<Rightarrow> string \<Rightarrow> (int \<times> current_driver_response) hm" where
  "handleCurrentDriver W env cfg rc raw =
     h_require (cfg_attestation_store cfg \<and> cfg_vehicle_store cfg) 503 ''attestations_unavailable''
     (let journeyID = hr_path_value (rc_request rc) ''id''; vehicleID = hr_path_value (rc_request rc) ''vid'' in
      h_opt (if raw = [] then Some (env_now env) else wl_parse_time W raw) 400 ''invalid_request'' (\<lambda>at.
      h_read [(ErrJourneyVehicleNotFound, 404, ''vehicle_not_found'')] (JourneyVehicleByID env journeyID vehicleID) (\<lambda>_.
      h_read [(ErrDriverAttestationNotFound, 404, ''no_driver_attested'')]
        (CurrentDriverForJourneyVehicle env vehicleID at) (\<lambda>rec d.
      h_return (200, \<lparr>cds_as_of = at, cds_attestation = driverAttestationResponseFrom rec [],
        cds_fork_siblings = map fork_sibling_of (filter (\<lambda>row. at_id row \<noteq> at_id rec) (siblings_of env vehicleID rec d))\<rparr>) d))))"

section \<open>What a reply means\<close>

lemma handleJourneyVehicleCreate_Inr:
  assumes "handleJourneyVehicleCreate L V W env cfg rc body d = (Inr (st, resp), d')"
  shows "\<exists>id b cv ca row. rc_identity rc = Some id \<and> body = Some b \<and>
    v_owner_user_id (vcr_vehicle b) = id_user_id id \<and> acl_vehicle_id (vcr_initial_acl b) = v_id (vcr_vehicle b) \<and>
    signed_by L V d cv (the (v_integrity (vcr_vehicle b))) (id_user_id id) \<and>
    signed_by L V d ca (the (acl_integrity (vcr_initial_acl b))) (id_user_id id) \<and>
    wl_vehicle_canonical W (vcr_vehicle b) = Some cv \<and> wl_acl_canonical W (vcr_initial_acl b) = Some ca \<and>
    CreateJourneyVehicle L env \<lparr>jvc_journey_id = hr_path_value (rc_request rc) ''id'', jvc_vehicle = vcr_vehicle b,
      jvc_initial_acl = vcr_initial_acl b, jvc_canonical_vehicle = cv, jvc_canonical_acl = ca\<rparr> d = (Inr row, d') \<and>
    st = 201 \<and> journeyVehicleResponseFromRecord W row = Some resp"
  using assms unfolding handleJourneyVehicleCreate_def Let_def
  by (auto simp: h_require_Inr h_opt_Inr h_bind_Inr h_call_Inr h_return_Inr dest!: verifySignedPayload_D)

lemma authorizeJourneyVehicleOwner_Inr [h_simps]:
  "authorizeJourneyVehicleOwner env cfg u j v d = (Inr x, d') \<longleftrightarrow>
    d' = d \<and> cfg_journey_store cfg \<and>
    (\<exists>r. JourneyVehicleByID env j v d = Inr r \<and> jv_owner_user_id r = u) \<and>
    (\<exists>w. JourneyParticipantByUserAndJourney env u j d = Inr w)"
  unfolding authorizeJourneyVehicleOwner_def h_simps by auto

lemma authorizeJourneyVehicleOwner_pure [h_atomic_intros]: "h_pure (authorizeJourneyVehicleOwner env cfg u j v)"
  unfolding authorizeJourneyVehicleOwner_def by (intro h_atomic_intros)

lemma handleJourneyVehicleACLAppend_Inr:
  assumes "handleJourneyVehicleACLAppend L V W env cfg rc body d = (Inr (st, resp), d')"
  shows "\<exists>id acl c rev. rc_identity rc = Some id \<and> body = Some acl \<and> acl_owner_user_id acl = id_user_id id \<and>
    authorizeJourneyVehicleOwner env cfg (id_user_id id) (hr_path_value (rc_request rc) ''id'')
      (hr_path_value (rc_request rc) ''vid'') d = (Inr (), d) \<and>
    signed_by L V d c (the (acl_integrity acl)) (id_user_id id) \<and> wl_acl_canonical W acl = Some c \<and>
    AppendJourneyVehicleACL L env \<lparr>jva_journey_vehicle_id = hr_path_value (rc_request rc) ''vid'', jva_acl = acl,
      jva_canonical = c\<rparr> d = (Inr rev, d') \<and> st = 201 \<and> ars_acl_version resp = ar_acl_version rev"
  using assms unfolding handleJourneyVehicleACLAppend_def Let_def
  by (auto simp: h_require_Inr h_opt_Inr h_bind_Inr h_call_Inr h_return_Inr authorizeJourneyVehicleOwner_Inr
      dest!: verifySignedPayload_D)

lemma handleJourneyVehicleRevisionAppend_Inr:
  assumes "handleJourneyVehicleRevisionAppend L V W env cfg rc body d = (Inr (st, resp), d')"
  shows "\<exists>id v c rev. rc_identity rc = Some id \<and> body = Some v \<and> v_owner_user_id v = id_user_id id \<and>
    authorizeJourneyVehicleOwner env cfg (id_user_id id) (hr_path_value (rc_request rc) ''id'')
      (hr_path_value (rc_request rc) ''vid'') d = (Inr (), d) \<and>
    signed_by L V d c (the (v_integrity v)) (id_user_id id) \<and> wl_vehicle_canonical W v = Some c \<and>
    AppendJourneyVehicleRevision L env \<lparr>jvra_journey_vehicle_id = hr_path_value (rc_request rc) ''vid'', jvra_vehicle = v,
      jvra_canonical = c\<rparr> d = (Inr rev, d') \<and> st = 201 \<and> vrs_revision_version resp = jvr_revision_version rev"
  using assms unfolding handleJourneyVehicleRevisionAppend_def Let_def
  by (auto simp: h_require_Inr h_opt_Inr h_bind_Inr h_call_Inr h_return_Inr authorizeJourneyVehicleOwner_Inr
      dest!: verifySignedPayload_D)

section \<open>Problems change nothing\<close>

lemma CreateJourneyVehicle_atomic: "op_atomic (CreateJourneyVehicle L env p)"
  unfolding CreateJourneyVehicle_def Let_def by (intro h_atomic_intros)

lemma AppendJourneyVehicleACL_atomic: "op_atomic (AppendJourneyVehicleACL L env p)"
  unfolding AppendJourneyVehicleACL_def Let_def by (intro h_atomic_intros)

lemma AppendJourneyVehicleRevision_atomic: "op_atomic (AppendJourneyVehicleRevision L env p)"
  unfolding AppendJourneyVehicleRevision_def Let_def by (intro h_atomic_intros)

lemma RecordDriverAttestation_atomic: "op_atomic (RecordDriverAttestation L env p)"
  unfolding RecordDriverAttestation_def Let_def by (intro h_atomic_intros)

lemma handleJourneyVehicleCreate_atomic:
  assumes "wire_laws W"
  shows "h_atomic (handleJourneyVehicleCreate L V W env cfg rc body)"
  unfolding handleJourneyVehicleCreate_def Let_def
proof (intro h_atomic_call_dep CreateJourneyVehicle_atomic h_atomic_intros)
  fix b cv ca a p and d d' d'' :: db
  assume "wl_vehicle_canonical W (vcr_vehicle b) = Some cv"
    and "CreateJourneyVehicle L env \<lparr>jvc_journey_id = hr_path_value (rc_request rc) ''id'', jvc_vehicle = vcr_vehicle b,
      jvc_initial_acl = vcr_initial_acl b, jvc_canonical_vehicle = cv, jvc_canonical_acl = ca\<rparr> d = (Inr a, d')"
  then have "wl_unmarshal_vehicle W (jv_canonical_payload a) \<noteq> None"
    using assms by (auto dest!: CreateJourneyVehicle_Inr simp: vehicle_head_row_def wire_laws_def)
  then show "h_opt (journeyVehicleResponseFromRecord W a) 500 ''internal_error'' (\<lambda>resp. h_return (201, resp)) d' \<noteq> (Inl p, d'')"
    by (auto simp: h_opt_def h_return_def journeyVehicleResponseFromRecord_def)
qed

lemma handleJourneyVehicleACLAppend_atomic: "h_atomic (handleJourneyVehicleACLAppend L V W env cfg rc body)"
  unfolding handleJourneyVehicleACLAppend_def Let_def
  by (intro h_atomic_intros AppendJourneyVehicleACL_atomic)

lemma handleJourneyVehicleRevisionAppend_atomic: "h_atomic (handleJourneyVehicleRevisionAppend L V W env cfg rc body)"
  unfolding handleJourneyVehicleRevisionAppend_def Let_def
  by (intro h_atomic_intros AppendJourneyVehicleRevision_atomic)

lemma record_fresh_Inr:
  assumes "record_fresh L V W env cfg j vid u own a aig d = (Inr (st, rec), d')"
  shows "\<exists>c trust. wl_attestation_canonical W a = Some c \<and> signed_by L V d c aig (da_driver_user_id a) \<and>
    classify L env j own a d = Inr trust \<and>
    (st = 201 \<and> RecordDriverAttestation L env \<lparr>dap_attestation = a, dap_journey_vehicle_id = vid, dap_trust_flag = trust,
        dap_canonical = c\<rparr> d = (Inr rec, d') \<or>
     st = 200 \<and> d' = d \<and> DriverAttestationByReplayKey env vid u (da_effective_time a) d = Inr rec)"
proof -
  from assms obtain c trust where c: "wl_attestation_canonical W a = Some c" "signed_by L V d c aig (da_driver_user_id a)"
    "classify L env j own a d = Inr trust"
    and r: "(case RecordDriverAttestation L env \<lparr>dap_attestation = a, dap_journey_vehicle_id = vid, dap_trust_flag = trust,
        dap_canonical = c\<rparr> d of
          (Inr rec, d') \<Rightarrow> (Inr (201, rec), d')
        | (Inl e, d') \<Rightarrow>
            if errors_is e ErrDriverAttestationDuplicate
            then h_read [] (DriverAttestationByReplayKey env vid u (da_effective_time a))
                   (\<lambda>existing. h_return (200, existing)) d'
            else (Inl (mk_problem 500 ''internal_error''), d')) = (Inr (st, rec), d')"
    unfolding record_fresh_def
    by (auto simp: h_opt_Inr h_bind_Inr h_read_Inr dest!: verifySignedPayload_D)
  let ?run = "RecordDriverAttestation L env \<lparr>dap_attestation = a, dap_journey_vehicle_id = vid, dap_trust_flag = trust,
    dap_canonical = c\<rparr> d"
  have "snd ?run = d" if "fst ?run = Inl e" for e
    using that RecordDriverAttestation_atomic unfolding op_atomic_def by (metis prod.collapse)
  with r have "st = 201 \<and> ?run = (Inr rec, d') \<or>
     st = 200 \<and> d' = d \<and> DriverAttestationByReplayKey env vid u (da_effective_time a) d = Inr rec"
    by (auto simp: h_simps split: prod.splits sum.splits if_splits)
  with c show ?thesis by blast
qed

lemma record_fresh_atomic: "h_atomic (record_fresh L V W env cfg j vid u own a aig)"
  unfolding record_fresh_def
proof (intro h_atomic_intros)
  fix c trust
  show "h_atomic (\<lambda>d. case RecordDriverAttestation L env \<lparr>dap_attestation = a, dap_journey_vehicle_id = vid, dap_trust_flag = trust,
        dap_canonical = c\<rparr> d of
          (Inr rec, d') \<Rightarrow> (Inr (201, rec), d')
        | (Inl e, d') \<Rightarrow>
            if errors_is e ErrDriverAttestationDuplicate
            then h_read [] (DriverAttestationByReplayKey env vid u (da_effective_time a))
                   (\<lambda>existing. h_return (200, existing)) d'
            else (Inl (mk_problem 500 ''internal_error''), d'))"
    using RecordDriverAttestation_atomic unfolding op_atomic_def h_atomic_def
    by (auto simp: h_read_def h_return_def split: prod.splits sum.splits if_splits)
qed

lemma handleDriverAttestationRecord_atomic: "h_atomic (handleDriverAttestationRecord L V W env cfg rc body)"
  unfolding handleDriverAttestationRecord_def Let_def
  by (intro h_atomic_bind_total h_atomic_intros)
     (auto simp: record_fresh_atomic h_atomic_return h_total_def h_return_def split: option.splits)

lemma handleDriverAttestationRecord_Inr:
  assumes "handleDriverAttestationRecord L V W env cfg rc body d = (Inr (st, resp), d')"
    "vid = hr_path_value (rc_request rc) ''vid''" "j = hr_path_value (rc_request rc) ''id''"
  shows "\<exists>id a stored rec. rc_identity rc = Some id \<and> body = Some a \<and> da_driver_user_id a = id_user_id id \<and>
    da_vehicle_id a = vid \<and> JourneyVehicleByID env j vid d = Inr stored \<and>
    resp = driverAttestationResponseFrom rec (map fork_sibling_of (siblings_of env vid rec d')) \<and>
    (st = 200 \<and> d' = d \<and> DriverAttestationByReplayKey env vid (id_user_id id) (da_effective_time a) d = Inr rec \<or>
     st = 201 \<and> (\<exists>c trust. signed_by L V d c (the (da_integrity a)) (id_user_id id) \<and>
       wl_attestation_canonical W a = Some c \<and> classify L env j (jv_owner_user_id stored) a d = Inr trust \<and>
       RecordDriverAttestation L env \<lparr>dap_attestation = a, dap_journey_vehicle_id = vid, dap_trust_flag = trust,
         dap_canonical = c\<rparr> d = (Inr rec, d')))"
proof -
  from assms(1) obtain id a stored aig rp where
    h: "rc_identity rc = Some id" "body = Some a" "da_driver_user_id a = id_user_id id" "da_vehicle_id a = vid"
      "JourneyVehicleByID env j vid d = Inr stored" "da_integrity a = Some aig"
      "replayExistingAttestation env vid (id_user_id id) (da_effective_time a) d = Inr rp"
    and b: "h_bind (case rp of Some rec \<Rightarrow> h_return (200, rec)
         | None \<Rightarrow> record_fresh L V W env cfg j vid (id_user_id id) (jv_owner_user_id stored) a aig)
     (\<lambda>(status, rec) d. h_return (status, driverAttestationResponseFrom rec (map fork_sibling_of (siblings_of env vid rec d))) d) d
     = (Inr (st, resp), d')"
    unfolding handleDriverAttestationRecord_def Let_def assms(2,3) [symmetric] h_require_Inr h_opt_Inr h_read_Inr
    by blast
  from b obtain rec where rec: "resp = driverAttestationResponseFrom rec (map fork_sibling_of (siblings_of env vid rec d'))"
    "(case rp of Some rec \<Rightarrow> h_return (200, rec)
         | None \<Rightarrow> record_fresh L V W env cfg j vid (id_user_id id) (jv_owner_user_id stored) a aig) d = (Inr (st, rec), d')"
    by (auto simp: h_bind_Inr h_return_Inr)
  show ?thesis
  proof (cases rp)
    case None
    from rec(2) None have "record_fresh L V W env cfg j vid (id_user_id id) (jv_owner_user_id stored) a aig d = (Inr (st, rec), d')"
      by simp
    from record_fresh_Inr [OF this] h rec(1) show ?thesis by auto
  next
    case (Some rec')
    with rec(2) have "st = 200 \<and> d' = d \<and> rec' = rec" by (auto simp: h_return_Inr)
    moreover have "DriverAttestationByReplayKey env vid (id_user_id id) (da_effective_time a) d = Inr rec'"
      using h(7) Some by (auto simp: replayExistingAttestation_def split: sum.splits if_splits)
    ultimately show ?thesis using h rec(1) by auto
  qed
qed

section \<open>Who may publish for a vehicle\<close>

text \<open>The vehicle of a journey belongs to a user who is a joined participant.\<close>

definition joined_owner :: "db \<Rightarrow> string \<Rightarrow> string \<Rightarrow> string \<Rightarrow> bool" where
  "joined_owner d u j vid = ((\<exists>row \<in> set (journey_vehicles d). jv_id row = vid \<and> jv_journey_id row = j \<and>
     jv_owner_user_id row = u) \<and> joined_participant d u j)"

lemma JourneyVehicleByID_Inr:
  "JourneyVehicleByID env j vid d = Inr row \<Longrightarrow>
    row \<in> set (journey_vehicles d) \<and> jv_id row = vid \<and> jv_journey_id row = j"
  by (auto simp: JourneyVehicleByID_def split: if_splits option.splits dest!: find_SomeD)

lemma participant_joined:
  "JourneyParticipantByUserAndJourney env u j d = Inr w \<Longrightarrow> joined_participant d u j"
  by (auto simp: JourneyParticipantByUserAndJourney_def joined_participant_def list_ex_iff
      split: if_splits option.splits dest!: find_SomeD)

lemma authorize_joined_owner:
  "authorizeJourneyVehicleOwner env cfg u j vid d = (Inr x, d') \<Longrightarrow> joined_owner d u j vid"
  by (auto simp: authorizeJourneyVehicleOwner_Inr joined_owner_def dest!: JourneyVehicleByID_Inr participant_joined)

lemma acl_append_effect:
  assumes "handleJourneyVehicleACLAppend L V W env cfg rc body d = (Inr r, d')"
  shows "\<exists>i rev. rc_identity rc = Some i \<and>
    joined_owner d (id_user_id i) (hr_path_value (rc_request rc) ''id'') (hr_path_value (rc_request rc) ''vid'') \<and>
    acl_revisions d' = acl_revisions d @ [rev] \<and> ar_journey_vehicle_id rev = hr_path_value (rc_request rc) ''vid'' \<and>
    signed_by L V d (ar_canonical_payload rev) (ar_integrity rev) (id_user_id i)"
  using assms handleJourneyVehicleACLAppend_Inr [of L V W env cfg rc body d "fst r" "snd r" d']
  by (auto simp: acl_revision_row_def dest!: AppendJourneyVehicleACL_Inr authorize_joined_owner)

lemma revision_append_effect:
  assumes "handleJourneyVehicleRevisionAppend L V W env cfg rc body d = (Inr r, d')"
  shows "\<exists>i rev. rc_identity rc = Some i \<and>
    joined_owner d (id_user_id i) (hr_path_value (rc_request rc) ''id'') (hr_path_value (rc_request rc) ''vid'') \<and>
    journey_vehicle_revisions d' = journey_vehicle_revisions d @ [rev] \<and>
    jvr_journey_vehicle_id rev = hr_path_value (rc_request rc) ''vid'' \<and>
    signed_by L V d (jvr_canonical_payload rev) (jvr_integrity rev) (id_user_id i)"
  using assms handleJourneyVehicleRevisionAppend_Inr [of L V W env cfg rc body d "fst r" "snd r" d']
  by (auto simp: vehicle_revision_row_def dest!: AppendJourneyVehicleRevision_Inr authorize_joined_owner)

section \<open>Properties\<close>

lemma vehicle_appends_by_joined_owner_facts:
  assumes "rc_identity rc = Some i"
  defines "j \<equiv> hr_path_value (rc_request rc) ''id''" and "vid \<equiv> hr_path_value (rc_request rc) ''vid''"
  shows "handleJourneyVehicleACLAppend L V W env cfg rc body d = (Inr r, d') \<Longrightarrow>
      joined_owner d (id_user_id i) j vid \<and>
      (\<exists>rev. acl_revisions d' = acl_revisions d @ [rev] \<and> ar_journey_vehicle_id rev = vid \<and>
         signed_by L V d (ar_canonical_payload rev) (ar_integrity rev) (id_user_id i))"
    "handleJourneyVehicleRevisionAppend L V W env cfg rc vbody d = (Inr q, d') \<Longrightarrow>
      joined_owner d (id_user_id i) j vid \<and>
      (\<exists>rev. journey_vehicle_revisions d' = journey_vehicle_revisions d @ [rev] \<and> jvr_journey_vehicle_id rev = vid \<and>
         signed_by L V d (jvr_canonical_payload rev) (jvr_integrity rev) (id_user_id i))"
    "\<not> joined_owner d (id_user_id i) j vid \<Longrightarrow>
      snd (handleJourneyVehicleACLAppend L V W env cfg rc body d) = d \<and>
      snd (handleJourneyVehicleRevisionAppend L V W env cfg rc vbody d) = d"
  using assms
  by (auto dest!: acl_append_effect revision_append_effect
      intro!: h_atomic_unchanged handleJourneyVehicleACLAppend_atomic handleJourneyVehicleRevisionAppend_atomic)


definition by_replay_key :: "string \<Rightarrow> string \<Rightarrow> int \<Rightarrow> db \<Rightarrow> attestation option" where
  "by_replay_key vid u t d = find (\<lambda>r. at_journey_vehicle_id r = vid \<and> at_driver_user_id r = u \<and> at_effective_time r = t) (attestations d)"

lemma by_replay_key_Inr:
  "DriverAttestationByReplayKey env vid u t d = Inr rec \<Longrightarrow> by_replay_key vid u t d = Some rec"
  by (auto simp: DriverAttestationByReplayKey_def by_replay_key_def scanDriverAttestation_def split: if_splits option.splits)

lemma by_replay_key_recorded:
  assumes "RecordDriverAttestation L env p d = (Inr rec, d')"
  shows "by_replay_key (dap_journey_vehicle_id p) (da_driver_user_id (dap_attestation p)) (da_effective_time (dap_attestation p)) d' = Some rec"
proof -
  note e = RecordDriverAttestation_Inr [OF assms]
  have "find (\<lambda>r. at_journey_vehicle_id r = dap_journey_vehicle_id p \<and> at_driver_user_id r = da_driver_user_id (dap_attestation p) \<and>
      at_effective_time r = da_effective_time (dap_attestation p)) (attestations d) = None"
    using e by (auto simp: find_None_iff')
  with e show ?thesis by (simp add: by_replay_key_def find_append)
qed

lemma by_replay_key_append:
  "by_replay_key vid u t d = Some rec \<Longrightarrow> attestations d2 = attestations d @ later \<Longrightarrow> by_replay_key vid u t d2 = Some rec"
  by (simp add: by_replay_key_def find_append)

lemma handle_replayed:
  assumes "by_replay_key vid u t d = Some rec" "env_open env" "\<forall>l. \<not> env_fault env l"
    "cfg_attestation_store cfg" "cfg_vehicle_store cfg" "cfg_journey_store cfg" "rc_identity rc = Some i" "id_user_id i = u"
    "vid = hr_path_value (rc_request rc) ''vid''" "JourneyVehicleByID env (hr_path_value (rc_request rc) ''id'') vid d = Inr stored"
    "lib_attestation_validate L a" "da_integrity a \<noteq> None" "da_vehicle_id a = vid" "da_driver_user_id a = u" "da_effective_time a = t"
  shows "handleDriverAttestationRecord L V W env cfg rc (Some a) d =
    (Inr (200, driverAttestationResponseFrom rec (map fork_sibling_of (siblings_of env vid rec d))), d)"
proof -
  have "replayExistingAttestation env vid u t d = Inr (Some rec)"
    using assms(1-3) by (simp add: replayExistingAttestation_def DriverAttestationByReplayKey_def by_replay_key_def scanDriverAttestation_def)
  moreover obtain aig where "da_integrity a = Some aig" using assms(12) by blast
  ultimately show ?thesis
    using assms(4-11,13-15)
    by (simp add: handleDriverAttestationRecord_def Let_def h_require_def h_opt_def h_read_def h_bind_def h_return_def)
qed

lemma attestation_submission_facts:
  assumes "handleDriverAttestationRecord L V W env cfg rc (Some a) d = (Inr (st, resp), d')" "rc_identity rc = Some i"
  defines "j \<equiv> hr_path_value (rc_request rc) ''id''" and "vid \<equiv> hr_path_value (rc_request rc) ''vid''"
  shows "st = 200 \<and> d' = d \<or>
      st = 201 \<and> (\<exists>stored c. JourneyVehicleByID env j vid d = Inr stored \<and>
        classify L env j (jv_owner_user_id stored) a d = Inr (at_trust_flag (ats_attestation resp)) \<and>
        wl_attestation_canonical W a = Some c \<and> signed_by L V d c (the (da_integrity a)) (id_user_id i) \<and>
        d' = d\<lparr>attestations := attestations d @ [(ats_attestation resp)\<lparr>at_canonical_payload := c\<rparr>]\<rparr>)"
    "attestations d2 = attestations d' @ later \<Longrightarrow> env_open env2 \<Longrightarrow> \<forall>l. \<not> env_fault env2 l \<Longrightarrow>
      JourneyVehicleByID env2 j vid d2 = Inr stored2 \<Longrightarrow> lib_attestation_validate L a2 \<Longrightarrow> da_integrity a2 \<noteq> None \<Longrightarrow>
      da_vehicle_id a2 = vid \<Longrightarrow> da_driver_user_id a2 = id_user_id i \<Longrightarrow> da_effective_time a2 = da_effective_time a \<Longrightarrow>
      \<exists>sib. handleDriverAttestationRecord L V W env2 cfg rc (Some a2) d2 =
        (Inr (200, \<lparr>ats_attestation = ats_attestation resp, ats_fork_siblings = sib\<rparr>), d2)"
proof -
  let ?P = "\<lambda>c trust. \<lparr>dap_attestation = a, dap_journey_vehicle_id = vid, dap_trust_flag = trust, dap_canonical = c\<rparr>"
  obtain stored rec where r: "da_driver_user_id a = id_user_id i" "JourneyVehicleByID env j vid d = Inr stored"
    "resp = driverAttestationResponseFrom rec (map fork_sibling_of (siblings_of env vid rec d'))"
    "st = 200 \<and> d' = d \<and> DriverAttestationByReplayKey env vid (id_user_id i) (da_effective_time a) d = Inr rec \<or>
     st = 201 \<and> (\<exists>c trust. signed_by L V d c (the (da_integrity a)) (id_user_id i) \<and>
       wl_attestation_canonical W a = Some c \<and> classify L env j (jv_owner_user_id stored) a d = Inr trust \<and>
       RecordDriverAttestation L env (?P c trust) d = (Inr rec, d'))"
    using handleDriverAttestationRecord_Inr [OF assms(1) vid_def [THEN meta_eq_to_obj_eq] j_def [THEN meta_eq_to_obj_eq]] assms(2)
    by auto
  show "st = 200 \<and> d' = d \<or>
      st = 201 \<and> (\<exists>stored c. JourneyVehicleByID env j vid d = Inr stored \<and>
        classify L env j (jv_owner_user_id stored) a d = Inr (at_trust_flag (ats_attestation resp)) \<and>
        wl_attestation_canonical W a = Some c \<and> signed_by L V d c (the (da_integrity a)) (id_user_id i) \<and>
        d' = d\<lparr>attestations := attestations d @ [(ats_attestation resp)\<lparr>at_canonical_payload := c\<rparr>]\<rparr>)"
    using r by (auto dest!: RecordDriverAttestation_Inr simp: driverAttestationResponseFrom_def attestation_row_def Let_def)
  assume d2: "attestations d2 = attestations d' @ later" "env_open env2" "\<forall>l. \<not> env_fault env2 l"
      "JourneyVehicleByID env2 j vid d2 = Inr stored2" "lib_attestation_validate L a2" "da_integrity a2 \<noteq> None"
      "da_vehicle_id a2 = vid" "da_driver_user_id a2 = id_user_id i" "da_effective_time a2 = da_effective_time a"
  have "by_replay_key vid (id_user_id i) (da_effective_time a) d' = Some rec"
    using r(1,4) by (auto dest: by_replay_key_Inr dest!: by_replay_key_recorded)
  from by_replay_key_append [OF this d2(1)]
  have k: "by_replay_key vid (id_user_id i) (da_effective_time a) d2 = Some rec" .
  have cfg: "cfg_attestation_store cfg \<and> cfg_vehicle_store cfg \<and> cfg_journey_store cfg"
    using assms(1) unfolding handleDriverAttestationRecord_def h_require_Inr by blast
  show "\<exists>sib. handleDriverAttestationRecord L V W env2 cfg rc (Some a2) d2 =
        (Inr (200, \<lparr>ats_attestation = ats_attestation resp, ats_fork_siblings = sib\<rparr>), d2)"
    using handle_replayed [OF k d2(2,3), of cfg rc i stored2 L a2 V W] cfg assms(2) d2 r(3)
    by (auto simp: j_def vid_def driverAttestationResponseFrom_def)
qed


text \<open>Two submissions of one attestation racing: when another submission of the same vehicle,
  driver and effective time has committed after the pre-check, the insert is refused by the
  database and the handler answers 200 with the committed record, leaving it unchanged.\<close>

theorem attestation_race:
  assumes "by_replay_key vid u (da_effective_time a) d = Some rec" "env_open env" "\<forall>l. \<not> env_fault env l"
    "cfg_integrity_verifier cfg" "wl_attestation_canonical W a = Some c" "c \<noteq> []"
    "verifySignedPayload L V env True c aig u d = (Inr (), d)" "da_integrity a = Some aig"
    "da_driver_user_id a = u" "da_vehicle_id a = vid" "vid \<noteq> []" "lib_attestation_validate L a"
    "1 \<le> da_acl_version_consulted a" "classify L env j own a d = Inr trust" "env_uuid env 0 \<noteq> None"
  shows "record_fresh L V W env cfg j vid u own a aig d = (Inr (200, rec), d)"
proof -
  let ?p = "\<lparr>dap_attestation = a, dap_journey_vehicle_id = vid, dap_trust_flag = trust, dap_canonical = c\<rparr>"
  have "trust \<in> {TrustAuthorized, TrustEmergencyFallback, TrustACLViolation}"
    using assms(14) by (auto simp: classify_def Let_def split: sum.splits option.splits if_splits)
  then have t: "Trust_Valid trust" by (auto simp: Trust_Valid_def trust_defs)
  have g: "\<forall>g \<in> set (attestation_checks L env ?p). fst g"
    using assms t by (auto simp: attestation_checks_def)
  let ?row = "attestation_row ?p (the (env_uuid env 0)) (env_now env)"
  have "list_ex (\<lambda>r. at_id ?row = at_id r \<or> at_journey_vehicle_id ?row = at_journey_vehicle_id r \<and>
      at_driver_user_id ?row = at_driver_user_id r \<and> at_effective_time ?row = at_effective_time r) (attestations d)"
    using find_SomeD [OF assms(1) [unfolded by_replay_key_def]] assms(9) by (force simp: list_ex_iff)
  then have "RecordDriverAttestation L env ?p d = (Inl ErrDriverAttestationDuplicate, d)"
    using assms(3,13) t
    by (simp add: RecordDriverAttestation_def op_require_True [OF g] Let_def auto_tx_def tx_bind_def tx_exec_def
        insert_attestation_def sql_insert_def Trust_Valid_def trust_defs)
  moreover have "DriverAttestationByReplayKey env vid u (da_effective_time a) d = Inr rec"
    using assms(1-3) by (simp add: DriverAttestationByReplayKey_def by_replay_key_def scanDriverAttestation_def)
  ultimately show ?thesis
    using assms by (simp add: record_fresh_def h_opt_def h_bind_def h_read_def h_return_def)
qed

section \<open>A concrete run\<close>

text \<open>Carol, enrolled with the app of the verifier's example, hosts a journey and brings a
  vehicle.\<close>

definition demo_carol_vehicle :: "int \<Rightarrow> vehicle" where
  "demo_carol_vehicle n = \<lparr>v_id = ''v'', v_owner_user_id = ''carol'', v_revision_version = n, v_revision_time = 5,
     v_avatar_blob = None, v_banner_blob = None, v_integrity = Some demo_envelope, v_rest = ''''\<rparr>"

definition demo_carol_acl :: "int \<Rightarrow> int \<Rightarrow> vehicle_acl" where
  "demo_carol_acl n t = \<lparr>acl_vehicle_id = ''v'', acl_owner_user_id = ''carol'', acl_acl_version = n,
     acl_effective_time = t, acl_authorized_drivers = [''bob''], acl_emergency_rule = None,
     acl_integrity = Some demo_envelope, acl_rest = ''''\<rparr>"

definition demo_carol_attestation :: "int \<Rightarrow> driver_attestation" where
  "demo_carol_attestation t = \<lparr>da_vehicle_id = ''v'', da_segment_id = ''s'', da_driver_user_id = ''carol'',
     da_effective_time = t, da_acl_version_consulted = 1, da_prior_attestation_hash = None,
     da_integrity = Some demo_envelope, da_rest = ''''\<rparr>"

definition demo_wire :: wire_lib where
  "demo_wire = \<lparr>wl_vehicle_canonical = (\<lambda>_. Some ''cert''), wl_acl_canonical = (\<lambda>_. Some ''cert''),
     wl_attestation_canonical = (\<lambda>_. Some ''cert''), wl_garage_canonical = (\<lambda>_. Some ''cert''),
     wl_acceptance_canonical = (\<lambda>_. Some ''cert''), wl_garage_vehicle_canonical = (\<lambda>_. Some ''cert''),
     wl_unmarshal_vehicle = (\<lambda>_. Some (demo_carol_vehicle 1)),
     wl_unmarshal_garage = (\<lambda>_. Some \<lparr>g_id = ''g'', g_name = ''n'', g_revision_version = 1, g_revision_time = 0,
        g_signed_by = ''carol'', g_owners = [], g_integrity = None, g_rest = ''''\<rparr>),
     wl_unmarshal_garage_vehicle = (\<lambda>_. Some \<lparr>gvh_id = ''gv'', gvh_garage_id = ''g'', gvh_revision_version = 1,
        gvh_revision_time = 0, gvh_signed_by = ''carol'', gvh_avatar_blob = None, gvh_banner_blob = None,
        gvh_integrity = None, gvh_rest = ''''\<rparr>),
     wl_parse_time = (\<lambda>s. Some 0)\<rparr>"

lemma demo_wire_laws: "wire_laws demo_wire"
  by (simp add: wire_laws_def demo_wire_def)

definition carol :: identity where
  "carol = \<lparr>id_user_id = ''carol'', id_client_app_id = ''app'', id_serial = ''1'', id_subject_cn = ''cert'',
     id_not_after = 100, id_fingerprint = ''f''\<rparr>"

definition carol_rc :: "(string \<Rightarrow> string) \<Rightarrow> request_ctx" where
  "carol_rc path = \<lparr>rc_request = \<lparr>hr_remote_addr = ''peer'', hr_host = ''h'', hr_tls = None, hr_header = (\<lambda>_. ''''),
     hr_path_value = path\<rparr>, rc_info = None, rc_identity = Some carol, rc_session = None\<rparr>"

definition demo_path :: "string \<Rightarrow> string" where
  "demo_path n = (if n = ''id'' then ''j'' else ''v'')"

definition demo_api_db :: db where
  "demo_api_db = snd (handleJourneyVehicleCreate demo_lib demo_verifier demo_wire (env_at 20 ''a'') full_cfg (carol_rc demo_path)
     (Some \<lparr>vcr_vehicle = demo_carol_vehicle 1, vcr_initial_acl = demo_carol_acl 1 10\<rparr>)
     (snd (CreateJourney (env_at 12 ''j'') \<lparr>jc_title = ''trip'', jc_description = '''', jc_host_user_id = ''carol'',
        jc_policy_hash = ''h'', jc_policy_json = ''p''\<rparr> demo_enrolled_db)))"

lemma carol_rc_sel [simp]: "rc_identity (carol_rc path) = Some carol" "hr_path_value (rc_request (carol_rc path)) = path"
  by (simp_all add: carol_rc_def)



end
