(* ===== verification/Garages.thy ===== *)
theory Garages
  imports Schema Chains
begin

text \<open>
  Garages (storage/garage.go): a shared garage with signed revisions, its
  materialized owner list and the ownership acceptances. The owner list follows
  the newest revision by a diff; an acceptance is bound to the revision that
  invited the accepter.
\<close>

section \<open>Parameters\<close>

record garage_params =
  gp_garage :: garage
  gp_canonical :: string

record accept_params =
  gap_acceptance :: ownership_acceptance
  gap_canonical :: string

section \<open>Statements inside a transaction\<close>

definition garage_head_row :: "garage \<Rightarrow> int \<Rightarrow> garage_row" where
  "garage_head_row g now = \<lparr>gr_id = g_id g, gr_name = g_name g,
     gr_current_revision_version = g_revision_version g, gr_current_revision_time = g_revision_time g,
     gr_created_at = now\<rparr>"

definition garage_revision_row :: "string \<Rightarrow> garage \<Rightarrow> string \<Rightarrow> int \<Rightarrow> garage_revision" where
  "garage_revision_row rid g canonical now = \<lparr>grev_id = rid, grev_garage_id = g_id g,
     grev_revision_version = g_revision_version g, grev_revision_time = g_revision_time g,
     grev_signed_by = g_signed_by g, grev_integrity = the (g_integrity g),
     grev_canonical_payload = canonical, grev_received_at = now\<rparr>"

definition insertGarageRevisionTx :: "env \<Rightarrow> string \<Rightarrow> garage \<Rightarrow> string \<Rightarrow> int \<Rightarrow> (db, unit) tx" where
  "insertGarageRevisionTx env rid g canonical now =
     tx_exec env ''insert garage revision'' SQLErr (insert_garage_revision (garage_revision_row rid g canonical now))"

definition owner_row :: "string \<Rightarrow> int \<Rightarrow> garage_owner \<Rightarrow> garage_owner_row" where
  "owner_row gid version ow = \<lparr>own_garage_id = gid, own_user_id = gown_user_id ow,
     own_added_time = gown_added_time ow, own_added_in_revision_version = version,
     own_accepted_time = gown_accepted_time ow\<rparr>"

definition insertGarageOwnerTx :: "env \<Rightarrow> string \<Rightarrow> int \<Rightarrow> garage_owner \<Rightarrow> (db, unit) tx" where
  "insertGarageOwnerTx env gid version ow =
     tx_exec env ''insert garage owner'' SQLErr (insert_garage_owner (owner_row gid version ow))"

fun insert_owners :: "env \<Rightarrow> string \<Rightarrow> int \<Rightarrow> garage_owner list \<Rightarrow> (db, unit) tx" where
  "insert_owners env gid version [] = tx_return ()"
| "insert_owners env gid version (ow # ows) =
     tx_bind (insertGarageOwnerTx env gid version ow) (\<lambda>_. insert_owners env gid version ows)"

text \<open>The owner list is reconciled against the rows read at the start
  (\<open>existing\<close>): promote, keep or insert every owner of the payload, then delete the
  existing owners the payload no longer names. Go ranges over the map of existing
  owners in an arbitrary order; the deletes touch different rows, so the order
  does not matter and the model takes the table's.\<close>

definition reconcile_owner ::
  "env \<Rightarrow> string \<Rightarrow> int \<Rightarrow> garage_owner_row list \<Rightarrow> garage_owner \<Rightarrow> (db, unit) tx" where
  "reconcile_owner env gid version existing ow =
     (case find (\<lambda>r. own_user_id r = gown_user_id ow) existing of
        Some prev \<Rightarrow>
          if gown_accepted_time ow \<noteq> None \<and> own_accepted_time prev = None
          then tx_bind (tx_exec env ''update owner accepted_time'' SQLErr
                 (update_garage_owners (\<lambda>r. own_garage_id r = gid \<and> own_user_id r = gown_user_id ow)
                    (\<lambda>r. r\<lparr>own_accepted_time := gown_accepted_time ow\<rparr>)))
                 (\<lambda>_. tx_return ())
          else tx_return ()
      | None \<Rightarrow> insertGarageOwnerTx env gid version ow)"

fun reconcile_upserts ::
  "env \<Rightarrow> string \<Rightarrow> int \<Rightarrow> garage_owner_row list \<Rightarrow> garage_owner list \<Rightarrow> (db, unit) tx" where
  "reconcile_upserts env gid version existing [] = tx_return ()"
| "reconcile_upserts env gid version existing (ow # ows) =
     tx_bind (reconcile_owner env gid version existing ow)
       (\<lambda>_. reconcile_upserts env gid version existing ows)"

fun reconcile_deletes :: "env \<Rightarrow> string \<Rightarrow> string list \<Rightarrow> garage_owner_row list \<Rightarrow> (db, unit) tx" where
  "reconcile_deletes env gid keep [] = tx_return ()"
| "reconcile_deletes env gid keep (r # rs) =
     tx_bind (if own_user_id r \<in> set keep then tx_return ()
              else tx_exec env ''delete removed owner'' SQLErr
                (delete_garage_owners (\<lambda>x. own_garage_id x = gid \<and> own_user_id x = own_user_id r)))
       (\<lambda>_. reconcile_deletes env gid keep rs)"

definition reconcileGarageOwnersTx :: "env \<Rightarrow> string \<Rightarrow> int \<Rightarrow> garage_owner list \<Rightarrow> (db, unit) tx" where
  "reconcileGarageOwnersTx env gid version ows =
     tx_bind (tx_query env ''load existing owners'' (\<lambda>d. filter (\<lambda>r. own_garage_id r = gid) (garage_owners d)))
       (\<lambda>existing. tx_bind (reconcile_upserts env gid version existing ows)
       (\<lambda>_. reconcile_deletes env gid (map gown_user_id ows) existing))"

section \<open>Operations\<close>

definition CreateGarage :: "lib \<Rightarrow> env \<Rightarrow> garage_params \<Rightarrow> (db, garage_row) op" where
  "CreateGarage L env p = op_require
     [(env_open env, ErrNotOpen),
      (lib_garage_validate L (gp_garage p), ErrInvalid ''garage validate''),
      (g_integrity (gp_garage p) \<noteq> None, ErrInvalid ''garage must carry an Integrity envelope''),
      (g_revision_version (gp_garage p) = 1, ErrInvalid ''CreateGarage requires revision_version = 1''),
      (gp_canonical p \<noteq> [], ErrInvalid ''canonical payload must be supplied''),
      (env_uuid env 0 \<noteq> None, ErrGenerate ''mint revision id'')]
     (let g = gp_garage p; now = env_now env; row = garage_head_row g now
      in run_tx env
       (tx_bind (tx_exec env ''insert garage''
            (\<lambda>e. if isUniqueViolation e then ErrInvalid ''garage id already in use'' else SQLErr e)
            (insert_garage row))
        (\<lambda>_. tx_bind (insertGarageRevisionTx env (the (env_uuid env 0)) g (gp_canonical p) now)
        (\<lambda>_. tx_bind (insert_owners env (g_id g) (g_revision_version g) (g_owners g))
        (\<lambda>_. tx_return row)))))"

definition AppendGarageRevision :: "lib \<Rightarrow> env \<Rightarrow> garage_params \<Rightarrow> (db, garage_revision) op" where
  "AppendGarageRevision L env p = op_require
     [(env_open env, ErrNotOpen),
      (lib_garage_validate L (gp_garage p), ErrInvalid ''garage validate''),
      (g_integrity (gp_garage p) \<noteq> None, ErrInvalid ''garage must carry an Integrity envelope''),
      (gp_canonical p \<noteq> [], ErrInvalid ''canonical payload must be supplied''),
      (env_uuid env 0 \<noteq> None, ErrGenerate ''mint revision id'')]
     (let g = gp_garage p; v = g_revision_version g;
          row = garage_revision_row (the (env_uuid env 0)) g (gp_canonical p) (env_now env)
      in run_tx env
       (tx_bind (tx_query env ''load current revision version'' (\<lambda>d. find (\<lambda>r. gr_id r = g_id g) (garages d)))
        (\<lambda>cur. tx_bind (tx_opt ErrGarageNotFound cur)
        (\<lambda>gr. tx_bind (tx_guard (gr_current_revision_version gr < v) ErrGarageRevisionVersionConflict)
        (\<lambda>_. tx_bind (insertGarageRevisionTx env (the (env_uuid env 0)) g (gp_canonical p) (env_now env))
        (\<lambda>_. tx_bind (tx_exec env ''update garage head pointer'' SQLErr
               (update_garages (\<lambda>r. gr_id r = g_id g \<and> gr_current_revision_version r < v)
                  (\<lambda>r. r\<lparr>gr_name := g_name g, gr_current_revision_version := v,
                         gr_current_revision_time := g_revision_time g\<rparr>)))
        (\<lambda>affected. tx_bind (tx_guard (affected \<noteq> 0) ErrGarageRevisionVersionConflict)
        (\<lambda>_. tx_bind (reconcileGarageOwnersTx env (g_id g) v (g_owners g))
        (\<lambda>_. tx_return row)))))))))"

definition acceptance_record :: "accept_params \<Rightarrow> string \<Rightarrow> int \<Rightarrow> acceptance_row" where
  "acceptance_record p aid now = (let a = gap_acceptance p in
     \<lparr>ac_id = aid, ac_garage_id = oa_garage_id a,
      ac_revision_version_accepted = oa_revision_version_accepted a,
      ac_accepter_user_id = oa_accepter_user_id a, ac_accepted_time = oa_accepted_time a,
      ac_integrity = the (oa_integrity a), ac_canonical_payload = gap_canonical p, ac_received_at = now\<rparr>)"

definition accept_checks :: "lib \<Rightarrow> env \<Rightarrow> accept_params \<Rightarrow> (bool \<times> serr) list" where
  "accept_checks L env p =
     [(env_open env, ErrNotOpen),
      (lib_acceptance_validate L (gap_acceptance p), ErrInvalid ''acceptance validate''),
      (oa_integrity (gap_acceptance p) \<noteq> None, ErrInvalid ''acceptance must carry an Integrity envelope''),
      (gap_canonical p \<noteq> [], ErrInvalid ''canonical payload must be supplied''),
      (env_uuid env 0 \<noteq> None, ErrGenerate ''mint acceptance id'')]"

definition AcceptGarageOwnership :: "lib \<Rightarrow> env \<Rightarrow> accept_params \<Rightarrow> (db, acceptance_row) op" where
  "AcceptGarageOwnership L env p = op_require (accept_checks L env p)
     (let a = gap_acceptance p; gid = oa_garage_id a; u = oa_accepter_user_id a;
          row = acceptance_record p (the (env_uuid env 0)) (env_now env)
      in run_tx env
       (tx_bind (tx_query env ''load owner row''
            (\<lambda>d. find (\<lambda>r. own_garage_id r = gid \<and> own_user_id r = u) (garage_owners d)))
        (\<lambda>cur. tx_bind (tx_opt ErrGarageOwnershipNotPending cur)
        (\<lambda>ow. tx_bind (tx_guard (own_added_in_revision_version ow = oa_revision_version_accepted a)
               ErrGarageOwnershipNotPending)
        (\<lambda>_. tx_bind (tx_guard (own_accepted_time ow = None) ErrGarageOwnershipAlreadyAccepted)
        (\<lambda>_. tx_bind (tx_exec env ''insert acceptance''
               (\<lambda>e. if isUniqueViolation e then ErrGarageOwnershipAlreadyAccepted else SQLErr e)
               (insert_acceptance row))
        (\<lambda>_. tx_bind (tx_exec env ''update owner accepted_time'' SQLErr
               (update_garage_owners (\<lambda>r. own_garage_id r = gid \<and> own_user_id r = u)
                  (\<lambda>r. r\<lparr>own_accepted_time := Some (oa_accepted_time a)\<rparr>)))
        (\<lambda>_. tx_return row))))))))"

definition GarageOwnershipAcceptanceByKey ::
  "env \<Rightarrow> string \<Rightarrow> string \<Rightarrow> int \<Rightarrow> db \<Rightarrow> serr + acceptance_row" where
  "GarageOwnershipAcceptanceByKey env gid u v d =
     (if \<not> env_open env then Inl ErrNotOpen
      else if env_fault env ''scan acceptance'' then Inl (SQLErr (SQLDriver ''scan acceptance''))
      else case find (\<lambda>r. ac_garage_id r = gid \<and> ac_accepter_user_id r = u \<and>
          ac_revision_version_accepted r = v) (acceptances d) of
        None \<Rightarrow> Inl ErrGarageOwnershipNotPending | Some r \<Rightarrow> Inr r)"

definition GarageByID :: "env \<Rightarrow> string \<Rightarrow> db \<Rightarrow> serr + garage_row" where
  "GarageByID env gid d =
     (if \<not> env_open env then Inl ErrNotOpen
      else if env_fault env ''scan garage'' then Inl (SQLErr (SQLDriver ''scan garage''))
      else case find (\<lambda>r. gr_id r = gid) (garages d) of None \<Rightarrow> Inl ErrGarageNotFound | Some r \<Rightarrow> Inr r)"

text \<open>The \<open>GarageOwnerRecord\<close> struct: the columns of an owner row without the
  revision that added it.\<close>

record owner_view =
  ow_garage_id :: string
  ow_user_id :: string
  ow_added_time :: int
  ow_accepted_time :: "int option"

definition scanGarageOwner :: "garage_owner_row \<Rightarrow> owner_view" where
  "scanGarageOwner r = \<lparr>ow_garage_id = own_garage_id r, ow_user_id = own_user_id r,
     ow_added_time = own_added_time r, ow_accepted_time = own_accepted_time r\<rparr>"

definition ListGarageOwners :: "env \<Rightarrow> string \<Rightarrow> db \<Rightarrow> serr + owner_view list" where
  "ListGarageOwners env gid d =
     (if \<not> env_open env then Inl ErrNotOpen
      else if env_fault env ''query garage owners'' then Inl (SQLErr (SQLDriver ''query garage owners''))
      else Inr (map scanGarageOwner (sort_key (\<lambda>r. (own_added_time r, own_user_id r))
        (filter (\<lambda>r. own_garage_id r = gid) (garage_owners d)))))"

text \<open>The inner join of garages and garage_owners on the garage id.\<close>

definition ListGaragesForUser :: "env \<Rightarrow> string \<Rightarrow> db \<Rightarrow> serr + garage_row list" where
  "ListGaragesForUser env u d =
     (if \<not> env_open env then Inl ErrNotOpen
      else if env_fault env ''query garages for user'' then Inl (SQLErr (SQLDriver ''query garages for user''))
      else Inr (sort_key gr_created_at (concat (map (\<lambda>g. map (\<lambda>_. g)
        (filter (\<lambda>r. own_garage_id r = gr_id g \<and> own_user_id r = u) (garage_owners d))) (garages d)))))"

definition GarageOwnerByUserAndGarage :: "env \<Rightarrow> string \<Rightarrow> string \<Rightarrow> db \<Rightarrow> serr + owner_view" where
  "GarageOwnerByUserAndGarage env u gid d =
     (if \<not> env_open env then Inl ErrNotOpen
      else if env_fault env ''scan garage owner'' then Inl (SQLErr (SQLDriver ''scan garage owner''))
      else case find (\<lambda>r. own_garage_id r = gid \<and> own_user_id r = u) (garage_owners d) of
        None \<Rightarrow> Inl ErrGarageNotFound | Some r \<Rightarrow> Inr (scanGarageOwner r))"

section \<open>The owner list as a map\<close>

definition find_owner :: "garage_owner_row list \<Rightarrow> string \<Rightarrow> string \<Rightarrow> garage_owner_row option" where
  "find_owner rows g u = find (\<lambda>r. own_garage_id r = g \<and> own_user_id r = u) rows"

lemma find_filter: "find P (filter Q xs) = find (\<lambda>x. Q x \<and> P x) xs"
  by (induction xs) auto

lemma find_owner_append:
  "find_owner (rows @ [r]) g u =
     (case find_owner rows g u of None \<Rightarrow> if own_key r = (g, u) then Some r else None | Some x \<Rightarrow> Some x)"
  by (auto simp: find_owner_def find_append split: option.splits)

lemma find_owner_set_where:
  assumes "\<And>r. own_key (f r) = own_key r"
  shows "find_owner (set_where (\<lambda>r. own_garage_id r = g \<and> own_user_id r = u) f rows) g' u' =
    (if (g', u') = (g, u) then map_option f (find_owner rows g u) else find_owner rows g' u')"
proof -
  have "own_garage_id (f r) = own_garage_id r" "own_user_id (f r) = own_user_id r" for r
    using assms [of r] by simp_all
  then show ?thesis
    by (induction rows) (auto simp: find_owner_def set_where_def)
qed

lemma find_owner_filter_keys:
  "find_owner (filter (\<lambda>r. K (own_garage_id r) (own_user_id r)) rows) g u = (if K g u then find_owner rows g u else None)"
  by (induction rows) (auto simp: find_owner_def)

lemma find_owner_None_iff: "find_owner rows g u = None \<longleftrightarrow> (g, u) \<notin> own_key ` set rows"
  by (auto simp: find_owner_def find_None_iff' image_iff)

lemma find_owner_SomeD: "find_owner rows g u = Some r \<Longrightarrow> r \<in> set rows \<and> own_garage_id r = g \<and> own_user_id r = u"
  by (auto simp: find_owner_def dest: find_SomeD)

text \<open>What one owner of a payload becomes, given the row that existed before.\<close>

definition merge_owner :: "string \<Rightarrow> int \<Rightarrow> garage_owner \<Rightarrow> garage_owner_row option \<Rightarrow> garage_owner_row" where
  "merge_owner g v ow prev =
     (case prev of None \<Rightarrow> owner_row g v ow
      | Some r \<Rightarrow> if own_accepted_time r = None then r\<lparr>own_accepted_time := gown_accepted_time ow\<rparr> else r)"

lemma owner_row_sels [simp]:
  "own_garage_id (owner_row g v ow) = g" "own_user_id (owner_row g v ow) = gown_user_id ow"
  "own_added_in_revision_version (owner_row g v ow) = v" "own_accepted_time (owner_row g v ow) = gown_accepted_time ow"
  by (simp_all add: owner_row_def)

lemma insertGarageOwnerTx_Inr:
  assumes "insertGarageOwnerTx env g v ow d = Inr (x, d')"
  shows "find_owner (garage_owners d) g (gown_user_id ow) = None \<and>
    d' = d\<lparr>garage_owners := garage_owners d @ [owner_row g v ow]\<rparr>"
  using assms
  by (auto simp: insertGarageOwnerTx_def tx_Inr table_defs find_owner_None_iff)

lemma reconcile_owner_Inr:
  assumes "reconcile_owner env g v ex ow d = Inr (x, d')"
    "find (\<lambda>r. own_user_id r = gown_user_id ow) ex = find_owner (garage_owners d) g (gown_user_id ow)"
  shows "d' = d\<lparr>garage_owners := garage_owners d'\<rparr> \<and>
    (\<forall>g' u. find_owner (garage_owners d') g' u =
       (if (g', u) = (g, gown_user_id ow) then Some (merge_owner g v ow (find_owner (garage_owners d) g u))
        else find_owner (garage_owners d) g' u))"
proof (cases "find_owner (garage_owners d) g (gown_user_id ow)")
  case None
  with assms have "insertGarageOwnerTx env g v ow d = Inr (x, d')"
    by (simp add: reconcile_owner_def)
  from insertGarageOwnerTx_Inr [OF this] None show ?thesis
    by (auto simp: find_owner_append merge_owner_def split: option.splits)
next
  case (Some r)
  show ?thesis
  proof (cases "gown_accepted_time ow \<noteq> None \<and> own_accepted_time r = None")
    case True
    with assms Some have "d' = d\<lparr>garage_owners := set_where
        (\<lambda>r. own_garage_id r = g \<and> own_user_id r = gown_user_id ow)
        (\<lambda>r. r\<lparr>own_accepted_time := gown_accepted_time ow\<rparr>) (garage_owners d)\<rparr>"
      by (auto simp: reconcile_owner_def tx_Inr table_defs)
    with Some True show ?thesis
      by (simp add: find_owner_set_where merge_owner_def)
  next
    case False
    with assms Some have "d' = d" by (auto simp: reconcile_owner_def tx_Inr split: if_splits)
    with Some False show ?thesis
      by (auto simp: merge_owner_def)
  qed
qed

lemma owners_frame_trans:
  "d1 = d\<lparr>garage_owners := x\<rparr> \<Longrightarrow> d' = d1\<lparr>garage_owners := y\<rparr> \<Longrightarrow> d' = d\<lparr>garage_owners := y\<rparr>"
  by simp

lemma reconcile_upserts_Inr:
  assumes "reconcile_upserts env g v ex ows d = Inr (x, d')" "distinct (map gown_user_id ows)"
    "\<forall>ow \<in> set ows. find (\<lambda>r. own_user_id r = gown_user_id ow) ex = find_owner (garage_owners d) g (gown_user_id ow)"
  shows "d' = d\<lparr>garage_owners := garage_owners d'\<rparr> \<and>
    (\<forall>g' u. find_owner (garage_owners d') g' u =
       (if g' = g then (case find (\<lambda>ow. gown_user_id ow = u) ows of
            None \<Rightarrow> find_owner (garage_owners d) g u
          | Some ow \<Rightarrow> Some (merge_owner g v ow (find_owner (garage_owners d) g u)))
        else find_owner (garage_owners d) g' u))"
  using assms
proof (induction ows arbitrary: d)
  case Nil
  then show ?case by (simp add: tx_Inr)
next
  case (Cons ow ows)
  from Cons.prems(1) obtain y d1 where s: "reconcile_owner env g v ex ow d = Inr (y, d1)"
    "reconcile_upserts env g v ex ows d1 = Inr (x, d')"
    by (auto simp: tx_Inr)
  note one = reconcile_owner_Inr [OF s(1)]
  have h: "d1 = d\<lparr>garage_owners := garage_owners d1\<rparr>" and l: "find_owner (garage_owners d1) g' u =
       (if (g', u) = (g, gown_user_id ow) then Some (merge_owner g v ow (find_owner (garage_owners d) g u))
        else find_owner (garage_owners d) g' u)" for g' u
    using one Cons.prems(3) by auto
  have "\<forall>o' \<in> set ows. find (\<lambda>r. own_user_id r = gown_user_id o') ex = find_owner (garage_owners d1) g (gown_user_id o')"
  proof
    fix o' assume o': "o' \<in> set ows"
    with Cons.prems(2) have "gown_user_id o' \<noteq> gown_user_id ow" by (metis distinct.simps(2) image_eqI list.set_map list.simps(9))
    with o' Cons.prems(3) show "find (\<lambda>r. own_user_id r = gown_user_id o') ex = find_owner (garage_owners d1) g (gown_user_id o')"
      by (simp add: l)
  qed
  from Cons.IH [OF s(2) _ this] Cons.prems(2) have
    h': "d' = d1\<lparr>garage_owners := garage_owners d'\<rparr>" and l': "find_owner (garage_owners d') g' u =
       (if g' = g then (case find (\<lambda>ow. gown_user_id ow = u) ows of
            None \<Rightarrow> find_owner (garage_owners d1) g u
          | Some ow \<Rightarrow> Some (merge_owner g v ow (find_owner (garage_owners d1) g u)))
        else find_owner (garage_owners d1) g' u)" for g' u
    by auto
  have fresh: "find (\<lambda>o'. gown_user_id o' = gown_user_id ow) ows = None"
    using Cons.prems(2) unfolding find_None_iff' by (metis distinct.simps(2) image_eqI list.set_map list.simps(9))
  have "d' = d\<lparr>garage_owners := garage_owners d'\<rparr>"
    using h h' by (rule owners_frame_trans)
  moreover have "find_owner (garage_owners d') g' u =
       (if g' = g then (case find (\<lambda>ow. gown_user_id ow = u) (ow # ows) of
            None \<Rightarrow> find_owner (garage_owners d) g u
          | Some ow \<Rightarrow> Some (merge_owner g v ow (find_owner (garage_owners d) g u)))
        else find_owner (garage_owners d) g' u)" for g' u
    using l' [of g' u] l [of g u] l [of g' u] fresh
    by (cases "u = gown_user_id ow") (auto split: option.splits)
  ultimately show ?case by blast
qed


lemma reconcile_deletes_Inr:
  "reconcile_deletes env g keep rs d = Inr (x, d') \<Longrightarrow>
    d' = d\<lparr>garage_owners := filter (\<lambda>r. \<not> (own_garage_id r = g \<and> own_user_id r \<in> own_user_id ` set rs - set keep))
      (garage_owners d)\<rparr>"
proof (induction rs arbitrary: d)
  case Nil
  then show ?case by (simp add: tx_Inr)
next
  case (Cons r rs)
  show ?case
  proof (cases "own_user_id r \<in> set keep")
    case True
    with Cons.prems have "reconcile_deletes env g keep rs d = Inr (x, d')" by (auto simp: tx_Inr)
    from Cons.IH [OF this] True show ?thesis
      by (auto intro: filter_cong)
  next
    case False
    let ?d1 = "d\<lparr>garage_owners := filter (\<lambda>y. \<not> (own_garage_id y = g \<and> own_user_id y = own_user_id r)) (garage_owners d)\<rparr>"
    from False Cons.prems have "reconcile_deletes env g keep rs ?d1 = Inr (x, d')"
      by (auto simp: tx_Inr table_defs)
    from Cons.IH [OF this] have d': "d' = d\<lparr>garage_owners := filter (\<lambda>r. \<not> (own_garage_id r = g \<and>
        own_user_id r \<in> own_user_id ` set rs - set keep))
        (filter (\<lambda>y. \<not> (own_garage_id y = g \<and> own_user_id y = own_user_id r)) (garage_owners d))\<rparr>"
      by simp
    show ?thesis
      unfolding d' filter_filter using False by (intro arg_cong2 [where f = "\<lambda>x. garage_owners_update (\<lambda>_. x)"] filter_cong) auto
  qed
qed

text \<open>The diff of the source, as one equation on the owner map.\<close>

lemma reconcileGarageOwnersTx_Inr:
  assumes "reconcileGarageOwnersTx env g v ows d = Inr (x, d')" "distinct (map gown_user_id ows)"
  shows "d' = d\<lparr>garage_owners := garage_owners d'\<rparr> \<and>
    (\<forall>g' u. find_owner (garage_owners d') g' u =
       (if g' = g then map_option (\<lambda>ow. merge_owner g v ow (find_owner (garage_owners d) g u))
            (find (\<lambda>ow. gown_user_id ow = u) ows)
        else find_owner (garage_owners d) g' u))"
proof -
  let ?ex = "filter (\<lambda>r. own_garage_id r = g) (garage_owners d)"
  from assms(1) obtain d1 where s: "reconcile_upserts env g v ?ex ows d = Inr ((), d1)"
    "reconcile_deletes env g (map gown_user_id ows) ?ex d1 = Inr (x, d')"
    by (auto simp: reconcileGarageOwnersTx_def tx_Inr)
  have ex: "find (\<lambda>r. own_user_id r = u) ?ex = find_owner (garage_owners d) g u" for u
    by (simp add: find_filter find_owner_def)
  from reconcile_upserts_Inr [OF s(1) assms(2)] ex have
    h: "d1 = d\<lparr>garage_owners := garage_owners d1\<rparr>" and l: "find_owner (garage_owners d1) g' u =
       (if g' = g then (case find (\<lambda>ow. gown_user_id ow = u) ows of
            None \<Rightarrow> find_owner (garage_owners d) g u
          | Some ow \<Rightarrow> Some (merge_owner g v ow (find_owner (garage_owners d) g u)))
        else find_owner (garage_owners d) g' u)" for g' u
    by auto
  note del = reconcile_deletes_Inr [OF s(2)]
  then have del': "d' = d1\<lparr>garage_owners := garage_owners d'\<rparr>" by simp
  have "d' = d\<lparr>garage_owners := garage_owners d'\<rparr>"
    using h del' by (rule owners_frame_trans)
  moreover have "find_owner (garage_owners d') g' u =
       (if g' = g then map_option (\<lambda>ow. merge_owner g v ow (find_owner (garage_owners d) g u))
            (find (\<lambda>ow. gown_user_id ow = u) ows)
        else find_owner (garage_owners d) g' u)" for g' u
  proof -
    let ?K = "\<lambda>g'' u'. \<not> (g'' = g \<and> u' \<in> own_user_id ` set ?ex - gown_user_id ` set ows)"
    have "find_owner (garage_owners d') g' u = (if ?K g' u then find_owner (garage_owners d1) g' u else None)"
      using del find_owner_filter_keys [of ?K "garage_owners d1" g' u] by simp
    moreover have "find (\<lambda>ow. gown_user_id ow = u) ows = None \<longleftrightarrow> u \<notin> gown_user_id ` set ows"
      by (auto simp: find_None_iff')
    moreover have "find_owner (garage_owners d) g u = None \<longleftrightarrow> u \<notin> own_user_id ` set ?ex"
      by (auto simp: find_owner_None_iff)
    ultimately show ?thesis
      using l [of g' u] by (cases "find (\<lambda>ow. gown_user_id ow = u) ows") auto
  qed
  ultimately show ?thesis by blast
qed

section \<open>What a successful operation did\<close>

lemma insert_owners_Inr:
  "insert_owners env g v ows d = Inr (x, d') \<Longrightarrow>
     d' = d\<lparr>garage_owners := garage_owners d @ map (owner_row g v) ows\<rparr> \<and> distinct (map gown_user_id ows) \<and>
     (\<forall>ow \<in> set ows. find_owner (garage_owners d) g (gown_user_id ow) = None)"
proof (induction ows arbitrary: d)
  case Nil
  then show ?case by (simp add: tx_Inr)
next
  case (Cons ow ows)
  from Cons.prems obtain y d1 where s: "insertGarageOwnerTx env g v ow d = Inr (y, d1)"
    "insert_owners env g v ows d1 = Inr (x, d')" by (auto simp: tx_Inr)
  note one = insertGarageOwnerTx_Inr [OF s(1)]
  from Cons.IH [OF s(2)] one have
    "\<forall>o' \<in> set ows. find_owner (garage_owners d @ [owner_row g v ow]) g (gown_user_id o') = None"
    "d' = d\<lparr>garage_owners := garage_owners d @ owner_row g v ow # map (owner_row g v) ows\<rparr>"
    "distinct (map gown_user_id ows)"
    by auto
  with one show ?case
    by (fastforce simp: find_owner_append split: option.splits if_splits)
qed

lemma garage_row_sels [simp]:
  "gr_id (garage_head_row g now) = g_id g"
  "gr_current_revision_version (garage_head_row g now) = g_revision_version g"
  "grev_garage_id (garage_revision_row rid g c now) = g_id g"
  "grev_revision_version (garage_revision_row rid g c now) = g_revision_version g"
  "grev_id (garage_revision_row rid g c now) = rid"
  "grev_signed_by (garage_revision_row rid g c now) = g_signed_by g"
  by (simp_all add: garage_head_row_def garage_revision_row_def)

lemma CreateGarage_Inr:
  assumes "CreateGarage L env p d = (Inr row, d')"
  shows "row = garage_head_row (gp_garage p) (env_now env) \<and> g_revision_version (gp_garage p) = 1 \<and>
    (\<forall>r \<in> set (garages d). gr_id r \<noteq> g_id (gp_garage p)) \<and>
    distinct (map gown_user_id (g_owners (gp_garage p))) \<and>
    (\<forall>ow \<in> set (g_owners (gp_garage p)). find_owner (garage_owners d) (g_id (gp_garage p)) (gown_user_id ow) = None) \<and>
    d' = d\<lparr>garages := garages d @ [row],
      garage_revisions := garage_revisions d @
        [garage_revision_row (the (env_uuid env 0)) (gp_garage p) (gp_canonical p) (env_now env)],
      garage_owners := garage_owners d @ map (owner_row (g_id (gp_garage p)) 1) (g_owners (gp_garage p))\<rparr>"
  using assms unfolding CreateGarage_def Let_def insertGarageRevisionTx_def
  by (auto simp: tx_Inr table_defs dest!: insert_owners_Inr)

lemma AppendGarageRevision_Inr:
  assumes "AppendGarageRevision L env p d = (Inr row, d')"
  shows "(\<exists>gr. find (\<lambda>r. gr_id r = g_id (gp_garage p)) (garages d) = Some gr \<and>
      gr_current_revision_version gr < g_revision_version (gp_garage p)) \<and>
    row = garage_revision_row (the (env_uuid env 0)) (gp_garage p) (gp_canonical p) (env_now env) \<and>
    reconcileGarageOwnersTx env (g_id (gp_garage p)) (g_revision_version (gp_garage p)) (g_owners (gp_garage p))
      (d\<lparr>garage_revisions := garage_revisions d @ [row],
         garages := set_where (\<lambda>r. gr_id r = g_id (gp_garage p) \<and>
             gr_current_revision_version r < g_revision_version (gp_garage p))
           (\<lambda>r. r\<lparr>gr_name := g_name (gp_garage p), gr_current_revision_version := g_revision_version (gp_garage p),
                  gr_current_revision_time := g_revision_time (gp_garage p)\<rparr>) (garages d)\<rparr>) = Inr ((), d')"
  using assms unfolding AppendGarageRevision_def Let_def insertGarageRevisionTx_def
  by (auto simp: tx_Inr table_defs)

lemma reconcile_frame:
  assumes "reconcileGarageOwnersTx env g v ows d = Inr (x, d')"
  shows "d' = d\<lparr>garage_owners := garage_owners d'\<rparr>"
proof -
  have up: "reconcile_upserts env g v ex ows d = Inr (x, d') \<Longrightarrow> d' = d\<lparr>garage_owners := garage_owners d'\<rparr>"
    for ex ows d d' x
  proof (induction ows arbitrary: d)
    case (Cons ow ows)
    then obtain y d1 where s: "reconcile_owner env g v ex ow d = Inr (y, d1)"
      "reconcile_upserts env g v ex ows d1 = Inr (x, d')" by (auto simp: tx_Inr)
    have "d1 = d\<lparr>garage_owners := garage_owners d1\<rparr>"
      using s(1) by (auto simp: reconcile_owner_def insertGarageOwnerTx_def tx_Inr table_defs
          split: option.splits if_splits)
    from this Cons.IH [OF s(2)] show ?case by (rule owners_frame_trans)
  qed (simp add: tx_Inr)
  from assms obtain ex d1 where s: "reconcile_upserts env g v ex ows d = Inr ((), d1)"
    "reconcile_deletes env g (map gown_user_id ows) ex d1 = Inr (x, d')"
    by (auto simp: reconcileGarageOwnersTx_def tx_Inr)
  from reconcile_deletes_Inr [OF s(2)] have "d' = d1\<lparr>garage_owners := garage_owners d'\<rparr>" by simp
  with up [OF s(1)] show ?thesis by (rule owners_frame_trans)
qed

lemma AcceptGarageOwnership_Inr:
  assumes "AcceptGarageOwnership L env p d = (Inr row, d')"
  shows "row = acceptance_record p (the (env_uuid env 0)) (env_now env) \<and>
    (\<exists>r. find_owner (garage_owners d) (oa_garage_id (gap_acceptance p)) (oa_accepter_user_id (gap_acceptance p)) = Some r \<and>
       own_added_in_revision_version r = oa_revision_version_accepted (gap_acceptance p) \<and> own_accepted_time r = None) \<and>
    d' = d\<lparr>acceptances := acceptances d @ [row],
      garage_owners := set_where (\<lambda>r. own_garage_id r = oa_garage_id (gap_acceptance p) \<and>
          own_user_id r = oa_accepter_user_id (gap_acceptance p))
        (\<lambda>r. r\<lparr>own_accepted_time := Some (oa_accepted_time (gap_acceptance p))\<rparr>) (garage_owners d)\<rparr>"
  using assms unfolding AcceptGarageOwnership_def accept_checks_def Let_def
  by (auto simp: tx_Inr table_defs find_owner_def)

section \<open>The garage history\<close>

definition garage_head :: "db \<Rightarrow> string \<Rightarrow> int option" where
  "garage_head d g = map_option gr_current_revision_version (find (\<lambda>r. gr_id r = g) (garages d))"

definition garage_versions :: "db \<Rightarrow> string \<Rightarrow> int list" where
  "garage_versions d g = map grev_revision_version (filter (\<lambda>r. grev_garage_id r = g) (garage_revisions d))"

definition garage_created :: "db \<Rightarrow> string \<Rightarrow> int \<Rightarrow> db \<Rightarrow> bool" where
  "garage_created d g n d' = (\<exists>L env p row. CreateGarage L env p d = (Inr row, d') \<and> g = g_id (gp_garage p) \<and> n = 1)"

definition garage_appended :: "db \<Rightarrow> string \<Rightarrow> int \<Rightarrow> db \<Rightarrow> bool" where
  "garage_appended d g n d' = (\<exists>L env p row. AppendGarageRevision L env p d = (Inr row, d') \<and>
     g = g_id (gp_garage p) \<and> n = g_revision_version (gp_garage p))"

lemma garage_created_effect:
  assumes "garage_created d g n d'"
  shows "garage_head d g = None" "garage_head d' = (garage_head d)(g \<mapsto> n)"
    "garage_versions d' = (garage_versions d)(g := garage_versions d g @ [n])"
  using assms unfolding garage_created_def
  by (auto dest!: CreateGarage_Inr simp: garage_head_def garage_versions_def fun_eq_iff find_append find_None_iff'
      split: option.splits dest!: find_SomeD)

lemma garage_appended_effect:
  assumes "garage_appended d g n d'"
  shows "\<exists>h. garage_head d g = Some h \<and> h < n" "garage_head d' = (garage_head d)(g \<mapsto> n)"
    "garage_versions d' = (garage_versions d)(g := garage_versions d g @ [n])"
proof -
  from assms obtain L env p row where r: "AppendGarageRevision L env p d = (Inr row, d')"
    "g = g_id (gp_garage p)" "n = g_revision_version (gp_garage p)"
    by (auto simp: garage_appended_def)
  note e = AppendGarageRevision_Inr [OF r(1), folded r(2,3)]
  note f = reconcile_frame [OF e [THEN conjunct2, THEN conjunct2]]
  from e obtain gr where gr: "find (\<lambda>r. gr_id r = g) (garages d) = Some gr" "gr_current_revision_version gr < n"
    by blast
  have gs: "garages d' = set_where (\<lambda>r. gr_id r = g \<and> gr_current_revision_version r < n)
      (\<lambda>r. r\<lparr>gr_name := g_name (gp_garage p), gr_current_revision_version := n,
             gr_current_revision_time := g_revision_time (gp_garage p)\<rparr>) (garages d)"
    and vs: "garage_revisions d' = garage_revisions d @ [row]"
    using arg_cong [OF f, of garages] arg_cong [OF f, of garage_revisions] by simp_all
  show "\<exists>h. garage_head d g = Some h \<and> h < n" using gr by (simp add: garage_head_def)
  show "garage_head d' = (garage_head d)(g \<mapsto> n)"
    using gr by (auto simp: garage_head_def gs fun_eq_iff find_set_where option.map_comp o_def dest: find_SomeD
        intro!: option.map_cong)
  show "garage_versions d' = (garage_versions d)(g := garage_versions d g @ [n])"
    using e r(2,3) by (auto simp: garage_versions_def vs fun_eq_iff)
qed

interpretation garage_chain: revision_chain garage_head garage_versions garage_created garage_appended
  by unfold_locales (fact garage_created_effect garage_appended_effect)+


section \<open>Properties\<close>

text \<open>C13. The owner list after a garage revision is the payload's: an owner the payload
  does not name is gone, a new one is added at the new revision, and a carried-over
  one keeps its row, with the revision that invited it, and gains the payload's
  acceptance only when it had none; an acceptance is never taken back. The owners of
  other garages are untouched.\<close>

theorem AppendGarageRevision_owners:
  assumes "AppendGarageRevision L env p d = (Inr row, d')" "distinct (map gown_user_id (g_owners (gp_garage p)))"
  shows "find_owner (garage_owners d') g u =
    (if g = g_id (gp_garage p)
     then (case find (\<lambda>ow. gown_user_id ow = u) (g_owners (gp_garage p)) of
        None \<Rightarrow> None
      | Some ow \<Rightarrow> Some (case find_owner (garage_owners d) g u of
            None \<Rightarrow> owner_row g (g_revision_version (gp_garage p)) ow
          | Some r \<Rightarrow> if own_accepted_time r = None then r\<lparr>own_accepted_time := gown_accepted_time ow\<rparr> else r))
     else find_owner (garage_owners d) g u)"
  using reconcileGarageOwnersTx_Inr [OF AppendGarageRevision_Inr [OF assms(1), THEN conjunct2, THEN conjunct2] assms(2)]
  by (auto simp: merge_owner_def split: option.splits)

definition demo_garage :: "int \<Rightarrow> garage_owner list \<Rightarrow> garage" where
  "demo_garage v ows = \<lparr>g_id = ''g'', g_name = ''garage'', g_revision_version = v, g_revision_time = v,
     g_signed_by = ''alice'', g_owners = ows, g_integrity = Some demo_ig, g_rest = ''''\<rparr>"

definition demo_owner :: "string \<Rightarrow> int option \<Rightarrow> garage_owner" where
  "demo_owner u acc = \<lparr>gown_user_id = u, gown_added_time = 1, gown_accepted_time = acc\<rparr>"

definition demo_garage_db :: db where
  "demo_garage_db = snd (CreateGarage demo_lib (env_at 5 ''r1'')
     \<lparr>gp_garage = demo_garage 1 [demo_owner ''alice'' (Some 1)], gp_canonical = ''c''\<rparr> demo_db)"

definition demo_garage_db2 :: db where
  "demo_garage_db2 = snd (AppendGarageRevision demo_lib (env_at 6 ''r2'')
     \<lparr>gp_garage = demo_garage 2 [demo_owner ''alice'' None, demo_owner ''bob'' None], gp_canonical = ''c''\<rparr> demo_garage_db)"

theorem AppendGarageRevision_owners_witness:
  "find_owner (garage_owners demo_garage_db2) ''g'' ''alice'' = Some (owner_row ''g'' 1 (demo_owner ''alice'' (Some 1))) \<and>
   find_owner (garage_owners demo_garage_db2) ''g'' ''bob'' = Some (owner_row ''g'' 2 (demo_owner ''bob'' None))"
proof -
  let ?p = "\<lparr>gp_garage = demo_garage 2 [demo_owner ''alice'' None, demo_owner ''bob'' None], gp_canonical = ''c''\<rparr>"
  have run: "AppendGarageRevision demo_lib (env_at 6 ''r2'') ?p demo_garage_db =
    (Inr (garage_revision_row ''r2'' (gp_garage ?p) ''c'' 6), demo_garage_db2)"
    "distinct (map gown_user_id (g_owners (gp_garage ?p)))"
    "find_owner (garage_owners demo_garage_db) ''g'' ''alice'' = Some (owner_row ''g'' 1 (demo_owner ''alice'' (Some 1)))"
    "find_owner (garage_owners demo_garage_db) ''g'' ''bob'' = None"
    by code_simp+
  show ?thesis
    using AppendGarageRevision_owners [OF run(1,2), of "''g''" "''alice''"]
      AppendGarageRevision_owners [OF run(1,2), of "''g''" "''bob''"] run(3,4)
    by (simp add: demo_garage_def demo_owner_def)
qed

text \<open>An ownership acceptance is bound to its invitation: it succeeds only for a
  pending owner row that the named revision created, it then sets exactly that row's
  acceptance time and is found again by its key; without a row, or for a row from
  another revision, it is refused as not pending, and for an accepted row as already
  accepted, both without a change.\<close>

theorem AcceptGarageOwnership_binding:
  assumes "\<forall>c \<in> set (accept_checks L env p). fst c" "\<forall>l. \<not> env_fault env l"
  defines "g \<equiv> oa_garage_id (gap_acceptance p)" and "u \<equiv> oa_accepter_user_id (gap_acceptance p)"
    and "v \<equiv> oa_revision_version_accepted (gap_acceptance p)"
  shows "(case find_owner (garage_owners d) g u of
      None \<Rightarrow> AcceptGarageOwnership L env p d = (Inl ErrGarageOwnershipNotPending, d)
    | Some r \<Rightarrow>
        if own_added_in_revision_version r \<noteq> v
        then AcceptGarageOwnership L env p d = (Inl ErrGarageOwnershipNotPending, d)
        else if own_accepted_time r \<noteq> None
        then AcceptGarageOwnership L env p d = (Inl ErrGarageOwnershipAlreadyAccepted, d)
        else \<forall>row d'. AcceptGarageOwnership L env p d = (Inr row, d') \<longrightarrow>
          GarageOwnershipAcceptanceByKey env g u v d' = Inr row \<and>
          (\<forall>g' u'. find_owner (garage_owners d') g' u' =
             (if (g', u') = (g, u) then Some (r\<lparr>own_accepted_time := Some (oa_accepted_time (gap_acceptance p))\<rparr>)
              else find_owner (garage_owners d) g' u')))"
proof -
  note run = AcceptGarageOwnership_def op_require_True [OF assms(1)] Let_def run_tx_def tx_bind_def tx_query_def
    tx_guard_def tx_opt_def tx_throw_def tx_return_def
  have o: "env_open env" using assms(1) by (simp add: accept_checks_def)
  show ?thesis
  proof (cases "find_owner (garage_owners d) g u")
    case None
    with assms(2) show ?thesis by (simp add: run find_owner_def g_def u_def)
  next
    case (Some r)
    show ?thesis
    proof (cases "own_added_in_revision_version r = v \<and> own_accepted_time r = None")
      case False
      with Some assms(2) show ?thesis by (auto simp: run find_owner_def g_def u_def v_def)
    next
      case True
      have "GarageOwnershipAcceptanceByKey env g u v d' = Inr row \<and>
          (\<forall>g' u'. find_owner (garage_owners d') g' u' =
             (if (g', u') = (g, u) then Some (r\<lparr>own_accepted_time := Some (oa_accepted_time (gap_acceptance p))\<rparr>)
              else find_owner (garage_owners d) g' u'))"
        if r: "AcceptGarageOwnership L env p d = (Inr row, d')" for row d'
      proof -
        note e = AcceptGarageOwnership_Inr [OF r, folded g_def u_def v_def]
        have "\<forall>r \<in> set (acceptances d). \<not> (ac_garage_id r = g \<and> ac_accepter_user_id r = u \<and> ac_revision_version_accepted r = v)"
          using r unfolding AcceptGarageOwnership_def Let_def
          by (auto simp: tx_Inr table_defs acceptance_record_def Let_def g_def u_def v_def)
        then have "find (\<lambda>r. ac_garage_id r = g \<and> ac_accepter_user_id r = u \<and> ac_revision_version_accepted r = v)
            (acceptances d) = None" by (simp add: find_None_iff')
        with e o assms(2) Some show ?thesis
          by (simp add: GarageOwnershipAcceptanceByKey_def find_append find_owner_set_where acceptance_record_def Let_def
              g_def u_def v_def)
      qed
      with Some True show ?thesis by simp
    qed
  qed
qed

definition demo_accept :: "string \<Rightarrow> int \<Rightarrow> accept_params" where
  "demo_accept u v = \<lparr>gap_acceptance = \<lparr>oa_garage_id = ''g'', oa_revision_version_accepted = v,
     oa_accepter_user_id = u, oa_accepted_time = 9, oa_integrity = Some demo_ig, oa_rest = ''''\<rparr>, gap_canonical = ''c''\<rparr>"

text \<open>An accepted owner need not have an acceptance record. The creator of a garage
  is accepted by the first revision itself: their acceptance of that revision is
  answered as already accepted, and the lookup of the recorded acceptance, which the
  source expects to succeed at that point, finds nothing.\<close>

theorem accepted_owner_without_record:
  "AcceptGarageOwnership demo_lib (env_at 9 ''a1'') (demo_accept ''alice'' 1) demo_garage_db =
     (Inl ErrGarageOwnershipAlreadyAccepted, demo_garage_db) \<and>
   GarageOwnershipAcceptanceByKey (env_at 9 ''a1'') ''g'' ''alice'' 1 demo_garage_db = Inl ErrGarageOwnershipNotPending"
  by code_simp

end
