(* ===== verification/GarageVehicles.thy ===== *)
theory GarageVehicles
  imports Garages
begin

text \<open>
  Vehicles stored in a garage (storage/garage_vehicle.go): a head row with the
  newest signed bundle and one row per revision. Lookups and appends are scoped
  to the garage the request names.
\<close>

record garage_vehicle_params =
  gvp_vehicle :: garage_vehicle
  gvp_canonical :: string

definition garage_vehicle_head_row :: "garage_vehicle_params \<Rightarrow> int \<Rightarrow> garage_vehicle_row" where
  "garage_vehicle_head_row p now = (let gv = gvp_vehicle p in
     \<lparr>gv_id = gvh_id gv, gv_garage_id = gvh_garage_id gv, gv_current_revision_version = gvh_revision_version gv,
      gv_signed_by_user_id = gvh_signed_by gv, gv_integrity = the (gvh_integrity gv),
      gv_canonical_payload = gvp_canonical p, gv_avatar_blob_hash = blobRefHash (gvh_avatar_blob gv),
      gv_banner_blob_hash = blobRefHash (gvh_banner_blob gv), gv_received_at = now\<rparr>)"

definition garage_vehicle_revision_row :: "string \<Rightarrow> garage_vehicle_params \<Rightarrow> int \<Rightarrow> garage_vehicle_revision" where
  "garage_vehicle_revision_row rid p now = (let gv = gvp_vehicle p in
     \<lparr>gvr_id = rid, gvr_garage_vehicle_id = gvh_id gv, gvr_revision_version = gvh_revision_version gv,
      gvr_revision_time = gvh_revision_time gv, gvr_signed_by_user_id = gvh_signed_by gv,
      gvr_integrity = the (gvh_integrity gv), gvr_canonical_payload = gvp_canonical p,
      gvr_avatar_blob_hash = blobRefHash (gvh_avatar_blob gv),
      gvr_banner_blob_hash = blobRefHash (gvh_banner_blob gv), gvr_received_at = now\<rparr>)"

definition insertGarageVehicleRevisionTx :: "env \<Rightarrow> string \<Rightarrow> garage_vehicle_params \<Rightarrow> int \<Rightarrow> (db, unit) tx" where
  "insertGarageVehicleRevisionTx env rid p now =
     tx_exec env ''insert garage vehicle revision'' SQLErr
       (insert_garage_vehicle_revision (garage_vehicle_revision_row rid p now))"

definition CreateGarageVehicle :: "lib \<Rightarrow> env \<Rightarrow> garage_vehicle_params \<Rightarrow> (db, garage_vehicle_row) op" where
  "CreateGarageVehicle L env p = op_require
     [(env_open env, ErrNotOpen),
      (lib_garage_vehicle_validate L (gvp_vehicle p), ErrInvalid ''garage vehicle validate''),
      (gvh_integrity (gvp_vehicle p) \<noteq> None, ErrInvalid ''garage vehicle must carry an Integrity envelope''),
      (gvh_revision_version (gvp_vehicle p) = 1, ErrInvalid ''CreateGarageVehicle requires revision_version = 1''),
      (gvp_canonical p \<noteq> [], ErrInvalid ''canonical payload must be supplied''),
      (env_uuid env 0 \<noteq> None, ErrGenerate ''mint revision id'')]
     (let row = garage_vehicle_head_row p (env_now env)
      in run_tx env
       (tx_bind (tx_exec env ''insert garage vehicle''
            (\<lambda>e. if isUniqueViolation e then ErrInvalid ''garage vehicle id already in use'' else SQLErr e)
            (insert_garage_vehicle row))
        (\<lambda>_. tx_bind (insertGarageVehicleRevisionTx env (the (env_uuid env 0)) p (env_now env))
        (\<lambda>_. tx_return row))))"

definition AppendGarageVehicleRevision ::
  "lib \<Rightarrow> env \<Rightarrow> garage_vehicle_params \<Rightarrow> (db, garage_vehicle_revision) op" where
  "AppendGarageVehicleRevision L env p = op_require
     [(env_open env, ErrNotOpen),
      (lib_garage_vehicle_validate L (gvp_vehicle p), ErrInvalid ''garage vehicle validate''),
      (gvh_integrity (gvp_vehicle p) \<noteq> None, ErrInvalid ''garage vehicle must carry an Integrity envelope''),
      (gvp_canonical p \<noteq> [], ErrInvalid ''canonical payload must be supplied''),
      (env_uuid env 0 \<noteq> None, ErrGenerate ''mint revision id'')]
     (let gv = gvp_vehicle p; v = gvh_revision_version gv;
          row = garage_vehicle_revision_row (the (env_uuid env 0)) p (env_now env)
      in run_tx env
       (tx_bind (tx_query env ''load current revision''
            (\<lambda>d. find (\<lambda>r. gv_id r = gvh_id gv \<and> gv_garage_id r = gvh_garage_id gv) (garage_vehicles d)))
        (\<lambda>cur. tx_bind (tx_opt ErrGarageVehicleNotFound cur)
        (\<lambda>h. tx_bind (tx_guard (gv_current_revision_version h < v) ErrGarageVehicleRevisionVersionConflict)
        (\<lambda>_. tx_bind (insertGarageVehicleRevisionTx env (the (env_uuid env 0)) p (env_now env))
        (\<lambda>_. tx_bind (tx_exec env ''update garage vehicle head'' SQLErr
               (update_garage_vehicles
                  (\<lambda>r. gv_id r = gvh_id gv \<and> gv_garage_id r = gvh_garage_id gv \<and> gv_current_revision_version r < v)
                  (\<lambda>r. r\<lparr>gv_current_revision_version := v, gv_integrity := the (gvh_integrity gv),
                         gv_canonical_payload := gvp_canonical p, gv_signed_by_user_id := gvh_signed_by gv,
                         gv_avatar_blob_hash := blobRefHash (gvh_avatar_blob gv),
                         gv_banner_blob_hash := blobRefHash (gvh_banner_blob gv)\<rparr>)))
        (\<lambda>affected. tx_bind (tx_guard (affected \<noteq> 0) ErrGarageVehicleRevisionVersionConflict)
        (\<lambda>_. tx_return row))))))))"

definition GarageVehicleByID :: "env \<Rightarrow> string \<Rightarrow> string \<Rightarrow> db \<Rightarrow> serr + garage_vehicle_row" where
  "GarageVehicleByID env gid vid d =
     (if \<not> env_open env then Inl ErrNotOpen
      else if env_fault env ''scan garage vehicle'' then Inl (SQLErr (SQLDriver ''scan garage vehicle''))
      else case find (\<lambda>r. gv_garage_id r = gid \<and> gv_id r = vid) (garage_vehicles d) of
        None \<Rightarrow> Inl ErrGarageVehicleNotFound | Some r \<Rightarrow> Inr r)"

definition ListGarageVehicles :: "env \<Rightarrow> string \<Rightarrow> db \<Rightarrow> serr + garage_vehicle_row list" where
  "ListGarageVehicles env gid d =
     (if \<not> env_open env then Inl ErrNotOpen
      else if env_fault env ''query garage vehicles'' then Inl (SQLErr (SQLDriver ''query garage vehicles''))
      else Inr (sort_key gv_received_at (filter (\<lambda>r. gv_garage_id r = gid) (garage_vehicles d))))"

section \<open>What a successful operation did\<close>

lemma garage_vehicle_row_sels [simp]:
  "gv_id (garage_vehicle_head_row p now) = gvh_id (gvp_vehicle p)"
  "gv_garage_id (garage_vehicle_head_row p now) = gvh_garage_id (gvp_vehicle p)"
  "gv_current_revision_version (garage_vehicle_head_row p now) = gvh_revision_version (gvp_vehicle p)"
  "gvr_garage_vehicle_id (garage_vehicle_revision_row rid p now) = gvh_id (gvp_vehicle p)"
  "gvr_revision_version (garage_vehicle_revision_row rid p now) = gvh_revision_version (gvp_vehicle p)"
  "gvr_id (garage_vehicle_revision_row rid p now) = rid"
  by (simp_all add: garage_vehicle_head_row_def garage_vehicle_revision_row_def Let_def)

lemma CreateGarageVehicle_Inr:
  assumes "CreateGarageVehicle L env p d = (Inr row, d')"
  shows "row = garage_vehicle_head_row p (env_now env) \<and> gvh_revision_version (gvp_vehicle p) = 1 \<and>
    (\<forall>r \<in> set (garage_vehicles d). gv_id r \<noteq> gvh_id (gvp_vehicle p)) \<and>
    d' = d\<lparr>garage_vehicles := garage_vehicles d @ [row],
      garage_vehicle_revisions := garage_vehicle_revisions d @
        [garage_vehicle_revision_row (the (env_uuid env 0)) p (env_now env)]\<rparr>"
  using assms unfolding CreateGarageVehicle_def Let_def insertGarageVehicleRevisionTx_def
  by (auto simp: tx_Inr table_defs)

lemma AppendGarageVehicleRevision_Inr:
  assumes "AppendGarageVehicleRevision L env p d = (Inr row, d')"
  shows "(\<exists>h. find (\<lambda>r. gv_id r = gvh_id (gvp_vehicle p) \<and> gv_garage_id r = gvh_garage_id (gvp_vehicle p))
        (garage_vehicles d) = Some h \<and> gv_current_revision_version h < gvh_revision_version (gvp_vehicle p)) \<and>
    row = garage_vehicle_revision_row (the (env_uuid env 0)) p (env_now env) \<and>
    d' = d\<lparr>garage_vehicle_revisions := garage_vehicle_revisions d @ [row],
      garage_vehicles := set_where
        (\<lambda>r. gv_id r = gvh_id (gvp_vehicle p) \<and> gv_garage_id r = gvh_garage_id (gvp_vehicle p) \<and>
             gv_current_revision_version r < gvh_revision_version (gvp_vehicle p))
        (\<lambda>r. r\<lparr>gv_current_revision_version := gvh_revision_version (gvp_vehicle p),
               gv_integrity := the (gvh_integrity (gvp_vehicle p)), gv_canonical_payload := gvp_canonical p,
               gv_signed_by_user_id := gvh_signed_by (gvp_vehicle p),
               gv_avatar_blob_hash := blobRefHash (gvh_avatar_blob (gvp_vehicle p)),
               gv_banner_blob_hash := blobRefHash (gvh_banner_blob (gvp_vehicle p))\<rparr>) (garage_vehicles d)\<rparr>"
  using assms unfolding AppendGarageVehicleRevision_def Let_def insertGarageVehicleRevisionTx_def
  by (auto simp: tx_Inr table_defs)

section \<open>The garage-vehicle history\<close>

definition gv_head :: "db \<Rightarrow> string \<Rightarrow> int option" where
  "gv_head d k = map_option gv_current_revision_version (find (\<lambda>r. gv_id r = k) (garage_vehicles d))"

definition gv_versions :: "db \<Rightarrow> string \<Rightarrow> int list" where
  "gv_versions d k =
     map gvr_revision_version (filter (\<lambda>r. gvr_garage_vehicle_id r = k) (garage_vehicle_revisions d))"

definition gv_created :: "db \<Rightarrow> string \<Rightarrow> int \<Rightarrow> db \<Rightarrow> bool" where
  "gv_created d k n d' =
     (\<exists>L env p row. CreateGarageVehicle L env p d = (Inr row, d') \<and> k = gvh_id (gvp_vehicle p) \<and> n = 1)"

definition gv_appended :: "db \<Rightarrow> string \<Rightarrow> int \<Rightarrow> db \<Rightarrow> bool" where
  "gv_appended d k n d' = (distinct (map gv_id (garage_vehicles d)) \<and>
     (\<exists>L env p row. AppendGarageVehicleRevision L env p d = (Inr row, d') \<and>
        k = gvh_id (gvp_vehicle p) \<and> n = gvh_revision_version (gvp_vehicle p)))"

lemma gv_created_effect:
  assumes "gv_created d k n d'"
  shows "gv_head d k = None" "gv_head d' = (gv_head d)(k \<mapsto> n)"
    "gv_versions d' = (gv_versions d)(k := gv_versions d k @ [n])"
  using assms unfolding gv_created_def
  by (auto dest!: CreateGarageVehicle_Inr simp: gv_head_def gv_versions_def fun_eq_iff find_append find_None_iff'
      split: option.splits dest!: find_SomeD)

lemma gv_appended_effect:
  assumes "gv_appended d k n d'"
  shows "\<exists>h. gv_head d k = Some h \<and> h < n" "gv_head d' = (gv_head d)(k \<mapsto> n)"
    "gv_versions d' = (gv_versions d)(k := gv_versions d k @ [n])"
proof -
  from assms obtain L env p row where dist: "distinct (map gv_id (garage_vehicles d))"
    and r: "AppendGarageVehicleRevision L env p d = (Inr row, d')"
      "k = gvh_id (gvp_vehicle p)" "n = gvh_revision_version (gvp_vehicle p)"
    by (auto simp: gv_appended_def)
  note e = AppendGarageVehicleRevision_Inr [OF r(1), folded r(2,3)]
  then obtain h where h: "find (\<lambda>r. gv_id r = k \<and> gv_garage_id r = gvh_garage_id (gvp_vehicle p)) (garage_vehicles d) = Some h"
    "gv_current_revision_version h < n" by blast
  have hd: "find (\<lambda>r. gv_id r = k) (garage_vehicles d) = Some h"
    using find_key_iff [OF dist] find_SomeD [OF h(1)] by blast
  show "\<exists>h. gv_head d k = Some h \<and> h < n" using hd h by (simp add: gv_head_def)
  show "gv_head d' = (gv_head d)(k \<mapsto> n)"
    using e h hd find_SomeD [OF h(1)]
    by (auto simp: gv_head_def fun_eq_iff find_set_where option.map_comp o_def dest: find_SomeD intro!: option.map_cong)
  show "gv_versions d' = (gv_versions d)(k := gv_versions d k @ [n])"
    using e r(2,3) by (auto simp: gv_versions_def fun_eq_iff)
qed

interpretation gv_chain: revision_chain gv_head gv_versions gv_created gv_appended
  by unfold_locales (fact gv_created_effect gv_appended_effect)+

section \<open>Properties\<close>

text \<open>A garage vehicle is only reachable, and only changeable, through the garage it
  belongs to: an append that names another garage is refused as not found and changes
  nothing, and a successful one changes the lookup of that vehicle in that garage only.\<close>

theorem AppendGarageVehicleRevision_scoped:
  assumes "distinct (map gv_id (garage_vehicles d))" "AppendGarageVehicleRevision L env p d = (res, d')"
    "env_open env'" "\<not> env_fault env' ''scan garage vehicle''"
  shows "(GarageVehicleByID env' (gvh_garage_id (gvp_vehicle p)) (gvh_id (gvp_vehicle p)) d =
        Inl ErrGarageVehicleNotFound \<longrightarrow> d' = d \<and> (\<exists>e. res = Inl e)) \<and>
    ((g, v) \<noteq> (gvh_garage_id (gvp_vehicle p), gvh_id (gvp_vehicle p)) \<longrightarrow>
        GarageVehicleByID env' g v d' = GarageVehicleByID env' g v d) \<and>
    (\<forall>row. res = Inr row \<longrightarrow>
       (\<exists>r. GarageVehicleByID env' (gvh_garage_id (gvp_vehicle p)) (gvh_id (gvp_vehicle p)) d' = Inr r \<and>
          gv_current_revision_version r = gvh_revision_version (gvp_vehicle p) \<and>
          gv_canonical_payload r = gvp_canonical p \<and> gv_signed_by_user_id r = gvh_signed_by (gvp_vehicle p)))"
proof (cases res)
  case (Inl e)
  have "d' = d"
    using assms(2) Inl unfolding AppendGarageVehicleRevision_def
    by (auto simp: op_require_simps Let_def split: if_splits dest: run_tx_error_unchanged)
  with Inl show ?thesis by simp
next
  case (Inr row)
  let ?P = "\<lambda>g v r. gv_garage_id r = g \<and> gv_id r = v"
  note e = AppendGarageVehicleRevision_Inr [OF assms(2) [unfolded Inr]]
  then obtain h where "find (\<lambda>r. gv_id r = gvh_id (gvp_vehicle p) \<and> gv_garage_id r = gvh_garage_id (gvp_vehicle p))
      (garage_vehicles d) = Some h" and hv: "gv_current_revision_version h < gvh_revision_version (gvp_vehicle p)" by blast
  then have h: "find (?P (gvh_garage_id (gvp_vehicle p)) (gvh_id (gvp_vehicle p))) (garage_vehicles d) = Some h"
    by (simp add: conj_commute)
  from find_SomeD [OF h] have hs: "gv_garage_id h = gvh_garage_id (gvp_vehicle p)" "gv_id h = gvh_id (gvp_vehicle p)"
    by auto
  have look: "find (?P g v) (garage_vehicles d') = map_option
      (\<lambda>r. if gv_id r = gvh_id (gvp_vehicle p) \<and> gv_garage_id r = gvh_garage_id (gvp_vehicle p) \<and>
             gv_current_revision_version r < gvh_revision_version (gvp_vehicle p)
           then r\<lparr>gv_current_revision_version := gvh_revision_version (gvp_vehicle p),
               gv_integrity := the (gvh_integrity (gvp_vehicle p)), gv_canonical_payload := gvp_canonical p,
               gv_signed_by_user_id := gvh_signed_by (gvp_vehicle p),
               gv_avatar_blob_hash := blobRefHash (gvh_avatar_blob (gvp_vehicle p)),
               gv_banner_blob_hash := blobRefHash (gvh_banner_blob (gvp_vehicle p))\<rparr> else r)
      (find (?P g v) (garage_vehicles d))" for g v
    using e by (simp add: find_set_where)
  have other: "GarageVehicleByID env' g v d' = GarageVehicleByID env' g v d"
    if "(g, v) \<noteq> (gvh_garage_id (gvp_vehicle p), gvh_id (gvp_vehicle p))"
    using look [of g v] that
    by (cases "find (?P g v) (garage_vehicles d)") (auto simp: GarageVehicleByID_def dest: find_SomeD)
  show ?thesis
    using assms(3,4) h hv hs look Inr other by (auto simp: GarageVehicleByID_def)
qed

definition demo_gv :: "string \<Rightarrow> int \<Rightarrow> garage_vehicle_params" where
  "demo_gv g n = \<lparr>gvp_vehicle = \<lparr>gvh_id = ''gv'', gvh_garage_id = g, gvh_revision_version = n, gvh_revision_time = n,
     gvh_signed_by = ''alice'', gvh_avatar_blob = None, gvh_banner_blob = None, gvh_integrity = Some demo_ig,
     gvh_rest = ''''\<rparr>, gvp_canonical = ''c''\<rparr>"

definition demo_gv_db :: db where
  "demo_gv_db = snd (CreateGarageVehicle demo_lib (env_at 7 ''r3'') (demo_gv ''g'' 1) demo_garage_db)"

end
