(* ===== verification/GarageInvites.thy ===== *)
theory GarageInvites
  imports Garages
begin

text \<open>
  Garage invites (storage/garage_invite.go): a token with a lifetime and a bounded
  number of redemptions; redeeming it makes the caller an accepted owner. Only the
  hash of the token is stored.
\<close>

section \<open>Operations\<close>

record garage_invite_issue_params =
  gii_garage_id :: string
  gii_created_by_user_id :: string
  gii_lifetime :: int
  gii_max_redemptions :: int

definition garage_invite_row :: "lib \<Rightarrow> garage_invite_issue_params \<Rightarrow> string \<Rightarrow> string \<Rightarrow> int \<Rightarrow> garage_invite" where
  "garage_invite_row L p iid tok now =
     \<lparr>gi_id = iid, gi_garage_id = gii_garage_id p, gi_created_by_user_id = gii_created_by_user_id p,
      gi_token_hash = hashInviteToken L tok, gi_created_at = now, gi_expires_at = now + gii_lifetime p,
      gi_max_redemptions = gii_max_redemptions p, gi_redemption_count = 0, gi_revoked_at = None\<rparr>"

text \<open>The plaintext token is returned with the record.\<close>

definition IssueGarageInvite :: "lib \<Rightarrow> env \<Rightarrow> garage_invite_issue_params \<Rightarrow> (db, string \<times> garage_invite) op" where
  "IssueGarageInvite L env p = op_require
     [(env_open env, ErrNotOpen),
      (gii_garage_id p \<noteq> [], ErrInvalid ''garage id must be set''),
      (gii_created_by_user_id p \<noteq> [], ErrInvalid ''created_by_user_id must be set''),
      (0 < gii_lifetime p, ErrInvalid ''invite lifetime must be positive''),
      (1 \<le> gii_max_redemptions p, ErrInvalid ''max_redemptions must be at least 1''),
      (env_token env \<noteq> None, ErrGenerate ''mint invite token''),
      (env_uuid env 0 \<noteq> None, ErrGenerate ''mint invite id'')]
     (let tok = the (env_token env); row = garage_invite_row L p (the (env_uuid env 0)) tok (env_now env)
      in auto_tx
       (tx_bind (tx_exec env ''insert garage invite'' SQLErr (insert_garage_invite row))
        (\<lambda>_. tx_return (tok, row))))"

definition ListGarageInvites :: "env \<Rightarrow> string \<Rightarrow> db \<Rightarrow> serr + garage_invite list" where
  "ListGarageInvites env gid d =
     (if \<not> env_open env then Inl ErrNotOpen
      else if env_fault env ''query garage invites'' then Inl (SQLErr (SQLDriver ''query garage invites''))
      else Inr (order_desc gi_created_at (filter (\<lambda>r. gi_garage_id r = gid) (garage_invites d))))"

text \<open>The update commits by itself; a failure of the existence check after it leaves
  the update in place.\<close>

definition RevokeGarageInvite :: "env \<Rightarrow> string \<Rightarrow> string \<Rightarrow> (db, unit) op" where
  "RevokeGarageInvite env gid iid d =
     (if \<not> env_open env then (Inl ErrNotOpen, d)
      else if env_fault env ''revoke garage invite'' then (Inl (SQLErr (SQLDriver ''revoke garage invite'')), d)
      else case update_garage_invites (\<lambda>r. gi_id r = iid \<and> gi_garage_id r = gid \<and> gi_revoked_at r = None)
          (\<lambda>r. r\<lparr>gi_revoked_at := Some (env_now env)\<rparr>) d of
        Inl e \<Rightarrow> (Inl (SQLErr e), d)
      | Inr (affected, d') \<Rightarrow>
          if env_fault env ''read rows affected'' then (Inl (SQLErr (SQLDriver ''read rows affected'')), d')
          else if affected \<noteq> 0 then (Inr (), d')
          else if env_fault env ''check garage invite existence''
            then (Inl (SQLErr (SQLDriver ''check garage invite existence'')), d')
          else (case find (\<lambda>r. gi_id r = iid \<and> gi_garage_id r = gid) (garage_invites d') of
              None \<Rightarrow> (Inl ErrGarageInviteNotFound, d') | Some _ \<Rightarrow> (Inr (), d')))"

definition redemption_row :: "string \<Rightarrow> string \<Rightarrow> string \<Rightarrow> int \<Rightarrow> redemption" where
  "redemption_row rid iid u now =
     \<lparr>rd_id = rid, rd_garage_invite_id = iid, rd_redeemer_user_id = u, rd_redeemed_at = now\<rparr>"

definition redeemed_owner_row :: "string \<Rightarrow> string \<Rightarrow> int \<Rightarrow> int \<Rightarrow> garage_owner_row" where
  "redeemed_owner_row gid u currentRevision now =
     \<lparr>own_garage_id = gid, own_user_id = u, own_added_time = now,
      own_added_in_revision_version = currentRevision, own_accepted_time = Some now\<rparr>"

definition RedeemGarageInvite :: "lib \<Rightarrow> env \<Rightarrow> string \<Rightarrow> string \<Rightarrow> (db, garage_invite \<times> redemption) op" where
  "RedeemGarageInvite L env tokenValue u = op_require
     [(env_open env, ErrNotOpen), (u \<noteq> [], ErrInvalid ''redeemer_user_id must be set'')]
     (let hash = hashInviteToken L tokenValue; now = env_now env
      in run_tx env
       (tx_bind (tx_query env ''scan garage invite'' (\<lambda>d. find (\<lambda>r. gi_token_hash r = hash) (garage_invites d)))
        (\<lambda>found. tx_bind (tx_opt ErrGarageInviteNotFound found)
        (\<lambda>invite. tx_bind (tx_guard (gi_revoked_at invite = None) ErrGarageInviteRevoked)
        (\<lambda>_. tx_bind (tx_guard (now < gi_expires_at invite) ErrGarageInviteExpired)
        (\<lambda>_. tx_bind (tx_guard (gi_redemption_count invite < gi_max_redemptions invite) ErrGarageInviteExhausted)
        (\<lambda>_. tx_bind (tx_query env ''check existing owner'' (\<lambda>d. find (\<lambda>r. own_garage_id r = gi_garage_id invite \<and>
               own_user_id r = u) (garage_owners d)))
        (\<lambda>existing. tx_bind (tx_guard (case existing of None \<Rightarrow> True | Some r \<Rightarrow> own_accepted_time r = None)
               ErrGarageOwnerAlreadyAccepted)
        (\<lambda>_. tx_bind (tx_opt (ErrGenerate ''mint redemption id'') (env_uuid env 0))
        (\<lambda>rid. tx_bind (tx_exec env ''insert redemption''
               (\<lambda>e. if isUniqueViolation e then ErrGarageInviteAlreadyRedeemed else SQLErr e)
               (insert_redemption (redemption_row rid (gi_id invite) u now)))
        (\<lambda>_. tx_bind (tx_exec env ''bump redemption_count'' SQLErr
               (update_garage_invites (\<lambda>r. gi_id r = gi_id invite \<and> gi_redemption_count r < gi_max_redemptions r)
                  (\<lambda>r. r\<lparr>gi_redemption_count := gi_redemption_count r + 1\<rparr>)))
        (\<lambda>affected. tx_bind (tx_guard (affected \<noteq> 0) ErrGarageInviteExhausted)
        (\<lambda>_. tx_bind (tx_query env ''load garage head'' (\<lambda>d. find (\<lambda>r. gr_id r = gi_garage_id invite) (garages d)))
        (\<lambda>head. tx_bind (tx_opt (SQLErr (SQLDriver ''no rows'')) head)
        (\<lambda>gr. tx_bind (tx_exec env ''add/promote owner'' SQLErr
               (upsert_garage_owner (redeemed_owner_row (gi_garage_id invite) u (gr_current_revision_version gr) now)))
        (\<lambda>_. tx_return (invite\<lparr>gi_redemption_count := gi_redemption_count invite + 1\<rparr>,
               redemption_row rid (gi_id invite) u now)))))))))))))))))"

section \<open>What a successful operation did\<close>

lemma upsert_garage_owner_Inr:
  assumes "upsert_garage_owner r d = Inr (x, d')"
  shows "d' = d\<lparr>garage_owners := garage_owners d'\<rparr> \<and>
    (\<forall>g u. find_owner (garage_owners d') g u =
       (if (g, u) = own_key r
        then Some (case find_owner (garage_owners d) g u of None \<Rightarrow> r | Some r' \<Rightarrow> r'\<lparr>own_accepted_time := own_accepted_time r\<rparr>)
        else find_owner (garage_owners d) g u))"
proof (cases "find_owner (garage_owners d) (own_garage_id r) (own_user_id r)")
  case None
  then have "\<not> list_ex (\<lambda>r'. own_key r = own_key r') (garage_owners d)"
    by (auto simp: find_owner_None_iff list_ex_iff)
  with assms have "d' = d\<lparr>garage_owners := garage_owners d @ [r]\<rparr>"
    by (auto simp: upsert_garage_owner_def table_defs tx_Inr split: if_splits)
  with None show ?thesis by (auto simp: find_owner_append split: option.splits)
next
  case (Some r')
  from find_owner_SomeD [OF Some] have "list_ex (\<lambda>r'. own_key r = own_key r') (garage_owners d)"
    by (auto simp: list_ex_iff intro!: bexI [of _ r'])
  with assms have "d' = d\<lparr>garage_owners := set_where
      (\<lambda>x. own_garage_id x = own_garage_id r \<and> own_user_id x = own_user_id r)
      (\<lambda>x. x\<lparr>own_accepted_time := own_accepted_time r\<rparr>) (garage_owners d)\<rparr>"
    by (auto simp: upsert_garage_owner_def table_defs tx_Inr split: if_splits sum.splits)
  with Some show ?thesis by (auto simp: find_owner_set_where)
qed

lemma IssueGarageInvite_Inr:
  assumes "IssueGarageInvite L env p d = (Inr (tok, row), d')"
  shows "row = garage_invite_row L p (the (env_uuid env 0)) tok (env_now env) \<and> 0 < gii_lifetime p \<and>
    1 \<le> gii_max_redemptions p \<and> env_token env = Some tok \<and>
    (\<forall>r \<in> set (garage_invites d). gi_id r \<noteq> gi_id row \<and> gi_token_hash r \<noteq> gi_token_hash row) \<and>
    d' = d\<lparr>garage_invites := garage_invites d @ [row]\<rparr>"
  using assms unfolding IssueGarageInvite_def Let_def
  by (auto simp: tx_Inr table_defs)

lemma RedeemGarageInvite_Inr:
  assumes "RedeemGarageInvite L env tok u d = (Inr (iv, rd), d')"
  shows "\<exists>i gr. find (\<lambda>r. gi_token_hash r = hashInviteToken L tok) (garage_invites d) = Some i \<and>
    iv = i\<lparr>gi_redemption_count := gi_redemption_count i + 1\<rparr> \<and>
    rd = redemption_row (the (env_uuid env 0)) (gi_id i) u (env_now env) \<and> u \<noteq> [] \<and>
    gi_revoked_at i = None \<and> env_now env < gi_expires_at i \<and> gi_redemption_count i < gi_max_redemptions i \<and>
    (\<forall>r. find_owner (garage_owners d) (gi_garage_id i) u = Some r \<longrightarrow> own_accepted_time r = None) \<and>
    (\<forall>r \<in> set (redemptions d). rd_id rd \<noteq> rd_id r \<and>
       (gi_id i = rd_garage_invite_id r \<longrightarrow> u \<noteq> rd_redeemer_user_id r)) \<and>
    find (\<lambda>r. gr_id r = gi_garage_id i) (garages d) = Some gr \<and>
    upsert_garage_owner (redeemed_owner_row (gi_garage_id i) u (gr_current_revision_version gr) (env_now env))
      (d\<lparr>redemptions := redemptions d @ [rd],
         garage_invites := set_where (\<lambda>r. gi_id r = gi_id i \<and> gi_redemption_count r < gi_max_redemptions r)
           (\<lambda>r. r\<lparr>gi_redemption_count := gi_redemption_count r + 1\<rparr>) (garage_invites d)\<rparr>) = Inr ((), d')"
  using assms unfolding RedeemGarageInvite_def Let_def
  by (auto simp: tx_Inr table_defs redemption_row_def find_owner_def split: option.splits)

lemma RevokeGarageInvite_effect:
  assumes "RevokeGarageInvite env gid iid d = (res, d')"
  shows "d' = d \<or> d' = d\<lparr>garage_invites := set_where
      (\<lambda>r. gi_id r = iid \<and> gi_garage_id r = gid \<and> gi_revoked_at r = None)
      (\<lambda>r. r\<lparr>gi_revoked_at := Some (env_now env)\<rparr>) (garage_invites d)\<rparr>"
  using assms unfolding RevokeGarageInvite_def
  by (auto simp: table_defs tx_Inr split: if_splits sum.splits option.splits)

section \<open>The redemption count\<close>

definition redeemers :: "db \<Rightarrow> string \<Rightarrow> string list" where
  "redeemers d iid = map rd_redeemer_user_id (filter (\<lambda>r. rd_garage_invite_id r = iid) (redemptions d))"

text \<open>Ids and token hashes are unique, the count of an invite is the number of its
  redemptions and within its limit, no user redeemed an invite twice, and every
  redemption belongs to an invite.\<close>

definition invites_ok :: "db \<Rightarrow> bool" where
  "invites_ok d = (distinct (map gi_id (garage_invites d)) \<and> distinct (map gi_token_hash (garage_invites d)) \<and>
     (\<forall>i \<in> set (garage_invites d). gi_redemption_count i = int (length (redeemers d (gi_id i))) \<and>
        gi_redemption_count i \<le> gi_max_redemptions i) \<and>
     (\<forall>iid. distinct (redeemers d iid)) \<and>
     (\<forall>r \<in> set (redemptions d). has_garage_invite d (rd_garage_invite_id r)))"

lemma invites_ok_frame:
  "garage_invites d' = garage_invites d \<Longrightarrow> redemptions d' = redemptions d \<Longrightarrow> invites_ok d' = invites_ok d"
  by (simp add: invites_ok_def redeemers_def has_garage_invite_def)

lemma IssueGarageInvite_ok:
  assumes "invites_ok d" "IssueGarageInvite L env p d = (Inr (tok, row), d')"
  shows "invites_ok d'"
proof -
  note e = IssueGarageInvite_Inr [OF assms(2)]
  have "redeemers d (gi_id row) = []"
    using assms(1) e by (fastforce simp: redeemers_def invites_ok_def has_garage_invite_def filter_empty_conv)
  with assms(1) e show ?thesis
    by (auto simp: invites_ok_def redeemers_def has_garage_invite_def garage_invite_row_def image_iff)
qed

lemma RevokeGarageInvite_ok:
  assumes "invites_ok d" "RevokeGarageInvite env gid iid d = (res, d')"
  shows "invites_ok d'"
  using RevokeGarageInvite_effect [OF assms(2)]
proof
  assume "d' = d"
  with assms show ?thesis by simp
next
  let ?w = "\<lambda>r. gi_id r = iid \<and> gi_garage_id r = gid \<and> gi_revoked_at r = None"
  let ?f = "\<lambda>r. r\<lparr>gi_revoked_at := Some (env_now env)\<rparr>"
  assume d': "d' = d\<lparr>garage_invites := set_where ?w ?f (garage_invites d)\<rparr>"
  have "gi_id ` set (set_where ?w ?f (garage_invites d)) = gi_id ` set (garage_invites d)"
    by simp
  with assms(1) show ?thesis
    by (auto simp: d' invites_ok_def redeemers_def has_garage_invite_def set_set_where)
qed

lemma RedeemGarageInvite_tables:
  assumes "RedeemGarageInvite L env tok u d = (Inr (iv, rd), d')"
    "find (\<lambda>r. gi_token_hash r = hashInviteToken L tok) (garage_invites d) = Some i"
  shows "redemptions d' = redemptions d @ [rd]"
    "garage_invites d' = set_where (\<lambda>r. gi_id r = gi_id i \<and> gi_redemption_count r < gi_max_redemptions r)
       (\<lambda>r. r\<lparr>gi_redemption_count := gi_redemption_count r + 1\<rparr>) (garage_invites d)"
    "rd_garage_invite_id rd = gi_id i" "rd_redeemer_user_id rd = u"
    "d' = d\<lparr>redemptions := redemptions d', garage_invites := garage_invites d', garage_owners := garage_owners d'\<rparr>"
proof -
  from RedeemGarageInvite_Inr [OF assms(1)] obtain j and gr :: garage_row where
    "find (\<lambda>r. gi_token_hash r = hashInviteToken L tok) (garage_invites d) = Some j" and
    "rd = redemption_row (the (env_uuid env 0)) (gi_id j) u (env_now env)" and
    "upsert_garage_owner (redeemed_owner_row (gi_garage_id j) u (gr_current_revision_version gr) (env_now env))
      (d\<lparr>redemptions := redemptions d @ [rd],
         garage_invites := set_where (\<lambda>r. gi_id r = gi_id j \<and> gi_redemption_count r < gi_max_redemptions r)
           (\<lambda>r. r\<lparr>gi_redemption_count := gi_redemption_count r + 1\<rparr>) (garage_invites d)\<rparr>) = Inr ((), d')"
    by (elim exE conjE) (rule that, assumption, assumption, assumption)
  with assms(2) have rd: "rd = redemption_row (the (env_uuid env 0)) (gi_id i) u (env_now env)" and
    up: "upsert_garage_owner (redeemed_owner_row (gi_garage_id i) u (gr_current_revision_version gr) (env_now env))
      (d\<lparr>redemptions := redemptions d @ [rd],
         garage_invites := set_where (\<lambda>r. gi_id r = gi_id i \<and> gi_redemption_count r < gi_max_redemptions r)
           (\<lambda>r. r\<lparr>gi_redemption_count := gi_redemption_count r + 1\<rparr>) (garage_invites d)\<rparr>) = Inr ((), d')"
    by simp_all
  note f = upsert_garage_owner_Inr [OF up, THEN conjunct1]
  show "redemptions d' = redemptions d @ [rd]" and
    "garage_invites d' = set_where (\<lambda>r. gi_id r = gi_id i \<and> gi_redemption_count r < gi_max_redemptions r)
       (\<lambda>r. r\<lparr>gi_redemption_count := gi_redemption_count r + 1\<rparr>) (garage_invites d)"
    using arg_cong [OF f, of redemptions] arg_cong [OF f, of garage_invites] by simp_all
  show "rd_garage_invite_id rd = gi_id i" "rd_redeemer_user_id rd = u" by (simp_all add: rd redemption_row_def)
  show "d' = d\<lparr>redemptions := redemptions d', garage_invites := garage_invites d', garage_owners := garage_owners d'\<rparr>"
    by (subst f) (simp add: f [THEN arg_cong, of redemptions] f [THEN arg_cong, of garage_invites])
qed

lemma RedeemGarageInvite_ok:
  assumes "invites_ok d" "RedeemGarageInvite L env tok u d = (Inr (iv, rd), d')"
  shows "invites_ok d'"
proof -
  from RedeemGarageInvite_Inr [OF assms(2)] obtain i where
    i: "find (\<lambda>r. gi_token_hash r = hashInviteToken L tok) (garage_invites d) = Some i"
      "gi_redemption_count i < gi_max_redemptions i"
      "\<forall>r \<in> set (redemptions d). gi_id i = rd_garage_invite_id r \<longrightarrow> u \<noteq> rd_redeemer_user_id r" by blast
  note t = RedeemGarageInvite_tables [OF assms(2) i(1)]
  have mem: "i \<in> set (garage_invites d)" using find_SomeD [OF i(1)] by simp
  have inj: "r = i" if "r \<in> set (garage_invites d)" "gi_id r = gi_id i" for r
    using assms(1) that mem by (auto simp: invites_ok_def distinct_map dest: inj_onD)
  have red: "redeemers d' iid = redeemers d iid @ (if iid = gi_id i then [u] else [])" for iid
    using t(1-4) by (simp add: redeemers_def)
  have nd: "u \<notin> set (redeemers d (gi_id i))"
    using i(3) by (auto simp: redeemers_def)
  have ids: "gi_id ` set (garage_invites d') = gi_id ` set (garage_invites d)"
    by (simp add: t(2))
  have cnt: "gi_redemption_count x = int (length (redeemers d' (gi_id x))) \<and> gi_redemption_count x \<le> gi_max_redemptions x"
    if x: "x \<in> set (garage_invites d')" for x
  proof -
    from x obtain r where r: "r \<in> set (garage_invites d)"
      "x = (if gi_id r = gi_id i \<and> gi_redemption_count r < gi_max_redemptions r
            then r\<lparr>gi_redemption_count := gi_redemption_count r + 1\<rparr> else r)"
      by (auto simp: t(2) set_set_where)
    have ok: "gi_redemption_count r = int (length (redeemers d (gi_id r)))" "gi_redemption_count r \<le> gi_max_redemptions r"
      using assms(1) r(1) unfolding invites_ok_def by blast+
    show ?thesis
    proof (cases "gi_id r = gi_id i")
      case True
      with inj [OF r(1)] have "r = i" by simp
      with r(2) ok i(2) show ?thesis by (simp add: red)
    next
      case False
      with r(2) ok show ?thesis by (simp add: red)
    qed
  qed
  have "distinct (map gi_id (garage_invites d'))" "distinct (map gi_token_hash (garage_invites d'))"
    using assms(1) by (simp_all add: t(2) invites_ok_def)
  moreover have "distinct (redeemers d' iid)" for iid
    using assms(1) nd by (simp add: red invites_ok_def)
  moreover have "has_garage_invite d' (rd_garage_invite_id r)" if "r \<in> set (redemptions d')" for r
  proof -
    from that have "r \<in> set (redemptions d) \<or> r = rd" by (auto simp: t(1))
    then have "rd_garage_invite_id r \<in> gi_id ` set (garage_invites d)"
      using assms(1) mem t(3) by (auto simp: invites_ok_def has_garage_invite_def)
    then show ?thesis by (simp add: has_garage_invite_def ids)
  qed
  ultimately show ?thesis
    using cnt unfolding invites_ok_def by blast
qed

section \<open>Properties\<close>

text \<open>C14. Redeeming an invite decides in the documented order: an unknown token, a revoked
  invite, an expired one, an exhausted one and a caller who already is an accepted owner
  are each refused with their own error and without a change, for any invite that has not
  been refused for an earlier reason.\<close>

theorem RedeemGarageInvite_refusals:
  assumes "env_open env" "u \<noteq> []" "\<forall>l. \<not> env_fault env l"
  shows "case find (\<lambda>r. gi_token_hash r = hashInviteToken L tok) (garage_invites d) of
      None \<Rightarrow> RedeemGarageInvite L env tok u d = (Inl ErrGarageInviteNotFound, d)
    | Some i \<Rightarrow>
        (if gi_revoked_at i \<noteq> None then RedeemGarageInvite L env tok u d = (Inl ErrGarageInviteRevoked, d)
         else if gi_expires_at i \<le> env_now env then RedeemGarageInvite L env tok u d = (Inl ErrGarageInviteExpired, d)
         else if gi_max_redemptions i \<le> gi_redemption_count i
           then RedeemGarageInvite L env tok u d = (Inl ErrGarageInviteExhausted, d)
         else if \<exists>r. find_owner (garage_owners d) (gi_garage_id i) u = Some r \<and> own_accepted_time r \<noteq> None
           then RedeemGarageInvite L env tok u d = (Inl ErrGarageOwnerAlreadyAccepted, d)
         else env_uuid env 0 \<noteq> None \<and> u \<in> set (redeemers d (gi_id i)) \<longrightarrow>
           RedeemGarageInvite L env tok u d = (Inl ErrGarageInviteAlreadyRedeemed, d))"
proof -
  note run = RedeemGarageInvite_def op_require_simps Let_def run_tx_def tx_bind_def tx_query_def tx_guard_def
    tx_opt_def tx_throw_def tx_return_def
  show ?thesis
  proof (cases "find (\<lambda>r. gi_token_hash r = hashInviteToken L tok) (garage_invites d)")
    case None
    with assms show ?thesis by (simp add: run)
  next
    case (Some i)
    have dup: "RedeemGarageInvite L env tok u d = (Inl ErrGarageInviteAlreadyRedeemed, d)"
      if "gi_revoked_at i = None" "env_now env < gi_expires_at i" "gi_redemption_count i < gi_max_redemptions i"
        "\<forall>r. find_owner (garage_owners d) (gi_garage_id i) u = Some r \<longrightarrow> own_accepted_time r = None"
        "env_uuid env 0 \<noteq> None" "u \<in> set (redeemers d (gi_id i))"
    proof -
      from that(6) obtain r where "r \<in> set (redemptions d)" "rd_garage_invite_id r = gi_id i" "rd_redeemer_user_id r = u"
        by (auto simp: redeemers_def)
      then have "list_ex (\<lambda>r'. rd_id (redemption_row rid (gi_id i) u (env_now env)) = rd_id r' \<or>
          rd_garage_invite_id (redemption_row rid (gi_id i) u (env_now env)) = rd_garage_invite_id r' \<and>
          rd_redeemer_user_id (redemption_row rid (gi_id i) u (env_now env)) = rd_redeemer_user_id r') (redemptions d)" for rid
        by (auto simp: list_ex_iff redemption_row_def intro!: bexI [of _ r])
      with Some assms that(1-5) show ?thesis
        by (auto simp: run tx_exec_def insert_redemption_def sql_insert_def find_owner_def split: option.splits)
    qed
    show ?thesis
      using Some assms dup by (auto simp: run find_owner_def)
  qed
qed


text \<open>A successful redemption is all of its five steps: the invite was live, the
  caller was not an accepted owner and had not redeemed it before, the count goes up by
  one for that invite only, the redemption is recorded, and the caller is now an accepted
  owner, a pending row being promoted with the revision that invited it kept.\<close>

theorem RedeemGarageInvite_success:
  assumes "invites_ok d" "RedeemGarageInvite L env tok u d = (Inr (iv, rd), d')"
  shows "\<exists>i \<in> set (garage_invites d). gi_token_hash i = hashInviteToken L tok \<and>
    gi_revoked_at i = None \<and> env_now env < gi_expires_at i \<and> gi_redemption_count i < gi_max_redemptions i \<and>
    redeemers d' (gi_id i) = redeemers d (gi_id i) @ [u] \<and> u \<notin> set (redeemers d (gi_id i)) \<and>
    (\<forall>r \<in> set (garage_invites d). (if r = i then iv else r) \<in> set (garage_invites d')) \<and>
    gi_redemption_count iv = gi_redemption_count i + 1 \<and>
    (\<forall>g x. (g, x) \<noteq> (gi_garage_id i, u) \<longrightarrow> find_owner (garage_owners d') g x = find_owner (garage_owners d) g x) \<and>
    (\<exists>r. find_owner (garage_owners d') (gi_garage_id i) u = Some r \<and> own_accepted_time r = Some (env_now env) \<and>
       (\<forall>r0. find_owner (garage_owners d) (gi_garage_id i) u = Some r0 \<longrightarrow> own_accepted_time r0 = None \<and>
          own_added_in_revision_version r = own_added_in_revision_version r0))"
proof -
  from RedeemGarageInvite_Inr [OF assms(2)] obtain i and gr :: garage_row where
    i: "find (\<lambda>r. gi_token_hash r = hashInviteToken L tok) (garage_invites d) = Some i"
    and iv: "iv = i\<lparr>gi_redemption_count := gi_redemption_count i + 1\<rparr>"
    and live: "gi_revoked_at i = None" "env_now env < gi_expires_at i" "gi_redemption_count i < gi_max_redemptions i"
    and pend: "\<forall>r. find_owner (garage_owners d) (gi_garage_id i) u = Some r \<longrightarrow> own_accepted_time r = None"
    and fresh: "\<forall>r \<in> set (redemptions d). rd_id rd \<noteq> rd_id r \<and>
       (gi_id i = rd_garage_invite_id r \<longrightarrow> u \<noteq> rd_redeemer_user_id r)"
    and up: "upsert_garage_owner (redeemed_owner_row (gi_garage_id i) u (gr_current_revision_version gr) (env_now env))
      (d\<lparr>redemptions := redemptions d @ [rd],
         garage_invites := set_where (\<lambda>r. gi_id r = gi_id i \<and> gi_redemption_count r < gi_max_redemptions r)
           (\<lambda>r. r\<lparr>gi_redemption_count := gi_redemption_count r + 1\<rparr>) (garage_invites d)\<rparr>) = Inr ((), d')"
    by (elim exE conjE) (rule that, assumption+)
  note t = RedeemGarageInvite_tables [OF assms(2) i]
  have mem: "i \<in> set (garage_invites d)" "gi_token_hash i = hashInviteToken L tok" using find_SomeD [OF i] by auto
  have inj: "r = i" if "r \<in> set (garage_invites d)" "gi_id r = gi_id i" for r
    using assms(1) that mem by (auto simp: invites_ok_def distinct_map dest: inj_onD)
  have rows: "(if r = i then iv else r) \<in> set (garage_invites d')" if r: "r \<in> set (garage_invites d)" for r
    using r inj [OF r] live(3) unfolding t(2) set_set_where iv
    by (intro image_eqI [of _ _ r]) auto
  have red: "redeemers d' (gi_id i) = redeemers d (gi_id i) @ [u]" using t(1-4) by (simp add: redeemers_def)
  have nd: "u \<notin> set (redeemers d (gi_id i))" using fresh by (auto simp: redeemers_def)
  note o = upsert_garage_owner_Inr [OF up, THEN conjunct2, simplified redeemed_owner_row_def, simplified]
  show ?thesis
    using mem live red nd rows o pend
    by (intro bexI [of _ i]) (auto simp: iv split: option.splits)
qed

definition demo_issue :: garage_invite_issue_params where
  "demo_issue = \<lparr>gii_garage_id = ''g'', gii_created_by_user_id = ''alice'', gii_lifetime = 100, gii_max_redemptions = 1\<rparr>"

definition demo_invite_db :: db where
  "demo_invite_db = snd (IssueGarageInvite demo_lib (env_at 10 ''i1'') demo_issue demo_garage_db)"

lemma demo_invite_ok: "invites_ok demo_invite_db"
proof -
  have "invites_ok demo_garage_db"
  proof -
    have "garage_invites demo_garage_db = []" "redemptions demo_garage_db = []" by code_simp+
    then show ?thesis by (simp add: invites_ok_def redeemers_def)
  qed
  moreover have "IssueGarageInvite demo_lib (env_at 10 ''i1'') demo_issue demo_garage_db =
    (Inr (''tok'', garage_invite_row demo_lib demo_issue ''i1'' ''tok'' 10), demo_invite_db)"
    by code_simp
  ultimately show ?thesis by (rule IssueGarageInvite_ok)
qed

theorem RedeemGarageInvite_refusals_witness:
  "RedeemGarageInvite demo_lib (env_at 110 ''rd'') ''tok'' ''bob'' demo_invite_db = (Inl ErrGarageInviteExpired, demo_invite_db)"
proof -
  have h: "env_open (env_at 110 ''rd'')" "''bob'' \<noteq> []" "\<forall>l. \<not> env_fault (env_at 110 ''rd'') l"
    by (simp_all add: env_at_def)
  have f: "find (\<lambda>r. gi_token_hash r = hashInviteToken demo_lib ''tok'') (garage_invites demo_invite_db) =
      Some (garage_invite_row demo_lib demo_issue ''i1'' ''tok'' 10)"
    by code_simp
  show ?thesis
    using RedeemGarageInvite_refusals [OF h, of "demo_lib" "''tok''" demo_invite_db] f
    by (simp add: garage_invite_row_def demo_issue_def env_at_def)
qed

end
