(* ===== verification/ApiGarages.thy ===== *)
theory ApiGarages
  imports ApiVehicles GarageVehicles GarageInvites
begin

text \<open>
  The garage, garage-vehicle and garage-invite handlers (server/api/garages.go,
  garage_vehicles.go and garage_invites.go). The requested lifetime of an invite is a
  64-bit integer: its conversion to nanoseconds wraps around as Go's does.
\<close>

unbundle bit_operations_syntax

section \<open>Responses\<close>

record garage_owner_response =
  gos_user_id :: string
  gos_added_time :: int
  gos_accepted_time :: "int option"

record garage_response =
  gs_id :: string
  gs_name :: string
  gs_current_revision_version :: int
  gs_current_revision_time :: int
  gs_created_at :: int
  gs_owners :: "garage_owner_response list"

record garage_revision_response =
  grs_revision_id :: string
  grs_garage_id :: string
  grs_revision_version :: int
  grs_revision_time :: int
  grs_integrity :: integrity
  grs_received_at :: int
  grs_garage :: garage_response

record acceptance_response =
  acs_acceptance_id :: string
  acs_garage_id :: string
  acs_revision_version_accepted :: int
  acs_accepted_time :: int
  acs_integrity :: integrity
  acs_received_at :: int
  acs_garage :: garage_response

record garage_vehicle_response =
  gvs_id :: string
  gvs_garage_id :: string
  gvs_current_revision_version :: int
  gvs_garage_vehicle :: garage_vehicle
  gvs_received_at :: int

record garage_invite_response =
  gis_id :: string
  gis_garage_id :: string
  gis_created_by_user_id :: string
  gis_token :: string
  gis_created_at :: int
  gis_expires_at :: int
  gis_max_redemptions :: int
  gis_redemption_count :: int
  gis_revoked_at :: "int option"

record redeem_response =
  rds_redemption_id :: string
  rds_garage_invite_id :: string
  rds_redeemed_at :: int
  rds_garage :: garage_response

definition assembleGarageResponse :: "env \<Rightarrow> garage_row \<Rightarrow> db \<Rightarrow> serr + garage_response" where
  "assembleGarageResponse env rec d = (case ListGarageOwners env (gr_id rec) d of
     Inl e \<Rightarrow> Inl e
   | Inr owners \<Rightarrow> Inr \<lparr>gs_id = gr_id rec, gs_name = gr_name rec,
       gs_current_revision_version = gr_current_revision_version rec,
       gs_current_revision_time = gr_current_revision_time rec, gs_created_at = gr_created_at rec,
       gs_owners = map (\<lambda>ow. \<lparr>gos_user_id = ow_user_id ow, gos_added_time = ow_added_time ow,
         gos_accepted_time = ow_accepted_time ow\<rparr>) owners\<rparr>)"

fun assemble_all :: "env \<Rightarrow> garage_row list \<Rightarrow> db \<Rightarrow> serr + garage_response list" where
  "assemble_all env [] d = Inr []"
| "assemble_all env (g # gs) d = (case assembleGarageResponse env g d of Inl e \<Rightarrow> Inl e
     | Inr r \<Rightarrow> (case assemble_all env gs d of Inl e \<Rightarrow> Inl e | Inr rs \<Rightarrow> Inr (r # rs)))"

definition garageVehicleResponseFromRecord :: "wire_lib \<Rightarrow> garage_vehicle_row \<Rightarrow> garage_vehicle_response option" where
  "garageVehicleResponseFromRecord W rec = (case wl_unmarshal_garage_vehicle W (gv_canonical_payload rec) of
      None \<Rightarrow> None
    | Some gv \<Rightarrow> Some \<lparr>gvs_id = gv_id rec, gvs_garage_id = gv_garage_id rec,
        gvs_current_revision_version = gv_current_revision_version rec,
        gvs_garage_vehicle = gv\<lparr>gvh_integrity := Some (gv_integrity rec)\<rparr>, gvs_received_at = gv_received_at rec\<rparr>)"

definition garageInviteResponseFrom :: "garage_invite \<Rightarrow> string \<Rightarrow> garage_invite_response" where
  "garageInviteResponseFrom rec plaintextToken =
     \<lparr>gis_id = gi_id rec, gis_garage_id = gi_garage_id rec, gis_created_by_user_id = gi_created_by_user_id rec,
      gis_token = plaintextToken, gis_created_at = gi_created_at rec, gis_expires_at = gi_expires_at rec,
      gis_max_redemptions = gi_max_redemptions rec, gis_redemption_count = gi_redemption_count rec,
      gis_revoked_at = gi_revoked_at rec\<rparr>"

section \<open>Garages\<close>

definition handleGarageCreate ::
  "lib \<Rightarrow> verifier_lib \<Rightarrow> wire_lib \<Rightarrow> env \<Rightarrow> server_cfg \<Rightarrow> request_ctx \<Rightarrow> garage option \<Rightarrow> (int \<times> garage_response) hm" where
  "handleGarageCreate L V W env cfg rc body =
     h_require (cfg_garage_store cfg) 503 ''garages_unavailable''
     (h_opt (rc_identity rc) 401 ''unauthenticated'' (\<lambda>id.
      h_opt body 400 ''invalid_request'' (\<lambda>g.
      h_require (lib_garage_validate L g) 400 ''invalid_garage''
     (h_opt (g_integrity g) 400 ''invalid_garage'' (\<lambda>ig.
      h_require (g_revision_version g = 1) 400 ''invalid_garage''
     (h_require (g_signed_by g = id_user_id id) 403 ''signer_mismatch''
     (h_require (length (g_owners g) = 1) 400 ''invalid_garage''
     (h_require (gown_user_id (hd (g_owners g)) = id_user_id id) 403 ''invalid_garage''
     (h_require (gown_accepted_time (hd (g_owners g)) \<noteq> None) 400 ''invalid_garage''
     (h_opt (wl_garage_canonical W g) 500 ''internal_error'' (\<lambda>canonical.
      h_bind (verifySignedPayload L V env (cfg_integrity_verifier cfg) canonical ig (g_signed_by g)) (\<lambda>_.
      h_call [] (CreateGarage L env \<lparr>gp_garage = g, gp_canonical = canonical\<rparr>) (\<lambda>rec.
      h_read [] (assembleGarageResponse env rec) (\<lambda>resp.
      h_return (201, resp)))))))))))))))"

definition handleGarageList :: "env \<Rightarrow> server_cfg \<Rightarrow> request_ctx \<Rightarrow> (int \<times> garage_response list) hm" where
  "handleGarageList env cfg rc =
     h_require (cfg_garage_store cfg) 503 ''garages_unavailable''
     (h_opt (rc_identity rc) 401 ''unauthenticated'' (\<lambda>id.
      h_read [] (ListGaragesForUser env (id_user_id id)) (\<lambda>gs.
      h_read [] (assemble_all env gs) (\<lambda>out.
      h_return (200, out)))))"

definition handleGarageGet :: "env \<Rightarrow> server_cfg \<Rightarrow> request_ctx \<Rightarrow> (int \<times> garage_response) hm" where
  "handleGarageGet env cfg rc =
     h_require (cfg_garage_store cfg) 503 ''garages_unavailable''
     (h_opt (rc_identity rc) 401 ''unauthenticated'' (\<lambda>id.
      let garageID = hr_path_value (rc_request rc) ''id'' in
      h_read [(ErrGarageNotFound, 404, ''garage_not_found'')] (GarageOwnerByUserAndGarage env (id_user_id id) garageID) (\<lambda>_.
      h_read [(ErrGarageNotFound, 404, ''garage_not_found'')] (GarageByID env garageID) (\<lambda>rec.
      h_read [] (assembleGarageResponse env rec) (\<lambda>resp.
      h_return (200, resp))))))"

definition handleGarageRevisionAppend ::
  "lib \<Rightarrow> verifier_lib \<Rightarrow> wire_lib \<Rightarrow> env \<Rightarrow> server_cfg \<Rightarrow> request_ctx \<Rightarrow> garage option \<Rightarrow>
    (int \<times> garage_revision_response) hm" where
  "handleGarageRevisionAppend L V W env cfg rc body =
     h_require (cfg_garage_store cfg) 503 ''garages_unavailable''
     (h_opt (rc_identity rc) 401 ''unauthenticated'' (\<lambda>id.
      let garageID = hr_path_value (rc_request rc) ''id'' in
      h_read [(ErrGarageNotFound, 404, ''garage_not_found'')] (GarageOwnerByUserAndGarage env (id_user_id id) garageID) (\<lambda>ow.
      h_require (ow_accepted_time ow \<noteq> None) 403 ''not_accepted_owner''
     (h_opt body 400 ''invalid_request'' (\<lambda>g.
      h_require (lib_garage_validate L g) 400 ''invalid_garage''
     (h_opt (g_integrity g) 400 ''invalid_garage'' (\<lambda>ig.
      h_require (g_id g = garageID) 400 ''invalid_garage''
     (h_require (g_signed_by g = id_user_id id) 403 ''signer_mismatch''
     (h_opt (wl_garage_canonical W g) 500 ''internal_error'' (\<lambda>canonical.
      h_bind (verifySignedPayload L V env (cfg_integrity_verifier cfg) canonical ig (g_signed_by g)) (\<lambda>_.
      h_call [(ErrGarageNotFound, 404, ''garage_not_found''),
              (ErrGarageRevisionVersionConflict, 409, ''revision_version_conflict'')]
        (AppendGarageRevision L env \<lparr>gp_garage = g, gp_canonical = canonical\<rparr>) (\<lambda>rev.
      h_read [] (GarageByID env garageID) (\<lambda>updated.
      h_read [] (assembleGarageResponse env updated) (\<lambda>garageResp.
      h_return (201, \<lparr>grs_revision_id = grev_id rev, grs_garage_id = grev_garage_id rev,
        grs_revision_version = grev_revision_version rev, grs_revision_time = grev_revision_time rev,
        grs_integrity = grev_integrity rev, grs_received_at = grev_received_at rev, grs_garage = garageResp\<rparr>)))))))))))))))"

definition acceptance_response_from :: "acceptance_row \<Rightarrow> garage_response \<Rightarrow> acceptance_response" where
  "acceptance_response_from rec g = \<lparr>acs_acceptance_id = ac_id rec, acs_garage_id = ac_garage_id rec,
     acs_revision_version_accepted = ac_revision_version_accepted rec, acs_accepted_time = ac_accepted_time rec,
     acs_integrity = ac_integrity rec, acs_received_at = ac_received_at rec, acs_garage = g\<rparr>"

text \<open>Answering with the garage as it is now.\<close>

definition with_garage :: "env \<Rightarrow> string \<Rightarrow> (garage_response \<Rightarrow> 'a) \<Rightarrow> int \<Rightarrow> (int \<times> 'a) hm" where
  "with_garage env garageID f status =
     h_read [] (GarageByID env garageID) (\<lambda>updated.
     h_read [] (assembleGarageResponse env updated) (\<lambda>garageResp. h_return (status, f garageResp)))"

definition handleGarageOwnershipAccept ::
  "lib \<Rightarrow> verifier_lib \<Rightarrow> wire_lib \<Rightarrow> env \<Rightarrow> server_cfg \<Rightarrow> request_ctx \<Rightarrow> ownership_acceptance option \<Rightarrow>
    (int \<times> acceptance_response) hm" where
  "handleGarageOwnershipAccept L V W env cfg rc body =
     h_require (cfg_garage_store cfg) 503 ''garages_unavailable''
     (h_opt (rc_identity rc) 401 ''unauthenticated'' (\<lambda>id.
      let garageID = hr_path_value (rc_request rc) ''id'' in
      h_opt body 400 ''invalid_request'' (\<lambda>a.
      h_require (lib_acceptance_validate L a) 400 ''invalid_acceptance''
     (h_opt (oa_integrity a) 400 ''invalid_acceptance'' (\<lambda>ig.
      h_require (oa_garage_id a = garageID) 400 ''invalid_acceptance''
     (h_require (oa_accepter_user_id a = id_user_id id) 403 ''accepter_mismatch''
     (h_opt (wl_acceptance_canonical W a) 500 ''internal_error'' (\<lambda>canonical.
      h_bind (verifySignedPayload L V env (cfg_integrity_verifier cfg) canonical ig (oa_accepter_user_id a)) (\<lambda>_ d.
       (case AcceptGarageOwnership L env \<lparr>gap_acceptance = a, gap_canonical = canonical\<rparr> d of
          (Inr rec, d') \<Rightarrow> with_garage env garageID (acceptance_response_from rec) 201 d'
        | (Inl e, d') \<Rightarrow>
            if errors_is e ErrGarageOwnershipNotPending then (Inl (mk_problem 404 ''no_pending_invitation''), d')
            else if errors_is e ErrGarageOwnershipAlreadyAccepted
            then h_read [] (GarageOwnershipAcceptanceByKey env garageID (id_user_id id) (oa_revision_version_accepted a))
                   (\<lambda>existing. with_garage env garageID (acceptance_response_from existing) 200) d'
            else (Inl (mk_problem 500 ''internal_error''), d')))))))))))"

section \<open>Garage vehicles\<close>

definition requireAcceptedGarageOwner :: "env \<Rightarrow> string \<Rightarrow> string \<Rightarrow> unit hm" where
  "requireAcceptedGarageOwner env userID garageID =
     h_read [(ErrGarageNotFound, 404, ''garage_not_found'')] (GarageOwnerByUserAndGarage env userID garageID) (\<lambda>ow.
     h_require (ow_accepted_time ow \<noteq> None) 403 ''not_accepted_owner'' (h_return ()))"

definition handleGarageVehicleCreate ::
  "lib \<Rightarrow> verifier_lib \<Rightarrow> wire_lib \<Rightarrow> env \<Rightarrow> server_cfg \<Rightarrow> request_ctx \<Rightarrow> garage_vehicle option \<Rightarrow>
    (int \<times> garage_vehicle_response) hm" where
  "handleGarageVehicleCreate L V W env cfg rc body =
     h_require (cfg_garage_store cfg) 503 ''garages_unavailable''
     (h_opt (rc_identity rc) 401 ''unauthenticated'' (\<lambda>id.
      let garageID = hr_path_value (rc_request rc) ''id'' in
      h_bind (requireAcceptedGarageOwner env (id_user_id id) garageID) (\<lambda>_.
      h_opt body 400 ''invalid_request'' (\<lambda>gv.
      h_require (lib_garage_vehicle_validate L gv) 400 ''invalid_garage_vehicle''
     (h_opt (gvh_integrity gv) 400 ''invalid_garage_vehicle'' (\<lambda>ig.
      h_require (gvh_revision_version gv = 1) 400 ''invalid_garage_vehicle''
     (h_require (gvh_garage_id gv = garageID) 400 ''invalid_garage_vehicle''
     (h_require (gvh_signed_by gv = id_user_id id) 403 ''signer_mismatch''
     (h_opt (wl_garage_vehicle_canonical W gv) 500 ''internal_error'' (\<lambda>canonical.
      h_bind (verifySignedPayload L V env (cfg_integrity_verifier cfg) canonical ig (gvh_signed_by gv)) (\<lambda>_.
      h_call [] (CreateGarageVehicle L env \<lparr>gvp_vehicle = gv, gvp_canonical = canonical\<rparr>) (\<lambda>rec.
      h_opt (garageVehicleResponseFromRecord W rec) 500 ''internal_error'' (\<lambda>resp.
      h_return (201, resp))))))))))))))"

definition handleGarageVehicleList ::
  "wire_lib \<Rightarrow> env \<Rightarrow> server_cfg \<Rightarrow> request_ctx \<Rightarrow> (int \<times> garage_vehicle_response list) hm" where
  "handleGarageVehicleList W env cfg rc =
     h_require (cfg_garage_store cfg) 503 ''garages_unavailable''
     (h_opt (rc_identity rc) 401 ''unauthenticated'' (\<lambda>id.
      let garageID = hr_path_value (rc_request rc) ''id'' in
      h_read [(ErrGarageNotFound, 404, ''garage_not_found'')] (GarageOwnerByUserAndGarage env (id_user_id id) garageID) (\<lambda>_.
      h_read [] (ListGarageVehicles env garageID) (\<lambda>records.
      h_opt (those (map (garageVehicleResponseFromRecord W) records)) 500 ''internal_error'' (\<lambda>out.
      h_return (200, out))))))"

definition handleGarageVehicleGet ::
  "wire_lib \<Rightarrow> env \<Rightarrow> server_cfg \<Rightarrow> request_ctx \<Rightarrow> (int \<times> garage_vehicle_response) hm" where
  "handleGarageVehicleGet W env cfg rc =
     h_require (cfg_garage_store cfg) 503 ''garages_unavailable''
     (h_opt (rc_identity rc) 401 ''unauthenticated'' (\<lambda>id.
      let garageID = hr_path_value (rc_request rc) ''id'' in
      h_read [(ErrGarageNotFound, 404, ''garage_not_found'')] (GarageOwnerByUserAndGarage env (id_user_id id) garageID) (\<lambda>_.
      h_read [(ErrGarageVehicleNotFound, 404, ''garage_vehicle_not_found'')]
        (GarageVehicleByID env garageID (hr_path_value (rc_request rc) ''vid'')) (\<lambda>rec.
      h_opt (garageVehicleResponseFromRecord W rec) 500 ''internal_error'' (\<lambda>resp.
      h_return (200, resp))))))"

definition handleGarageVehicleRevisionAppend ::
  "lib \<Rightarrow> verifier_lib \<Rightarrow> wire_lib \<Rightarrow> env \<Rightarrow> server_cfg \<Rightarrow> request_ctx \<Rightarrow> garage_vehicle option \<Rightarrow>
    (int \<times> garage_vehicle_response) hm" where
  "handleGarageVehicleRevisionAppend L V W env cfg rc body =
     h_require (cfg_garage_store cfg) 503 ''garages_unavailable''
     (h_opt (rc_identity rc) 401 ''unauthenticated'' (\<lambda>id.
      let garageID = hr_path_value (rc_request rc) ''id''; vehicleID = hr_path_value (rc_request rc) ''vid'' in
      h_bind (requireAcceptedGarageOwner env (id_user_id id) garageID) (\<lambda>_.
      h_read [(ErrGarageVehicleNotFound, 404, ''garage_vehicle_not_found'')] (GarageVehicleByID env garageID vehicleID) (\<lambda>_.
      h_opt body 400 ''invalid_request'' (\<lambda>gv.
      h_require (lib_garage_vehicle_validate L gv) 400 ''invalid_garage_vehicle''
     (h_opt (gvh_integrity gv) 400 ''invalid_garage_vehicle'' (\<lambda>ig.
      h_require (gvh_id gv = vehicleID) 400 ''invalid_garage_vehicle''
     (h_require (gvh_garage_id gv = garageID) 400 ''invalid_garage_vehicle''
     (h_require (gvh_signed_by gv = id_user_id id) 403 ''signer_mismatch''
     (h_opt (wl_garage_vehicle_canonical W gv) 500 ''internal_error'' (\<lambda>canonical.
      h_bind (verifySignedPayload L V env (cfg_integrity_verifier cfg) canonical ig (gvh_signed_by gv)) (\<lambda>_.
      h_call [(ErrGarageVehicleNotFound, 404, ''garage_vehicle_not_found''),
              (ErrGarageVehicleRevisionVersionConflict, 409, ''revision_version_conflict'')]
        (AppendGarageVehicleRevision L env \<lparr>gvp_vehicle = gv, gvp_canonical = canonical\<rparr>) (\<lambda>_.
      h_read [] (GarageVehicleByID env garageID vehicleID) (\<lambda>updated.
      h_opt (garageVehicleResponseFromRecord W updated) 500 ''internal_error'' (\<lambda>resp.
      h_return (201, resp))))))))))))))))"

section \<open>Garage invites\<close>

definition defaultGarageInviteLifetime :: "64 word" where
  "defaultGarageInviteLifetime = 7 * 24 * 3600000000000"

definition maxGarageInviteLifetime :: "64 word" where
  "maxGarageInviteLifetime = 30 * 24 * 3600000000000"

record garage_invite_create_request =
  gic_expires_in_seconds :: "64 word"
  gic_max_redemptions :: int

datatype 'r decoded = DecodeEOF | DecodeError | Decoded 'r

text \<open>The request body: skipped when the content length is zero, empty when the decoder
  meets its end at once; \<open>None\<close> when it is malformed.\<close>

definition invite_request :: "int \<Rightarrow> garage_invite_create_request decoded \<Rightarrow> garage_invite_create_request option" where
  "invite_request contentLength dec =
     (let zero = \<lparr>gic_expires_in_seconds = 0, gic_max_redemptions = 0\<rparr> in
      if contentLength = 0 then Some zero
      else case dec of DecodeEOF \<Rightarrow> Some zero | DecodeError \<Rightarrow> None | Decoded r \<Rightarrow> Some r)"

text \<open>\<open>time.Duration(seconds) * time.Second\<close>, the cap checked on the product.\<close>

definition invite_lifetime :: "64 word \<Rightarrow> 64 word option" where
  "invite_lifetime secs =
     (if 0 <s secs
      then let lifetime = secs * 1000000000 in
        if maxGarageInviteLifetime <s lifetime then None else Some lifetime
      else Some defaultGarageInviteLifetime)"

definition handleGarageInviteCreate ::
  "lib \<Rightarrow> env \<Rightarrow> server_cfg \<Rightarrow> request_ctx \<Rightarrow> int \<Rightarrow> garage_invite_create_request decoded \<Rightarrow>
    (int \<times> garage_invite_response) hm" where
  "handleGarageInviteCreate L env cfg rc contentLength dec =
     h_require (cfg_garage_store cfg) 503 ''garages_unavailable''
     (h_opt (rc_identity rc) 401 ''unauthenticated'' (\<lambda>id.
      let garageID = hr_path_value (rc_request rc) ''id'' in
      h_bind (requireAcceptedGarageOwner env (id_user_id id) garageID) (\<lambda>_.
      h_opt (invite_request contentLength dec) 400 ''invalid_request'' (\<lambda>req.
      h_opt (invite_lifetime (gic_expires_in_seconds req)) 400 ''invalid_request'' (\<lambda>lifetime.
      h_call [] (IssueGarageInvite L env \<lparr>gii_garage_id = garageID, gii_created_by_user_id = id_user_id id,
          gii_lifetime = sint lifetime,
          gii_max_redemptions = (if 0 < gic_max_redemptions req then gic_max_redemptions req else 1)\<rparr>) (\<lambda>(token, rec).
      h_return (201, garageInviteResponseFrom rec token)))))))"

definition handleGarageInviteList ::
  "env \<Rightarrow> server_cfg \<Rightarrow> request_ctx \<Rightarrow> (int \<times> garage_invite_response list) hm" where
  "handleGarageInviteList env cfg rc =
     h_require (cfg_garage_store cfg) 503 ''garages_unavailable''
     (h_opt (rc_identity rc) 401 ''unauthenticated'' (\<lambda>id.
      let garageID = hr_path_value (rc_request rc) ''id'' in
      h_bind (requireAcceptedGarageOwner env (id_user_id id) garageID) (\<lambda>_.
      h_read [] (ListGarageInvites env garageID) (\<lambda>records.
      h_return (200, map (\<lambda>rec. garageInviteResponseFrom rec []) records)))))"

definition handleGarageInviteRevoke :: "env \<Rightarrow> server_cfg \<Rightarrow> request_ctx \<Rightarrow> (int \<times> unit) hm" where
  "handleGarageInviteRevoke env cfg rc =
     h_require (cfg_garage_store cfg) 503 ''garages_unavailable''
     (h_opt (rc_identity rc) 401 ''unauthenticated'' (\<lambda>id.
      let garageID = hr_path_value (rc_request rc) ''id''; inviteID = hr_path_value (rc_request rc) ''inviteId'' in
      h_bind (requireAcceptedGarageOwner env (id_user_id id) garageID) (\<lambda>_.
      h_call [(ErrGarageInviteNotFound, 404, ''garage_invite_not_found'')] (RevokeGarageInvite env garageID inviteID) (\<lambda>_.
      h_return (204, ())))))"

definition handleGarageInviteRedeem ::
  "lib \<Rightarrow> env \<Rightarrow> server_cfg \<Rightarrow> request_ctx \<Rightarrow> string option \<Rightarrow> (int \<times> redeem_response) hm" where
  "handleGarageInviteRedeem L env cfg rc body =
     h_require (cfg_garage_store cfg) 503 ''garages_unavailable''
     (h_opt (rc_identity rc) 401 ''unauthenticated'' (\<lambda>id.
      h_opt body 400 ''invalid_request'' (\<lambda>token.
      h_require (token \<noteq> []) 400 ''invalid_request''
     (h_call [(ErrGarageInviteNotFound, 404, ''garage_invite_not_found''), (ErrGarageInviteExpired, 410, ''garage_invite_expired''),
              (ErrGarageInviteRevoked, 410, ''garage_invite_revoked''), (ErrGarageInviteExhausted, 410, ''garage_invite_exhausted''),
              (ErrGarageOwnerAlreadyAccepted, 409, ''already_an_owner''), (ErrGarageInviteAlreadyRedeemed, 409, ''already_redeemed'')]
        (RedeemGarageInvite L env token (id_user_id id)) (\<lambda>(invite, redemption).
      with_garage env (gi_garage_id invite) (\<lambda>g. \<lparr>rds_redemption_id = rd_id redemption,
        rds_garage_invite_id = rd_garage_invite_id redemption, rds_redeemed_at = rd_redeemed_at redemption,
        rds_garage = g\<rparr>) 201)))))"

section \<open>Accepted owners\<close>

definition accepted_owner :: "db \<Rightarrow> string \<Rightarrow> string \<Rightarrow> bool" where
  "accepted_owner d u g = (case find_owner (garage_owners d) g u of None \<Rightarrow> False | Some r \<Rightarrow> own_accepted_time r \<noteq> None)"

lemma GarageOwnerByUserAndGarage_Inr:
  "GarageOwnerByUserAndGarage env u g d = Inr ow \<Longrightarrow> ow_accepted_time ow \<noteq> None \<Longrightarrow> accepted_owner d u g"
  by (auto simp: GarageOwnerByUserAndGarage_def accepted_owner_def find_owner_def scanGarageOwner_def
      split: if_splits option.splits)

lemma requireAcceptedGarageOwner_pure [h_atomic_intros]: "h_pure (requireAcceptedGarageOwner env u g)"
  unfolding requireAcceptedGarageOwner_def by (intro h_atomic_intros)

lemma requireAcceptedGarageOwner_Inr:
  "requireAcceptedGarageOwner env u g d = (Inr x, d') \<Longrightarrow> d' = d \<and> accepted_owner d u g"
  unfolding requireAcceptedGarageOwner_def h_simps by (auto dest: GarageOwnerByUserAndGarage_Inr)

lemma requireAcceptedGarageOwner_accepts:
  "accepted_owner d u g \<Longrightarrow> env_open env \<Longrightarrow> \<forall>l. \<not> env_fault env l \<Longrightarrow> requireAcceptedGarageOwner env u g d = (Inr (), d)"
  by (auto simp: requireAcceptedGarageOwner_def h_read_def h_require_def h_return_def GarageOwnerByUserAndGarage_def
      accepted_owner_def find_owner_def scanGarageOwner_def split: option.splits)

lemma with_garage_pure [h_atomic_intros]: "h_pure (with_garage env g f st)"
  unfolding with_garage_def by (intro h_atomic_intros)

section \<open>Properties\<close>

lemma garage_changes_by_accepted_owner_facts:
  assumes "rc_identity rc = Some i" "\<not> accepted_owner d (id_user_id i) (hr_path_value (rc_request rc) ''id'')"
  shows "snd (handleGarageRevisionAppend L V W env cfg rc gbody d) = d"
    "snd (handleGarageVehicleCreate L V W env cfg rc vbody d) = d"
    "snd (handleGarageVehicleRevisionAppend L V W env cfg rc vbody d) = d"
    "snd (handleGarageInviteCreate L env cfg rc n dec d) = d"
    "snd (handleGarageInviteRevoke env cfg rc d) = d"
proof -
  show "snd (handleGarageRevisionAppend L V W env cfg rc gbody d) = d"
    unfolding handleGarageRevisionAppend_def Let_def
    using assms by (intro h_post_False h_post_intros) (auto dest: GarageOwnerByUserAndGarage_Inr)
  show "snd (handleGarageVehicleCreate L V W env cfg rc vbody d) = d"
    unfolding handleGarageVehicleCreate_def Let_def
    using assms by (intro h_post_False h_post_require h_post_opt h_post_bind requireAcceptedGarageOwner_pure)
      (auto dest: requireAcceptedGarageOwner_Inr)
  show "snd (handleGarageVehicleRevisionAppend L V W env cfg rc vbody d) = d"
    unfolding handleGarageVehicleRevisionAppend_def Let_def
    using assms by (intro h_post_False h_post_require h_post_opt h_post_bind requireAcceptedGarageOwner_pure)
      (auto dest: requireAcceptedGarageOwner_Inr)
  show "snd (handleGarageInviteCreate L env cfg rc n dec d) = d"
    unfolding handleGarageInviteCreate_def Let_def
    using assms by (intro h_post_False h_post_require h_post_opt h_post_bind requireAcceptedGarageOwner_pure)
      (auto dest: requireAcceptedGarageOwner_Inr)
  show "snd (handleGarageInviteRevoke env cfg rc d) = d"
    unfolding handleGarageInviteRevoke_def Let_def
    using assms by (intro h_post_False h_post_require h_post_opt h_post_bind requireAcceptedGarageOwner_pure)
      (auto dest: requireAcceptedGarageOwner_Inr)
qed

text \<open>Everything that changes a garage is done by an accepted owner of it: for a caller who
  is not one (a stranger, or an owner who has not accepted yet), publishing a revision,
  adding or revising a vehicle, and issuing or revoking an invite leave the database as it
  was, whatever else the request says.\<close>

theorem garage_changes_by_accepted_owner:
  assumes "rc_identity rc = Some i" "\<not> accepted_owner d (id_user_id i) (hr_path_value (rc_request rc) ''id'')"
  shows "snd (handleGarageRevisionAppend L V W env cfg rc gbody d) = d \<and>
    snd (handleGarageVehicleCreate L V W env cfg rc vbody d) = d \<and>
    snd (handleGarageVehicleRevisionAppend L V W env cfg rc vbody d) = d \<and>
    snd (handleGarageInviteCreate L env cfg rc n dec d) = d \<and>
    snd (handleGarageInviteRevoke env cfg rc d) = d"
  using garage_changes_by_accepted_owner_facts [OF assms] by simp

section \<open>Invite lifetimes\<close>

lemma sint_small: "uint (w :: 64 word) < 9223372036854775808 \<Longrightarrow> sint w = uint w"
proof -
  assume "uint w < 9223372036854775808"
  moreover have "- 9223372036854775808 \<le> uint w" using uint_ge_0 [of w] by linarith
  ultimately show ?thesis by (subst sint_uint) (rule signed_take_bit_int_eq_self, simp_all)
qed

lemma maxGarageInviteLifetime_sint: "sint maxGarageInviteLifetime = 2592000000000000"
  by (simp add: maxGarageInviteLifetime_def)

lemma defaultGarageInviteLifetime_sint: "sint defaultGarageInviteLifetime = 604800000000000"
  by (simp add: defaultGarageInviteLifetime_def)

lemma invite_lifetime_product:
  fixes secs :: "64 word"
  assumes "uint secs \<le> 9223372036"
  shows "sint (secs * 1000000000) = uint secs * 1000000000"
proof -
  have "uint (secs * 1000000000) = uint secs * 1000000000 mod 18446744073709551616"
    by (simp add: uint_word_ariths)
  also have "\<dots> = uint secs * 1000000000" using assms by (intro mod_pos_pos_trivial) auto
  finally show ?thesis using assms by (subst sint_small) auto
qed

lemma invite_lifetime_cap: "invite_lifetime secs = Some t \<Longrightarrow> sint t \<le> 2592000000000000"
  by (auto simp: invite_lifetime_def Let_def word_sless_alt maxGarageInviteLifetime_sint defaultGarageInviteLifetime_sint
      split: if_splits)

lemma handleGarageInviteCreate_Inr:
  assumes "handleGarageInviteCreate L env cfg rc n dec d = (Inr (st, resp), d')"
  shows "\<exists>i req t tok rec. rc_identity rc = Some i \<and> invite_request n dec = Some req \<and>
    invite_lifetime (gic_expires_in_seconds req) = Some t \<and> st = 201 \<and> resp = garageInviteResponseFrom rec tok \<and>
    IssueGarageInvite L env \<lparr>gii_garage_id = hr_path_value (rc_request rc) ''id'', gii_created_by_user_id = id_user_id i,
      gii_lifetime = sint t, gii_max_redemptions = (if 0 < gic_max_redemptions req then gic_max_redemptions req else 1)\<rparr> d =
      (Inr (tok, rec), d') \<and> cfg_garage_store cfg"
  using assms unfolding handleGarageInviteCreate_def Let_def
  by (fastforce simp: h_require_Inr h_opt_Inr h_bind_Inr h_call_Inr h_return_Inr dest!: requireAcceptedGarageOwner_Inr)

lemma invite_lifetime_bounds_facts:
  shows "handleGarageInviteCreate L env cfg rc n dec d = (Inr (st, resp), d') \<Longrightarrow>
      gis_created_at resp < gis_expires_at resp \<and> gis_expires_at resp \<le> gis_created_at resp + 30 * 86400 * 1000000000"
    "0 < uint secs \<Longrightarrow> uint secs \<le> 9223372036 \<Longrightarrow>
      map_option sint (invite_lifetime secs) = (if uint secs \<le> 30 * 86400 then Some (uint secs * 1000000000) else None)"
    "invite_lifetime 18446744074 = Some 290448384"
proof -
  show "gis_created_at resp < gis_expires_at resp \<and> gis_expires_at resp \<le> gis_created_at resp + 30 * 86400 * 1000000000"
    if "handleGarageInviteCreate L env cfg rc n dec d = (Inr (st, resp), d')"
    using handleGarageInviteCreate_Inr [OF that]
    by (auto dest!: IssueGarageInvite_Inr invite_lifetime_cap simp: garageInviteResponseFrom_def garage_invite_row_def)
  show "map_option sint (invite_lifetime secs) = (if uint secs \<le> 30 * 86400 then Some (uint secs * 1000000000) else None)"
    if "0 < uint secs" "uint secs \<le> 9223372036"
    using that invite_lifetime_product [OF that(2)] sint_small [of secs]
    by (auto simp: invite_lifetime_def Let_def word_sless_alt maxGarageInviteLifetime_sint)
  show "invite_lifetime 18446744074 = Some 290448384"
    by (simp add: invite_lifetime_def Let_def word_sless_alt maxGarageInviteLifetime_sint)
qed

text \<open>C28. The lifetime of a garage invite: every invite handed out expires after its creation
  and at most 30 days later; a request for up to 9223372036 seconds is honoured to the
  second when it is within 30 days and refused otherwise; beyond that the conversion to
  nanoseconds wraps around before the cap is checked, so that a request for 18446744074
  seconds (585 years) is accepted with a lifetime of 0.29 seconds.\<close>

theorem invite_lifetime_bounds:
  "(handleGarageInviteCreate L env cfg rc n dec d = (Inr (st, resp), d') \<longrightarrow>
      gis_created_at resp < gis_expires_at resp \<and> gis_expires_at resp \<le> gis_created_at resp + 30 * 86400 * 1000000000) \<and>
    (0 < uint secs \<and> uint secs \<le> 9223372036 \<longrightarrow>
      map_option sint (invite_lifetime secs) = (if uint secs \<le> 30 * 86400 then Some (uint secs * 1000000000) else None)) \<and>
    invite_lifetime 18446744074 = Some 290448384"
  using invite_lifetime_bounds_facts by blast

section \<open>From an issued invite to ownership\<close>

lemma RedeemGarageInvite_succeeds:
  assumes "env_open env" "\<forall>l. \<not> env_fault env l" "env_uuid env 0 = Some rid" "rid \<notin> rd_id ` set (redemptions d)" "u \<noteq> []"
    "find (\<lambda>r. gi_token_hash r = hashInviteToken L tok) (garage_invites d) = Some iv"
    "gi_revoked_at iv = None" "env_now env < gi_expires_at iv" "gi_redemption_count iv < gi_max_redemptions iv"
    "gi_check iv" "gi_fk d iv" "distinct (map gi_id (garage_invites d))"
    "u \<notin> set (redeemers d (gi_id iv))" "has_account d u" "find_owner (garage_owners d) (gi_garage_id iv) u = None"
    "find (\<lambda>r. gr_id r = gi_garage_id iv) (garages d) = Some gr" "1 \<le> gr_current_revision_version gr"
  shows "\<exists>d'. RedeemGarageInvite L env tok u d =
    (Inr (iv\<lparr>gi_redemption_count := gi_redemption_count iv + 1\<rparr>, redemption_row rid (gi_id iv) u (env_now env)), d')"
proof -
  let ?rd = "redemption_row rid (gi_id iv) u (env_now env)"
  let ?w = "\<lambda>r. gi_id r = gi_id iv \<and> gi_redemption_count r < gi_max_redemptions r"
  let ?f = "\<lambda>r. r\<lparr>gi_redemption_count := gi_redemption_count r + 1\<rparr>"
  let ?d1 = "d\<lparr>redemptions := redemptions d @ [?rd]\<rparr>"
  let ?d2 = "?d1\<lparr>garage_invites := set_where ?w ?f (garage_invites d)\<rparr>"
  let ?o = "redeemed_owner_row (gi_garage_id iv) u (gr_current_revision_version gr) (env_now env)"
  from find_SomeD [OF assms(6)] have mem: "iv \<in> set (garage_invites d)" by simp
  have ri: "insert_redemption ?rd d = Inr ((), ?d1)"
    using assms(4,13,14) mem
    by (auto simp: insert_redemption_def sql_insert_Inr redemption_row_def has_garage_invite_def redeemers_def image_iff)
  have uniq: "r = iv" if "r \<in> set (garage_invites d)" "gi_id r = gi_id iv" for r
    using assms(12) that mem by (auto simp: distinct_map dest: inj_onD)
  have fk: "gi_fk ?d1 (?f iv)" using assms(11) by (simp add: gi_fk_def has_garage_def has_account_def)
  have ck: "gi_check (?f iv)" using assms(9,10) by (auto simp: gi_check_def)
  have up: "update_garage_invites ?w ?f ?d1 = Inr (length (filter ?w (garage_invites d)), ?d2)"
    unfolding update_garage_invites_def sql_update_Inr using uniq fk ck by auto
  have ne: "filter ?w (garage_invites d) \<noteq> []" using mem assms(9) by (auto simp: filter_empty_conv)
  have g: "has_garage d (gi_garage_id iv)" using assms(11) by (simp add: gi_fk_def)
  have ow: "\<not> list_ex (\<lambda>r'. own_key ?o = own_key r') (garage_owners d)"
    using assms(15) by (auto simp: find_owner_None_iff list_ex_iff redeemed_owner_row_def)
  have ins: "upsert_garage_owner ?o ?d2 = Inr ((), ?d2\<lparr>garage_owners := garage_owners d @ [?o]\<rparr>)"
    using ow assms(14,17) g
    by (simp add: upsert_garage_owner_def insert_garage_owner_def sql_insert_Inr)
       (auto simp: redeemed_owner_row_def own_fk_def has_garage_def has_account_def list_ex_iff)
  have no: "find (\<lambda>r. own_garage_id r = gi_garage_id iv \<and> own_user_id r = u) (garage_owners d) = None"
    using assms(15) by (simp add: find_owner_def)
  show ?thesis
    unfolding RedeemGarageInvite_def Let_def op_require_simps tx_bind_def
    using assms(1-3,5-9,16) ri up ne ins no
    by (simp add: run_tx_def tx_query_def tx_opt_def tx_guard_def tx_return_def tx_exec_def)
qed

lemma IssueGarageInvite_fk:
  "IssueGarageInvite L env p d = (Inr (tok, row), d') \<Longrightarrow> gi_fk d row \<and> gi_check row"
  unfolding IssueGarageInvite_def Let_def by (auto simp: tx_Inr table_defs)

lemma with_garage_replies:
  assumes "find (\<lambda>r. gr_id r = g) (garages d) = Some gr" "env_open env" "\<forall>l. \<not> env_fault env l"
  shows "\<exists>gs. with_garage env g f st d = (Inr (st, f gs), d) \<and> gs_id gs = g"
  using assms find_SomeD [OF assms(1)]
  by (auto simp: with_garage_def h_read_def h_return_def GarageByID_def assembleGarageResponse_def ListGarageOwners_def)


section \<open>A concrete run\<close>

definition demo_home :: "int \<Rightarrow> garage" where
  "demo_home n = \<lparr>g_id = ''g'', g_name = ''home'', g_revision_version = n, g_revision_time = 5, g_signed_by = ''carol'',
     g_owners = [\<lparr>gown_user_id = ''carol'', gown_added_time = 5, gown_accepted_time = Some 5\<rparr>],
     g_integrity = Some demo_envelope, g_rest = ''''\<rparr>"

definition demo_home_path :: "string \<Rightarrow> string" where
  "demo_home_path n = (if n = ''id'' then ''g'' else ''v'')"

definition demo_home_db :: db where
  "demo_home_db = snd (handleGarageCreate demo_lib demo_verifier demo_wire (env_at 20 ''a'') full_cfg
     (carol_rc demo_home_path) (Some (demo_home 1)) demo_enrolled_db)"

definition bob_rc :: "(string \<Rightarrow> string) \<Rightarrow> request_ctx" where
  "bob_rc path = (carol_rc path)\<lparr>rc_identity := Some (carol\<lparr>id_user_id := ''bob''\<rparr>)\<rparr>"

lemma bob_rc_sel: "rc_identity (bob_rc path) = Some (carol\<lparr>id_user_id := ''bob''\<rparr>)" "hr_path_value (rc_request (bob_rc path)) = path"
  by (simp_all add: bob_rc_def carol_rc_def)

definition demo_invite_run :: "(problem + (int \<times> garage_invite_response)) \<times> db" where
  "demo_invite_run = handleGarageInviteCreate demo_lib (env_at 30 ''b'') full_cfg (carol_rc demo_home_path) 5
     (Decoded \<lparr>gic_expires_in_seconds = 60, gic_max_redemptions = 1\<rparr>) demo_home_db"

lemma demo_invite_run: "handleGarageInviteCreate demo_lib (env_at 30 ''b'') full_cfg (carol_rc demo_home_path) 5
   (Decoded \<lparr>gic_expires_in_seconds = 60, gic_max_redemptions = 1\<rparr>) demo_home_db =
   (Inr (201, snd (projr (fst demo_invite_run))), snd demo_invite_run)"
  unfolding demo_invite_run_def by code_simp

theorem invite_lifetime_bounds_witness:
  "gis_created_at (snd (projr (fst demo_invite_run))) < gis_expires_at (snd (projr (fst demo_invite_run))) \<and>
   map_option sint (invite_lifetime 2592001) = None \<and> map_option sint (invite_lifetime 60) = Some 60000000000"
  using invite_lifetime_bounds [THEN conjunct1, THEN mp, OF demo_invite_run]
    invite_lifetime_bounds [THEN conjunct2, THEN conjunct1, of 2592001] invite_lifetime_bounds [THEN conjunct2, THEN conjunct1, of 60]
  by simp


end
