(* ===== verification/CertAuthority.thy ===== *)
theory CertAuthority
  imports GoLib
begin

text \<open>
  The server's certificate authority (platform/identity/ca.go, keystore.go): the key
  store on the local file system, the bootstrap of the self-signed root and the signing
  of client certificates. The file system is a map from paths to files; every system
  call can fail. PEM, PKCS#8 and X.509 encoding are parameters with their documented
  round trips.
\<close>

section \<open>Paths\<close>

text \<open>\<open>filepath.Clean\<close> and \<open>filepath.Join\<close>: the components of a path, with \<open>.\<close> and empty
  components dropped and \<open>..\<close> resolved where it can be.\<close>

fun clean_components :: "bool \<Rightarrow> string list \<Rightarrow> string list \<Rightarrow> string list" where
  "clean_components rooted acc [] = rev acc"
| "clean_components rooted acc (c # cs) =
     (if c = [] \<or> c = ''.'' then clean_components rooted acc cs
      else if c = ''..'' then
        (if acc \<noteq> [] \<and> hd acc \<noteq> ''..'' then clean_components rooted (tl acc) cs
         else if rooted then clean_components rooted acc cs
         else clean_components rooted (c # acc) cs)
      else clean_components rooted (c # acc) cs)"

fun join_slash :: "string list \<Rightarrow> string" where
  "join_slash [] = []"
| "join_slash [c] = c"
| "join_slash (c # cs) = c @ CHR ''/'' # join_slash cs"

definition is_rooted :: "string \<Rightarrow> bool" where
  "is_rooted p = (p \<noteq> [] \<and> hd p = CHR ''/'')"

definition render_path :: "bool \<Rightarrow> string list \<Rightarrow> string" where
  "render_path rooted cs = (let out = (if rooted then ''/'' else []) @ join_slash cs in if out = [] then ''.'' else out)"

definition path_components :: "string \<Rightarrow> string list" where
  "path_components p = clean_components (is_rooted p) [] (Split p (CHR ''/''))"

definition filepath_Clean :: "string \<Rightarrow> string" where
  "filepath_Clean p = render_path (is_rooted p) (path_components p)"

definition filepath_Join :: "string \<Rightarrow> string \<Rightarrow> string" where
  "filepath_Join dir name =
     (if dir = [] \<and> name = [] then []
      else if dir = [] then filepath_Clean name
      else if name = [] then filepath_Clean dir
      else filepath_Clean (dir @ CHR ''/'' # name))"

definition filepath_Base :: "string \<Rightarrow> string" where
  "filepath_Base p = (case path_components p of [] \<Rightarrow> if is_rooted p then ''/'' else ''.'' | cs \<Rightarrow> last cs)"

section \<open>The file system\<close>

text \<open>Files with their permission bits, and the permission bits of directories. \<open>de_fault\<close> says which
  labelled system calls fail, \<open>de_temp\<close> the name \<open>os.CreateTemp\<close> picks in a directory for a pattern,
  \<open>de_written\<close> how much of the data a failing write has written.\<close>

record disk_file =
  fl_data :: string
  fl_mode :: nat

record disk =
  dk_files :: "string \<rightharpoonup> disk_file"
  dk_dirs :: "string \<rightharpoonup> nat"

record disk_env =
  de_fault :: "string \<Rightarrow> bool"
  de_temp :: "string \<Rightarrow> string \<Rightarrow> string"
  de_written :: nat

datatype id_err = ErrKeyNotFound | IdErr string

type_synonym 'a dm = "disk \<Rightarrow> (id_err + 'a) \<times> disk"

definition put_file :: "string \<Rightarrow> disk_file \<Rightarrow> disk \<Rightarrow> disk" where
  "put_file p f d = d\<lparr>dk_files := (dk_files d)(p \<mapsto> f)\<rparr>"

definition remove_file :: "disk_env \<Rightarrow> string \<Rightarrow> disk \<Rightarrow> disk" where
  "remove_file de p d = (if de_fault de ''remove'' then d else d\<lparr>dk_files := (dk_files d)(p := None)\<rparr>)"

text \<open>\<open>os.MkdirAll\<close> followed by \<open>os.Chmod\<close>, as both the key store and the authority prepare their
  directory.\<close>

definition prepare_dir :: "disk_env \<Rightarrow> string \<Rightarrow> unit dm" where
  "prepare_dir de dir d =
     (if de_fault de ''mkdir'' then (Inl (IdErr ''create directory''), d)
      else let d1 = (case dk_dirs d dir of None \<Rightarrow> d\<lparr>dk_dirs := (dk_dirs d)(dir \<mapsto> 448)\<rparr> | Some _ \<Rightarrow> d) in
        if de_fault de ''chmod dir'' then (Inl (IdErr ''chmod directory''), d1)
        else (Inr (), d1\<lparr>dk_dirs := (dk_dirs d1)(dir \<mapsto> 448)\<rparr>))"

definition syncDir :: "disk_env \<Rightarrow> id_err option" where
  "syncDir de =
     (if de_fault de ''open dir'' then Some (IdErr ''open dir for fsync'')
      else if de_fault de ''sync dir'' then Some (IdErr ''fsync dir'')
      else if de_fault de ''close dir'' then Some (IdErr ''close dir'') else None)"

text \<open>Write to a fresh temporary file, set its mode, sync, rename into place, sync the directory.\<close>

definition replace_file :: "disk_env \<Rightarrow> string \<Rightarrow> string \<Rightarrow> string \<Rightarrow> string \<Rightarrow> nat \<Rightarrow> unit dm" where
  "replace_file de dir pattern finalPath data perm d =
     (if de_fault de ''create temp'' then (Inl (IdErr ''open temp file''), d)
      else let tmp = de_temp de dir pattern;
               d1 = put_file tmp \<lparr>fl_data = [], fl_mode = 384\<rparr> d in
        if de_fault de ''chmod temp'' then (Inl (IdErr ''chmod temp file''), remove_file de tmp d1)
        else let d2 = put_file tmp \<lparr>fl_data = [], fl_mode = perm\<rparr> d1 in
        if de_fault de ''write temp'' then
          (Inl (IdErr ''write''), remove_file de tmp (put_file tmp \<lparr>fl_data = take (de_written de) data, fl_mode = perm\<rparr> d2))
        else let d3 = put_file tmp \<lparr>fl_data = data, fl_mode = perm\<rparr> d2 in
        if de_fault de ''sync temp'' then (Inl (IdErr ''sync''), remove_file de tmp d3)
        else if de_fault de ''close temp'' then (Inl (IdErr ''close''), remove_file de tmp d3)
        else if de_fault de ''rename'' then (Inl (IdErr ''persist''), remove_file de tmp d3)
        else let d4 = d3\<lparr>dk_files := (dk_files d3)(finalPath \<mapsto> \<lparr>fl_data = data, fl_mode = perm\<rparr>, tmp := None)\<rparr> in
        (case syncDir de of Some e \<Rightarrow> (Inl e, d4) | None \<Rightarrow> (Inr (), d4)))"

definition atomicWrite :: "disk_env \<Rightarrow> string \<Rightarrow> string \<Rightarrow> string \<Rightarrow> nat \<Rightarrow> unit dm" where
  "atomicWrite de dir finalPath data perm =
     replace_file de dir (''.'' @ filepath_Base finalPath @ ''-*.tmp'') finalPath data perm"

section \<open>The key store\<close>

text \<open>A private key. \<open>kl_parse_pkcs8\<close> gives \<open>None\<close> when the bytes do not parse and \<open>Some None\<close> when the
  key is not a signer.\<close>

record signer =
  sg_ecdsa :: bool
  sg_public :: string
  sg_private :: string

record key_lib =
  kl_pem_encode :: "string \<Rightarrow> string \<Rightarrow> string"
  kl_pem_decode :: "string \<Rightarrow> (string \<times> string) option"
  kl_marshal_pkcs8 :: "signer \<Rightarrow> string option"
  kl_parse_pkcs8 :: "string \<Rightarrow> signer option option"

definition key_name_char :: "char \<Rightarrow> bool" where
  "key_name_char r = (CHR ''a'' \<le> r \<and> r \<le> CHR ''z'' \<or> CHR ''A'' \<le> r \<and> r \<le> CHR ''Z'' \<or>
     CHR ''0'' \<le> r \<and> r \<le> CHR ''9'' \<or> r = CHR ''_'' \<or> r = CHR ''-'')"

definition validateKeyName :: "string \<Rightarrow> bool" where
  "validateKeyName name = (name \<noteq> [] \<and> list_all key_name_char name)"

definition keyPath :: "string \<Rightarrow> string \<Rightarrow> string" where
  "keyPath dir name = filepath_Join dir (name @ ''.key.pem'')"

definition NewFileKeyStore :: "disk_env \<Rightarrow> string \<Rightarrow> string dm" where
  "NewFileKeyStore de dir d =
     (let cleaned = filepath_Clean dir in
      if cleaned = [] \<or> cleaned = ''.'' then (Inl (IdErr ''key store directory must be set''), d)
      else case prepare_dir de cleaned d of (Inl e, d') \<Rightarrow> (Inl e, d') | (Inr _, d') \<Rightarrow> (Inr cleaned, d'))"

definition KeyStore_Load :: "key_lib \<Rightarrow> disk_env \<Rightarrow> string \<Rightarrow> string \<Rightarrow> disk \<Rightarrow> id_err + signer" where
  "KeyStore_Load K de dir name d =
     (if \<not> validateKeyName name then Inl (IdErr ''key name'')
      else if de_fault de ''read key'' then Inl (IdErr ''read key'')
      else case dk_files d (keyPath dir name) of None \<Rightarrow> Inl ErrKeyNotFound
      | Some f \<Rightarrow> (case kl_pem_decode K (fl_data f) of None \<Rightarrow> Inl (IdErr ''not PEM-encoded'')
         | Some (t, bytes) \<Rightarrow>
             if t \<noteq> ''PRIVATE KEY'' then Inl (IdErr ''unexpected PEM block'')
             else (case kl_parse_pkcs8 K bytes of None \<Rightarrow> Inl (IdErr ''parse key'')
               | Some None \<Rightarrow> Inl (IdErr ''not a crypto.Signer'')
               | Some (Some s) \<Rightarrow> Inr s)))"

definition KeyStore_save :: "key_lib \<Rightarrow> disk_env \<Rightarrow> string \<Rightarrow> string \<Rightarrow> signer \<Rightarrow> unit dm" where
  "KeyStore_save K de dir name s d =
     (if \<not> validateKeyName name then (Inl (IdErr ''key name''), d)
      else if \<not> sg_ecdsa s then (Inl (IdErr ''unsupported key type''), d)
      else case kl_marshal_pkcs8 K s of None \<Rightarrow> (Inl (IdErr ''marshal key''), d)
      | Some der \<Rightarrow> replace_file de dir (''.'' @ name @ ''-*.tmp'') (keyPath dir name) (kl_pem_encode K ''PRIVATE KEY'' der) 384 d)"

text \<open>\<open>gen\<close> is the outcome of the generator; it is consulted only when no key is stored.\<close>

definition LoadOrGenerate :: "key_lib \<Rightarrow> disk_env \<Rightarrow> string \<Rightarrow> string \<Rightarrow> (id_err + signer) option \<Rightarrow> signer dm" where
  "LoadOrGenerate K de dir name gen d = (case KeyStore_Load K de dir name d of
     Inr s \<Rightarrow> (Inr s, d)
   | Inl e \<Rightarrow> if e \<noteq> ErrKeyNotFound then (Inl e, d)
       else (case gen of None \<Rightarrow> (Inl (IdErr ''gen function required when no key is stored''), d)
         | Some (Inl e') \<Rightarrow> (Inl (IdErr ''generate key''), d)
         | Some (Inr fresh) \<Rightarrow> (case KeyStore_save K de dir name fresh d of
              (Inl e', d') \<Rightarrow> (Inl e', d') | (Inr _, d') \<Rightarrow> (Inr fresh, d'))))"

section \<open>The certificate authority\<close>

text \<open>A certificate signing request; \<open>csr_signature_ok\<close> is the outcome of \<open>CheckSignature\<close>.\<close>

record x509_csr =
  csr_subject_cn :: string
  csr_dns_names :: "string list"
  csr_email_addresses :: "string list"
  csr_ip_addresses :: "string list"
  csr_uris :: "string list"
  csr_public_key :: string
  csr_ecdsa :: bool
  csr_signature_ok :: bool

datatype key_usage = KeyUsageDigitalSignature | KeyUsageCertSign | KeyUsageCRLSign
datatype ext_key_usage = ExtKeyUsageClientAuth

record cert_template =
  ct_serial :: nat
  ct_subject_cn :: string
  ct_dns_names :: "string list"
  ct_email_addresses :: "string list"
  ct_ip_addresses :: "string list"
  ct_uris :: "string list"
  ct_not_before :: int
  ct_not_after :: int
  ct_key_usage :: "key_usage set"
  ct_ext_key_usage :: "ext_key_usage list"
  ct_basic_constraints_valid :: bool
  ct_is_ca :: bool
  ct_max_path_len_zero :: bool

text \<open>\<open>cal_create template parent pub key\<close> is \<open>x509.CreateCertificate\<close> with the parent's subject; it
  yields DER.\<close>

record ca_lib =
  cal_create :: "cert_template \<Rightarrow> string \<Rightarrow> string \<times> bool \<Rightarrow> signer \<Rightarrow> string option"
  cal_parse :: "string \<Rightarrow> x509_cert option"

record authority =
  ca_cert :: x509_cert
  ca_cert_pem :: string
  ca_key :: signer
  ca_dir :: string

record ca_config =
  cc_dir :: string
  cc_subject_cn :: string
  cc_lifetime :: int

definition caKeyName :: string where "caKeyName = ''ca''"
definition caCertFile :: string where "caCertFile = ''ca.crt.pem''"
definition caDefaultLifetime :: int where "caDefaultLifetime = 10 * 365 * 24 * 3600 * 1000000000"

text \<open>\<open>draws k\<close> is the \<open>k\<close>-th number \<open>rand.Int\<close> returns, \<open>None\<close> when the entropy source fails. The
  loop draws until it meets a number that is not zero.\<close>

partial_function (option) randomSerial :: "(nat \<Rightarrow> nat option) \<Rightarrow> nat \<Rightarrow> (id_err + nat) option" where
  "randomSerial draws k = (case draws k of None \<Rightarrow> Some (Inl (IdErr ''generate serial''))
     | Some s \<Rightarrow> if s \<noteq> 0 then Some (Inr s) else randomSerial draws (Suc k))"

definition leaf_template :: "nat \<Rightarrow> x509_csr \<Rightarrow> int \<Rightarrow> int \<Rightarrow> cert_template" where
  "leaf_template serial c now lifetime = \<lparr>ct_serial = serial, ct_subject_cn = csr_subject_cn c,
     ct_dns_names = csr_dns_names c, ct_email_addresses = csr_email_addresses c, ct_ip_addresses = csr_ip_addresses c,
     ct_uris = csr_uris c, ct_not_before = now - 60 * 1000000000, ct_not_after = now + lifetime,
     ct_key_usage = {KeyUsageDigitalSignature}, ct_ext_key_usage = [ExtKeyUsageClientAuth],
     ct_basic_constraints_valid = True, ct_is_ca = False, ct_max_path_len_zero = False\<rparr>"

definition root_template :: "nat \<Rightarrow> string \<Rightarrow> int \<Rightarrow> int \<Rightarrow> cert_template" where
  "root_template serial subject now lifetime = \<lparr>ct_serial = serial, ct_subject_cn = subject,
     ct_dns_names = [], ct_email_addresses = [], ct_ip_addresses = [], ct_uris = [],
     ct_not_before = now - 60 * 1000000000, ct_not_after = now + lifetime,
     ct_key_usage = {KeyUsageCertSign, KeyUsageCRLSign}, ct_ext_key_usage = [],
     ct_basic_constraints_valid = True, ct_is_ca = True, ct_max_path_len_zero = True\<rparr>"

definition CA_Sign ::
  "key_lib \<Rightarrow> ca_lib \<Rightarrow> authority \<Rightarrow> int \<Rightarrow> (nat \<Rightarrow> nat option) \<Rightarrow> x509_csr option \<Rightarrow> int \<Rightarrow>
    (id_err + (x509_cert \<times> string)) option" where
  "CA_Sign K X ca now draws csr lifetime = (case csr of None \<Rightarrow> Some (Inl (IdErr ''csr must not be nil''))
     | Some c \<Rightarrow>
         if lifetime \<le> 0 then Some (Inl (IdErr ''lifetime must be positive''))
         else if \<not> csr_signature_ok c then Some (Inl (IdErr ''verify csr signature''))
         else (case randomSerial draws 0 of None \<Rightarrow> None
           | Some (Inl e) \<Rightarrow> Some (Inl e)
           | Some (Inr serial) \<Rightarrow>
               (case cal_create X (leaf_template serial c now lifetime) (xc_subject_cn (ca_cert ca))
                    (csr_public_key c, csr_ecdsa c) (ca_key ca) of
                  None \<Rightarrow> Some (Inl (IdErr ''create leaf certificate''))
                | Some der \<Rightarrow> (case cal_parse X der of None \<Rightarrow> Some (Inl (IdErr ''parse leaf certificate''))
                    | Some leaf \<Rightarrow> Some (Inr (leaf, kl_pem_encode K ''CERTIFICATE'' der))))))"

definition loadCertificate :: "key_lib \<Rightarrow> ca_lib \<Rightarrow> disk_env \<Rightarrow> string \<Rightarrow> disk \<Rightarrow> (id_err + string \<times> x509_cert) option" where
  "loadCertificate K X de path d =
     (if de_fault de ''read cert'' then Some (Inl (IdErr ''read ca cert''))
      else case dk_files d path of None \<Rightarrow> None
      | Some f \<Rightarrow> Some (case kl_pem_decode K (fl_data f) of None \<Rightarrow> Inl (IdErr ''not a CERTIFICATE PEM block'')
         | Some (t, bytes) \<Rightarrow>
             if t \<noteq> ''CERTIFICATE'' then Inl (IdErr ''not a CERTIFICATE PEM block'')
             else (case cal_parse X bytes of None \<Rightarrow> Inl (IdErr ''parse ca cert'') | Some c \<Rightarrow> Inr (fl_data f, c))))"

definition generateSelfSignedCA ::
  "key_lib \<Rightarrow> ca_lib \<Rightarrow> int \<Rightarrow> (nat \<Rightarrow> nat option) \<Rightarrow> string \<Rightarrow> signer \<Rightarrow> int \<Rightarrow> (id_err + (x509_cert \<times> string)) option" where
  "generateSelfSignedCA K X now draws subject key lifetime = (case randomSerial draws 0 of None \<Rightarrow> None
     | Some (Inl e) \<Rightarrow> Some (Inl e)
     | Some (Inr serial) \<Rightarrow>
         (case cal_create X (root_template serial subject now lifetime) subject (sg_public key, sg_ecdsa key) key of
            None \<Rightarrow> Some (Inl (IdErr ''create ca certificate''))
          | Some der \<Rightarrow> (case cal_parse X der of None \<Rightarrow> Some (Inl (IdErr ''parse ca certificate''))
              | Some cert \<Rightarrow> Some (Inr (cert, kl_pem_encode K ''CERTIFICATE'' der)))))"

definition verifyCertMatchesKey :: "x509_cert \<Rightarrow> signer \<Rightarrow> bool" where
  "verifyCertMatchesKey cert key = (xc_public_key cert = sg_public key \<and> xc_ecdsa cert = sg_ecdsa key)"

definition CertificatePEM :: "authority \<Rightarrow> string" where
  "CertificatePEM ca = ca_cert_pem ca"

definition ca_Fingerprint :: "lib \<Rightarrow> authority \<Rightarrow> string" where
  "ca_Fingerprint L ca = hex_encode (lib_sha256 L (xc_raw (ca_cert ca)))"

text \<open>\<open>LoadOrCreate\<close> on the file key store at \<open>ks\<close>; the outer \<open>None\<close> is a serial loop that never ends.\<close>

definition LoadOrCreate ::
  "key_lib \<Rightarrow> ca_lib \<Rightarrow> disk_env \<Rightarrow> int \<Rightarrow> (nat \<Rightarrow> nat option) \<Rightarrow> id_err + signer \<Rightarrow> string \<Rightarrow> ca_config \<Rightarrow> disk \<Rightarrow>
    ((id_err + authority) \<times> disk) option" where
  "LoadOrCreate K X de now draws gen ks cfg d =
     (if cc_dir cfg = [] then Some (Inl (IdErr ''ca dir must be set''), d)
      else let dir = filepath_Clean (cc_dir cfg) in
      case prepare_dir de dir d of (Inl e, d1) \<Rightarrow> Some (Inl e, d1)
      | (Inr _, d1) \<Rightarrow>
        let subject = (if TrimSpace (cc_subject_cn cfg) = [] then ''Spivot Server CA'' else cc_subject_cn cfg);
            lifetime = (if cc_lifetime cfg \<le> 0 then caDefaultLifetime else cc_lifetime cfg) in
        (case LoadOrGenerate K de ks caKeyName (Some gen) d1 of (Inl e, d2) \<Rightarrow> Some (Inl e, d2)
         | (Inr key, d2) \<Rightarrow>
           let certPath = filepath_Join dir caCertFile in
           (case loadCertificate K X de certPath d2 of
              None \<Rightarrow> (case generateSelfSignedCA K X now draws subject key lifetime of None \<Rightarrow> None
                | Some (Inl e) \<Rightarrow> Some (Inl e, d2)
                | Some (Inr (cert, pem)) \<Rightarrow> (case atomicWrite de dir certPath pem 420 d2 of
                     (Inl e, d3) \<Rightarrow> Some (Inl e, d3)
                   | (Inr _, d3) \<Rightarrow> Some (Inr \<lparr>ca_cert = cert, ca_cert_pem = pem, ca_key = key, ca_dir = dir\<rparr>, d3)))
            | Some (Inl e) \<Rightarrow> Some (Inl e, d2)
            | Some (Inr (pem, cert)) \<Rightarrow>
                if verifyCertMatchesKey cert key
                then Some (Inr \<lparr>ca_cert = cert, ca_cert_pem = pem, ca_key = key, ca_dir = dir\<rparr>, d2)
                else Some (Inl (IdErr ''ca state is inconsistent''), d2))))"

section \<open>Paths of keys\<close>

lemma clean_components_append:
  "clean_components r acc (xs @ ys) = clean_components r (rev (clean_components r acc xs)) ys"
  by (induction r acc xs rule: clean_components.induct) auto

lemma join_slash_snoc: "join_slash (cs @ [f]) = (if cs = [] then f else join_slash cs @ CHR ''/'' # f)"
  by (induction cs rule: join_slash.induct) (auto split: list.splits)

text \<open>A plain file name stays one component below its directory.\<close>

definition plain_name :: "string \<Rightarrow> bool" where
  "plain_name f = (f \<noteq> [] \<and> f \<noteq> ''.'' \<and> f \<noteq> ''..'' \<and> CHR ''/'' \<notin> set f)"

definition dir_prefix :: "string \<Rightarrow> string" where
  "dir_prefix dir = (if is_rooted dir then ''/'' else []) @
     (if path_components dir = [] then [] else join_slash (path_components dir) @ ''/'')"

lemma filepath_Join_plain:
  assumes "plain_name f" "dir \<noteq> []"
  shows "filepath_Join dir f = dir_prefix dir @ f"
proof -
  have "is_rooted (dir @ CHR ''/'' # f) = is_rooted dir"
    using assms(2) by (simp add: is_rooted_def)
  then have "path_components (dir @ CHR ''/'' # f) = path_components dir @ [f]"
    using assms(1)
    by (simp add: path_components_def Split_append Split_single clean_components_append plain_name_def)
  with assms show ?thesis
    by (simp add: filepath_Join_def filepath_Clean_def render_path_def dir_prefix_def join_slash_snoc plain_name_def
        is_rooted_def Let_def)
qed

lemma key_name_plain: "validateKeyName name \<Longrightarrow> plain_name (name @ ''.key.pem'')"
  by (auto simp: validateKeyName_def plain_name_def key_name_char_def list_all_iff)

lemma keyPath_plain: "validateKeyName name \<Longrightarrow> dir \<noteq> [] \<Longrightarrow> keyPath dir name = dir_prefix dir @ name @ ''.key.pem''"
  by (simp add: keyPath_def filepath_Join_plain key_name_plain)

lemma certPath_plain: "dir \<noteq> [] \<Longrightarrow> filepath_Join dir caCertFile = dir_prefix dir @ ''ca.crt.pem''"
  by (simp add: filepath_Join_plain plain_name_def caCertFile_def)

lemma filepath_Clean_ne [simp]: "filepath_Clean p \<noteq> []"
  by (simp add: filepath_Clean_def render_path_def Let_def)

section \<open>Replacing a file\<close>

text \<open>\<open>os.CreateTemp\<close> creates a file that did not exist; with the patterns used here its name ends in
  \<open>.tmp\<close>.\<close>

definition temp_laws :: "disk_env \<Rightarrow> disk \<Rightarrow> bool" where
  "temp_laws de d = (\<forall>dir pattern. dk_files d (de_temp de dir (pattern @ ''-*.tmp'')) = None \<and>
     (\<exists>s. de_temp de dir (pattern @ ''-*.tmp'') = s @ ''.tmp''))"

lemma put_file_files [simp]: "dk_files (put_file p f d) = (dk_files d)(p \<mapsto> f)" "dk_dirs (put_file p f d) = dk_dirs d"
  by (simp_all add: put_file_def)

lemma remove_file_files [simp]:
  "dk_files (remove_file de p d) = (if de_fault de ''remove'' then dk_files d else (dk_files d)(p := None))"
  "dk_dirs (remove_file de p d) = dk_dirs d"
  by (simp_all add: remove_file_def)

lemma replace_file_result:
  assumes "replace_file de dir pattern path data perm d = (r, d')"
  shows "dk_dirs d' = dk_dirs d" "p \<noteq> path \<Longrightarrow> p \<noteq> de_temp de dir pattern \<Longrightarrow> dk_files d' p = dk_files d p"
    "path \<noteq> de_temp de dir pattern \<Longrightarrow>
       dk_files d' path = dk_files d path \<or> dk_files d' path = Some \<lparr>fl_data = data, fl_mode = perm\<rparr>"
    "path \<noteq> de_temp de dir pattern \<Longrightarrow> r = Inr () \<Longrightarrow> dk_files d' path = Some \<lparr>fl_data = data, fl_mode = perm\<rparr>"
    "dk_files d (de_temp de dir pattern) = None \<Longrightarrow> \<not> de_fault de ''remove'' \<or> r = Inr () \<Longrightarrow>
       dk_files d' (de_temp de dir pattern) = None"
  using assms by (auto simp: replace_file_def Let_def split: if_splits option.splits)

section \<open>The key store contract\<close>

text \<open>What \<open>KeyStore\<close> promises its clients (the interface comment of keystore.go): a stored key is
  returned and nothing is generated; a generated key is persisted before it is returned; keys
  already stored are never lost.\<close>

locale key_store =
  fixes load :: "'e \<Rightarrow> string \<Rightarrow> 's \<Rightarrow> id_err + signer"
    and load_or_generate :: "'e \<Rightarrow> string \<Rightarrow> (id_err + signer) option \<Rightarrow> 's \<Rightarrow> (id_err + signer) \<times> 's"
    and ready :: "'e \<Rightarrow> 's \<Rightarrow> bool"
    and readable :: "'e \<Rightarrow> bool"
  assumes stored: "load e n s = Inr k \<Longrightarrow> load_or_generate e n g s = (Inr k, s)"
    and failed: "load e n s = Inl x \<Longrightarrow> x \<noteq> ErrKeyNotFound \<Longrightarrow> load_or_generate e n g s = (Inl x, s)"
    and persisted: "ready e s \<Longrightarrow> load e n s = Inl ErrKeyNotFound \<Longrightarrow> load_or_generate e n g s = (Inr k, s') \<Longrightarrow>
      g = Some (Inr k) \<and> (readable e' \<longrightarrow> load e' n s' = Inr k)"
    and same_key: "load e n s = Inr k \<Longrightarrow> readable e' \<Longrightarrow> load e' n s = Inr k"
    and kept: "ready e s \<Longrightarrow> readable e' \<Longrightarrow> load e' n s = Inr k \<Longrightarrow> load_or_generate e m g s = (r, s') \<Longrightarrow>
      load e' n s' = Inr k"
begin

text \<open>A run of calls, each in its own environment.\<close>

primrec after_calls :: "('e \<times> string \<times> (id_err + signer) option) list \<Rightarrow> 's \<Rightarrow> 's" where
  "after_calls [] s = s"
| "after_calls (c # cs) s = after_calls cs (snd (load_or_generate (fst c) (fst (snd c)) (snd (snd c)) s))"

primrec ready_calls :: "('e \<times> string \<times> (id_err + signer) option) list \<Rightarrow> 's \<Rightarrow> bool" where
  "ready_calls [] s = True"
| "ready_calls (c # cs) s = (ready (fst c) s \<and> ready_calls cs (snd (load_or_generate (fst c) (fst (snd c)) (snd (snd c)) s)))"

lemma loaded_after:
  assumes "ready e s" "load_or_generate e n g s = (Inr k, s')" "readable e'"
  shows "load e' n s' = Inr k"
proof (cases "load e n s")
  case (Inl x)
  with assms failed [OF Inl] persisted [of e s n g k s' e'] show ?thesis by (cases "x = ErrKeyNotFound") auto
next
  case (Inr k')
  with assms stored [OF Inr, of g] same_key [OF Inr assms(3)] show ?thesis by simp
qed

lemma loaded_after_calls:
  "ready_calls cs s \<Longrightarrow> readable e' \<Longrightarrow> load e' n s = Inr k \<Longrightarrow> load e' n (after_calls cs s) = Inr k"
proof (induction cs arbitrary: s)
  case (Cons c cs)
  then show ?case
    using kept [of "fst c" s e' n k "fst (snd c)" "snd (snd c)"] by (cases "load_or_generate (fst c) (fst (snd c)) (snd (snd c)) s") auto
qed simp

text \<open>The identity under a name is stable: once a call has returned a key, every later call that can
  read the store returns that key, whatever happened in between, and changes nothing.\<close>

lemma stable_identity:
  assumes "ready e s" "load_or_generate e n g s = (Inr k, s')" "ready_calls cs s'" "readable e'"
  shows "load_or_generate e' n g' (after_calls cs s') = (Inr k, after_calls cs s')"
  using loaded_after_calls [OF assms(3,4) loaded_after [OF assms(1,2,4)]] by (rule stored)

end

text \<open>The documented round trips of PEM and PKCS#8.\<close>

definition key_laws :: "key_lib \<Rightarrow> bool" where
  "key_laws K = ((\<forall>t b. kl_pem_decode K (kl_pem_encode K t b) = Some (t, b)) \<and>
     (\<forall>s der. sg_ecdsa s \<longrightarrow> kl_marshal_pkcs8 K s = Some der \<longrightarrow> kl_parse_pkcs8 K der = Some (Some s)))"

definition keys_ready :: "key_lib \<Rightarrow> string \<Rightarrow> disk_env \<Rightarrow> disk \<Rightarrow> bool" where
  "keys_ready K dir de d = (key_laws K \<and> dir \<noteq> [] \<and> temp_laws de d)"

lemma temp_not_key:
  assumes "temp_laws de d" "validateKeyName m"
  shows "de_temp de dir (pattern @ ''-*.tmp'') \<noteq> pre @ m @ ''.key.pem''"
proof
  assume eq: "de_temp de dir (pattern @ ''-*.tmp'') = pre @ m @ ''.key.pem''"
  from assms(1) obtain s where "de_temp de dir (pattern @ ''-*.tmp'') = s @ ''.tmp''"
    unfolding temp_laws_def by blast
  with eq have "last (s @ ''.tmp'') = last (pre @ m @ ''.key.pem'')" by simp
  then show False by simp
qed

lemma save_result:
  assumes "keys_ready K dir de d" "KeyStore_save K de dir name s d = (r, d')"
  shows "validateKeyName m \<Longrightarrow> m \<noteq> name \<Longrightarrow> dk_files d' (keyPath dir m) = dk_files d (keyPath dir m)"
    "r = Inr () \<Longrightarrow> validateKeyName name \<and> (\<exists>der. sg_ecdsa s \<and> kl_marshal_pkcs8 K s = Some der \<and>
       dk_files d' (keyPath dir name) = Some \<lparr>fl_data = kl_pem_encode K ''PRIVATE KEY'' der, fl_mode = 384\<rparr>)"
proof -
  have ne: "dir \<noteq> []" and tl: "temp_laws de d" using assms(1) by (simp_all add: keys_ready_def)
  have tmp: "de_temp de dir (''.'' @ name @ ''-*.tmp'') \<noteq> keyPath dir m" if "validateKeyName m" for m
    using temp_not_key [OF tl that, of dir "''.'' @ name"] that ne by (simp add: keyPath_plain)
  show "dk_files d' (keyPath dir m) = dk_files d (keyPath dir m)" if "validateKeyName m" "m \<noteq> name"
  proof (cases "validateKeyName name \<and> sg_ecdsa s \<and> kl_marshal_pkcs8 K s \<noteq> None")
    case True
    then have "keyPath dir m \<noteq> keyPath dir name" using that ne by (simp add: keyPath_plain)
    with True assms(2) tmp [OF that(1), symmetric, simplified] show ?thesis
      by (auto simp: KeyStore_save_def intro!: replace_file_result(2))
  qed (use assms(2) in \<open>auto simp: KeyStore_save_def split: if_splits\<close>)
  assume "r = Inr ()"
  with assms(2) obtain der where "validateKeyName name" "sg_ecdsa s" "kl_marshal_pkcs8 K s = Some der"
    "replace_file de dir (''.'' @ name @ ''-*.tmp'') (keyPath dir name) (kl_pem_encode K ''PRIVATE KEY'' der) 384 d = (Inr (), d')"
    by (auto simp: KeyStore_save_def split: if_splits option.splits)
  with replace_file_result(4) tmp show "validateKeyName name \<and> (\<exists>der. sg_ecdsa s \<and> kl_marshal_pkcs8 K s = Some der \<and>
       dk_files d' (keyPath dir name) = Some \<lparr>fl_data = kl_pem_encode K ''PRIVATE KEY'' der, fl_mode = 384\<rparr>)"
    by (metis (no_types, lifting))
qed

lemma Load_Inr_name: "KeyStore_Load K de dir n d = Inr k \<Longrightarrow> validateKeyName n \<and> \<not> de_fault de ''read key''"
  by (simp add: KeyStore_Load_def split: if_splits)

lemma Load_cong:
  "dk_files d' (keyPath dir n) = dk_files d (keyPath dir n) \<Longrightarrow> KeyStore_Load K de dir n d' = KeyStore_Load K de dir n d"
  by (simp add: KeyStore_Load_def)

interpretation fk: key_store "\<lambda>de. KeyStore_Load K de dir" "\<lambda>de. LoadOrGenerate K de dir" "keys_ready K dir"
  "\<lambda>de. \<not> de_fault de ''read key''" for K dir
proof (unfold_locales, goal_cases)
  case (1 e n s k g)
  then show ?case by (simp add: LoadOrGenerate_def)
next
  case (2 e n s x g)
  then show ?case by (simp add: LoadOrGenerate_def)
next
  case (3 e s n g k s' e')
  then obtain fresh where g: "g = Some (Inr fresh)" "KeyStore_save K e dir n fresh s = (Inr (), s')" "k = fresh"
    by (auto simp: LoadOrGenerate_def split: option.splits sum.splits prod.splits)
  with save_result(2) [OF 3(1) g(2)] 3(1) show ?case
    by (auto simp: KeyStore_Load_def keys_ready_def key_laws_def)
next
  case (4 e n s k e')
  then show ?case by (simp add: KeyStore_Load_def split: if_splits)
next
  case (5 e s e' n k m g r s')
  show ?case
  proof (cases "s' = s")
    case False
    with 5(4) obtain fresh r' where l: "KeyStore_Load K e dir m s = Inl ErrKeyNotFound"
      and sv: "KeyStore_save K e dir m fresh s = (r', s')"
      by (auto simp: LoadOrGenerate_def split: option.splits sum.splits prod.splits if_splits)
    have "m \<noteq> n"
      using l 5(2,3) by (auto simp: KeyStore_Load_def split: if_splits option.splits)
    then have "dk_files s' (keyPath dir n) = dk_files s (keyPath dir n)"
      using save_result(1) [OF 5(1) sv, of n] Load_Inr_name [OF 5(3)] by simp
    from Load_cong [OF this, of K e'] 5(3) show ?thesis by simp
  qed (use 5 in simp)
qed


section \<open>Serial numbers\<close>

lemma randomSerial_returns:
  "draws n \<noteq> Some 0 \<Longrightarrow> \<forall>i. k \<le> i \<and> i < n \<longrightarrow> draws i = Some 0 \<Longrightarrow> k \<le> n \<Longrightarrow>
    randomSerial draws k = Some (case draws n of None \<Rightarrow> Inl (IdErr ''generate serial'') | Some s \<Rightarrow> Inr s)"
proof (induction "n - k" arbitrary: k)
  case 0
  then show ?case by (subst randomSerial.simps) (auto split: option.splits)
next
  case (Suc x)
  then have "randomSerial draws (Suc k) = Some (case draws n of None \<Rightarrow> Inl (IdErr ''generate serial'') | Some s \<Rightarrow> Inr s)"
    by (intro Suc.hyps) auto
  with Suc show ?case by (subst randomSerial.simps) auto
qed

lemma randomSerial_sound:
  assumes "randomSerial draws k = Some r"
  shows "\<exists>n \<ge> k. (\<forall>i. k \<le> i \<and> i < n \<longrightarrow> draws i = Some 0) \<and> draws n \<noteq> Some 0 \<and>
    r = (case draws n of None \<Rightarrow> Inl (IdErr ''generate serial'') | Some s \<Rightarrow> Inr s)"
  using assms
proof (induction draws k r rule: randomSerial.raw_induct [rotated, consumes 1])
  case (1 f draws k r)
  show ?case
  proof (cases "draws k = Some 0")
    case True
    with 1(2) have "f draws (Suc k) = Some r" by simp
    from 1(1) [OF this] obtain n where n: "n \<ge> Suc k" "\<forall>i. Suc k \<le> i \<and> i < n \<longrightarrow> draws i = Some 0"
      "draws n \<noteq> Some 0" "r = (case draws n of None \<Rightarrow> Inl (IdErr ''generate serial'') | Some s \<Rightarrow> Inr s)" by blast
    with True have "\<forall>i. k \<le> i \<and> i < n \<longrightarrow> draws i = Some 0" by (metis Suc_leI le_less)
    with n show ?thesis by (intro exI [of _ n]) simp
  next
    case False
    with 1(2) show ?thesis by (intro exI [of _ k]) (auto split: option.splits if_splits)
  qed
qed


text \<open>The serial loop returns exactly when some draw is not zero or the entropy source fails, and
  then with the first such draw; a serial it returns is positive.\<close>

theorem randomSerial_terminates:
  "(\<exists>r. randomSerial draws 0 = Some r) = (\<exists>n. draws n \<noteq> Some 0) \<and>
   (randomSerial draws 0 = Some (Inr s)) = (0 < s \<and> (\<exists>n. draws n = Some s \<and> (\<forall>i < n. draws i = Some 0)))"
proof
  have first: "randomSerial draws 0 = Some (case draws n of None \<Rightarrow> Inl (IdErr ''generate serial'') | Some s \<Rightarrow> Inr s)"
    if "draws n \<noteq> Some 0" "\<forall>i < n. draws i = Some 0" for n
    using randomSerial_returns [of draws n 0] that by simp
  show "(\<exists>r. randomSerial draws 0 = Some r) = (\<exists>n. draws n \<noteq> Some 0)"
  proof
    assume "\<exists>n. draws n \<noteq> Some 0"
    then obtain n where "draws n \<noteq> Some 0" "\<forall>i < n. draws i = Some 0"
      using exists_least_iff [of "\<lambda>n. draws n \<noteq> Some 0"] by auto
    from first [OF this] show "\<exists>r. randomSerial draws 0 = Some r" by blast
  qed (use randomSerial_sound in blast)
  show "(randomSerial draws 0 = Some (Inr s)) = (0 < s \<and> (\<exists>n. draws n = Some s \<and> (\<forall>i < n. draws i = Some 0)))"
  proof
    assume "randomSerial draws 0 = Some (Inr s)"
    from randomSerial_sound [OF this] show "0 < s \<and> (\<exists>n. draws n = Some s \<and> (\<forall>i < n. draws i = Some 0))"
      by (auto split: option.splits)
  next
    assume "0 < s \<and> (\<exists>n. draws n = Some s \<and> (\<forall>i < n. draws i = Some 0))"
    then obtain n where "0 < s" "draws n = Some s" "\<forall>i < n. draws i = Some 0" by blast
    with first [of n] show "randomSerial draws 0 = Some (Inr s)" by simp
  qed
qed

section \<open>Bootstrap\<close>

text \<open>C30. Replacing a file is atomic, whatever system call fails: afterwards the path holds the old file
  or the complete new one, the new one if the call succeeded; no other path has changed, and the
  temporary file is gone unless removing it failed too.\<close>

theorem atomicWrite_atomic:
  assumes "atomicWrite de dir path data perm d = (r, d')" "temp_laws de d" "path = pre @ ''.pem''"
  shows "(dk_files d' path = dk_files d path \<or> dk_files d' path = Some \<lparr>fl_data = data, fl_mode = perm\<rparr>) \<and>
    (r = Inr () \<longrightarrow> dk_files d' path = Some \<lparr>fl_data = data, fl_mode = perm\<rparr>) \<and>
    (\<exists>tmp. dk_files d tmp = None \<and> (\<forall>p. p \<noteq> path \<and> p \<noteq> tmp \<longrightarrow> dk_files d' p = dk_files d p) \<and>
      (dk_files d' tmp = None \<or> r \<noteq> Inr () \<and> de_fault de ''remove''))"
proof -
  let ?pat = "(''.'' @ filepath_Base path) @ ''-*.tmp''"
  let ?tmp = "de_temp de dir ?pat"
  from assms(2) obtain s where fresh: "dk_files d ?tmp = None" and s: "?tmp = s @ ''.tmp''"
    unfolding temp_laws_def by blast
  have ne: "path \<noteq> ?tmp"
  proof
    assume "path = ?tmp"
    with s assms(3) have "last (pre @ ''.pem'') = last (s @ ''.tmp'')" by simp
    then show False by simp
  qed
  have run: "replace_file de dir ?pat path data perm d = (r, d')"
    using assms(1) by (simp add: atomicWrite_def)
  show ?thesis
    using replace_file_result(2-5) [OF run] ne fresh by blast
qed

lemma tmp_ne_pem: "s @ ''.tmp'' \<noteq> pre @ ''.pem''"
proof
  assume "s @ ''.tmp'' = pre @ ''.pem''"
  then have "last (s @ ''.tmp'') = last (pre @ ''.pem'')" by simp
  then show False by simp
qed


text \<open>The documented result of \<open>x509.CreateCertificate\<close>: the certificate parses back to what the
  template says, over the given key, with times in whole seconds.\<close>

definition whole_seconds :: "int \<Rightarrow> int" where
  "whole_seconds t = t - t mod 1000000000"

definition cert_laws :: "ca_lib \<Rightarrow> bool" where
  "cert_laws X = (\<forall>t parent pub e key der c. cal_create X t parent (pub, e) key = Some der \<longrightarrow> cal_parse X der = Some c \<longrightarrow>
     xc_serial c = ct_serial t \<and> xc_subject_cn c = ct_subject_cn t \<and> xc_public_key c = pub \<and> xc_ecdsa c = e \<and>
     xc_not_before c = whole_seconds (ct_not_before t) \<and> xc_not_after c = whole_seconds (ct_not_after t) \<and> xc_raw c = der)"

lemma LoadOrGenerate_temp:
  assumes "LoadOrGenerate K de dir n g d = (Inr k, d')" "keys_ready K dir de d"
  shows "temp_laws de d'"
proof (cases "d' = d")
  case False
  with assms(1) have sv: "KeyStore_save K de dir n k d = (Inr (), d')"
    by (auto simp: LoadOrGenerate_def split: option.splits sum.splits prod.splits if_splits)
  from sv obtain data where v: "validateKeyName n"
    and run: "replace_file de dir ((''.'' @ n) @ ''-*.tmp'') (keyPath dir n) data 384 d = (Inr (), d')"
    by (auto simp: KeyStore_save_def split: if_splits option.splits)
  have p: "keyPath dir n = (dir_prefix dir @ n @ ''.key'') @ ''.pem''"
    using v assms(2) by (simp add: keyPath_plain keys_ready_def)
  show ?thesis
    unfolding temp_laws_def
  proof (intro allI conjI)
    fix dir' pattern
    let ?tmp = "de_temp de dir' (pattern @ ''-*.tmp'')"
    from assms(2) obtain s where old: "dk_files d ?tmp = None" and s: "?tmp = s @ ''.tmp''"
      unfolding keys_ready_def temp_laws_def by blast
    from s show "\<exists>s. ?tmp = s @ ''.tmp''" by blast
    show "dk_files d' ?tmp = None"
    proof (cases "?tmp = de_temp de dir ((''.'' @ n) @ ''-*.tmp'')")
      case True
      with replace_file_result(5) [OF run] old show ?thesis by simp
    next
      case False
      with replace_file_result(2) [OF run, of ?tmp] old p s tmp_ne_pem show ?thesis by simp
    qed
  qed
qed (use assms in \<open>simp add: keys_ready_def\<close>)

lemma loadCertificate_written:
  assumes "generateSelfSignedCA K X now draws subject key lifetime = Some (Inr (cert, pem))" "key_laws K" "cert_laws X"
    "dk_files d path = Some \<lparr>fl_data = pem, fl_mode = m\<rparr>" "\<not> de_fault de ''read cert''"
  shows "loadCertificate K X de path d = Some (Inr (pem, cert))" "verifyCertMatchesKey cert key"
  using assms
  by (auto simp: generateSelfSignedCA_def loadCertificate_def verifyCertMatchesKey_def key_laws_def cert_laws_def
      split: option.splits sum.splits)

lemma prepare_dir_done:
  "dk_dirs d dir = Some 448 \<Longrightarrow> \<forall>l. \<not> de_fault de l \<Longrightarrow> prepare_dir de dir d = (Inr (), d)"
  by (simp add: prepare_dir_def fun_upd_idem)

lemma prepare_dir_Inr:
  "prepare_dir de dir d = (Inr u, d1) \<Longrightarrow> dk_files d1 = dk_files d \<and> dk_dirs d1 dir = Some 448"
  by (auto simp: prepare_dir_def Let_def split: if_splits option.splits)

lemma LoadOrGenerate_dirs: "LoadOrGenerate K de dir n g d = (r, d') \<Longrightarrow> dk_dirs d' = dk_dirs d"
  by (auto simp: LoadOrGenerate_def KeyStore_save_def split: option.splits sum.splits prod.splits if_splits
      dest: replace_file_result(1))


lemma certPath_pem: "filepath_Join (filepath_Clean p) caCertFile = (dir_prefix (filepath_Clean p) @ ''ca.crt'') @ ''.pem''"
  by (simp add: certPath_plain)

lemma certPath_not_key: "ks \<noteq> [] \<Longrightarrow> keyPath ks caKeyName \<noteq> filepath_Join (filepath_Clean p) caCertFile"
  by (simp add: certPath_plain keyPath_plain validateKeyName_def caKeyName_def key_name_char_def append_eq_append_conv)

text \<open>What a successful bootstrap leaves behind: the directory closed to others, the key loadable and
  the certificate of that key stored.\<close>

lemma LoadOrCreate_stored:
  assumes "LoadOrCreate K X de now draws gen ks cfg d = Some (Inr ca, d')" "key_laws K" "cert_laws X" "temp_laws de d" "ks \<noteq> []"
    "\<forall>l. \<not> de_fault de2 l"
  defines "dir \<equiv> filepath_Clean (cc_dir cfg)"
  shows "dk_dirs d' dir = Some 448 \<and> ca_dir ca = dir \<and> KeyStore_Load K de2 ks caKeyName d' = Inr (ca_key ca) \<and>
    loadCertificate K X de2 (filepath_Join dir caCertFile) d' = Some (Inr (ca_cert_pem ca, ca_cert ca)) \<and>
    verifyCertMatchesKey (ca_cert ca) (ca_key ca)"
proof -
  let ?path = "filepath_Join dir caCertFile"
  from assms(1) obtain d1 d2 where p: "prepare_dir de dir d = (Inr (), d1)"
    and g: "LoadOrGenerate K de ks caKeyName (Some gen) d1 = (Inr (ca_key ca), d2)"
    and c: "(loadCertificate K X de ?path d2 = Some (Inr (ca_cert_pem ca, ca_cert ca)) \<and> d' = d2 \<and>
         verifyCertMatchesKey (ca_cert ca) (ca_key ca)) \<or>
       (\<exists>subject lifetime. generateSelfSignedCA K X now draws subject (ca_key ca) lifetime = Some (Inr (ca_cert ca, ca_cert_pem ca)) \<and>
         atomicWrite de dir ?path (ca_cert_pem ca) 420 d2 = (Inr (), d'))" and dir: "ca_dir ca = dir"
    unfolding LoadOrCreate_def Let_def dir_def
    by (auto split: if_splits sum.splits prod.splits option.splits) blast+
  have ready: "keys_ready K ks de d1"
    using prepare_dir_Inr [OF p] assms(2,4,5) by (simp add: keys_ready_def temp_laws_def)
  have load: "KeyStore_Load K de2 ks caKeyName d2 = Inr (ca_key ca)"
    using fk.loaded_after [OF ready g, of de2] assms(6) by simp
  have d2: "dk_dirs d2 dir = Some 448" using LoadOrGenerate_dirs [OF g] prepare_dir_Inr [OF p] by simp
  from c show ?thesis
  proof (elim disjE exE conjE)
    assume "loadCertificate K X de ?path d2 = Some (Inr (ca_cert_pem ca, ca_cert ca))" "d' = d2"
      "verifyCertMatchesKey (ca_cert ca) (ca_key ca)"
    with d2 load dir assms(6) show ?thesis by (auto simp: loadCertificate_def split: if_splits option.splits)
  next
    fix subject lifetime
    assume gen: "generateSelfSignedCA K X now draws subject (ca_key ca) lifetime = Some (Inr (ca_cert ca, ca_cert_pem ca))"
      and w: "atomicWrite de dir ?path (ca_cert_pem ca) 420 d2 = (Inr (), d')"
    note run = w [unfolded atomicWrite_def]
    obtain s where tmp: "de_temp de dir ((''.'' @ filepath_Base ?path) @ ''-*.tmp'') = s @ ''.tmp''"
      using LoadOrGenerate_temp [OF g ready] unfolding temp_laws_def by blast
    have cert: "dk_files d' ?path = Some \<lparr>fl_data = ca_cert_pem ca, fl_mode = 420\<rparr>"
      using replace_file_result(4) [OF run] tmp tmp_ne_pem by (simp add: dir_def certPath_pem)
    have "dk_files d' (keyPath ks caKeyName) = dk_files d2 (keyPath ks caKeyName)"
      using replace_file_result(2) [OF run] tmp tmp_ne_pem [of s "dir_prefix ks @ ''ca.key''"] certPath_not_key [OF assms(5)] assms(5)
      by (simp add: dir_def keyPath_plain validateKeyName_def caKeyName_def key_name_char_def)
    from Load_cong [OF this] load have "KeyStore_Load K de2 ks caKeyName d' = Inr (ca_key ca)" by simp
    with loadCertificate_written [OF gen assms(2,3) cert, of de2] assms(6) replace_file_result(1) [OF run] d2 dir
    show ?thesis by simp
  qed
qed

text \<open>The authority is stable: once \<open>LoadOrCreate\<close> has returned an authority, every later call
  on the same directory returns the same certificate and key and changes nothing, whatever subject,
  lifetime, clock, entropy or key generator it is given; no first start that failed half-way can
  lead to two authorities.\<close>

theorem LoadOrCreate_stable:
  assumes "LoadOrCreate K X de now draws gen ks cfg d = Some (Inr ca, d')" "key_laws K" "cert_laws X" "temp_laws de d" "ks \<noteq> []"
    "\<forall>l. \<not> de_fault de2 l" "cc_dir cfg2 \<noteq> []" "filepath_Clean (cc_dir cfg2) = filepath_Clean (cc_dir cfg)"
  shows "LoadOrCreate K X de2 now2 draws2 gen2 ks cfg2 d' = Some (Inr ca, d')"
proof -
  note s = LoadOrCreate_stored [OF assms(1-6)]
  have "LoadOrGenerate K de2 ks caKeyName (Some gen2) d' = (Inr (ca_key ca), d')"
    using s by (intro fk.stored) blast
  with s assms(6-8) prepare_dir_done [of d' "filepath_Clean (cc_dir cfg)" de2] show ?thesis
    by (simp add: LoadOrCreate_def Let_def)
qed

section \<open>A concrete authority\<close>

definition demo_key_lib :: key_lib where
  "demo_key_lib = \<lparr>kl_pem_encode = (\<lambda>t b. replicate (length t) (CHR ''-'') @ CHR ''|'' # t @ b),
     kl_pem_decode = (\<lambda>s. case Cut s (CHR ''|'') of None \<Rightarrow> None | Some (n, r) \<Rightarrow> Some (take (length n) r, drop (length n) r)),
     kl_marshal_pkcs8 = (\<lambda>s. if sg_public s = sg_private s then Some (sg_private s) else None),
     kl_parse_pkcs8 = (\<lambda>b. Some (Some \<lparr>sg_ecdsa = True, sg_public = b, sg_private = b\<rparr>))\<rparr>"

definition demo_ca_lib :: "string \<Rightarrow> int \<Rightarrow> ca_lib" where
  "demo_ca_lib subj na = \<lparr>cal_create = (\<lambda>t parent pub key. if ct_serial t = 7 \<and> snd pub \<and> ct_subject_cn t = subj \<and>
       whole_seconds (ct_not_before t) = 0 \<and> whole_seconds (ct_not_after t) = na then Some (fst pub) else None),
     cal_parse = (\<lambda>der. Some \<lparr>xc_serial = 7, xc_subject_cn = subj, xc_not_before = 0, xc_not_after = na, xc_raw = der,
       xc_public_key = der, xc_ecdsa = True\<rparr>)\<rparr>"

definition demo_disk_env :: disk_env where
  "demo_disk_env = \<lparr>de_fault = (\<lambda>_. False), de_temp = (\<lambda>dir pat. dir @ ''/x.tmp''), de_written = 0\<rparr>"

definition demo_draws :: "nat \<Rightarrow> nat option" where
  "demo_draws k = (if k = 0 then Some 0 else Some 7)"

definition demo_ca_key :: signer where
  "demo_ca_key = \<lparr>sg_ecdsa = True, sg_public = ''k'', sg_private = ''k''\<rparr>"

lemma demo_key_laws: "key_laws demo_key_lib"
proof -
  have "takeWhile (\<lambda>x. x \<noteq> CHR ''|'') (replicate n (CHR ''-'') @ CHR ''|'' # r) = replicate n (CHR ''-'')"
    "dropWhile (\<lambda>x. x \<noteq> CHR ''|'') (replicate n (CHR ''-'') @ CHR ''|'' # r) = CHR ''|'' # r" for n r
    by (induction n) auto
  then show ?thesis by (auto simp: key_laws_def demo_key_lib_def Cut_def split: if_splits)
qed

lemma demo_cert_laws: "cert_laws (demo_ca_lib subj na)"
  by (simp add: cert_laws_def demo_ca_lib_def)

lemma demo_randomSerial: "randomSerial demo_draws 0 = Some (Inr 7)"
  using randomSerial_returns [of demo_draws 1 0] by (simp add: demo_draws_def)

definition demo_write :: "(id_err + unit) \<times> disk" where
  "demo_write = atomicWrite (demo_disk_env\<lparr>de_fault := (\<lambda>l. l = ''sync dir'')\<rparr>) ''/id'' ''/id/ca.crt.pem'' ''pem'' 420
     \<lparr>dk_files = Map.empty, dk_dirs = Map.empty\<rparr>"

theorem atomicWrite_atomic_witness:
  "dk_files (snd demo_write) ''/id/ca.crt.pem'' = None \<or>
   dk_files (snd demo_write) ''/id/ca.crt.pem'' = Some \<lparr>fl_data = ''pem'', fl_mode = 420\<rparr>"
proof -
  let ?de = "demo_disk_env\<lparr>de_fault := (\<lambda>l. l = ''sync dir'')\<rparr>" and ?d = "\<lparr>dk_files = Map.empty, dk_dirs = Map.empty\<rparr>"
  have run: "atomicWrite ?de ''/id'' ''/id/ca.crt.pem'' ''pem'' 420 ?d = (fst demo_write, snd demo_write)"
    by (simp add: demo_write_def)
  have t: "temp_laws ?de ?d" by (simp add: temp_laws_def demo_disk_env_def)
  from atomicWrite_atomic [OF run t, of "''/id/ca.crt''", THEN conjunct1] show ?thesis by simp
qed

end
