(* ===== verification/ApiAccounts.thy ===== *)
theory ApiAccounts
  imports ApiGarages CertAuthority
begin

text \<open>
  The enrollment, session, registration-invite, journey and telemetry handlers
  (server/api/enrollment.go, sessions.go, client_app_invites.go, journeys.go, telemetry.go),
  each from its configuration check to its reply. Parsing a signing request, the protocol
  library's request validation and UUID parsing are parameters.
\<close>

section \<open>Enrollment\<close>

definition leafCertificateLifetime :: int where
  "leafCertificateLifetime = 7 * 24 * 3600 * 1000000000"

record enroll_request =
  er_invite_token :: string
  er_csr_pem :: string
  er_display_name :: string

record enroll_lib =
  el_validate :: "enroll_request \<Rightarrow> bool"
  el_pem_decode :: "string \<Rightarrow> (string \<times> string) option"
  el_parse_csr :: "string \<Rightarrow> x509_csr option"

record enroll_response =
  ers_client_app_id :: string
  ers_user_id :: string
  ers_certificate_chain :: "string list"
  ers_issued_time :: int
  ers_not_after :: int
  ers_ca_chain :: "string list"

definition parseClientAppCSR :: "enroll_lib \<Rightarrow> verifier_lib \<Rightarrow> string \<Rightarrow> x509_csr option" where
  "parseClientAppCSR E V csrPEM = (case el_pem_decode E csrPEM of None \<Rightarrow> None
     | Some (t, bytes) \<Rightarrow>
         if t \<noteq> ''CERTIFICATE REQUEST'' then None
         else (case el_parse_csr E bytes of None \<Rightarrow> None
           | Some csr \<Rightarrow>
               if \<not> csr_signature_ok csr then None
               else if \<not> csr_ecdsa csr then None
               else if \<not> vl_p256 V (csr_public_key csr) then None else Some csr))"

definition lookup_invite :: "lib \<Rightarrow> env \<Rightarrow> string \<Rightarrow> db \<Rightarrow> serr + invite" where
  "lookup_invite L env tok d = (case LookupInvite L env tok d of
     (_, Some e) \<Rightarrow> Inl e | (Some i, None) \<Rightarrow> Inr i | (None, None) \<Rightarrow> Inl ErrInviteNotFound)"

text \<open>\<open>sign\<close> is the certificate authority's \<open>Sign\<close> and \<open>caPEM\<close> its certificate.\<close>

definition right_opt :: "'e + 'a \<Rightarrow> 'a option" where
  "right_opt r = (case r of Inl _ \<Rightarrow> None | Inr a \<Rightarrow> Some a)"

definition handleClientAppEnroll ::
  "lib \<Rightarrow> enroll_lib \<Rightarrow> verifier_lib \<Rightarrow> env \<Rightarrow> server_cfg \<Rightarrow> (x509_csr \<Rightarrow> int \<Rightarrow> id_err + (x509_cert \<times> string)) \<Rightarrow> string \<Rightarrow>
    enroll_request option \<Rightarrow> (int \<times> enroll_response) hm" where
  "handleClientAppEnroll L E V env cfg sign caPEM body =
     h_require (cfg_enrollment_store cfg \<and> cfg_ca_signer cfg) 503 ''enrollment_unavailable''
     (h_opt body 400 ''invalid_request'' (\<lambda>req.
      h_require (el_validate E req) 400 ''invalid_request''
     (h_read [(ErrInviteNotFound, 404, ''invite_not_found''), (ErrInviteAlreadyUsed, 409, ''invite_already_used''),
              (ErrInviteExpired, 410, ''invite_expired'')] (lookup_invite L env (er_invite_token req)) (\<lambda>invite.
      h_require (iv_scope invite = ''server_registration'') 422 ''invite_scope_mismatch''
     (h_opt (parseClientAppCSR E V (er_csr_pem req)) 400 ''invalid_csr'' (\<lambda>csr.
      h_opt (env_uuid env 0) 500 ''internal_error'' (\<lambda>userID.
      h_opt (env_uuid env 1) 500 ''internal_error'' (\<lambda>clientAppID.
      h_opt (right_opt (sign csr leafCertificateLifetime)) 500 ''internal_error'' (\<lambda>(leaf, leafPEM).
      h_call [(ErrInviteAlreadyUsed, 409, ''invite_already_used''), (ErrInviteExpired, 410, ''invite_expired'')]
        (RegisterClientApp L env \<lparr>reg_user_id = userID, reg_user_display_name = er_display_name req,
           reg_open_caravan_id = userID, reg_client_app_id = clientAppID, reg_client_app_display_name = er_display_name req,
           reg_invite_token_value = er_invite_token req, reg_certificate = Some leaf\<rparr>) (\<lambda>_.
      h_return (201, \<lparr>ers_client_app_id = clientAppID, ers_user_id = userID, ers_certificate_chain = [leafPEM],
        ers_issued_time = xc_not_before leaf, ers_not_after = xc_not_after leaf, ers_ca_chain = [caPEM]\<rparr>)))))))))))"

section \<open>Sessions\<close>

definition defaultSessionLifetime :: "64 word" where
  "defaultSessionLifetime = 15 * 60000000000"

definition maxSessionLifetime :: "64 word" where
  "maxSessionLifetime = 60 * 60000000000"

definition maxSessionLifetimeSeconds :: "64 word" where
  "maxSessionLifetimeSeconds = 3600"

definition normalizeSessionLifetime :: "64 word \<Rightarrow> 64 word" where
  "normalizeSessionLifetime requestedSeconds =
     (if requestedSeconds \<le>s 0 then defaultSessionLifetime
      else if maxSessionLifetimeSeconds \<le>s requestedSeconds then maxSessionLifetime
      else requestedSeconds * 1000000000)"

record session_request =
  srq_actions :: "string list"
  srq_journey_id :: "string option"
  srq_lifetime_seconds :: "64 word"

record session_lib =
  sl_validate :: "session_request \<Rightarrow> bool"
  sl_parse_uuid :: "string \<Rightarrow> string option"

record session_response =
  ssr_macaroon :: string
  ssr_expiration :: int

fun is_invalid_params :: "merr \<Rightarrow> bool" where
  "is_invalid_params (ErrInvalidSessionParams _) = True"
| "is_invalid_params _ = False"

definition handleSessionCreate ::
  "'m mac_lib \<Rightarrow> session_lib \<Rightarrow> env \<Rightarrow> issuer option \<Rightarrow> request_ctx \<Rightarrow> session_request option \<Rightarrow> (int \<times> session_response) hm" where
  "handleSessionCreate M S env iss rc body =
     h_opt iss 503 ''session_unavailable'' (\<lambda>i.
     h_opt (rc_identity rc) 401 ''unauthenticated'' (\<lambda>id.
     h_opt body 400 ''invalid_request'' (\<lambda>req.
     h_require (sl_validate S req) 400 ''invalid_request''
    (h_require (length (srq_actions req) = 1) 422 ''single_action_required''
    (let action = hd (srq_actions req);
         journeyID = (case srq_journey_id req of None \<Rightarrow> [] | Some j \<Rightarrow> j);
         now = env_now env;
         expiration = now + sint (normalizeSessionLifetime (srq_lifetime_seconds req)) in
     h_opt (sl_parse_uuid S (id_user_id id)) 500 ''internal_error'' (\<lambda>userUUID.
     h_opt (sl_parse_uuid S (id_client_app_id id)) 500 ''internal_error'' (\<lambda>appUUID.
     (case IssueSession M now i \<lparr>sp_user_id = userUUID, sp_client_app_id = appUUID, sp_journey_id = journeyID,
          sp_action = action, sp_expiration = expiration, sp_now = now\<rparr> of
        Inl e \<Rightarrow> if is_invalid_params e then h_fail (mk_problem 422 ''invalid_session_params'')
                  else h_fail (mk_problem 500 ''internal_error'')
      | Inr (m, serialized) \<Rightarrow>
          h_return (201, \<lparr>ssr_macaroon = b64_encode serialized, ssr_expiration = expiration\<rparr>)))))))))"

section \<open>Registration invites\<close>

definition defaultClientAppInviteLifetime :: "64 word" where
  "defaultClientAppInviteLifetime = 24 * 3600000000000"

definition maxClientAppInviteLifetimeSeconds :: "64 word" where
  "maxClientAppInviteLifetimeSeconds = 604800"

definition maxOutstandingClientAppInvites :: int where
  "maxOutstandingClientAppInvites = 10"

definition ParseInviteMintPolicy :: "string \<Rightarrow> string option" where
  "ParseInviteMintPolicy s = (if s = ''denied'' \<or> s = ''admin-only'' \<or> s = ''any-user'' then Some s else None)"

definition client_app_invite_request :: "int \<Rightarrow> 64 word decoded \<Rightarrow> 64 word option" where
  "client_app_invite_request contentLength dec =
     (if contentLength = 0 then Some 0
      else case dec of DecodeEOF \<Rightarrow> Some 0 | DecodeError \<Rightarrow> None | Decoded r \<Rightarrow> Some r)"

definition client_app_invite_lifetime :: "64 word \<Rightarrow> 64 word option" where
  "client_app_invite_lifetime secs =
     (if secs <s 0 then None
      else if maxClientAppInviteLifetimeSeconds <s secs then None
      else if 0 <s secs then Some (secs * 1000000000)
      else Some defaultClientAppInviteLifetime)"

record client_app_invite_response =
  cis_scope :: string
  cis_created_by_user_id :: string
  cis_token :: string
  cis_created_at :: int
  cis_expires_at :: int
  cis_used_at :: "int option"

text \<open>The mint policy as a gate before the request is read.\<close>

definition mint_policy_gate :: "env \<Rightarrow> string \<Rightarrow> string \<Rightarrow> 'a hm \<Rightarrow> 'a hm" where
  "mint_policy_gate env policy userID m =
     (if policy = ''denied'' then h_fail (mk_problem 403 ''invite_minting_disabled'')
      else if policy = ''admin-only'' then h_read [] (IsFoundingAdmin env userID) (\<lambda>isAdmin. h_require isAdmin 403 ''admin_only'' m)
      else if policy = ''any-user'' \<or> policy = [] then m
      else h_fail (mk_problem 500 ''internal_error''))"

definition handleClientAppInviteCreate ::
  "lib \<Rightarrow> env \<Rightarrow> server_cfg \<Rightarrow> string \<Rightarrow> request_ctx \<Rightarrow> int \<Rightarrow> 64 word decoded \<Rightarrow> (int \<times> client_app_invite_response) hm" where
  "handleClientAppInviteCreate L env cfg policy rc contentLength dec =
     h_require (cfg_invite_store cfg) 503 ''invites_unavailable''
     (h_opt (rc_identity rc) 401 ''unauthenticated'' (\<lambda>id.
      mint_policy_gate env policy (id_user_id id)
     (h_opt (client_app_invite_request contentLength dec) 400 ''invalid_request'' (\<lambda>secs.
      h_opt (client_app_invite_lifetime secs) 400 ''invalid_request'' (\<lambda>lifetime.
      h_call [(ErrInviteOutstandingLimit, 429, ''invite_limit_reached'')]
        (IssueInviteBy L env ''server_registration'' (sint lifetime) (id_user_id id) maxOutstandingClientAppInvites)
        (\<lambda>(token, invite).
      h_return (201, \<lparr>cis_scope = iv_scope invite, cis_created_by_user_id = id_user_id id, cis_token = token,
        cis_created_at = iv_created_time invite, cis_expires_at = iv_expiration_time invite, cis_used_at = None\<rparr>)))))))"

definition handleClientAppInviteList ::
  "env \<Rightarrow> server_cfg \<Rightarrow> request_ctx \<Rightarrow> (int \<times> client_app_invite_response list) hm" where
  "handleClientAppInviteList env cfg rc =
     h_require (cfg_invite_store cfg) 503 ''invites_unavailable''
     (h_opt (rc_identity rc) 401 ''unauthenticated'' (\<lambda>id.
      h_read [] (InvitesCreatedBy env (id_user_id id)) (\<lambda>records.
      h_return (200, map (\<lambda>rec. \<lparr>cis_scope = iv_scope rec, cis_created_by_user_id = iv_created_by_user_id rec, cis_token = [],
        cis_created_at = iv_created_time rec, cis_expires_at = iv_expiration_time rec, cis_used_at = iv_used_time rec\<rparr>) records))))"

section \<open>Journeys and telemetry\<close>

record journey_create_request =
  jcr_title :: string
  jcr_description :: string

record journey_response =
  jrs_id :: string
  jrs_title :: string
  jrs_description :: string
  jrs_host_user_id :: string
  jrs_state :: string
  jrs_visibility :: string
  jrs_creation_time :: int

definition journeyResponseFrom :: "journey_view \<Rightarrow> journey_response" where
  "journeyResponseFrom j = \<lparr>jrs_id = jw_id j, jrs_title = jw_title j, jrs_description = jw_description j,
     jrs_host_user_id = jw_host_user_id j, jrs_state = jw_state j, jrs_visibility = jw_visibility j,
     jrs_creation_time = jw_created_at j\<rparr>"

definition handleJourneyCreate ::
  "env \<Rightarrow> server_cfg \<Rightarrow> string \<Rightarrow> string \<Rightarrow> request_ctx \<Rightarrow> journey_create_request option \<Rightarrow> (int \<times> journey_response) hm" where
  "handleJourneyCreate env cfg policyHash policyDocument rc body =
     h_require (cfg_journey_store cfg) 503 ''journey_unavailable''
     (h_opt (rc_identity rc) 401 ''unauthenticated'' (\<lambda>id.
      h_opt body 400 ''invalid_request'' (\<lambda>req.
      let title = TrimSpace (jcr_title req) in
      h_require (title \<noteq> []) 400 ''invalid_request''
     (h_call [] (CreateJourney env \<lparr>jc_title = title, jc_description = TrimSpace (jcr_description req),
          jc_host_user_id = id_user_id id, jc_policy_hash = policyHash, jc_policy_json = policyDocument\<rparr>) (\<lambda>journey.
      h_return (201, journeyResponseFrom journey))))))"

definition handleJourneyGet :: "env \<Rightarrow> server_cfg \<Rightarrow> request_ctx \<Rightarrow> (int \<times> journey_response) hm" where
  "handleJourneyGet env cfg rc =
     h_require (cfg_journey_store cfg) 503 ''journey_unavailable''
     (h_read [(ErrJourneyNotFound, 404, ''journey_not_found'')] (JourneyByID env (hr_path_value (rc_request rc) ''id'')) (\<lambda>j.
      h_return (200, journeyResponseFrom j)))"

record position_sample =
  ps_journey_id :: string
  ps_rest :: string

record telemetry_request =
  trq_client_batch_id :: string
  trq_samples :: "position_sample list"
  trq_driver_attestation_hash :: "string option"

record telemetry_response =
  trs_batch_id :: string
  trs_received_count :: int
  trs_received_time :: int

definition maxTelemetryBodyBytes :: int where
  "maxTelemetryBodyBytes = 1048576"

text \<open>\<open>unmarshal\<close> is the JSON decoder and \<open>valid\<close> the protocol library's sample validation;
  \<open>body\<close> are the bytes sent.\<close>

definition handleJourneyTelemetry ::
  "lib \<Rightarrow> (string \<Rightarrow> telemetry_request option) \<Rightarrow> (position_sample \<Rightarrow> bool) \<Rightarrow> env \<Rightarrow> server_cfg \<Rightarrow> request_ctx \<Rightarrow> string \<Rightarrow>
    (int \<times> telemetry_response) hm" where
  "handleJourneyTelemetry L unmarshal valid env cfg rc body =
     h_require (cfg_journey_store cfg) 503 ''journey_unavailable''
     (h_opt (rc_identity rc) 401 ''unauthenticated'' (\<lambda>id.
      h_opt (rc_session rc) 401 ''no_session'' (\<lambda>_.
      let journeyID = hr_path_value (rc_request rc) ''id'' in
      h_read [(ErrJourneyNotFound, 404, ''journey_not_found'')] (JourneyByID env journeyID) (\<lambda>_.
      h_require (int (length body) \<le> maxTelemetryBodyBytes) 400 ''invalid_request''
     (h_opt (unmarshal body) 400 ''invalid_request'' (\<lambda>req.
      h_require (trq_client_batch_id req \<noteq> []) 400 ''invalid_request''
     (h_require (list_all (\<lambda>s. valid s \<and> ps_journey_id s = journeyID) (trq_samples req)) 400 ''invalid_request''
     (h_require (trq_driver_attestation_hash req \<noteq> Some []) 400 ''invalid_request''
     (h_read [(ErrJourneyParticipantNotFound, 403, ''not_a_participant'')]
        (JourneyParticipantByUserAndJourney env (id_user_id id) journeyID) (\<lambda>participant.
      h_call [(ErrTelemetryBatchDuplicate, 409, ''duplicate_batch'')]
        (RecordTelemetryBatch env \<lparr>tp_journey_id = journeyID, tp_participant_id = pw_id participant,
           tp_client_batch_id = trq_client_batch_id req, tp_sample_count = int (length (trq_samples req)),
           tp_payload_digest = ''sha256:'' @ hex_encode (lib_sha256 L body),
           tp_driver_attestation_hash = trq_driver_attestation_hash req\<rparr>) (\<lambda>batch.
      h_return (202, \<lparr>trs_batch_id = tb_id batch, trs_received_count = tb_sample_count batch,
        trs_received_time = tb_received_at batch\<rparr>))))))))))))"

section \<open>Enrollment end to end\<close>

lemma right_opt_Some [h_simps]: "right_opt r = Some a \<longleftrightarrow> r = Inr a"
  by (auto simp: right_opt_def split: sum.splits)

lemma handleClientAppEnroll_Inr:
  assumes "handleClientAppEnroll L E V env cfg sign caPEM (Some req) d = (Inr (st, resp), d')"
  shows "\<exists>inv csr u app leaf pem i. lookup_invite L env (er_invite_token req) d = Inr inv \<and> iv_scope inv = ''server_registration'' \<and>
    parseClientAppCSR E V (er_csr_pem req) = Some csr \<and> sign csr leafCertificateLifetime = Inr (leaf, pem) \<and>
    RegisterClientApp L env \<lparr>reg_user_id = u, reg_user_display_name = er_display_name req,
           reg_open_caravan_id = u, reg_client_app_id = app, reg_client_app_display_name = er_display_name req,
           reg_invite_token_value = er_invite_token req, reg_certificate = Some leaf\<rparr> d = (Inr i, d') \<and> st = 201 \<and>
    resp = \<lparr>ers_client_app_id = app, ers_user_id = u, ers_certificate_chain = [pem],
        ers_issued_time = xc_not_before leaf, ers_not_after = xc_not_after leaf, ers_ca_chain = [caPEM]\<rparr>"
  using assms unfolding handleClientAppEnroll_def
  by (fastforce simp: h_simps split: prod.splits)

lemma CA_Sign_leaf:
  assumes "CA_Sign K X ca now draws (Some csr) lifetime = Some (Inr (leaf, pem))" "cert_laws X"
  shows "0 < xc_serial leaf \<and> xc_subject_cn leaf = csr_subject_cn csr \<and> xc_public_key leaf = csr_public_key csr \<and>
    xc_ecdsa leaf = csr_ecdsa csr \<and> xc_not_before leaf = whole_seconds (now - 60000000000) \<and>
    xc_not_after leaf = whole_seconds (now + lifetime) \<and> pem = kl_pem_encode K ''CERTIFICATE'' (xc_raw leaf) \<and> csr_signature_ok csr \<and>
    cal_parse X (xc_raw leaf) = Some leaf"
proof -
  from assms(1) obtain serial der where s: "randomSerial draws 0 = Some (Inr serial)" and sg: "csr_signature_ok csr"
    and c: "cal_create X (leaf_template serial csr now lifetime) (xc_subject_cn (ca_cert ca)) (csr_public_key csr, csr_ecdsa csr) (ca_key ca) = Some der"
    and p: "cal_parse X der = Some leaf" "pem = kl_pem_encode K ''CERTIFICATE'' der"
    by (auto simp: CA_Sign_def split: if_splits option.splits sum.splits)
  have "0 < serial" using randomSerial_sound [OF s] by (auto split: option.splits)
  with sg p c assms(2) [unfolded cert_laws_def, rule_format, OF c p(1)] show ?thesis
    by (simp add: leaf_template_def)
qed

text \<open>C31. Enrollment end to end. When the enrollment endpoint answers 201, the token named a live
  registration invite; the signing request was self-signed over a P-256 key and the certificate
  handed out is over that key, with a positive serial, valid from a minute ago for seven days; from
  then on that certificate authenticates the new user and client app, signatures by its key are
  attributed to them, and the token is spent: a second enrollment with it is answered 409 and changes
  nothing.\<close>

theorem enrollment_flow:
  assumes "handleClientAppEnroll L E V env cfg sign caPEM (Some req) d = (Inr (st, resp), d')" "enrollment_ok d"
    "\<forall>csr lt. CA_Sign K X ca (env_now env) draws (Some csr) lt = Some (sign csr lt)" "cert_laws X"
    "\<forall>raw pem. lib_pem_encode L raw = Some pem \<longrightarrow> lib_pem_decode L pem = Some raw"
    "\<forall>der. lib_parse_certificate L der = cal_parse X der"
    "env_open env'" "\<forall>l. \<not> env_fault env' l" "el_validate E req'" "er_invite_token req' = er_invite_token req"
  shows "st = 201 \<and> (\<exists>inv. LookupInvite L env (er_invite_token req) d = (Some inv, None) \<and> iv_scope inv = ''server_registration'') \<and>
    (\<exists>csr leaf. parseClientAppCSR E V (er_csr_pem req) = Some csr \<and> csr_signature_ok csr \<and> vl_p256 V (csr_public_key csr) \<and>
      xc_public_key leaf = csr_public_key csr \<and> 0 < xc_serial leaf \<and>
      ers_certificate_chain resp = [kl_pem_encode K ''CERTIFICATE'' (xc_raw leaf)] \<and>
      xc_not_before leaf = whole_seconds (env_now env - 60000000000) \<and>
      xc_not_after leaf = whole_seconds (env_now env + leafCertificateLifetime) \<and>
      IdentityBySerial env' (hex_nat (xc_serial leaf)) d' =
        Inr \<lparr>ci_user_id = ers_user_id resp, ci_client_app_id = ers_client_app_id resp, ci_serial = hex_nat (xc_serial leaf),
          ci_subject_cn = csr_subject_cn csr, ci_not_after = ers_not_after resp\<rparr> \<and>
      NewStoreResolver L env' d' (ers_client_app_id resp) = Inr (cert_key leaf)) \<and>
    handleClientAppEnroll L E V env' cfg sign caPEM (Some req') d' = (Inl (mk_problem 409 ''invite_already_used''), d')"
proof -
  from handleClientAppEnroll_Inr [OF assms(1)] obtain inv csr u app leaf pem i where
    inv: "lookup_invite L env (er_invite_token req) d = Inr inv" "iv_scope inv = ''server_registration''" and
    csr: "parseClientAppCSR E V (er_csr_pem req) = Some csr" and sg: "sign csr leafCertificateLifetime = Inr (leaf, pem)" and
    reg: "RegisterClientApp L env \<lparr>reg_user_id = u, reg_user_display_name = er_display_name req,
           reg_open_caravan_id = u, reg_client_app_id = app, reg_client_app_display_name = er_display_name req,
           reg_invite_token_value = er_invite_token req, reg_certificate = Some leaf\<rparr> d = (Inr i, d')" and
    st: "st = 201" and resp: "resp = \<lparr>ers_client_app_id = app, ers_user_id = u, ers_certificate_chain = [pem],
        ers_issued_time = xc_not_before leaf, ers_not_after = xc_not_after leaf, ers_ca_chain = [caPEM]\<rparr>" by auto
  have sign: "CA_Sign K X ca (env_now env) draws (Some csr) leafCertificateLifetime = Some (Inr (leaf, pem))"
    using assms(3) sg by simp
  note leaf = CA_Sign_leaf [OF sign assms(4)]
  have parse: "lib_parse_certificate L (xc_raw leaf) = Some leaf" using leaf assms(6) by simp
  note e = RegisterClientApp_enrolls [OF assms(2) reg _ assms(5) parse assms(7,8), simplified]
  have li: "LookupInvite L env (er_invite_token req) d = (Some inv, None)"
    using inv by (auto simp: lookup_invite_def split: prod.splits option.splits)
  have "parseClientAppCSR E V (er_csr_pem req) = Some csr \<and> csr_signature_ok csr \<and> vl_p256 V (csr_public_key csr)"
    using csr by (auto simp: parseClientAppCSR_def split: option.splits if_splits prod.splits)
  moreover have "NewStoreResolver L env' d' app = Inr (cert_key leaf)"
    using e by (auto simp: NewStoreResolver_def)
  moreover have cfg: "cfg_enrollment_store cfg \<and> cfg_ca_signer cfg"
    using assms(1) unfolding handleClientAppEnroll_def h_require_Inr by blast
  have "lookup_invite L env' (er_invite_token req) d' = Inl ErrInviteAlreadyUsed"
    using e by (auto simp: lookup_invite_def)
  then have "handleClientAppEnroll L E V env' cfg sign caPEM (Some req') d' = (Inl (mk_problem 409 ''invite_already_used''), d')"
    using cfg assms(9,10) by (simp add: handleClientAppEnroll_def h_require_def h_opt_def h_read_def problem_of_def)
  ultimately show ?thesis
    using st li inv(2) leaf e by (auto simp: resp)
qed


section \<open>Session lifetimes\<close>

lemma uint_nonneg_sint: "0 \<le> sint (w :: 64 word) \<Longrightarrow> uint w = sint w"
proof -
  assume "0 \<le> sint w"
  moreover have "sint w < 18446744073709551616" using sint_lt [of w] by simp
  ultimately have "take_bit 64 (sint w) = sint w" by (simp add: take_bit_int_eq_self_iff)
  then show ?thesis by (simp add: uint_sint)
qed

lemma seconds_product:
  fixes n :: "64 word"
  assumes "0 \<le> sint n" "sint n \<le> 9223372036"
  shows "sint (n * 1000000000) = sint n * 1000000000"
  using invite_lifetime_product [of n] uint_nonneg_sint [OF assms(1)] assms by simp

text \<open>The session lifetime is the requested number of seconds clamped to one hour, the default of
  fifteen minutes for a request that is not positive, for every 64-bit request: the conversion to
  nanoseconds never wraps around.\<close>

theorem normalizeSessionLifetime_clamps:
  "sint (normalizeSessionLifetime n) = (if sint n \<le> 0 then 900 else min (sint n) 3600) * 1000000000"
  using seconds_product [of n]
  by (auto simp: normalizeSessionLifetime_def word_sle_eq maxSessionLifetimeSeconds_def defaultSessionLifetime_def
      maxSessionLifetime_def)

lemma session_lifetime_bounds: "0 < sint (normalizeSessionLifetime n) \<and> sint (normalizeSessionLifetime n) \<le> 3600000000000"
  using seconds_product [of n]
  by (auto simp: normalizeSessionLifetime_def word_sle_eq maxSessionLifetimeSeconds_def defaultSessionLifetime_def
      maxSessionLifetime_def)

lemma outcome_Inr [h_simps]:
  "(case r of Inl e \<Rightarrow> if P e then h_fail p else h_fail q | Inr (m, s) \<Rightarrow> f m s) d = (Inr b, d') \<longleftrightarrow>
    (\<exists>m s. r = Inr (m, s) \<and> f m s d = (Inr b, d'))"
  by (auto simp: h_fail_Inr split: sum.splits)

lemma handleSessionCreate_Inr:
  assumes "handleSessionCreate M S env (Some i) rc (Some req) d = (Inr (st, resp), d')"
  shows "\<exists>ident u a act m s. rc_identity rc = Some ident \<and> sl_parse_uuid S (id_user_id ident) = Some u \<and>
    sl_parse_uuid S (id_client_app_id ident) = Some a \<and> srq_actions req = [act] \<and> st = 201 \<and> d' = d \<and>
    IssueSession M (env_now env) i \<lparr>sp_user_id = u, sp_client_app_id = a,
      sp_journey_id = (case srq_journey_id req of None \<Rightarrow> [] | Some j \<Rightarrow> j), sp_action = act,
      sp_expiration = env_now env + sint (normalizeSessionLifetime (srq_lifetime_seconds req)), sp_now = env_now env\<rparr> = Inr (m, s) \<and>
    resp = \<lparr>ssr_macaroon = b64_encode s, ssr_expiration = env_now env + sint (normalizeSessionLifetime (srq_lifetime_seconds req))\<rparr>"
proof -
  obtain act where "srq_actions req = [act]"
    using assms unfolding handleSessionCreate_def h_simps by (auto simp: length_Suc_conv)
  with assms show ?thesis
    unfolding handleSessionCreate_def Let_def
    by (auto simp: h_simps)
qed

text \<open>C32. A session reply is a credential for its caller and nobody else. The macaroon in a 201 reply
  verifies, under the issuing root, for exactly the requests of the calling user and client app that
  perform the one requested action (on the requested journey, if one was named) before the
  expiration in the reply, and that expiration is at most an hour away; the request itself changes
  nothing.\<close>

theorem session_reply:
  assumes "handleSessionCreate M S env (Some i) rc (Some req) d = (Inr (st, resp), d')" "mac_laws M" "NewIssuer rid key = Inr i"
    "resolve rid = Inr key" "ml_parse_caveat M (ml_caveat_time_before M (ssr_expiration resp)) = Some tc"
    "cv_kind tc = CaveatKindTimeBefore" "cv_time tc = ssr_expiration resp" "ssr_expiration resp \<noteq> zero_time"
  shows "\<exists>ident u a act s. rc_identity rc = Some ident \<and> sl_parse_uuid S (id_user_id ident) = Some u \<and>
    sl_parse_uuid S (id_client_app_id ident) = Some a \<and> srq_actions req = [act] \<and> st = 201 \<and> d' = d \<and>
    b64_decode (ssr_macaroon resp) = Some s \<and> env_now env < ssr_expiration resp \<and>
    ssr_expiration resp \<le> env_now env + 3600000000000 \<and>
    (\<forall>now c. (\<exists>v. Verify M resolve now s c = Inr v) = (now < ssr_expiration resp \<and> cn_user_id c = u \<and> cn_client_app_id c = a \<and>
      cn_action c = act \<and> (case srq_journey_id req of None \<Rightarrow> True | Some j \<Rightarrow> j = [] \<or> cn_journey_id c = j)))"
proof -
  let ?j = "case srq_journey_id req of None \<Rightarrow> [] | Some j \<Rightarrow> j"
  from handleSessionCreate_Inr [OF assms(1)] obtain ident u a act m s where
    id: "rc_identity rc = Some ident" "sl_parse_uuid S (id_user_id ident) = Some u" "sl_parse_uuid S (id_client_app_id ident) = Some a"
      "srq_actions req = [act]" "st = 201" "d' = d" and
    iss: "IssueSession M (env_now env) i \<lparr>sp_user_id = u, sp_client_app_id = a, sp_journey_id = ?j, sp_action = act,
      sp_expiration = ssr_expiration resp, sp_now = env_now env\<rparr> = Inr (m, s)" and
    resp: "ssr_macaroon resp = b64_encode s"
      "ssr_expiration resp = env_now env + sint (normalizeSessionLifetime (srq_lifetime_seconds req))" by auto
  have "(\<exists>v. Verify M resolve now s c = Inr v) = (now < ssr_expiration resp \<and> cn_user_id c = u \<and> cn_client_app_id c = a \<and>
      cn_action c = act \<and> (?j \<noteq> [] \<longrightarrow> cn_journey_id c = ?j))" for now c
    using session_roundtrip [where resolve = resolve, OF assms(2,3) iss assms(4), of tc now c] assms(5-8) by (auto split: if_splits)
  then show ?thesis
    using id resp session_lifetime_bounds [of "srq_lifetime_seconds req"] by (auto simp: b64_roundtrip split: option.splits)
qed


section \<open>Registration invites\<close>

lemma client_app_invite_lifetime_cap:
  "client_app_invite_lifetime secs = Some t \<Longrightarrow> 0 < sint t \<and> sint t \<le> 604800000000000 \<and>
    (0 < sint secs \<longrightarrow> sint t = sint secs * 1000000000)"
  using seconds_product [of secs]
  by (auto simp: client_app_invite_lifetime_def word_sless_alt maxClientAppInviteLifetimeSeconds_def
      defaultClientAppInviteLifetime_def split: if_splits)

lemma mint_policy_gate_Inr [h_simps]:
  "mint_policy_gate env policy u m d = (Inr b, d') \<longleftrightarrow>
    (policy = ''any-user'' \<or> policy = [] \<or> policy = ''admin-only'' \<and> IsFoundingAdmin env u d = Inr True) \<and> m d = (Inr b, d')"
  by (auto simp: mint_policy_gate_def h_simps)

lemma handleClientAppInviteCreate_Inr:
  assumes "handleClientAppInviteCreate L env cfg policy rc n dec d = (Inr (st, resp), d')"
  shows "\<exists>ident secs t tok inv. rc_identity rc = Some ident \<and>
    (policy = ''any-user'' \<or> policy = [] \<or> policy = ''admin-only'' \<and> IsFoundingAdmin env (id_user_id ident) d = Inr True) \<and>
    client_app_invite_lifetime secs = Some t \<and>
    IssueInviteBy L env ''server_registration'' (sint t) (id_user_id ident) maxOutstandingClientAppInvites d = (Inr (tok, inv), d') \<and>
    st = 201 \<and> resp = \<lparr>cis_scope = iv_scope inv, cis_created_by_user_id = id_user_id ident, cis_token = tok,
        cis_created_at = iv_created_time inv, cis_expires_at = iv_expiration_time inv, cis_used_at = None\<rparr>"
  using assms unfolding handleClientAppInviteCreate_def by (fastforce simp: h_simps split: prod.splits)

text \<open>C33. Who may invite, and to what. A registration invite is minted only under a policy that admits
  the caller: never when minting is denied or the policy is unknown, only for the founding
  administrator when it is admin-only. It expires within seven days, leaves the caller with at most
  ten outstanding invites, and its token names a registration invite until it expires.\<close>

theorem client_app_invite_minted:
  assumes "handleClientAppInviteCreate L env cfg policy rc n dec d = (Inr (st, resp), d')" "enrollment_ok d"
    "env_open env'" "\<forall>l. \<not> env_fault env' l"
  shows "\<exists>ident. rc_identity rc = Some ident \<and> st = 201 \<and>
    (policy = ''any-user'' \<or> policy = [] \<or> policy = ''admin-only'' \<and> IsFoundingAdmin env (id_user_id ident) d = Inr True) \<and>
    cis_created_at resp < cis_expires_at resp \<and> cis_expires_at resp \<le> cis_created_at resp + 604800000000000 \<and>
    outstanding d' (id_user_id ident) ''server_registration'' (env_now env) \<le> 10 \<and>
    (if env_now env' < cis_expires_at resp
     then \<exists>inv. lookup_invite L env' (cis_token resp) d' = Inr inv \<and> iv_scope inv = ''server_registration''
     else lookup_invite L env' (cis_token resp) d' = Inl ErrInviteExpired)"
proof -
  from handleClientAppInviteCreate_Inr [OF assms(1)] obtain ident secs t tok inv where
    h: "rc_identity rc = Some ident" "st = 201"
      "policy = ''any-user'' \<or> policy = [] \<or> policy = ''admin-only'' \<and> IsFoundingAdmin env (id_user_id ident) d = Inr True" and
    t: "client_app_invite_lifetime secs = Some t" and
    iss: "IssueInviteBy L env ''server_registration'' (sint t) (id_user_id ident) maxOutstandingClientAppInvites d = (Inr (tok, inv), d')" and
    resp: "cis_token resp = tok" "cis_created_at resp = iv_created_time inv" "cis_expires_at resp = iv_expiration_time inv"
    by auto
  note cap = IssueInviteBy_cap [OF assms(2) iss assms(3,4)]
  have inv: "iv_created_time inv = env_now env" "iv_expiration_time inv = env_now env + sint t" "iv_scope inv = ''server_registration''"
    using IssueInviteBy_Inr [OF iss] by (auto simp: scanInviteRow_def invite_row_def)
  show ?thesis
    using h client_app_invite_lifetime_cap [OF t] cap inv resp
    by (auto simp: lookup_invite_def maxOutstandingClientAppInvites_def)
qed

section \<open>Telemetry\<close>

lemma handleJourneyTelemetry_Inr:
  assumes "handleJourneyTelemetry L unmarshal valid env cfg rc body d = (Inr (st, resp), d')"
  shows "\<exists>ident req w b. rc_identity rc = Some ident \<and> rc_session rc \<noteq> None \<and> unmarshal body = Some req \<and>
    int (length body) \<le> maxTelemetryBodyBytes \<and>
    list_all (\<lambda>s. valid s \<and> ps_journey_id s = hr_path_value (rc_request rc) ''id'') (trq_samples req) \<and>
    JourneyParticipantByUserAndJourney env (id_user_id ident) (hr_path_value (rc_request rc) ''id'') d = Inr w \<and>
    RecordTelemetryBatch env \<lparr>tp_journey_id = hr_path_value (rc_request rc) ''id'', tp_participant_id = pw_id w,
           tp_client_batch_id = trq_client_batch_id req, tp_sample_count = int (length (trq_samples req)),
           tp_payload_digest = ''sha256:'' @ hex_encode (lib_sha256 L body),
           tp_driver_attestation_hash = trq_driver_attestation_hash req\<rparr> d = (Inr b, d') \<and>
    st = 202 \<and> resp = \<lparr>trs_batch_id = tb_id b, trs_received_count = tb_sample_count b, trs_received_time = tb_received_at b\<rparr>"
  using assms unfolding handleJourneyTelemetry_def Let_def by (fastforce simp: h_simps)

lemma RecordTelemetryBatch_Inr:
  "RecordTelemetryBatch env p d = (Inr b, d') \<Longrightarrow> d' = d\<lparr>telemetry_batches := telemetry_batches d @ [b]\<rparr> \<and>
    tb_journey_id b = tp_journey_id p \<and> tb_participant_id b = tp_participant_id p \<and> tb_sample_count b = tp_sample_count p \<and>
    tb_payload_digest b = tp_payload_digest p \<and> tb_received_at b = env_now env"
  unfolding RecordTelemetryBatch_def Let_def by (auto simp: tx_Inr table_defs)

text \<open>Telemetry is accepted only from inside the journey: a 202 reply means that the caller is a
  joined participant of the journey, that every sample is valid and names it, and that exactly one
  batch was stored, under the caller's participation, with the number of samples and the digest of
  the bytes received.\<close>

theorem telemetry_by_participant:
  assumes "handleJourneyTelemetry L unmarshal valid env cfg rc body d = (Inr (st, resp), d')"
  shows "\<exists>ident req b j. rc_identity rc = Some ident \<and> j = hr_path_value (rc_request rc) ''id'' \<and> unmarshal body = Some req \<and>
    joined_participant d (id_user_id ident) j \<and> list_all (\<lambda>s. valid s \<and> ps_journey_id s = j) (trq_samples req) \<and>
    d' = d\<lparr>telemetry_batches := telemetry_batches d @ [b]\<rparr> \<and> tb_journey_id b = j \<and>
    list_ex (\<lambda>r. jp_id r = tb_participant_id b \<and> jp_account_id r = Some (id_user_id ident) \<and> jp_journey_id r = j) (journey_participants d) \<and>
    trs_received_count resp = int (length (trq_samples req)) \<and> tb_payload_digest b = ''sha256:'' @ hex_encode (lib_sha256 L body)"
proof -
  from handleJourneyTelemetry_Inr [OF assms] obtain ident req w b where
    h: "rc_identity rc = Some ident" "unmarshal body = Some req"
      "list_all (\<lambda>s. valid s \<and> ps_journey_id s = hr_path_value (rc_request rc) ''id'') (trq_samples req)" and
    w: "JourneyParticipantByUserAndJourney env (id_user_id ident) (hr_path_value (rc_request rc) ''id'') d = Inr w" and
    b: "RecordTelemetryBatch env \<lparr>tp_journey_id = hr_path_value (rc_request rc) ''id'', tp_participant_id = pw_id w,
           tp_client_batch_id = trq_client_batch_id req, tp_sample_count = int (length (trq_samples req)),
           tp_payload_digest = ''sha256:'' @ hex_encode (lib_sha256 L body),
           tp_driver_attestation_hash = trq_driver_attestation_hash req\<rparr> d = (Inr b, d')" and
    resp: "resp = \<lparr>trs_batch_id = tb_id b, trs_received_count = tb_sample_count b, trs_received_time = tb_received_at b\<rparr>" by blast
  have "list_ex (\<lambda>r. jp_id r = pw_id w \<and> jp_account_id r = Some (id_user_id ident) \<and> jp_journey_id r = hr_path_value (rc_request rc) ''id'')
      (journey_participants d)"
    using w by (auto simp: JourneyParticipantByUserAndJourney_def participant_of_row_def list_ex_iff split: if_splits option.splits dest!: find_SomeD)
  with h participant_joined [OF w] RecordTelemetryBatch_Inr [OF b] show ?thesis
    by (auto simp: resp)
qed


section \<open>A concrete run\<close>

definition demo_leaf_lib :: ca_lib where
  "demo_leaf_lib = demo_ca_lib ''phone'' 604860000000000"

definition demo_authority :: authority where
  "demo_authority = \<lparr>ca_cert = demo_cert, ca_cert_pem = ''root'', ca_key = demo_ca_key, ca_dir = ''/id''\<rparr>"

definition demo_sign :: "x509_csr \<Rightarrow> int \<Rightarrow> id_err + (x509_cert \<times> string)" where
  "demo_sign csr lt =
     (if lt \<le> 0 then Inl (IdErr ''lifetime must be positive'')
      else if \<not> csr_signature_ok csr then Inl (IdErr ''verify csr signature'')
      else case cal_create demo_leaf_lib (leaf_template 7 csr 60000000000 lt) ''cert'' (csr_public_key csr, csr_ecdsa csr) demo_ca_key of
          None \<Rightarrow> Inl (IdErr ''create leaf certificate'')
        | Some der \<Rightarrow> (case cal_parse demo_leaf_lib der of None \<Rightarrow> Inl (IdErr ''parse leaf certificate'')
            | Some leaf \<Rightarrow> Inr (leaf, kl_pem_encode demo_key_lib ''CERTIFICATE'' der)))"

definition demo_enroll_lib :: enroll_lib where
  "demo_enroll_lib = \<lparr>el_validate = (\<lambda>_. True), el_pem_decode = (\<lambda>s. Some (''CERTIFICATE REQUEST'', s)),
     el_parse_csr = (\<lambda>b. Some \<lparr>csr_subject_cn = ''phone'', csr_dns_names = [], csr_email_addresses = [], csr_ip_addresses = [],
       csr_uris = [], csr_public_key = b, csr_ecdsa = True, csr_signature_ok = True\<rparr>)\<rparr>"

definition demo_server_lib :: lib where
  "demo_server_lib = demo_lib\<lparr>lib_parse_certificate := cal_parse demo_leaf_lib\<rparr>"

definition demo_enroll_request :: enroll_request where
  "demo_enroll_request = \<lparr>er_invite_token = ''tok'', er_csr_pem = ''pk'', er_display_name = ''Carol''\<rparr>"

definition demo_invited_db :: db where
  "demo_invited_db = snd (IssueInviteBy demo_lib (now_env 5) ''server_registration'' 90000000000 ''alice'' 2 demo_db)"

lemma demo_sign_total: "\<forall>csr lt. CA_Sign demo_key_lib demo_leaf_lib demo_authority 60000000000 demo_draws (Some csr) lt = Some (demo_sign csr lt)"
  by (auto simp: demo_sign_def CA_Sign_def demo_randomSerial demo_authority_def demo_cert_def split: option.splits)

lemma demo_invited_ok: "enrollment_ok demo_invited_db"
proof -
  have "IssueInviteBy demo_lib (now_env 5) ''server_registration'' 90000000000 ''alice'' 2 demo_db =
    (Inr (''tok'', scanInviteRow (invite_row demo_lib ''tok'' ''server_registration'' 5 90000000000 (Some ''alice''))), demo_invited_db)"
    by code_simp
  from IssueInviteBy_ok [OF demo_db_enrollment_ok this] show ?thesis .
qed

definition demo_enrollment :: "(problem + (int \<times> enroll_response)) \<times> db" where
  "demo_enrollment = handleClientAppEnroll demo_server_lib demo_enroll_lib demo_verifier (env_at 60000000000 ''u'') full_cfg demo_sign ''root''
     (Some demo_enroll_request) demo_invited_db"

lemma demo_enrollment_run: "fst demo_enrollment = Inr (201, snd (projr (fst demo_enrollment)))"
  by code_simp

theorem enrollment_flow_witness:
  "handleClientAppEnroll demo_server_lib demo_enroll_lib demo_verifier (env_at 70000000000 ''w'') full_cfg demo_sign ''root''
     (Some demo_enroll_request) (snd demo_enrollment) = (Inl (mk_problem 409 ''invite_already_used''), snd demo_enrollment)"
proof -
  have run: "handleClientAppEnroll demo_server_lib demo_enroll_lib demo_verifier (env_at 60000000000 ''u'') full_cfg demo_sign ''root''
      (Some demo_enroll_request) demo_invited_db = (Inr (201, snd (projr (fst demo_enrollment))), snd demo_enrollment)"
    using demo_enrollment_run unfolding demo_enrollment_def by (metis prod.collapse)
  have law: "cert_laws demo_leaf_lib" by (simp add: demo_leaf_lib_def demo_cert_laws)
  have sg: "\<forall>csr lt. CA_Sign demo_key_lib demo_leaf_lib demo_authority (env_now (env_at 60000000000 ''u'')) demo_draws (Some csr) lt =
      Some (demo_sign csr lt)"
    using demo_sign_total by (simp add: env_at_def)
  show ?thesis
    by (rule enrollment_flow [OF run demo_invited_ok sg law, THEN conjunct2, THEN conjunct2, THEN conjunct2])
      (simp_all add: demo_server_lib_def demo_lib_def env_at_def demo_enroll_lib_def)
qed

definition demo_session_lib :: session_lib where
  "demo_session_lib = \<lparr>sl_validate = (\<lambda>_. True), sl_parse_uuid = Some\<rparr>"

definition demo_session_request :: session_request where
  "demo_session_request = \<lparr>srq_actions = [''journey.read''], srq_journey_id = Some ''j1'', srq_lifetime_seconds = 1\<rparr>"

definition demo_reply_session :: session_params where
  "demo_reply_session = \<lparr>sp_user_id = ''carol'', sp_client_app_id = ''app'', sp_journey_id = ''j1'',
     sp_action = ''journey.read'', sp_expiration = 9, sp_now = 9 - 1000000000\<rparr>"

definition demo_reply_macaroon :: string where
  "demo_reply_macaroon = (case IssueSession text_lib 0 demo_issuer demo_reply_session of Inl _ \<Rightarrow> [] | Inr (m, s) \<Rightarrow> s)"

lemma demo_reply_issue: "IssueSession text_lib wall demo_issuer demo_reply_session = Inr (demo_reply_macaroon, demo_reply_macaroon)"
proof -
  have "IssueSession text_lib wall demo_issuer demo_reply_session = IssueSession text_lib 0 demo_issuer demo_reply_session"
    by (simp add: IssueSession_def validate_session_def demo_reply_session_def zero_time_def)
  also have "\<dots> = Inr (demo_reply_macaroon, demo_reply_macaroon)" by code_simp
  finally show ?thesis .
qed

theorem session_reply_witness:
  "\<exists>s. b64_decode (b64_encode demo_reply_macaroon) = Some s \<and>
     (\<exists>v. Verify text_lib demo_resolver 8 s \<lparr>cn_journey_id = ''j1'', cn_action = ''journey.read'', cn_user_id = ''carol'',
       cn_client_app_id = ''app''\<rparr> = Inr v)"
proof -
  let ?resp = "\<lparr>ssr_macaroon = b64_encode demo_reply_macaroon, ssr_expiration = 9\<rparr>"
  have l: "sint (normalizeSessionLifetime 1) = 1000000000"
    by (simp add: normalizeSessionLifetime_def maxSessionLifetimeSeconds_def word_sle_eq)
  have c: "rc_identity (carol_rc demo_path) = Some carol" "id_user_id carol = ''carol''" "id_client_app_id carol = ''app''"
    by (simp_all add: carol_rc_sel carol_def)
  have run: "handleSessionCreate text_lib demo_session_lib (now_env (9 - 1000000000)) (Some demo_issuer) (carol_rc demo_path)
     (Some demo_session_request) empty_db = (Inr (201, ?resp), empty_db)"
    using demo_reply_issue [of "9 - 1000000000"]
    by (simp add: handleSessionCreate_def h_opt_def h_require_def h_return_def Let_def c l demo_session_request_def
        demo_session_lib_def demo_reply_session_def)
  have h: "NewIssuer ''root'' demo_key = Inr demo_issuer" "demo_resolver ''root'' = Inr demo_key"
    by (simp_all add: NewIssuer_def demo_key_def RootKeyLen_def demo_issuer_def demo_resolver_def)
  have t: "ml_parse_caveat text_lib (ml_caveat_time_before text_lib (ssr_expiration ?resp)) =
      Some \<lparr>cv_kind = CaveatKindTimeBefore, cv_time = 9, cv_uuid = [], cv_action = [], cv_raw = CHR ''t'' # replicate 9 (CHR ''1'')\<rparr>"
    by (simp add: text_lib_def text_caveat_def)
  from session_reply [where resolve = demo_resolver, OF run text_laws h t]
  show ?thesis by (simp add: zero_time_def c demo_session_lib_def demo_session_request_def) force
qed

definition alice_rc :: "(string \<Rightarrow> string) \<Rightarrow> request_ctx" where
  "alice_rc path = (carol_rc path)\<lparr>rc_identity := Some (carol\<lparr>id_user_id := ''alice''\<rparr>)\<rparr>"

definition demo_mint :: "(problem + (int \<times> client_app_invite_response)) \<times> db" where
  "demo_mint = handleClientAppInviteCreate demo_lib (now_env 5) full_cfg ''admin-only'' (alice_rc demo_path) 5 (Decoded 60) demo_db"

theorem client_app_invite_minted_witness:
  "\<exists>inv. lookup_invite demo_lib (now_env 9) (cis_token (snd (projr (fst demo_mint)))) (snd demo_mint) = Inr inv \<and>
     iv_scope inv = ''server_registration''"
proof -
  let ?resp = "snd (projr (fst demo_mint))"
  have run: "handleClientAppInviteCreate demo_lib (now_env 5) full_cfg ''admin-only'' (alice_rc demo_path) 5 (Decoded 60) demo_db =
      (Inr (201, ?resp), snd demo_mint)"
    unfolding demo_mint_def by code_simp
  have "cis_expires_at ?resp = 60000000005" unfolding demo_mint_def by code_simp
  with client_app_invite_minted [OF run demo_db_enrollment_ok, of "now_env 9"] show ?thesis by auto
qed

definition demo_telemetry :: "(problem + (int \<times> telemetry_response)) \<times> db" where
  "demo_telemetry = handleJourneyTelemetry demo_lib
     (\<lambda>_. Some \<lparr>trq_client_batch_id = ''b'', trq_samples = [\<lparr>ps_journey_id = ''j'', ps_rest = []\<rparr>], trq_driver_attestation_hash = None\<rparr>)
     (\<lambda>_. True) (env_at 50 ''t'') full_cfg
     ((carol_rc demo_path)\<lparr>rc_session := Some (sessionFromVerified (demo_verified demo_macaroon))\<rparr>) ''body'' demo_api_db"

end
