(* ===== verification/Routes.thy ===== *)
theory Routes
  imports Macaroons
begin

text \<open>
  The route table (server/api/routes.go): the routes with their metadata, the table check
  that runs before a route is registered, and the pattern matching of \<open>http.ServeMux\<close> as
  far as the table's patterns use it. Contract types appear by name; the session actions
  are constants of the protocol library (\<open>ml_action_\<dots>\<close>).
\<close>

section \<open>Routes\<close>

text \<open>\<open>AuthPosture\<close> is a string type of the source, so that an unknown posture exists.\<close>

type_synonym auth_posture = string

definition AuthPublic :: auth_posture where "AuthPublic = ''public''"
definition AuthIdentity :: auth_posture where "AuthIdentity = ''identity''"
definition AuthSession :: auth_posture where "AuthSession = ''session''"

lemmas auth_defs = AuthPublic_def AuthIdentity_def AuthSession_def

text \<open>The server methods a route can be bound to.\<close>

datatype endpoint =
    HandleRoot
  | HandleHealth
  | HandleReady
  | HandleServerInfo
  | HandleVersion
  | HandleClientAppEnroll
  | HandleSessionCreate
  | HandleClientAppInviteCreate
  | HandleClientAppInviteList
  | HandleJourneyCreate
  | HandleJourneyGet
  | HandleJourneyTelemetry
  | HandleJourneyVehicleCreate
  | HandleJourneyVehicleList
  | HandleJourneyVehicleGet
  | HandleJourneyVehicleACLAppend
  | HandleJourneyVehicleRevisionAppend
  | HandleDriverAttestationRecord
  | HandleDriverAttestationList
  | HandleCurrentDriver
  | HandleGarageCreate
  | HandleGarageList
  | HandleGarageGet
  | HandleGarageRevisionAppend
  | HandleGarageOwnershipAccept
  | HandleGarageVehicleCreate
  | HandleGarageVehicleList
  | HandleGarageVehicleGet
  | HandleGarageVehicleRevisionAppend
  | HandleGarageInviteCreate
  | HandleGarageInviteList
  | HandleGarageInviteRevoke
  | HandleGarageInviteRedeem

record route =
  rt_method :: string
  rt_path :: string
  rt_operation_id :: string
  rt_summary :: string
  rt_tags :: "string list"
  rt_auth :: auth_posture
  rt_session_action :: string
  rt_journey_path_param :: string
  rt_request :: "string option"
  rt_request_optional :: bool
  rt_response :: "string option"
  rt_response_statuses :: "int list"
  rt_handler :: "endpoint option"

definition tagSystem :: string where "tagSystem = ''System''"
definition tagIdentity :: string where "tagIdentity = ''Identity''"
definition tagJourneys :: string where "tagJourneys = ''Journeys''"
definition tagJourneyVehicles :: string where "tagJourneyVehicles = ''Journey Vehicles''"
definition tagGarages :: string where "tagGarages = ''Garages''"

definition RouteTags :: "(string \<times> string) list" where
  "RouteTags =
    [(tagSystem, ''Service identity, health, readiness, and build metadata.''),
     (tagIdentity, ''Client-app enrollment, session macaroons, and server-registration invites.''),
     (tagJourneys, ''Journey lifecycle and telemetry.''),
     (tagJourneyVehicles, ''Journey-scoped vehicle bundles, ACL revisions, and driver attestations.''),
     (tagGarages, ''Account-scoped garage containers: revisions, ownership, vehicles, and invites.'')]"

definition HasPrefix :: "string \<Rightarrow> string \<Rightarrow> bool" where
  "HasPrefix s p = (take (length p) s = p)"

definition HasSuffix :: "string \<Rightarrow> string \<Rightarrow> bool" where
  "HasSuffix s p = HasPrefix (rev s) (rev p)"

definition TrimSuffix :: "string \<Rightarrow> string \<Rightarrow> string" where
  "TrimSuffix s p = (if HasSuffix s p then take (length s - length p) s else s)"

definition segment_param :: "string \<Rightarrow> string option" where
  "segment_param seg =
     (if HasPrefix seg ''{'' \<and> HasSuffix seg ''}'' then
        (let name = TrimSuffix (TrimSuffix (TrimPrefix seg ''{'') ''}'') ''...'' in
         if name \<noteq> [] \<and> name \<noteq> ''$'' then Some name else None)
      else None)"

definition PathParams :: "string \<Rightarrow> string list" where
  "PathParams path = List.map_filter segment_param (Split path (CHR ''/''))"

section \<open>The table check\<close>

datatype route_problem = UnexpectedMethod | PathNotRooted | MissingOperationID | MissingSummary | MissingTags
  | MissingResponseStatuses | MissingHandler | DuplicateOperationID string | DuplicateRegistration
  | OptionalWithoutRequest | UnknownTag string | SessionMetadataOnNonSession | MissingSessionAction
  | JourneyParamNotInPath string | UnknownPosture string | NilResponseStatuses

datatype route_err = RouteTableEmpty | RouteErr string route_problem

definition route_id :: "route \<Rightarrow> string" where
  "route_id rt = rt_method rt @ '' '' @ rt_path rt"

definition validMethods :: "string list" where
  "validMethods = [''GET'', ''POST'', ''PUT'', ''PATCH'', ''DELETE'']"

text \<open>The checks of one entry, in the order of the source.\<close>

definition validate_route :: "string list \<Rightarrow> string list \<Rightarrow> route \<Rightarrow> route_problem option" where
  "validate_route seenOps seenPatterns rt =
     (if rt_method rt \<notin> set validMethods then Some UnexpectedMethod
      else if \<not> HasPrefix (rt_path rt) ''/'' then Some PathNotRooted
      else if rt_operation_id rt = [] then Some MissingOperationID
      else if rt_summary rt = [] then Some MissingSummary
      else if rt_tags rt = [] then Some MissingTags
      else if rt_response_statuses rt = [] then Some MissingResponseStatuses
      else if rt_handler rt = None then Some MissingHandler
      else if rt_operation_id rt \<in> set seenOps then Some (DuplicateOperationID (rt_operation_id rt))
      else if route_id rt \<in> set seenPatterns then Some DuplicateRegistration
      else if rt_request_optional rt \<and> rt_request rt = None then Some OptionalWithoutRequest
      else case find (\<lambda>t. t \<notin> fst ` set RouteTags) (rt_tags rt) of
        Some t \<Rightarrow> Some (UnknownTag t)
      | None \<Rightarrow>
          if rt_auth rt = AuthPublic \<or> rt_auth rt = AuthIdentity then
            (if rt_session_action rt \<noteq> [] \<or> rt_journey_path_param rt \<noteq> [] then Some SessionMetadataOnNonSession
             else if rt_response rt = None \<and> rt_response_statuses rt \<noteq> [204] then Some NilResponseStatuses else None)
          else if rt_auth rt = AuthSession then
            (if rt_session_action rt = [] then Some MissingSessionAction
             else if rt_journey_path_param rt \<notin> set (PathParams (rt_path rt))
               then Some (JourneyParamNotInPath (rt_journey_path_param rt))
             else if rt_response rt = None \<and> rt_response_statuses rt \<noteq> [204] then Some NilResponseStatuses else None)
          else Some (UnknownPosture (rt_auth rt)))"

fun validate_routes :: "string list \<Rightarrow> string list \<Rightarrow> route list \<Rightarrow> route_err option" where
  "validate_routes seenOps seenPatterns [] = None"
| "validate_routes seenOps seenPatterns (rt # rts) =
     (case validate_route seenOps seenPatterns rt of
        Some p \<Rightarrow> Some (RouteErr (route_id rt) p)
      | None \<Rightarrow> validate_routes (rt_operation_id rt # seenOps) (route_id rt # seenPatterns) rts)"

definition ValidateRoutes :: "route list \<Rightarrow> route_err option" where
  "ValidateRoutes routes = (if routes = [] then Some RouteTableEmpty else validate_routes [] [] routes)"

section \<open>The table\<close>

definition system_routes :: "route list" where
  "system_routes =
    [\<lparr>rt_method = ''GET'', rt_path = ''/'', rt_operation_id = ''serverRoot'',
       rt_summary = ''Server identity banner'',
       rt_tags = [tagSystem], rt_auth = AuthPublic, rt_session_action = [], rt_journey_path_param = [],
       rt_request = None, rt_request_optional = False, rt_response = Some ''RootResponse'',
       rt_response_statuses = [200], rt_handler = Some HandleRoot\<rparr>,
     \<lparr>rt_method = ''GET'', rt_path = ''/health'', rt_operation_id = ''healthCheck'',
       rt_summary = ''Liveness probe'',
       rt_tags = [tagSystem], rt_auth = AuthPublic, rt_session_action = [], rt_journey_path_param = [],
       rt_request = None, rt_request_optional = False, rt_response = Some ''HealthResponse'',
       rt_response_statuses = [200], rt_handler = Some HandleHealth\<rparr>,
     \<lparr>rt_method = ''GET'', rt_path = ''/readyz'', rt_operation_id = ''readinessCheck'',
       rt_summary = ''Readiness probe'',
       rt_tags = [tagSystem], rt_auth = AuthPublic, rt_session_action = [], rt_journey_path_param = [],
       rt_request = None, rt_request_optional = False, rt_response = Some ''ReadinessResponse'',
       rt_response_statuses = [200, 503], rt_handler = Some HandleReady\<rparr>,
     \<lparr>rt_method = ''GET'', rt_path = ''/v1/server'', rt_operation_id = ''serverInfo'',
       rt_summary = ''Server capabilities and policy snapshot'',
       rt_tags = [tagSystem], rt_auth = AuthPublic, rt_session_action = [], rt_journey_path_param = [],
       rt_request = None, rt_request_optional = False, rt_response = Some ''ServerInfoResponse'',
       rt_response_statuses = [200], rt_handler = Some HandleServerInfo\<rparr>,
     \<lparr>rt_method = ''GET'', rt_path = ''/v1/version'', rt_operation_id = ''serverVersion'',
       rt_summary = ''Build and runtime version details'',
       rt_tags = [tagSystem], rt_auth = AuthPublic, rt_session_action = [], rt_journey_path_param = [],
       rt_request = None, rt_request_optional = False, rt_response = Some ''VersionResponse'',
       rt_response_statuses = [200], rt_handler = Some HandleVersion\<rparr>]"

definition identity_routes :: "route list" where
  "identity_routes =
    [\<lparr>rt_method = ''POST'', rt_path = ''/v1/client-apps/enroll'', rt_operation_id = ''clientAppEnroll'',
       rt_summary = ''Enroll a client app with a server-registration invite'',
       rt_tags = [tagIdentity], rt_auth = AuthPublic, rt_session_action = [], rt_journey_path_param = [],
       rt_request = Some ''opencaravan.ClientAppEnrollmentRequest'', rt_request_optional = False, rt_response = Some ''opencaravan.ClientAppEnrollmentResponse'',
       rt_response_statuses = [201], rt_handler = Some HandleClientAppEnroll\<rparr>,
     \<lparr>rt_method = ''POST'', rt_path = ''/v1/sessions'', rt_operation_id = ''sessionCreate'',
       rt_summary = ''Issue a session macaroon'',
       rt_tags = [tagIdentity], rt_auth = AuthIdentity, rt_session_action = [], rt_journey_path_param = [],
       rt_request = Some ''opencaravan.SessionRequest'', rt_request_optional = False, rt_response = Some ''opencaravan.SessionResponse'',
       rt_response_statuses = [201], rt_handler = Some HandleSessionCreate\<rparr>,
     \<lparr>rt_method = ''POST'', rt_path = ''/v1/client-apps/invites'', rt_operation_id = ''clientAppInviteCreate'',
       rt_summary = ''Mint a server-registration invite'',
       rt_tags = [tagIdentity], rt_auth = AuthIdentity, rt_session_action = [], rt_journey_path_param = [],
       rt_request = Some ''ClientAppInviteCreateRequest'', rt_request_optional = True, rt_response = Some ''ClientAppInviteResponse'',
       rt_response_statuses = [201], rt_handler = Some HandleClientAppInviteCreate\<rparr>,
     \<lparr>rt_method = ''GET'', rt_path = ''/v1/client-apps/invites'', rt_operation_id = ''clientAppInviteList'',
       rt_summary = ''List invites minted by the caller'',
       rt_tags = [tagIdentity], rt_auth = AuthIdentity, rt_session_action = [], rt_journey_path_param = [],
       rt_request = None, rt_request_optional = False, rt_response = Some ''ClientAppInviteListResponse'',
       rt_response_statuses = [200], rt_handler = Some HandleClientAppInviteList\<rparr>]"

definition journey_routes :: "'m mac_lib \<Rightarrow> route list" where
  "journey_routes M =
    [\<lparr>rt_method = ''POST'', rt_path = ''/v1/journeys'', rt_operation_id = ''journeyCreate'',
       rt_summary = ''Create a journey'',
       rt_tags = [tagJourneys], rt_auth = AuthIdentity, rt_session_action = [], rt_journey_path_param = [],
       rt_request = Some ''JourneyCreateRequest'', rt_request_optional = False, rt_response = Some ''JourneyResponse'',
       rt_response_statuses = [201], rt_handler = Some HandleJourneyCreate\<rparr>,
     \<lparr>rt_method = ''GET'', rt_path = ''/v1/journeys/{id}'', rt_operation_id = ''journeyGet'',
       rt_summary = ''Fetch a journey'',
       rt_tags = [tagJourneys], rt_auth = AuthSession, rt_session_action = ml_action_journey_read M, rt_journey_path_param = ''id'',
       rt_request = None, rt_request_optional = False, rt_response = Some ''JourneyResponse'',
       rt_response_statuses = [200], rt_handler = Some HandleJourneyGet\<rparr>,
     \<lparr>rt_method = ''POST'', rt_path = ''/v1/journeys/{id}/telemetry'', rt_operation_id = ''telemetryBatchRecord'',
       rt_summary = ''Record a telemetry batch'',
       rt_tags = [tagJourneys], rt_auth = AuthSession, rt_session_action = ml_action_telemetry_write M, rt_journey_path_param = ''id'',
       rt_request = Some ''TelemetryBatchRequest'', rt_request_optional = False, rt_response = Some ''TelemetryBatchResponse'',
       rt_response_statuses = [202], rt_handler = Some HandleJourneyTelemetry\<rparr>]"

definition vehicle_routes :: "'m mac_lib \<Rightarrow> route list" where
  "vehicle_routes M =
    [\<lparr>rt_method = ''POST'', rt_path = ''/v1/journeys/{id}/vehicles'', rt_operation_id = ''journeyVehicleCreate'',
       rt_summary = ''Upload a journey vehicle bundle'',
       rt_tags = [tagJourneyVehicles], rt_auth = AuthSession, rt_session_action = ml_action_journey_write M, rt_journey_path_param = ''id'',
       rt_request = Some ''JourneyVehicleCreateRequest'', rt_request_optional = False, rt_response = Some ''JourneyVehicleResponse'',
       rt_response_statuses = [201], rt_handler = Some HandleJourneyVehicleCreate\<rparr>,
     \<lparr>rt_method = ''GET'', rt_path = ''/v1/journeys/{id}/vehicles'', rt_operation_id = ''journeyVehicleList'',
       rt_summary = ''List journey vehicles'',
       rt_tags = [tagJourneyVehicles], rt_auth = AuthSession, rt_session_action = ml_action_journey_read M, rt_journey_path_param = ''id'',
       rt_request = None, rt_request_optional = False, rt_response = Some ''JourneyVehicleListResponse'',
       rt_response_statuses = [200], rt_handler = Some HandleJourneyVehicleList\<rparr>,
     \<lparr>rt_method = ''GET'', rt_path = ''/v1/journeys/{id}/vehicles/{vid}'', rt_operation_id = ''journeyVehicleGet'',
       rt_summary = ''Fetch a journey vehicle'',
       rt_tags = [tagJourneyVehicles], rt_auth = AuthSession, rt_session_action = ml_action_journey_read M, rt_journey_path_param = ''id'',
       rt_request = None, rt_request_optional = False, rt_response = Some ''JourneyVehicleResponse'',
       rt_response_statuses = [200], rt_handler = Some HandleJourneyVehicleGet\<rparr>,
     \<lparr>rt_method = ''POST'', rt_path = ''/v1/journeys/{id}/vehicles/{vid}/acl-revisions'', rt_operation_id = ''journeyVehicleACLAppend'',
       rt_summary = ''Append a signed vehicle ACL revision'',
       rt_tags = [tagJourneyVehicles], rt_auth = AuthSession, rt_session_action = ml_action_journey_write M, rt_journey_path_param = ''id'',
       rt_request = Some ''opencaravan.VehicleACL'', rt_request_optional = False, rt_response = Some ''JourneyVehicleACLRevisionResponse'',
       rt_response_statuses = [201], rt_handler = Some HandleJourneyVehicleACLAppend\<rparr>,
     \<lparr>rt_method = ''POST'', rt_path = ''/v1/journeys/{id}/vehicles/{vid}/revisions'', rt_operation_id = ''journeyVehicleRevisionAppend'',
       rt_summary = ''Append a signed vehicle metadata revision'',
       rt_tags = [tagJourneyVehicles], rt_auth = AuthSession, rt_session_action = ml_action_journey_write M, rt_journey_path_param = ''id'',
       rt_request = Some ''opencaravan.Vehicle'', rt_request_optional = False, rt_response = Some ''JourneyVehicleRevisionResponse'',
       rt_response_statuses = [201], rt_handler = Some HandleJourneyVehicleRevisionAppend\<rparr>,
     \<lparr>rt_method = ''POST'', rt_path = ''/v1/journeys/{id}/vehicles/{vid}/driver-attestations'', rt_operation_id = ''driverAttestationRecord'',
       rt_summary = ''Record a signed driver attestation'',
       rt_tags = [tagJourneyVehicles], rt_auth = AuthSession, rt_session_action = ml_action_journey_write M, rt_journey_path_param = ''id'',
       rt_request = Some ''opencaravan.DriverAttestation'', rt_request_optional = False, rt_response = Some ''DriverAttestationResponse'',
       rt_response_statuses = [201, 200], rt_handler = Some HandleDriverAttestationRecord\<rparr>,
     \<lparr>rt_method = ''GET'', rt_path = ''/v1/journeys/{id}/vehicles/{vid}/driver-attestations'', rt_operation_id = ''driverAttestationList'',
       rt_summary = ''List driver attestations'',
       rt_tags = [tagJourneyVehicles], rt_auth = AuthSession, rt_session_action = ml_action_journey_read M, rt_journey_path_param = ''id'',
       rt_request = None, rt_request_optional = False, rt_response = Some ''DriverAttestationListResponse'',
       rt_response_statuses = [200], rt_handler = Some HandleDriverAttestationList\<rparr>,
     \<lparr>rt_method = ''GET'', rt_path = ''/v1/journeys/{id}/vehicles/{vid}/current-driver'', rt_operation_id = ''currentDriverGet'',
       rt_summary = ''Resolve the driver in effect at a point in time'',
       rt_tags = [tagJourneyVehicles], rt_auth = AuthSession, rt_session_action = ml_action_journey_read M, rt_journey_path_param = ''id'',
       rt_request = None, rt_request_optional = False, rt_response = Some ''CurrentDriverResponse'',
       rt_response_statuses = [200], rt_handler = Some HandleCurrentDriver\<rparr>]"

definition garage_routes :: "route list" where
  "garage_routes =
    [\<lparr>rt_method = ''POST'', rt_path = ''/v1/garages'', rt_operation_id = ''garageCreate'',
       rt_summary = ''Create a garage from a signed Garage payload'',
       rt_tags = [tagGarages], rt_auth = AuthIdentity, rt_session_action = [], rt_journey_path_param = [],
       rt_request = Some ''opencaravan.Garage'', rt_request_optional = False, rt_response = Some ''GarageResponse'',
       rt_response_statuses = [201], rt_handler = Some HandleGarageCreate\<rparr>,
     \<lparr>rt_method = ''GET'', rt_path = ''/v1/garages'', rt_operation_id = ''garageList'',
       rt_summary = ''List the caller's garages'',
       rt_tags = [tagGarages], rt_auth = AuthIdentity, rt_session_action = [], rt_journey_path_param = [],
       rt_request = None, rt_request_optional = False, rt_response = Some ''GarageListResponse'',
       rt_response_statuses = [200], rt_handler = Some HandleGarageList\<rparr>,
     \<lparr>rt_method = ''GET'', rt_path = ''/v1/garages/{id}'', rt_operation_id = ''garageGet'',
       rt_summary = ''Fetch a garage'',
       rt_tags = [tagGarages], rt_auth = AuthIdentity, rt_session_action = [], rt_journey_path_param = [],
       rt_request = None, rt_request_optional = False, rt_response = Some ''GarageResponse'',
       rt_response_statuses = [200], rt_handler = Some HandleGarageGet\<rparr>,
     \<lparr>rt_method = ''POST'', rt_path = ''/v1/garages/{id}/revisions'', rt_operation_id = ''garageRevisionAppend'',
       rt_summary = ''Append a signed garage revision'',
       rt_tags = [tagGarages], rt_auth = AuthIdentity, rt_session_action = [], rt_journey_path_param = [],
       rt_request = Some ''opencaravan.Garage'', rt_request_optional = False, rt_response = Some ''GarageRevisionAppendResponse'',
       rt_response_statuses = [201], rt_handler = Some HandleGarageRevisionAppend\<rparr>,
     \<lparr>rt_method = ''POST'', rt_path = ''/v1/garages/{id}/ownership-acceptances'', rt_operation_id = ''garageOwnershipAccept'',
       rt_summary = ''Accept garage ownership'',
       rt_tags = [tagGarages], rt_auth = AuthIdentity, rt_session_action = [], rt_journey_path_param = [],
       rt_request = Some ''opencaravan.GarageOwnershipAcceptance'', rt_request_optional = False, rt_response = Some ''GarageOwnershipAcceptanceResponse'',
       rt_response_statuses = [201, 200], rt_handler = Some HandleGarageOwnershipAccept\<rparr>]"

definition garage_vehicle_routes :: "route list" where
  "garage_vehicle_routes =
    [\<lparr>rt_method = ''POST'', rt_path = ''/v1/garages/{id}/vehicles'', rt_operation_id = ''garageVehicleCreate'',
       rt_summary = ''Add a signed garage vehicle'',
       rt_tags = [tagGarages], rt_auth = AuthIdentity, rt_session_action = [], rt_journey_path_param = [],
       rt_request = Some ''opencaravan.GarageVehicle'', rt_request_optional = False, rt_response = Some ''GarageVehicleResponse'',
       rt_response_statuses = [201], rt_handler = Some HandleGarageVehicleCreate\<rparr>,
     \<lparr>rt_method = ''GET'', rt_path = ''/v1/garages/{id}/vehicles'', rt_operation_id = ''garageVehicleList'',
       rt_summary = ''List garage vehicles'',
       rt_tags = [tagGarages], rt_auth = AuthIdentity, rt_session_action = [], rt_journey_path_param = [],
       rt_request = None, rt_request_optional = False, rt_response = Some ''GarageVehicleListResponse'',
       rt_response_statuses = [200], rt_handler = Some HandleGarageVehicleList\<rparr>,
     \<lparr>rt_method = ''GET'', rt_path = ''/v1/garages/{id}/vehicles/{vid}'', rt_operation_id = ''garageVehicleGet'',
       rt_summary = ''Fetch a garage vehicle'',
       rt_tags = [tagGarages], rt_auth = AuthIdentity, rt_session_action = [], rt_journey_path_param = [],
       rt_request = None, rt_request_optional = False, rt_response = Some ''GarageVehicleResponse'',
       rt_response_statuses = [200], rt_handler = Some HandleGarageVehicleGet\<rparr>,
     \<lparr>rt_method = ''POST'', rt_path = ''/v1/garages/{id}/vehicles/{vid}/revisions'', rt_operation_id = ''garageVehicleRevisionAppend'',
       rt_summary = ''Append a signed garage vehicle revision'',
       rt_tags = [tagGarages], rt_auth = AuthIdentity, rt_session_action = [], rt_journey_path_param = [],
       rt_request = Some ''opencaravan.GarageVehicle'', rt_request_optional = False, rt_response = Some ''GarageVehicleResponse'',
       rt_response_statuses = [201], rt_handler = Some HandleGarageVehicleRevisionAppend\<rparr>,
     \<lparr>rt_method = ''POST'', rt_path = ''/v1/garages/{id}/invites'', rt_operation_id = ''garageInviteCreate'',
       rt_summary = ''Mint a garage invite'',
       rt_tags = [tagGarages], rt_auth = AuthIdentity, rt_session_action = [], rt_journey_path_param = [],
       rt_request = Some ''GarageInviteCreateRequest'', rt_request_optional = True, rt_response = Some ''GarageInviteResponse'',
       rt_response_statuses = [201], rt_handler = Some HandleGarageInviteCreate\<rparr>,
     \<lparr>rt_method = ''GET'', rt_path = ''/v1/garages/{id}/invites'', rt_operation_id = ''garageInviteList'',
       rt_summary = ''List garage invites'',
       rt_tags = [tagGarages], rt_auth = AuthIdentity, rt_session_action = [], rt_journey_path_param = [],
       rt_request = None, rt_request_optional = False, rt_response = Some ''GarageInviteListResponse'',
       rt_response_statuses = [200], rt_handler = Some HandleGarageInviteList\<rparr>,
     \<lparr>rt_method = ''POST'', rt_path = ''/v1/garages/{id}/invites/{inviteId}/revoke'', rt_operation_id = ''garageInviteRevoke'',
       rt_summary = ''Revoke a garage invite'',
       rt_tags = [tagGarages], rt_auth = AuthIdentity, rt_session_action = [], rt_journey_path_param = [],
       rt_request = None, rt_request_optional = False, rt_response = None,
       rt_response_statuses = [204], rt_handler = Some HandleGarageInviteRevoke\<rparr>,
     \<lparr>rt_method = ''POST'', rt_path = ''/v1/garage-invites/redeem'', rt_operation_id = ''garageInviteRedeem'',
       rt_summary = ''Redeem a garage invite token'',
       rt_tags = [tagGarages], rt_auth = AuthIdentity, rt_session_action = [], rt_journey_path_param = [],
       rt_request = Some ''GarageInviteRedeemRequest'', rt_request_optional = False, rt_response = Some ''GarageInviteRedeemResponse'',
       rt_response_statuses = [201], rt_handler = Some HandleGarageInviteRedeem\<rparr>]"

definition Routes :: "'m mac_lib \<Rightarrow> route list" where
  "Routes M = system_routes @ identity_routes @ journey_routes M @ vehicle_routes M @ garage_routes @ garage_vehicle_routes"

lemmas route_table = Routes_def system_routes_def identity_routes_def journey_routes_def vehicle_routes_def
  garage_routes_def garage_vehicle_routes_def

section \<open>Registration and pattern matching\<close>

text \<open>A parsed pattern. \<open>{$}\<close> stands for the trailing slash, which a path carries as the
  segment \<open>/\<close>; a pattern that ends in a slash matches every longer path.\<close>

datatype pattern_seg = PLit string | PWild string | PMulti

definition parse_seg :: "string \<Rightarrow> pattern_seg" where
  "parse_seg seg = (if seg = ''{$}'' then PLit ''/''
     else case segment_param seg of Some n \<Rightarrow> PWild n | None \<Rightarrow> PLit seg)"

fun parse_segs :: "string list \<Rightarrow> pattern_seg list" where
  "parse_segs [] = []"
| "parse_segs [s] = (if s = [] then [PMulti] else [parse_seg s])"
| "parse_segs (s # ss) = parse_seg s # parse_segs ss"

definition parse_pattern :: "string \<Rightarrow> pattern_seg list" where
  "parse_pattern path = parse_segs (tl (Split path (CHR ''/'')))"

definition after_lit :: "string \<Rightarrow> (pattern_seg list \<times> 'h) list \<Rightarrow> (pattern_seg list \<times> 'h) list" where
  "after_lit seg ps = map (apfst tl) (filter (\<lambda>p. fst p \<noteq> [] \<and> hd (fst p) = PLit seg) ps)"

fun is_wild :: "pattern_seg \<Rightarrow> bool" where
  "is_wild (PWild _) = True"
| "is_wild _ = False"

definition after_wild :: "(pattern_seg list \<times> 'h) list \<Rightarrow> (pattern_seg list \<times> 'h) list" where
  "after_wild ps = map (apfst tl) (filter (\<lambda>p. fst p \<noteq> [] \<and> is_wild (hd (fst p))) ps)"

text \<open>The walk down the routing tree: at each segment a literal is tried first, then a
  wildcard (never for the trailing slash), then a pattern that ends in a slash. The result
  carries the values of the wildcards.\<close>

fun mux_match :: "(pattern_seg list \<times> 'h) list \<Rightarrow> string list \<Rightarrow> ('h \<times> string list) option" where
  "mux_match ps [] = map_option (\<lambda>p. (snd p, [])) (find (\<lambda>p. fst p = []) ps)"
| "mux_match ps (seg # rest) =
     (case mux_match (after_lit seg ps) rest of
        Some r \<Rightarrow> Some r
      | None \<Rightarrow> (case (if seg = ''/'' then None else mux_match (after_wild ps) rest) of
          Some (h, vs) \<Rightarrow> Some (h, seg # vs)
        | None \<Rightarrow> map_option (\<lambda>p. (snd p, [])) (find (\<lambda>p. fst p = [PMulti]) ps)))"

datatype mux_target = TRoute route | TOpenAPIJSON | TOpenAPIYAML | TDocsPage | TScalarAsset

definition ScalarAssetName :: string where
  "ScalarAssetName = ''scalar.standalone.js''"

type_synonym mux = "(string \<times> string \<times> mux_target) list"

text \<open>Method, pattern and target of every registration, \<open>None\<close> for the panic on an invalid
  table; \<open>verifier\<close> says whether a macaroon verifier is configured.\<close>

definition buildMux :: "bool \<Rightarrow> route list \<Rightarrow> mux option" where
  "buildMux verifier routes =
     (case ValidateRoutes routes of Some e \<Rightarrow> None
      | None \<Rightarrow> Some (map (\<lambda>rt. (rt_method rt, rt_path rt, TRoute rt))
            (filter (\<lambda>rt. rt_auth rt = AuthSession \<longrightarrow> verifier) routes) @
          [(''GET'', ''/openapi.json'', TOpenAPIJSON), (''GET'', ''/openapi.yaml'', TOpenAPIYAML),
           (''GET'', ''/docs/{$}'', TDocsPage), (''GET'', ''/docs/'' @ ScalarAssetName, TScalarAsset)]))"

definition mux_patterns :: "mux \<Rightarrow> string \<Rightarrow> (pattern_seg list \<times> string \<times> mux_target) list" where
  "mux_patterns mux method = map (\<lambda>(m, path, t). (parse_pattern path, path, t)) (filter (\<lambda>e. fst e = method) mux)"

text \<open>A GET pattern also serves HEAD. The result is the pattern, its target and the values
  of its wildcards.\<close>

definition mux_find :: "mux \<Rightarrow> string \<Rightarrow> string list \<Rightarrow> ((string \<times> mux_target) \<times> string list) option" where
  "mux_find mux method segs =
     (case mux_match (mux_patterns mux method) segs of Some r \<Rightarrow> Some r
      | None \<Rightarrow> if method = ''HEAD'' then mux_match (mux_patterns mux ''GET'') segs else None)"

section \<open>Properties\<close>

text \<open>What the table check is for: an accepted table is non-empty, its operation ids and its
  registrations are unique, and every entry is well formed.\<close>

definition route_ok :: "route \<Rightarrow> bool" where
  "route_ok rt = (rt_method rt \<in> set validMethods \<and> (\<exists>p. rt_path rt = CHR ''/'' # p) \<and>
     rt_operation_id rt \<noteq> [] \<and> rt_summary rt \<noteq> [] \<and> rt_tags rt \<noteq> [] \<and> set (rt_tags rt) \<subseteq> fst ` set RouteTags \<and>
     rt_response_statuses rt \<noteq> [] \<and> rt_handler rt \<noteq> None \<and>
     \<not> (rt_request_optional rt \<and> rt_request rt = None) \<and> (if rt_response rt = None then rt_response_statuses rt = [204] else True) \<and>
     (if rt_auth rt = AuthSession
      then rt_session_action rt \<noteq> [] \<and> rt_journey_path_param rt \<in> set (PathParams (rt_path rt))
      else rt_auth rt \<in> {AuthPublic, AuthIdentity} \<and> rt_session_action rt = [] \<and> rt_journey_path_param rt = []))"

lemma HasPrefix_slash: "HasPrefix p ''/'' \<longleftrightarrow> (\<exists>q. p = CHR ''/'' # q)"
  by (cases p) (auto simp: HasPrefix_def)

lemma validate_route_None:
  "validate_route ops pats rt = None \<longleftrightarrow> route_ok rt \<and> rt_operation_id rt \<notin> set ops \<and> route_id rt \<notin> set pats"
proof -
  have tags: "find (\<lambda>t. t \<notin> fst ` set RouteTags) (rt_tags rt) = None \<longleftrightarrow> set (rt_tags rt) \<subseteq> fst ` set RouteTags"
    by (auto simp: find_None_iff)
  show ?thesis
  proof (cases "find (\<lambda>t. t \<notin> fst ` set RouteTags) (rt_tags rt)")
    case None
    with tags show ?thesis
      by (auto simp: validate_route_def route_ok_def HasPrefix_slash auth_defs)
  next
    case (Some t)
    with tags have "\<not> set (rt_tags rt) \<subseteq> fst ` set RouteTags" by simp
    with Some show ?thesis
      by (simp add: validate_route_def route_ok_def)
  qed
qed

lemma validate_routes_None:
  "validate_routes ops pats rts = None \<longleftrightarrow> list_all route_ok rts \<and>
     distinct (map rt_operation_id rts) \<and> set (map rt_operation_id rts) \<inter> set ops = {} \<and>
     distinct (map route_id rts) \<and> set (map route_id rts) \<inter> set pats = {}"
proof (induction rts arbitrary: ops pats)
  case (Cons rt rts)
  show ?case
    using Cons [of "rt_operation_id rt # ops" "route_id rt # pats"] validate_route_None [of ops pats rt]
    by (auto split: option.splits)
qed simp

text \<open>The table check accepts exactly the well-formed tables: non-empty, without two routes of
  one operation id or one registration, every route with a known method and posture, a
  rooted path, documented tags and a handler, and with session metadata exactly on the
  session routes, whose journey parameter occurs in the path.\<close>

theorem ValidateRoutes_iff:
  "(ValidateRoutes rts = None) = (rts \<noteq> [] \<and> list_all route_ok rts \<and>
     distinct (map rt_operation_id rts) \<and> distinct (map route_id rts))"
  by (simp add: ValidateRoutes_def validate_routes_None)

text \<open>The session actions the table uses are not empty.\<close>

definition actions_set :: "'m mac_lib \<Rightarrow> bool" where
  "actions_set M = (ml_action_journey_read M \<noteq> [] \<and> ml_action_journey_write M \<noteq> [] \<and> ml_action_telemetry_write M \<noteq> [])"

lemma route_ok_unfold: "list_all route_ok rts = list_all (\<lambda>rt. validate_route [] [] rt = None) rts"
  by (rule list.pred_cong) (simp_all add: validate_route_None)

lemma session_params:
  "PathParams ''/v1/journeys/{id}'' = [''id'']"
  "PathParams ''/v1/journeys/{id}/telemetry'' = [''id'']"
  "PathParams ''/v1/journeys/{id}/vehicles'' = [''id'']"
  "PathParams ''/v1/journeys/{id}/vehicles/{vid}'' = [''id'', ''vid'']"
  "PathParams ''/v1/journeys/{id}/vehicles/{vid}/acl-revisions'' = [''id'', ''vid'']"
  "PathParams ''/v1/journeys/{id}/vehicles/{vid}/revisions'' = [''id'', ''vid'']"
  "PathParams ''/v1/journeys/{id}/vehicles/{vid}/driver-attestations'' = [''id'', ''vid'']"
  "PathParams ''/v1/journeys/{id}/vehicles/{vid}/current-driver'' = [''id'', ''vid'']"
  by code_simp+

lemma static_routes_ok: "list_all route_ok (system_routes @ identity_routes @ garage_routes @ garage_vehicle_routes)"
  unfolding route_ok_unfold by code_simp

lemma session_routes_ok:
  assumes "actions_set M"
  shows "list_all route_ok (journey_routes M @ vehicle_routes M)"
  using assms
  by (simp add: actions_set_def journey_routes_def vehicle_routes_def route_ok_def session_params auth_defs
      validMethods_def RouteTags_def)

text \<open>Apart from the session actions the table does not depend on the library.\<close>

lemma Routes_keys:
  "map rt_operation_id (Routes M) = map rt_operation_id (Routes text_lib)"
  "map route_id (Routes M) = map route_id (Routes text_lib)"
  "map (\<lambda>rt. (rt_method rt, rt_path rt)) (Routes M) = map (\<lambda>rt. (rt_method rt, rt_path rt)) (Routes text_lib)"
  by (simp_all add: Routes_def journey_routes_def vehicle_routes_def route_id_def)

lemma Routes_distinct: "distinct (map rt_operation_id (Routes text_lib))" "distinct (map route_id (Routes text_lib))"
  by code_simp+

lemma Routes_accepted:
  assumes "actions_set M"
  shows "ValidateRoutes (Routes M) = None"
proof -
  have "list_all route_ok (Routes M)"
    using static_routes_ok session_routes_ok [OF assms] by (simp add: Routes_def)
  moreover have "distinct (map rt_operation_id (Routes M))" "distinct (map route_id (Routes M))"
    by (subst Routes_keys, rule Routes_distinct)+
  moreover have "Routes M \<noteq> []" by (simp add: Routes_def system_routes_def)
  ultimately show ?thesis by (simp add: ValidateRoutes_def validate_routes_None)
qed

section \<open>Every route is reached by its own requests\<close>

text \<open>Two patterns are \<^emph>\<open>compatible\<close> when no request has to choose between a literal and a
  wildcard: up to their first difference they have the same wildcards, and they differ in a
  literal or in length.\<close>

fun compatible :: "pattern_seg list \<Rightarrow> pattern_seg list \<Rightarrow> bool" where
  "compatible (PLit a # p) (PLit b # q) = (if a = b then compatible p q else True)"
| "compatible (PWild a # p) (PWild b # q) = compatible p q"
| "compatible (PMulti # p) (PLit b # q) = (b \<noteq> ''/'')"
| "compatible (PLit a # p) (PMulti # q) = (a \<noteq> ''/'')"
| "compatible (PMulti # p) [] = True"
| "compatible [] (PMulti # p) = True"
| "compatible (PLit a # p) [] = True"
| "compatible [] (PLit b # q) = True"
| "compatible (PWild a # p) [] = True"
| "compatible [] (PWild b # q) = True"
| "compatible p q = False"

lemma compatible_sym: "compatible p q = compatible q p"
  by (induction p q rule: compatible.induct) auto

lemma not_compatible_self: "\<not> compatible p p"
  by (induction p) (auto, case_tac a, auto)

definition all_compatible :: "(pattern_seg list \<times> 'h) list \<Rightarrow> bool" where
  "all_compatible ps = sorted_wrt (\<lambda>p q. compatible (fst p) (fst q)) ps"

lemma all_compatible_eq:
  assumes "all_compatible ps" "x \<in> set ps" "y \<in> set ps" "\<not> compatible (fst x) (fst y)"
  shows "x = y"
  using assms
proof (induction ps)
  case (Cons p ps)
  then show ?case
    using compatible_sym by (auto simp: all_compatible_def)
qed simp

lemma all_compatible_after:
  assumes "all_compatible ps" "\<And>p q. Q p \<Longrightarrow> Q q \<Longrightarrow> compatible (fst p) (fst q) \<Longrightarrow> compatible (tl (fst p)) (tl (fst q))"
  shows "all_compatible (map (apfst tl) (filter Q ps))"
proof -
  have "sorted_wrt (\<lambda>p q. compatible (fst p) (fst q)) (filter Q ps)"
    using assms(1) by (simp add: all_compatible_def sorted_wrt_filter)
  then have "sorted_wrt (\<lambda>p q. compatible (tl (fst p)) (tl (fst q))) (filter Q ps)"
    by (rule sorted_wrt_mono_rel [rotated]) (simp add: assms(2))
  then show ?thesis by (simp add: all_compatible_def sorted_wrt_map)
qed

lemma after_compatible:
  assumes "all_compatible ps"
  shows "all_compatible (after_lit seg ps)" "all_compatible (after_wild ps)"
proof -
  show "all_compatible (after_lit seg ps)"
    unfolding after_lit_def using assms
  proof (rule all_compatible_after)
    fix p q :: "pattern_seg list \<times> 'a"
    assume "fst p \<noteq> [] \<and> hd (fst p) = PLit seg" "fst q \<noteq> [] \<and> hd (fst q) = PLit seg" "compatible (fst p) (fst q)"
    then show "compatible (tl (fst p)) (tl (fst q))" by (cases "fst p"; cases "fst q") auto
  qed
  show "all_compatible (after_wild ps)"
    unfolding after_wild_def using assms
  proof (rule all_compatible_after)
    fix p q :: "pattern_seg list \<times> 'a"
    assume "fst p \<noteq> [] \<and> is_wild (hd (fst p))" "fst q \<noteq> [] \<and> is_wild (hd (fst q))" "compatible (fst p) (fst q)"
    then show "compatible (tl (fst p)) (tl (fst q))"
      by (cases "fst p"; cases "fst q"; cases "hd (fst p)"; cases "hd (fst q)") auto
  qed
qed

text \<open>No other pattern starts with a literal where a compatible table has this one.\<close>

lemma after_lit_empty:
  assumes "all_compatible ps" "x \<in> set ps" "\<And>q. \<not> compatible (fst x) (PLit seg # q)" "\<And>q. fst x \<noteq> PLit seg # q"
  shows "after_lit seg ps = []"
proof -
  have "\<not> (fst y \<noteq> [] \<and> hd (fst y) = PLit seg)" if "y \<in> set ps" for y
  proof
    assume "fst y \<noteq> [] \<and> hd (fst y) = PLit seg"
    then obtain q where q: "fst y = PLit seg # q" by (cases "fst y") auto
    with all_compatible_eq [OF assms(1,2) that] assms(3) have "x = y" by simp
    with q assms(4) show False by blast
  qed
  then show ?thesis by (simp add: after_lit_def filter_empty_conv)
qed

lemma find_only:
  assumes "x \<in> set ps" "Q x" "\<And>y. y \<in> set ps \<Longrightarrow> Q y \<Longrightarrow> y = x"
  shows "find Q ps = Some x"
  using assms by (metis find_None_iff2 find_SomeD not_None_eq)

lemma mux_match_Nil: "mux_match [] segs = None"
  by (induction segs) (auto simp: after_lit_def after_wild_def)

text \<open>The path of a pattern for given values of its wildcards, and which patterns are wanted.\<close>

fun fill_path :: "pattern_seg list \<Rightarrow> string list \<Rightarrow> string list" where
  "fill_path [] vs = []"
| "fill_path (PLit l # ps) vs = l # fill_path ps vs"
| "fill_path (PMulti # ps) vs = [''/'']"
| "fill_path (PWild n # ps) [] = []"
| "fill_path (PWild n # ps) (v # vs) = v # fill_path ps vs"

fun wilds :: "pattern_seg list \<Rightarrow> string list" where
  "wilds [] = []"
| "wilds (PWild n # ps) = n # wilds ps"
| "wilds (_ # ps) = wilds ps"

fun closed_pattern :: "pattern_seg list \<Rightarrow> bool" where
  "closed_pattern [] = True"
| "closed_pattern (PMulti # ps) = (ps = [])"
| "closed_pattern (_ # ps) = closed_pattern ps"

lemma mux_match_fill:
  assumes "all_compatible ps" "(p, h) \<in> set ps" "closed_pattern p" "length vs = length (wilds p)" "''/'' \<notin> set vs"
  shows "mux_match ps (fill_path p vs) = Some (h, vs)"
  using assms
proof (induction p vs arbitrary: ps rule: fill_path.induct)
  case (1 vs)
  have "find (\<lambda>q. fst q = []) ps = Some ([], h)"
    by (rule find_only [OF 1(2)]) (simp, rule all_compatible_eq [OF 1(1) _ 1(2)], simp_all)
  with 1 show ?case by simp
next
  case (2 l p vs)
  have "(p, h) \<in> set (after_lit l ps)" using 2(3) by (force simp: after_lit_def)
  with 2 after_compatible [OF 2(2)] show ?case by simp
next
  case (3 p vs)
  have "after_lit ''/'' ps = []"
    by (rule after_lit_empty [OF 3(1,2)]) simp_all
  moreover have one: "([PMulti], h) \<in> set ps" using 3(2,3) by simp
  have "find (\<lambda>q. fst q = [PMulti]) ps = Some ([PMulti], h)"
    by (rule find_only [OF one]) (simp, rule all_compatible_eq [OF 3(1) _ one], simp_all)
  ultimately show ?case using 3 by (simp add: mux_match_Nil)
next
  case (4 n p)
  then show ?case by simp
next
  case (5 n p v vs)
  have "after_lit v ps = []"
    by (rule after_lit_empty [OF 5(2,3)]) simp_all
  moreover have "(p, h) \<in> set (after_wild ps)" using 5(3) by (force simp: after_wild_def)
  moreover have "v \<noteq> ''/''" using 5(6) by auto
  ultimately show ?case using 5 after_compatible [OF 5(2)] by (simp add: mux_match_Nil)
qed

definition table_paths :: "string \<Rightarrow> string list" where
  "table_paths method = map snd (filter (\<lambda>e. fst e = method) (map (\<lambda>rt. (rt_method rt, rt_path rt)) (Routes text_lib) @
     [(''GET'', ''/openapi.json''), (''GET'', ''/openapi.yaml''), (''GET'', ''/docs/{$}''), (''GET'', ''/docs/'' @ ScalarAssetName)]))"

lemma table_compatible:
  "sorted_wrt compatible (map parse_pattern (table_paths ''GET''))"
  "sorted_wrt compatible (map parse_pattern (table_paths ''POST''))"
  by code_simp+

lemma table_patterns:
  "list_all (\<lambda>(m, p). m \<in> {''GET'', ''POST''} \<and> closed_pattern (parse_pattern p) \<and> wilds (parse_pattern p) = PathParams p)
     (map (\<lambda>rt. (rt_method rt, rt_path rt)) (Routes text_lib))"
  by code_simp

lemma Routes_pattern:
  assumes "rt \<in> set (Routes M)"
  shows "rt_method rt \<in> {''GET'', ''POST''} \<and> closed_pattern (parse_pattern (rt_path rt)) \<and>
    wilds (parse_pattern (rt_path rt)) = PathParams (rt_path rt)"
proof -
  have "(rt_method rt, rt_path rt) \<in> set (map (\<lambda>rt. (rt_method rt, rt_path rt)) (Routes M))" using assms by force
  then show ?thesis unfolding Routes_keys(3) [of M] using table_patterns unfolding list_all_iff by blast
qed

lemma mux_patterns_paths:
  assumes "buildMux True (Routes M) = Some mux"
  shows "map (fst \<circ> snd) (mux_patterns mux m) = table_paths m" "map fst (mux_patterns mux m) = map parse_pattern (table_paths m)"
proof -
  have "mux = map (\<lambda>rt. (rt_method rt, rt_path rt, TRoute rt)) (Routes M) @
          [(''GET'', ''/openapi.json'', TOpenAPIJSON), (''GET'', ''/openapi.yaml'', TOpenAPIYAML),
           (''GET'', ''/docs/{$}'', TDocsPage), (''GET'', ''/docs/'' @ ScalarAssetName, TScalarAsset)]"
    using assms by (simp add: buildMux_def split: option.splits)
  then have k: "map (\<lambda>e. (fst e, fst (snd e))) mux = map (\<lambda>rt. (rt_method rt, rt_path rt)) (Routes M) @
     [(''GET'', ''/openapi.json''), (''GET'', ''/openapi.yaml''), (''GET'', ''/docs/{$}''), (''GET'', ''/docs/'' @ ScalarAssetName)]"
    by simp
  have "map (fst \<circ> snd) (filter (\<lambda>e. fst e = m) mux) = map snd (filter (\<lambda>e. fst e = m) (map (\<lambda>e. (fst e, fst (snd e))) mux))"
    by (simp add: filter_map o_def)
  then have f: "map (fst \<circ> snd) (filter (\<lambda>e. fst e = m) mux) = table_paths m"
    unfolding k Routes_keys(3) [of M] by (simp add: table_paths_def)
  then show "map (fst \<circ> snd) (mux_patterns mux m) = table_paths m"
    by (simp add: mux_patterns_def o_def split_def)
  from f [symmetric] show "map fst (mux_patterns mux m) = map parse_pattern (table_paths m)"
    by (simp add: mux_patterns_def o_def split_def)
qed

lemma route_registered:
  assumes "buildMux True rts = Some mux" "rt \<in> set rts"
  shows "(parse_pattern (rt_path rt), rt_path rt, TRoute rt) \<in> set (mux_patterns mux (rt_method rt))"
proof -
  have "(rt_method rt, rt_path rt, TRoute rt) \<in> set mux"
    using assms by (auto simp: buildMux_def split: option.splits)
  then show ?thesis unfolding mux_patterns_def set_map set_filter by force
qed

lemma buildMux_Routes: "actions_set M \<Longrightarrow> \<exists>mux. buildMux v (Routes M) = Some mux"
  by (simp add: buildMux_def Routes_accepted)

text \<open>C34. The route table is accepted and complete: the server starts with it, and a request for a
  route, with any values for the path parameters, is dispatched to exactly that route and
  with these values; no other route takes it.\<close>

theorem routes_dispatch:
  assumes "actions_set M" "rt \<in> set (Routes M)" "length vs = length (PathParams (rt_path rt))" "''/'' \<notin> set vs"
  shows "\<exists>mux. buildMux True (Routes M) = Some mux \<and>
    mux_find mux (rt_method rt) (fill_path (parse_pattern (rt_path rt)) vs) = Some ((rt_path rt, TRoute rt), vs)"
proof -
  obtain mux where mux: "buildMux True (Routes M) = Some mux" using buildMux_Routes [OF assms(1)] by blast
  let ?ps = "mux_patterns mux (rt_method rt)"
  note pat = Routes_pattern [OF assms(2)]
  have "sorted_wrt compatible (map fst ?ps)"
    unfolding mux_patterns_paths(2) [OF mux] using pat table_compatible by (elim conjE insertE emptyE) simp_all
  then have "all_compatible ?ps" by (simp add: all_compatible_def sorted_wrt_map)
  moreover have "(parse_pattern (rt_path rt), rt_path rt, TRoute rt) \<in> set ?ps"
    by (rule route_registered [OF mux assms(2)])
  ultimately have "mux_match ?ps (fill_path (parse_pattern (rt_path rt)) vs) = Some ((rt_path rt, TRoute rt), vs)"
    using pat assms(3,4) by (intro mux_match_fill) auto
  then show ?thesis using mux by (simp add: mux_find_def)
qed

theorem routes_dispatch_witness:
  "\<exists>mux rt. buildMux True (Routes text_lib) = Some mux \<and> rt_handler rt = Some HandleGarageVehicleGet \<and>
    mux_find mux ''GET'' [''v1'', ''garages'', ''g'', ''vehicles'', ''x''] = Some ((rt_path rt, TRoute rt), [''g'', ''x''])"
proof -
  let ?rt = "garage_vehicle_routes ! 2"
  have "actions_set text_lib" "length [''g'', ''x''] = length (PathParams (rt_path ?rt))" "''/'' \<notin> set [''g'', ''x'']"
    "fill_path (parse_pattern (rt_path ?rt)) [''g'', ''x''] = [''v1'', ''garages'', ''g'', ''vehicles'', ''x'']"
    "rt_method ?rt = ''GET''" "rt_handler ?rt = Some HandleGarageVehicleGet"
    by code_simp+
  moreover have "?rt \<in> set (Routes text_lib)" by (simp add: Routes_def garage_vehicle_routes_def)
  ultimately show ?thesis using routes_dispatch [of text_lib ?rt "[''g'', ''x'']"] by auto
qed

end
