(* ===== verification/HttpServer.thy ===== *)
theory HttpServer
  imports ApiAccounts Routes
begin

text \<open>
  The assembled HTTP server (server/api/server.go, server_info.go): its configuration, the
  system endpoints, and the path of a request through the middleware, the mux and the
  route's guard to the handler that the route table binds. Log lines are left out, so that
  \<open>withLogging\<close> is the identity; the status of a mux redirect is the one of Go 1.26.
\<close>

section \<open>Libraries, configuration and requests\<close>

text \<open>The JSON decoder on the request types (\<open>None\<close> for a rejected body) and the sample
  validation of the protocol library.\<close>

record body_lib =
  bl_enroll :: "string \<Rightarrow> enroll_request option"
  bl_session :: "string \<Rightarrow> session_request option"
  bl_client_app_invite :: "string \<Rightarrow> 64 word decoded"
  bl_journey :: "string \<Rightarrow> journey_create_request option"
  bl_telemetry :: "string \<Rightarrow> telemetry_request option"
  bl_vehicle_create :: "string \<Rightarrow> vehicle_create_request option"
  bl_acl :: "string \<Rightarrow> vehicle_acl option"
  bl_vehicle :: "string \<Rightarrow> vehicle option"
  bl_attestation :: "string \<Rightarrow> driver_attestation option"
  bl_garage :: "string \<Rightarrow> garage option"
  bl_acceptance :: "string \<Rightarrow> ownership_acceptance option"
  bl_garage_vehicle :: "string \<Rightarrow> garage_vehicle option"
  bl_garage_invite :: "string \<Rightarrow> garage_invite_create_request decoded"
  bl_redeem :: "string \<Rightarrow> string option"
  bl_sample_valid :: "position_sample \<Rightarrow> bool"

text \<open>The policy document the server advertises, and its decoder.\<close>

record server_policy_document =
  pd_version :: string
  pd_registration_mode :: string
  pd_invite_provenance_required :: bool
  pd_journey_visibility :: string
  pd_invite_links :: bool
  pd_invite_use_limits :: bool
  pd_deletion_time_immutable :: bool
  pd_retention_control :: string
  pd_profile_republication :: bool
  pd_image_resource_cache :: bool

record ('m, 'ip, 'net) libs =
  lb_lib :: lib
  lb_verifier :: verifier_lib
  lb_wire :: wire_lib
  lb_enroll :: enroll_lib
  lb_session :: session_lib
  lb_mac :: "'m mac_lib"
  lb_net :: "('ip, 'net) net_lib"
  lb_key :: key_lib
  lb_ca :: ca_lib
  lb_body :: body_lib
  lb_policy :: "string \<Rightarrow> server_policy_document option"

text \<open>\<open>api.Config\<close> with the build information; \<open>sv_stores\<close> are the optional stores.\<close>

record build_info =
  bi_version :: string
  bi_git_commit :: string
  bi_git_branch :: string
  bi_build_time :: string
  bi_go_version :: string
  bi_os :: string
  bi_arch :: string

record 'net server =
  sv_address :: string
  sv_port :: int
  sv_public_url :: "string option"
  sv_proxy :: "'net proxy_config"
  sv_store :: bool
  sv_stores :: server_cfg
  sv_ca :: authority
  sv_identity_store :: bool
  sv_issuer :: "issuer option"
  sv_verifier :: bool
  sv_mint_policy :: string
  sv_policy :: policy_snapshot
  sv_build :: build_info
  sv_spec_json :: string
  sv_spec_yaml :: string

text \<open>What one request meets: the environment of its store calls, the map iteration order,
  the random numbers drawn for a certificate serial and the uptime string.\<close>

record world =
  wd_env :: env
  wd_ord :: "(string \<times> string) list \<Rightarrow> (string \<times> string) list"
  wd_serials :: "nat \<Rightarrow> nat option"
  wd_uptime :: string

record inbound =
  ib_request :: http_request
  ib_method :: string
  ib_path :: string
  ib_query_at :: string
  ib_content_length :: int
  ib_body :: string

section \<open>System endpoints\<close>

record root_response =
  rr_name :: string
  rr_version :: string
  rr_status :: string
  rr_public_url :: string

record health_response =
  hs_status :: string
  hs_version :: string
  hs_uptime :: string

record readiness_response =
  ry_status :: string
  ry_version :: string

record version_response =
  ve_build :: build_info
  ve_uptime :: string

record server_capabilities =
  sc_registration_mode :: string
  sc_mint_policy :: string
  sc_invite_only :: bool
  sc_invite_links :: bool
  sc_invite_use_limits :: bool
  sc_deletion_time_per_item :: bool
  sc_sqlite_storage :: bool
  sc_telemetry_storage :: bool
  sc_image_resource_upload :: bool

record server_info_response =
  si_name :: string
  si_public_url :: string
  si_implementation :: "string \<times> string \<times> string \<times> string"
  si_protocol :: "string \<times> string"
  si_capabilities :: server_capabilities
  si_policy :: policy_snapshot

record spec_response =
  sr_headers :: "(string \<times> string) list"
  sr_body :: string

definition publicURLString :: "'net server \<Rightarrow> string" where
  "publicURLString sv = (case sv_public_url sv of None \<Rightarrow> [] | Some u \<Rightarrow> u)"

text \<open>\<open>strconv.Itoa\<close> and \<open>net.JoinHostPort\<close>.\<close>

fun digits :: "nat \<Rightarrow> string" where
  "digits n = (if n < 10 then [char_of (48 + n)] else digits (n div 10) @ [char_of (48 + n mod 10)])"

definition Itoa :: "int \<Rightarrow> string" where
  "Itoa i = (if i < 0 then CHR ''-'' # digits (nat (- i)) else digits (nat i))"

definition JoinHostPort :: "string \<Rightarrow> string \<Rightarrow> string" where
  "JoinHostPort host port =
     (if CHR '':'' \<in> set host then ''['' @ host @ '']:'' @ port else host @ '':'' @ port)"

definition ListenAddr :: "'net server \<Rightarrow> string" where
  "ListenAddr sv = JoinHostPort (sv_address sv) (Itoa (sv_port sv))"

definition server_URL :: "'net server \<Rightarrow> string" where
  "server_URL sv = (if publicURLString sv \<noteq> [] then publicURLString sv else ''http://'' @ ListenAddr sv)"

definition handleRoot :: "'net server \<Rightarrow> (int \<times> root_response) hm" where
  "handleRoot sv = h_return (200, \<lparr>rr_name = ''Spivot Server'', rr_version = bi_version (sv_build sv),
     rr_status = ''ok'', rr_public_url = publicURLString sv\<rparr>)"

definition handleHealth :: "'net server \<Rightarrow> world \<Rightarrow> (int \<times> health_response) hm" where
  "handleHealth sv wd = h_return (200, \<lparr>hs_status = ''healthy'', hs_version = bi_version (sv_build sv),
     hs_uptime = wd_uptime wd\<rparr>)"

text \<open>\<open>Ping\<close> fails on a closed store and when the driver does.\<close>

definition store_Ping :: "env \<Rightarrow> serr option" where
  "store_Ping env = (if \<not> env_open env then Some ErrNotOpen
     else if env_fault env ''ping'' then Some (SQLErr (SQLDriver ''ping'')) else None)"

definition handleReady :: "'net server \<Rightarrow> world \<Rightarrow> (int \<times> readiness_response) hm" where
  "handleReady sv wd =
     (if sv_store sv \<and> store_Ping (wd_env wd) \<noteq> None
      then h_return (503, \<lparr>ry_status = ''unready'', ry_version = bi_version (sv_build sv)\<rparr>)
      else h_return (200, \<lparr>ry_status = ''ready'', ry_version = bi_version (sv_build sv)\<rparr>))"

definition handleVersion :: "'net server \<Rightarrow> world \<Rightarrow> (int \<times> version_response) hm" where
  "handleVersion sv wd = h_return (200, \<lparr>ve_build = sv_build sv, ve_uptime = wd_uptime wd\<rparr>)"

definition spec_etag :: "lib \<Rightarrow> string \<Rightarrow> string" where
  "spec_etag L body = [CHR 0x22] @ hex_encode (lib_sha256 L body) @ [CHR 0x22]"

definition serveSpec :: "http_request \<Rightarrow> string \<Rightarrow> string \<Rightarrow> string \<Rightarrow> (int \<times> spec_response) hm" where
  "serveSpec r contentType etag body =
     (let headers = [(''Cache-Control'', ''no-cache''), (''ETag'', etag)] in
      if hr_header r ''If-None-Match'' = etag then h_return (304, \<lparr>sr_headers = headers, sr_body = []\<rparr>)
      else h_return (200, \<lparr>sr_headers = headers @ [(''Content-Type'', contentType)], sr_body = body\<rparr>))"

definition handleOpenAPIJSON :: "lib \<Rightarrow> 'net server \<Rightarrow> http_request \<Rightarrow> (int \<times> spec_response) hm" where
  "handleOpenAPIJSON L sv r = serveSpec r ''application/json'' (spec_etag L (sv_spec_json sv)) (sv_spec_json sv)"

definition handleOpenAPIYAML :: "lib \<Rightarrow> 'net server \<Rightarrow> http_request \<Rightarrow> (int \<times> spec_response) hm" where
  "handleOpenAPIYAML L sv r = serveSpec r ''application/yaml'' (spec_etag L (sv_spec_yaml sv)) (sv_spec_yaml sv)"

section \<open>Server information\<close>

definition DefaultServerPolicyDocument :: server_policy_document where
  "DefaultServerPolicyDocument =
     \<lparr>pd_version = ''spivot-server-policy/v1alpha1'', pd_registration_mode = ''invite_only'',
      pd_invite_provenance_required = True, pd_journey_visibility = ''invite_only'', pd_invite_links = False,
      pd_invite_use_limits = True, pd_deletion_time_immutable = True, pd_retention_control = ''journey_deletion_time'',
      pd_profile_republication = False, pd_image_resource_cache = False\<rparr>"

definition zero_policy :: server_policy_document where
  "zero_policy = \<lparr>pd_version = [], pd_registration_mode = [], pd_invite_provenance_required = False,
     pd_journey_visibility = [], pd_invite_links = False, pd_invite_use_limits = False, pd_deletion_time_immutable = False,
     pd_retention_control = [], pd_profile_republication = False, pd_image_resource_cache = False\<rparr>"

definition serverPolicyDocumentFromSnapshot ::
  "(string \<Rightarrow> server_policy_document option) \<Rightarrow> policy_snapshot \<Rightarrow> server_policy_document" where
  "serverPolicyDocumentFromSnapshot unmarshal s =
     (if sp_document_json s = [] then zero_policy
      else case unmarshal (sp_document_json s) of None \<Rightarrow> zero_policy | Some p \<Rightarrow> p)"

definition serverCapabilitiesFromPolicy :: "server_policy_document \<Rightarrow> server_capabilities" where
  "serverCapabilitiesFromPolicy p = \<lparr>sc_registration_mode = pd_registration_mode p, sc_mint_policy = [],
     sc_invite_only = (pd_journey_visibility p = ''invite_only''), sc_invite_links = pd_invite_links p,
     sc_invite_use_limits = pd_invite_use_limits p,
     sc_deletion_time_per_item = (pd_retention_control p = ''journey_deletion_time''),
     sc_sqlite_storage = True, sc_telemetry_storage = False, sc_image_resource_upload = False\<rparr>"

definition capabilities :: "'net server \<Rightarrow> server_policy_document \<Rightarrow> server_capabilities" where
  "capabilities sv p = (serverCapabilitiesFromPolicy p)\<lparr>sc_mint_policy :=
     (if sv_mint_policy sv = [] then ''any-user'' else sv_mint_policy sv)\<rparr>"

definition openCaravanProtocolVersion :: string where
  "openCaravanProtocolVersion = ''0.1.0''"

definition serverInfo :: "(string \<Rightarrow> server_policy_document option) \<Rightarrow> 'net server \<Rightarrow> server_info_response" where
  "serverInfo unmarshal sv = \<lparr>si_name = ''Spivot Server'', si_public_url = publicURLString sv,
     si_implementation = (''spivot-server'', bi_version (sv_build sv), bi_git_commit (sv_build sv), bi_build_time (sv_build sv)),
     si_protocol = (''OpenCaravan'', openCaravanProtocolVersion),
     si_capabilities = capabilities sv (serverPolicyDocumentFromSnapshot unmarshal (sv_policy sv)),
     si_policy = sv_policy sv\<rparr>"

definition handleServerInfo :: "(string \<Rightarrow> server_policy_document option) \<Rightarrow> 'net server \<Rightarrow> (int \<times> server_info_response) hm" where
  "handleServerInfo unmarshal sv = h_return (200, serverInfo unmarshal sv)"

section \<open>The handlers of the route table\<close>

datatype api_reply =
    RRoot root_response | RHealth health_response | RReadiness readiness_response | RServerInfo server_info_response
  | RVersion version_response | REnroll enroll_response | RSession session_response
  | RClientAppInvite client_app_invite_response | RClientAppInvites "client_app_invite_response list"
  | RJourney journey_response | RTelemetry telemetry_response
  | RVehicle journey_vehicle_response | RVehicles "journey_vehicle_response list" | RACLRevision acl_revision_response
  | RVehicleRevision vehicle_revision_response | RAttestation attestation_response
  | RAttestations "attestation_response list" | RCurrentDriver current_driver_response
  | RGarage garage_response | RGarages "garage_response list" | RGarageRevision garage_revision_response
  | RAcceptance acceptance_response | RGarageVehicle garage_vehicle_response
  | RGarageVehicles "garage_vehicle_response list" | RGarageInvite garage_invite_response
  | RGarageInvites "garage_invite_response list" | RNoContent | RRedeemed redeem_response
  | RSpec spec_response | RDocsPage | RScalarAsset
  | RRedirect string | RMethodNotAllowed | RNotFound

definition h_map :: "('a \<Rightarrow> 'b) \<Rightarrow> (int \<times> 'a) hm \<Rightarrow> (int \<times> 'b) hm" where
  "h_map f m = h_bind m (\<lambda>(st, a). h_return (st, f a))"

text \<open>The certificate authority's \<open>Sign\<close>. Its serial loop returns unless every number drawn
  is zero; a request that waits for it forever changes nothing, like one that fails.\<close>

definition sign_leaf :: "('m, 'ip, 'net) libs \<Rightarrow> 'net server \<Rightarrow> world \<Rightarrow> x509_csr \<Rightarrow> int \<Rightarrow> id_err + (x509_cert \<times> string)" where
  "sign_leaf lb sv wd csr lifetime =
     (case CA_Sign (lb_key lb) (lb_ca lb) (sv_ca sv) (env_now (wd_env wd)) (wd_serials wd) (Some csr) lifetime of
        None \<Rightarrow> Inl (IdErr ''serial'') | Some r \<Rightarrow> r)"

definition call_endpoint ::
  "('m, 'ip, 'net) libs \<Rightarrow> 'net server \<Rightarrow> world \<Rightarrow> inbound \<Rightarrow> endpoint \<Rightarrow> request_ctx \<Rightarrow> (int \<times> api_reply) hm" where
  "call_endpoint lb sv wd ib ep rc =
     (let L = lb_lib lb; V = lb_verifier lb; W = lb_wire lb; B = lb_body lb; env = wd_env wd; cfg = sv_stores sv;
          body = ib_body ib; n = ib_content_length ib in
      case ep of
        HandleRoot \<Rightarrow> h_map RRoot (handleRoot sv)
      | HandleHealth \<Rightarrow> h_map RHealth (handleHealth sv wd)
      | HandleReady \<Rightarrow> h_map RReadiness (handleReady sv wd)
      | HandleServerInfo \<Rightarrow> h_map RServerInfo (handleServerInfo (lb_policy lb) sv)
      | HandleVersion \<Rightarrow> h_map RVersion (handleVersion sv wd)
      | HandleClientAppEnroll \<Rightarrow> h_map REnroll (handleClientAppEnroll L (lb_enroll lb) V env cfg (sign_leaf lb sv wd)
          (CertificatePEM (sv_ca sv)) (bl_enroll B body))
      | HandleSessionCreate \<Rightarrow> h_map RSession (handleSessionCreate (lb_mac lb) (lb_session lb) env (sv_issuer sv) rc (bl_session B body))
      | HandleClientAppInviteCreate \<Rightarrow> h_map RClientAppInvite
          (handleClientAppInviteCreate L env cfg (sv_mint_policy sv) rc n (bl_client_app_invite B body))
      | HandleClientAppInviteList \<Rightarrow> h_map RClientAppInvites (handleClientAppInviteList env cfg rc)
      | HandleJourneyCreate \<Rightarrow> h_map RJourney
          (handleJourneyCreate env cfg (sp_policy_hash (sv_policy sv)) (sp_document_json (sv_policy sv)) rc (bl_journey B body))
      | HandleJourneyGet \<Rightarrow> h_map RJourney (handleJourneyGet env cfg rc)
      | HandleJourneyTelemetry \<Rightarrow> h_map RTelemetry
          (handleJourneyTelemetry L (bl_telemetry B) (bl_sample_valid B) env cfg rc body)
      | HandleJourneyVehicleCreate \<Rightarrow> h_map RVehicle (handleJourneyVehicleCreate L V W env cfg rc (bl_vehicle_create B body))
      | HandleJourneyVehicleList \<Rightarrow> h_map RVehicles (handleJourneyVehicleList W env cfg rc)
      | HandleJourneyVehicleGet \<Rightarrow> h_map RVehicle (handleJourneyVehicleGet W env cfg rc)
      | HandleJourneyVehicleACLAppend \<Rightarrow> h_map RACLRevision (handleJourneyVehicleACLAppend L V W env cfg rc (bl_acl B body))
      | HandleJourneyVehicleRevisionAppend \<Rightarrow> h_map RVehicleRevision
          (handleJourneyVehicleRevisionAppend L V W env cfg rc (bl_vehicle B body))
      | HandleDriverAttestationRecord \<Rightarrow> h_map RAttestation (handleDriverAttestationRecord L V W env cfg rc (bl_attestation B body))
      | HandleDriverAttestationList \<Rightarrow> h_map RAttestations (handleDriverAttestationList env cfg rc)
      | HandleCurrentDriver \<Rightarrow> h_map RCurrentDriver (handleCurrentDriver W env cfg rc (ib_query_at ib))
      | HandleGarageCreate \<Rightarrow> h_map RGarage (handleGarageCreate L V W env cfg rc (bl_garage B body))
      | HandleGarageList \<Rightarrow> h_map RGarages (handleGarageList env cfg rc)
      | HandleGarageGet \<Rightarrow> h_map RGarage (handleGarageGet env cfg rc)
      | HandleGarageRevisionAppend \<Rightarrow> h_map RGarageRevision (handleGarageRevisionAppend L V W env cfg rc (bl_garage B body))
      | HandleGarageOwnershipAccept \<Rightarrow> h_map RAcceptance (handleGarageOwnershipAccept L V W env cfg rc (bl_acceptance B body))
      | HandleGarageVehicleCreate \<Rightarrow> h_map RGarageVehicle (handleGarageVehicleCreate L V W env cfg rc (bl_garage_vehicle B body))
      | HandleGarageVehicleList \<Rightarrow> h_map RGarageVehicles (handleGarageVehicleList W env cfg rc)
      | HandleGarageVehicleGet \<Rightarrow> h_map RGarageVehicle (handleGarageVehicleGet W env cfg rc)
      | HandleGarageVehicleRevisionAppend \<Rightarrow> h_map RGarageVehicle
          (handleGarageVehicleRevisionAppend L V W env cfg rc (bl_garage_vehicle B body))
      | HandleGarageInviteCreate \<Rightarrow> h_map RGarageInvite (handleGarageInviteCreate L env cfg rc n (bl_garage_invite B body))
      | HandleGarageInviteList \<Rightarrow> h_map RGarageInvites (handleGarageInviteList env cfg rc)
      | HandleGarageInviteRevoke \<Rightarrow> h_map (\<lambda>_. RNoContent) (handleGarageInviteRevoke env cfg rc)
      | HandleGarageInviteRedeem \<Rightarrow> h_map RRedeemed (handleGarageInviteRedeem L env cfg rc (bl_redeem B body)))"

text \<open>The guard that the posture of a route puts around its handler.\<close>

definition route_handler ::
  "('m, 'ip, 'net) libs \<Rightarrow> 'net server \<Rightarrow> world \<Rightarrow> inbound \<Rightarrow> route \<Rightarrow> (int \<times> api_reply) hm handler" where
  "route_handler lb sv wd ib rt =
     (let h = (\<lambda>rc. Reply (case rt_handler rt of None \<Rightarrow> h_return (404, RNotFound) | Some ep \<Rightarrow> call_endpoint lb sv wd ib ep rc)) in
      if rt_auth rt = AuthIdentity then RequireIdentity h
      else if rt_auth rt = AuthSession then
        RequireSession (env_now (wd_env wd)) (SessionActionJourneyFromPath (rt_session_action rt) (rt_journey_path_param rt)) h
      else h)"

section \<open>The mux\<close>

fun percent_decode :: "string \<Rightarrow> string option" where
  "percent_decode [] = Some []"
| "percent_decode (c # cs) =
     (if c = CHR ''%'' then
        (case cs of a # b # rest \<Rightarrow>
           (case (hex_val a, hex_val b) of
              (Some x, Some y) \<Rightarrow> map_option ((#) (char_of (16 * x + y))) (percent_decode rest)
            | _ \<Rightarrow> None)
         | _ \<Rightarrow> None)
      else map_option ((#) c) (percent_decode cs))"

definition pathUnescape :: "string \<Rightarrow> string" where
  "pathUnescape s = (case percent_decode s of None \<Rightarrow> s | Some t \<Rightarrow> t)"

definition path_segments :: "string \<Rightarrow> string list" where
  "path_segments path = map (\<lambda>s. if s = [] then ''/'' else pathUnescape s) (tl (Split path (CHR ''/'')))"

definition cleanPath :: "string \<Rightarrow> string" where
  "cleanPath p =
     (if p = [] then ''/''
      else let p = (if hd p \<noteq> CHR ''/'' then CHR ''/'' # p else p); np = filepath_Clean p in
        if last p = CHR ''/'' \<and> np \<noteq> ''/'' then np @ ''/'' else np)"

text \<open>A match is exact unless a pattern ending in a slash matched more than the slash.\<close>

definition exactMatch :: "((string \<times> mux_target) \<times> string list) option \<Rightarrow> string \<Rightarrow> bool" where
  "exactMatch m path = (case m of None \<Rightarrow> False
     | Some ((pattern, _), _) \<Rightarrow>
         if parse_pattern pattern = [] \<or> last (parse_pattern pattern) \<noteq> PMulti then True
         else path \<noteq> [] \<and> last path = CHR ''/'' \<and> length (parse_pattern pattern) = count_list path (CHR ''/''))"

datatype dispatch = DRedirect string | DNotAllowed | DNotFound | DMatch string mux_target "string list"

definition mux_dispatch :: "mux \<Rightarrow> string \<Rightarrow> string \<Rightarrow> dispatch" where
  "mux_dispatch mux method escapedPath =
     (let path = (if method = ''CONNECT'' then escapedPath else cleanPath escapedPath);
          m = mux_find mux method (path_segments path) in
      if \<not> exactMatch m path \<and> \<not> HasSuffix path ''/'' \<and>
         exactMatch (mux_find mux method (path_segments (path @ ''/''))) (path @ ''/'') then DRedirect (path @ ''/'')
      else if path \<noteq> escapedPath then DRedirect path
      else case m of
        None \<Rightarrow> if list_ex (\<lambda>(other, _). mux_match (mux_patterns mux other) (path_segments path) \<noteq> None) mux
                then DNotAllowed else DNotFound
      | Some ((pattern, t), vs) \<Rightarrow> DMatch pattern t vs)"

text \<open>\<open>Request.PathValue\<close>.\<close>

definition with_path_values :: "string \<Rightarrow> string list \<Rightarrow> request_ctx \<Rightarrow> request_ctx" where
  "with_path_values pattern vs rc = rc\<lparr>rc_request := (rc_request rc)\<lparr>hr_path_value :=
     (\<lambda>name. case map_of (zip (wilds (parse_pattern pattern)) vs) name of None \<Rightarrow> [] | Some v \<Rightarrow> v)\<rparr>\<rparr>"

definition serve_target ::
  "('m, 'ip, 'net) libs \<Rightarrow> 'net server \<Rightarrow> world \<Rightarrow> inbound \<Rightarrow> mux_target \<Rightarrow> (int \<times> api_reply) hm handler" where
  "serve_target lb sv wd ib t rc = (case t of
     TRoute rt \<Rightarrow> route_handler lb sv wd ib rt rc
   | TOpenAPIJSON \<Rightarrow> Reply (h_map RSpec (handleOpenAPIJSON (lb_lib lb) sv (rc_request rc)))
   | TOpenAPIYAML \<Rightarrow> Reply (h_map RSpec (handleOpenAPIYAML (lb_lib lb) sv (rc_request rc)))
   | TDocsPage \<Rightarrow> Reply (h_return (200, RDocsPage))
   | TScalarAsset \<Rightarrow> Reply (h_return (200, RScalarAsset)))"

definition serve_mux ::
  "('m, 'ip, 'net) libs \<Rightarrow> 'net server \<Rightarrow> mux \<Rightarrow> world \<Rightarrow> inbound \<Rightarrow> (int \<times> api_reply) hm handler" where
  "serve_mux lb sv mux wd ib rc = (case mux_dispatch mux (ib_method ib) (ib_path ib) of
     DRedirect loc \<Rightarrow> Reply (h_return (307, RRedirect loc))
   | DNotAllowed \<Rightarrow> Reply (h_return (405, RMethodNotAllowed))
   | DNotFound \<Rightarrow> Reply (h_return (404, RNotFound))
   | DMatch pattern t vs \<Rightarrow> serve_target lb sv wd ib t (with_path_values pattern vs rc))"

section \<open>The request pipeline\<close>

definition withRequestInfo ::
  "('m, 'ip, 'net) libs \<Rightarrow> 'net server \<Rightarrow> world \<Rightarrow> 'a handler \<Rightarrow> 'a handler" where
  "withRequestInfo lb sv wd nxt rc =
     nxt (rc\<lparr>rc_info := Some (RequestInfoFrom (lb_lib lb) (lb_net lb) (wd_ord wd) (rc_request rc) (sv_proxy sv))\<rparr>)"

definition attach ::
  "('m, 'ip, 'net) libs \<Rightarrow> 'net server \<Rightarrow> world \<Rightarrow> db \<Rightarrow> 'a handler \<Rightarrow> 'a handler" where
  "attach lb sv wd d h =
     (let h = (if sv_verifier sv then AttachSession (lb_mac lb) (store_resolver (wd_env wd) d) h else h);
          h = (if sv_identity_store sv
               then AttachIdentity (lb_lib lb) (lb_net lb) (wd_ord wd) (sv_proxy sv) (wd_env wd) d h else h)
      in withRequestInfo lb sv wd h)"

definition initial_ctx :: "http_request \<Rightarrow> request_ctx" where
  "initial_ctx r = \<lparr>rc_request = r, rc_info = None, rc_identity = None, rc_session = None\<rparr>"

text \<open>One request against the store: the middleware reads it, then the handler runs.\<close>

definition ServeHTTP ::
  "('m, 'ip, 'net) libs \<Rightarrow> 'net server \<Rightarrow> mux \<Rightarrow> world \<Rightarrow> inbound \<Rightarrow> (int \<times> api_reply) hm" where
  "ServeHTTP lb sv mux wd ib d = serve (attach lb sv wd d (serve_mux lb sv mux wd ib) (initial_ctx (ib_request ib))) d"

text \<open>\<open>None\<close> is the panic of a server with an invalid route table.\<close>

definition server_Handler ::
  "('m, 'ip, 'net) libs \<Rightarrow> 'net server \<Rightarrow> (world \<Rightarrow> inbound \<Rightarrow> (int \<times> api_reply) hm) option" where
  "server_Handler lb sv = map_option (ServeHTTP lb sv) (buildMux (sv_verifier sv) (Routes (lb_mac lb)))"

section \<open>The context a handler sees\<close>

text \<open>The identity behind the client certificate of a request.\<close>

definition request_identity :: "('m, 'ip, 'net) libs \<Rightarrow> 'net server \<Rightarrow> world \<Rightarrow> http_request \<Rightarrow> db \<Rightarrow> identity option" where
  "request_identity lb sv wd r d =
     (if \<not> sv_identity_store sv then None
      else case ri_client_cert (RequestInfoFrom (lb_lib lb) (lb_net lb) (wd_ord wd) r (sv_proxy sv)) of None \<Rightarrow> None
        | Some cert \<Rightarrow> if cc_serial cert = [] then None
            else case IdentityBySerial (wd_env wd) (cc_serial cert) d of Inl e \<Rightarrow> None
              | Inr c \<Rightarrow> Some \<lparr>id_user_id = ci_user_id c, id_client_app_id = ci_client_app_id c, id_serial = ci_serial c,
                  id_subject_cn = ci_subject_cn c, id_not_after = ci_not_after c, id_fingerprint = cc_fingerprint cert\<rparr>)"

text \<open>The session behind its macaroon.\<close>

definition request_session :: "('m, 'ip, 'net) libs \<Rightarrow> 'net server \<Rightarrow> world \<Rightarrow> http_request \<Rightarrow> db \<Rightarrow> session option" where
  "request_session lb sv wd r d =
     (if \<not> sv_verifier sv then None
      else case extractMacaroonHeader r of Inl e \<Rightarrow> None
        | Inr s \<Rightarrow> (case VerifySignature (lb_mac lb) (store_resolver (wd_env wd) d) s of Inl e \<Rightarrow> None
            | Inr v \<Rightarrow> Some (sessionFromVerified v)))"

definition request_context :: "('m, 'ip, 'net) libs \<Rightarrow> 'net server \<Rightarrow> world \<Rightarrow> http_request \<Rightarrow> db \<Rightarrow> request_ctx" where
  "request_context lb sv wd r d = \<lparr>rc_request = r,
     rc_info = Some (RequestInfoFrom (lb_lib lb) (lb_net lb) (wd_ord wd) r (sv_proxy sv)),
     rc_identity = request_identity lb sv wd r d, rc_session = request_session lb sv wd r d\<rparr>"

lemma attach_context: "attach lb sv wd d h (initial_ctx r) = h (request_context lb sv wd r d)"
  by (auto simp: attach_def withRequestInfo_def AttachSession_def AttachIdentity_def initial_ctx_def request_identity_def
      request_session_def request_context_def Let_def split: option.splits sum.splits)

lemma request_context_sel [simp]: "rc_identity (request_context lb sv wd r d) = request_identity lb sv wd r d"
  by (simp add: request_context_def)

lemma with_path_values_sel [simp]: "rc_identity (with_path_values p vs rc) = rc_identity rc"
  "rc_session (with_path_values p vs rc) = rc_session rc"
  by (simp_all add: with_path_values_def)

lemma h_map_post: "h_post m d Q \<Longrightarrow> h_post (h_map f m) d Q"
  by (auto simp: h_post_def h_map_def h_bind_def h_return_def split: prod.splits sum.splits)

lemma h_map_pure: "h_pure m \<Longrightarrow> h_pure (h_map f m)"
  by (auto simp: h_pure_def h_map_def h_bind_def h_return_def split: prod.splits sum.splits) (metis snd_conv)+

section \<open>What the posture of a route enforces\<close>

lemma ServeHTTP_route:
  assumes "mux_dispatch mux (ib_method ib) (ib_path ib) = DMatch pattern (TRoute rt) vs"
  shows "ServeHTTP lb sv mux wd ib d =
    serve (route_handler lb sv wd ib rt (with_path_values pattern vs (request_context lb sv wd (ib_request ib) d))) d"
  using assms by (simp add: ServeHTTP_def attach_context serve_mux_def serve_target_def)

end
