(* ===== verification/Migrations.thy ===== *)
theory Migrations
  imports GoLib
begin

text \<open>
  Schema migrations (storage/migrations.go and the migration part of
  storage/store.go): the embedded files are parsed, ordered and checked to be
  numbered 1, 2, 3, \<dots>; at start-up every migration the database has not recorded is
  applied in its own transaction. What a migration's SQL does to the schema is an
  argument of the model.
\<close>

section \<open>The embedded files\<close>

record migration =
  mg_version :: nat
  mg_name :: string
  mg_path :: string
  mg_sql :: string

text \<open>An entry of the embedded directory: its name, whether it is a directory, and its
  content (\<open>None\<close> when reading fails).\<close>

record dir_entry =
  de_name :: string
  de_is_dir :: bool
  de_body :: "string option"

definition is_digit :: "char \<Rightarrow> bool" where
  "is_digit c = (CHR ''0'' \<le> c \<and> c \<le> CHR ''9'')"

definition is_name_char :: "char \<Rightarrow> bool" where
  "is_name_char c = (CHR ''a'' \<le> c \<and> c \<le> CHR ''z'' \<or> is_digit c \<or> c = CHR ''_'')"

text \<open>The pattern \<open>^([0-9]{6})_([a-z0-9_]+)\.sql$\<close> and its two groups. The class of the
  second group has no dot, so the split is unique.\<close>

definition migrationFilePattern :: "string \<Rightarrow> (string \<times> string) option" where
  "migrationFilePattern name =
     (let n = length name; middle = take (n - 11) (drop 7 name) in
      if 12 \<le> n \<and> list_all is_digit (take 6 name) \<and> name ! 6 = CHR ''_'' \<and>
         list_all is_name_char middle \<and> drop (n - 4) name = ''.sql''
      then Some (take 6 name, middle) else None)"

definition atoi :: "string \<Rightarrow> nat" where
  "atoi s = foldl (\<lambda>n c. 10 * n + (of_char c - 48)) 0 s"

fun read_migrations :: "dir_entry list \<Rightarrow> nat list \<Rightarrow> migration list \<Rightarrow> serr + migration list" where
  "read_migrations [] seen ms = Inr ms"
| "read_migrations (e # es) seen ms =
     (if de_is_dir e then read_migrations es seen ms
      else case migrationFilePattern (de_name e) of
        None \<Rightarrow> Inl (ErrInvalid ''invalid migration filename'')
      | Some (digits, name) \<Rightarrow>
          let version = atoi digits in
          if version \<in> set seen then Inl (ErrInvalid ''duplicate migration version'')
          else case de_body e of
            None \<Rightarrow> Inl (ErrInvalid ''read migration'')
          | Some body \<Rightarrow>
              if TrimSpace body = '''' then Inl (ErrInvalid ''migration is empty'')
              else read_migrations es (version # seen)
                (ms @ [\<lparr>mg_version = version, mg_name = name, mg_path = ''migrations/'' @ de_name e,
                        mg_sql = TrimSpace body\<rparr>]))"

fun check_contiguous :: "nat \<Rightarrow> migration list \<Rightarrow> bool" where
  "check_contiguous i [] = True"
| "check_contiguous i (m # ms) = (mg_version m = i + 1 \<and> check_contiguous (i + 1) ms)"

text \<open>\<open>entries\<close> is \<open>fs.ReadDir\<close>'s result.\<close>

definition Migrations :: "dir_entry list option \<Rightarrow> serr + migration list" where
  "Migrations entries =
     (case entries of None \<Rightarrow> Inl (ErrInvalid ''read migrations'')
      | Some es \<Rightarrow> (case read_migrations es [] [] of Inl e \<Rightarrow> Inl e
          | Inr ms \<Rightarrow>
              let sorted = sort_key mg_version ms in
              if check_contiguous 0 sorted then Inr sorted
              else Inl (ErrInvalid ''migration versions must be contiguous'')))"

section \<open>Applying them\<close>

text \<open>The database as far as migrations see it: an abstract schema and the table
  \<open>schema_migrations\<close> (version, name, applied_at), \<open>None\<close> before the first migration has
  created it.\<close>

type_synonym 'q mstate = "'q \<times> (nat \<times> string \<times> string) list option"
type_synonym 'q sql_run = "string \<Rightarrow> 'q mstate \<Rightarrow> 'q mstate option"

definition applied_versions :: "'q mstate \<Rightarrow> nat list" where
  "applied_versions s = (case snd s of None \<Rightarrow> [] | Some rows \<Rightarrow> map fst rows)"

definition AppliedMigrations :: "env \<Rightarrow> 'q mstate \<Rightarrow> serr + nat list" where
  "AppliedMigrations env s =
     (if \<not> env_open env then Inl ErrNotOpen
      else if env_fault env ''query applied migrations'' then Inl (SQLErr (SQLDriver ''query applied migrations''))
      else Inr (sort (applied_versions s)))"

definition rejectFutureMigration :: "env \<Rightarrow> nat \<Rightarrow> 'q mstate \<Rightarrow> serr option" where
  "rejectFutureMigration env current s =
     (if env_fault env ''query latest migration'' then Some (SQLErr (SQLDriver ''query latest migration''))
      else if current < fold max (applied_versions s) 0
      then Some (ErrInvalid ''database migration version is newer than this binary supports'') else None)"

definition migrationApplied :: "env \<Rightarrow> nat \<Rightarrow> 'q mstate \<Rightarrow> serr + bool" where
  "migrationApplied env v s =
     (if env_fault env ''check migration'' then Inl (SQLErr (SQLDriver ''check migration''))
      else Inr (0 < length (filter (\<lambda>x. x = v) (applied_versions s))))"

definition insert_migration :: "nat \<times> string \<times> string \<Rightarrow> 'q mstate \<Rightarrow> sqlerr + (unit \<times> 'q mstate)" where
  "insert_migration row s =
     (case snd s of None \<Rightarrow> Inl (SQLDriver ''no such table: schema_migrations'')
      | Some rows \<Rightarrow> if fst row \<in> fst ` set rows then Inl SQLUnique else Inr ((), (fst s, Some (rows @ [row]))))"

definition applyMigration :: "env \<Rightarrow> 'q sql_run \<Rightarrow> string \<Rightarrow> migration \<Rightarrow> ('q mstate, unit) op" where
  "applyMigration env run stamp m = run_tx env
     (tx_bind (tx_exec env ''apply migration'' SQLErr
         (\<lambda>s. case run (mg_sql m) s of None \<Rightarrow> Inl (SQLDriver ''apply migration'') | Some s' \<Rightarrow> Inr ((), s')))
       (\<lambda>_. tx_exec env ''record migration'' SQLErr (insert_migration (mg_version m, mg_name m, stamp))))"

fun apply_all :: "env \<Rightarrow> 'q sql_run \<Rightarrow> string \<Rightarrow> migration list \<Rightarrow> ('q mstate, unit) op" where
  "apply_all env run stamp [] s = (Inr (), s)"
| "apply_all env run stamp (m # ms) s =
     (case migrationApplied env (mg_version m) s of
        Inl e \<Rightarrow> (Inl e, s)
      | Inr True \<Rightarrow> apply_all env run stamp ms s
      | Inr False \<Rightarrow> (case applyMigration env run stamp m s of
            (Inl e, s') \<Rightarrow> (Inl e, s') | (Inr _, s') \<Rightarrow> apply_all env run stamp ms s'))"

definition ApplyMigrations ::
  "env \<Rightarrow> 'q sql_run \<Rightarrow> string \<Rightarrow> dir_entry list option \<Rightarrow> ('q mstate, unit) op" where
  "ApplyMigrations env run stamp entries s =
     (if \<not> env_open env then (Inl ErrNotOpen, s)
      else case Migrations entries of
        Inl e \<Rightarrow> (Inl e, s)
      | Inr ms \<Rightarrow> (case rejectFutureMigration env (length ms) s of
            Some e \<Rightarrow> (Inl e, s) | None \<Rightarrow> apply_all env run stamp ms s))"

section \<open>Properties\<close>

lemma read_migrations_Inr:
  assumes "read_migrations es seen ms = Inr ms'" "distinct (map mg_version ms)" "set seen = mg_version ` set ms"
  shows "distinct (map mg_version ms') \<and>
    length ms' = length ms + length (filter (\<lambda>e. \<not> de_is_dir e) es) \<and>
    (\<forall>m \<in> set ms'. m \<in> set ms \<or> (\<exists>e \<in> set es. \<exists>body. \<not> de_is_dir e \<and> de_body e = Some body \<and>
       mg_sql m = TrimSpace body \<and> TrimSpace body \<noteq> [] \<and> mg_path m = ''migrations/'' @ de_name e))"
  using assms
proof (induction es seen ms rule: read_migrations.induct)
  case (2 e es seen ms)
  show ?case
  proof (cases "de_is_dir e")
    case True
    with 2 show ?thesis by auto
  next
    case False
    with "2.prems"(1) obtain dg nm body where p: "migrationFilePattern (de_name e) = Some (dg, nm)"
      "atoi dg \<notin> set seen" "de_body e = Some body" "TrimSpace body \<noteq> []"
      by (auto simp: Let_def split: option.splits if_splits)
    let ?m = "\<lparr>mg_version = atoi dg, mg_name = nm, mg_path = ''migrations/'' @ de_name e, mg_sql = TrimSpace body\<rparr>"
    have "distinct (map mg_version ms') \<and> length ms' = length (ms @ [?m]) + length (filter (\<lambda>e. \<not> de_is_dir e) es) \<and>
      (\<forall>m \<in> set ms'. m \<in> set (ms @ [?m]) \<or> (\<exists>e \<in> set es. \<exists>body. \<not> de_is_dir e \<and> de_body e = Some body \<and>
         mg_sql m = TrimSpace body \<and> TrimSpace body \<noteq> [] \<and> mg_path m = ''migrations/'' @ de_name e))"
      using "2.IH"(2) [OF False p(1) refl refl p(2) p(3) p(4)] "2.prems" False p by (auto simp: Let_def)
    with False p(3,4) show ?thesis by fastforce
  qed
qed auto

lemma check_contiguous_versions: "check_contiguous i ms \<Longrightarrow> map mg_version ms = [Suc i..<Suc i + length ms]"
proof (induction i ms rule: check_contiguous.induct)
  case (2 i m ms)
  then have "map mg_version (m # ms) = Suc i # [Suc (Suc i)..<Suc i + length (m # ms)]" by simp
  then show ?case by (metis add_Suc_right le_add1 le_imp_less_Suc length_Cons upt_conv_Cons)
qed simp

lemma Migrations_versions: "Migrations entries = Inr ms \<Longrightarrow> map mg_version ms = [1..<Suc (length ms)]"
  by (auto simp: Migrations_def Let_def split: option.splits sum.splits if_splits dest!: check_contiguous_versions)

text \<open>The migration list is complete and gap-free: when the embedded directory is
  accepted, the migrations are numbered 1, 2, \<dots>, n in this order, there is one for every
  file of the directory, and each has the trimmed, non-empty content of its file.\<close>

theorem Migrations_contiguous:
  assumes "Migrations (Some es) = Inr ms"
  shows "map mg_version ms = [1..<Suc (length ms)] \<and> length ms = length (filter (\<lambda>e. \<not> de_is_dir e) es) \<and>
    (\<forall>m \<in> set ms. \<exists>e \<in> set es. \<exists>body. \<not> de_is_dir e \<and> de_body e = Some body \<and> mg_sql m = TrimSpace body \<and>
       mg_sql m \<noteq> [] \<and> mg_path m = ''migrations/'' @ de_name e)"
proof -
  from assms obtain ms0 where r: "read_migrations es [] [] = Inr ms0" "ms = sort_key mg_version ms0"
    by (auto simp: Migrations_def Let_def split: sum.splits if_splits)
  from read_migrations_Inr [OF r(1)] r(2) Migrations_versions [OF assms] show ?thesis by fastforce
qed

definition demo_entries :: "dir_entry list" where
  "demo_entries = [\<lparr>de_name = ''000002_b.sql'', de_is_dir = False, de_body = Some '' two ''\<rparr>,
     \<lparr>de_name = ''old'', de_is_dir = True, de_body = None\<rparr>,
     \<lparr>de_name = ''000001_a.sql'', de_is_dir = False, de_body = Some ''one''\<rparr>]"

definition demo_migrations :: "migration list" where
  "demo_migrations = [\<lparr>mg_version = 1, mg_name = ''a'', mg_path = ''migrations/000001_a.sql'', mg_sql = ''one''\<rparr>,
     \<lparr>mg_version = 2, mg_name = ''b'', mg_path = ''migrations/000002_b.sql'', mg_sql = ''two''\<rparr>]"

lemma demo_Migrations: "Migrations (Some demo_entries) = Inr demo_migrations"
  by code_simp

text \<open>What the SQL of the migrations is expected to do to the bookkeeping table: the
  first one creates it, no later one touches it.\<close>

definition keeps_bookkeeping :: "'q sql_run \<Rightarrow> migration list \<Rightarrow> bool" where
  "keeps_bookkeeping run ms = (\<forall>m \<in> set ms. \<forall>q t q' t'. run (mg_sql m) (q, t) = Some (q', t') \<longrightarrow>
     t' = (if mg_version m = 1 \<and> t = None then Some [] else t))"

lemma applyMigration_result:
  assumes "keeps_bookkeeping run (m # ms)" "mg_version m = Suc k" "applied_versions s = [1..<Suc k]"
    "applyMigration env run stamp m s = (r, s')"
  shows "(\<exists>e. r = Inl e \<and> s' = s) \<or> (r = Inr () \<and> applied_versions s' = [1..<Suc (Suc k)])"
proof (cases r)
  case (Inl e)
  with assms(4) show ?thesis unfolding applyMigration_def by (auto dest: run_tx_error_unchanged)
next
  case (Inr u)
  with assms(4) obtain q t where x: "run (mg_sql m) s = Some (q, t)" "insert_migration (mg_version m, mg_name m, stamp) (q, t) = Inr ((), s')"
    unfolding applyMigration_def by (auto simp: tx_Inr split: option.splits)
  from assms(1) x(1) have "t = (if mg_version m = 1 \<and> snd s = None then Some [] else snd s)"
    unfolding keeps_bookkeeping_def by (metis list.set_intros(1) prod.collapse)
  with x(2) assms(2,3) Inr show ?thesis
    by (cases "snd s") (auto simp: insert_migration_def applied_versions_def split: if_splits option.splits)
qed

lemma apply_all_progress:
  assumes "keeps_bookkeeping run ms" "map mg_version ms = [Suc j..<Suc n]" "applied_versions s = [1..<Suc k]" "j \<le> k"
    "apply_all env run stamp ms s = (r, s')"
  shows "\<exists>k' \<ge> k. applied_versions s' = [1..<Suc k'] \<and> k' \<le> max k n \<and> (r = Inr () \<longrightarrow> n \<le> k')"
  using assms
proof (induction ms arbitrary: j k s)
  case Nil
  then have "n \<le> j" by (simp split: if_splits)
  with Nil show ?case by auto
next
  case (Cons m ms)
  from Cons.prems(2) have "[Suc j..<Suc n] = mg_version m # map mg_version ms" by (simp del: upt_Suc)
  then have a: "Suc j < Suc n" "Suc j = mg_version m" "[Suc j + 1..<Suc n] = map mg_version ms"
    unfolding upt_eq_Cons_conv by blast+
  have jn: "j < n" using a(1) by simp
  have v: "mg_version m = Suc j" "map mg_version ms = [Suc (Suc j)..<Suc n]"
    using a(2) a(3) [symmetric] by (simp_all only: Suc_eq_plus1)
  have kb: "keeps_bookkeeping run ms" using Cons.prems(1) by (simp add: keeps_bookkeeping_def)
  show ?case
  proof (cases "migrationApplied env (mg_version m) s")
    case (Inl e)
    with Cons.prems show ?thesis by (auto intro: exI [of _ k])
  next
    case (Inr b)
    have b: "b \<longleftrightarrow> Suc j \<le> k"
      using Inr Cons.prems(3) v(1) by (auto simp: migrationApplied_def filter_empty_conv split: if_splits)
    show ?thesis
    proof (cases b)
      case True
      with Inr Cons.prems(5) have "apply_all env run stamp ms s = (r, s')" by simp
      from Cons.IH [OF kb v(2) Cons.prems(3) _ this] b True show ?thesis by simp
    next
      case False
      with b Cons.prems(4) have kj: "k = j" by simp
      obtain r1 s1 where a: "applyMigration env run stamp m s = (r1, s1)" by (rule prod.exhaust)
      from applyMigration_result [OF Cons.prems(1) _ Cons.prems(3) a] v(1) kj
      consider e where "r1 = Inl e" "s1 = s" | "r1 = Inr ()" "applied_versions s1 = [1..<Suc (Suc k)]" by auto
      then show ?thesis
      proof cases
        case 1
        with False Inr a Cons.prems(3,5) show ?thesis by (auto intro: exI [of _ k])
      next
        case 2
        with False Inr a Cons.prems(5) have "apply_all env run stamp ms s1 = (r, s')" by simp
        from Cons.IH [OF kb v(2) 2(2) _ this] kj obtain k' where
          "Suc k \<le> k'" "applied_versions s' = [1..<Suc k']" "k' \<le> max (Suc k) n" "r = Inr () \<longrightarrow> n \<le> k'" by blast
        moreover from this(3) kj jn have "k' \<le> max k n" by simp
        ultimately show ?thesis using Suc_leD by blast
      qed
    qed
  qed
qed

lemma fold_max_upt: "fold max [1..<Suc k] (0::nat) = k"
  by (induction k) auto


definition demo_run :: "string list sql_run" where
  "demo_run sql s = Some (fst s @ [sql], if sql = ''one'' \<and> snd s = None then Some [] else snd s)"


end
