(* ===== verification/CommandLine.thy ===== *)
theory CommandLine
  imports HttpServer Migrations
begin

text \<open>
  The command line and the environment of the server process (cmd/spivot-server): the global
  flags, the flag package as the subcommands use it, and the configuration of \<open>serve\<close>.
  \<open>url.Parse\<close> and \<open>time.ParseDuration\<close> are parameters.
\<close>

section \<open>Errors\<close>

datatype flag_err = BadSyntax string | ErrHelp | NotDefined string | NeedsArgument string | InvalidValue string string

datatype cmd_err = CmdErr string | FlagErr flag_err | StoreErr serr | IdentityErr id_err

definition e_bind :: "'e + 'a \<Rightarrow> ('a \<Rightarrow> 'e + 'b) \<Rightarrow> 'e + 'b" where
  "e_bind m f = (case m of Inl e \<Rightarrow> Inl e | Inr a \<Rightarrow> f a)"

definition e_check :: "bool \<Rightarrow> 'e \<Rightarrow> 'e + 'a \<Rightarrow> 'e + 'a" where
  "e_check b e m = (if b then m else Inl e)"

lemma e_bind_Inr: "e_bind m f = Inr b \<longleftrightarrow> (\<exists>a. m = Inr a \<and> f a = Inr b)"
  by (simp add: e_bind_def split: sum.splits)

lemma e_check_Inr: "e_check c e m = Inr b \<longleftrightarrow> c \<and> m = Inr b"
  by (simp add: e_check_def)

section \<open>strconv\<close>

definition digit_val :: "char \<Rightarrow> int option" where
  "digit_val c =
     (let l = lower_char c in
      if CHR ''0'' \<le> c \<and> c \<le> CHR ''9'' then Some (of_char c - 48)
      else if CHR ''a'' \<le> l \<and> l \<le> CHR ''z'' then Some (of_char l - 87) else None)"

fun scan_uint :: "int \<Rightarrow> bool \<Rightarrow> int \<Rightarrow> string \<Rightarrow> int option" where
  "scan_uint base base0 n [] = Some n"
| "scan_uint base base0 n (c # cs) =
     (if c = CHR ''_'' \<and> base0 then scan_uint base base0 n cs
      else case digit_val c of None \<Rightarrow> None
        | Some d \<Rightarrow> if base \<le> d \<or> 2 ^ 64 \<le> n * base + d then None else scan_uint base base0 (n * base + d) cs)"

text \<open>\<open>underscoreOK\<close>: an underscore only between digits. The state is the kind of the last
  character, as in the source: a digit or base prefix (\<open>0\<close>), an underscore, or neither.\<close>

fun underscore_scan :: "bool \<Rightarrow> char \<Rightarrow> string \<Rightarrow> bool" where
  "underscore_scan hex i [] = (i \<noteq> CHR ''_'')"
| "underscore_scan hex i (c # cs) =
     (if CHR ''0'' \<le> c \<and> c \<le> CHR ''9'' \<or> hex \<and> CHR ''a'' \<le> lower_char c \<and> lower_char c \<le> CHR ''f'' then underscore_scan hex (CHR ''0'') cs
      else if c = CHR ''_'' then i = CHR ''0'' \<and> underscore_scan hex (CHR ''_'') cs
      else i \<noteq> CHR ''_'' \<and> underscore_scan hex (CHR ''!'') cs)"

definition base_letter :: "string \<Rightarrow> char option" where
  "base_letter s = (if 2 \<le> length s \<and> hd s = CHR ''0'' \<and> lower_char (s ! 1) \<in> {CHR ''b'', CHR ''o'', CHR ''x''}
     then Some (lower_char (s ! 1)) else None)"

definition underscoreOK :: "string \<Rightarrow> bool" where
  "underscoreOK s = (case base_letter s of None \<Rightarrow> underscore_scan False (CHR ''^'') s
     | Some l \<Rightarrow> underscore_scan (l = CHR ''x'') (CHR ''0'') (drop 2 s))"

text \<open>\<open>ParseUint\<close> of an unsigned literal; base 0 reads the base from the prefix.\<close>

definition ParseUint :: "int \<Rightarrow> string \<Rightarrow> int option" where
  "ParseUint base s =
     (if s = [] then None
      else if base \<noteq> 0 then scan_uint base False 0 s
      else let (b, digits) = (if hd s \<noteq> CHR ''0'' then (10, s)
             else if length s < 3 then (8, tl s)
             else case base_letter s of None \<Rightarrow> (8, tl s)
               | Some l \<Rightarrow> (if l = CHR ''b'' then 2 else if l = CHR ''o'' then 8 else 16, drop 2 s)) in
        if CHR ''_'' \<in> set digits \<and> \<not> underscoreOK s then None else scan_uint b True 0 digits)"

definition ParseInt :: "int \<Rightarrow> string \<Rightarrow> int option" where
  "ParseInt base s =
     (if s = [] then None
      else let neg = (hd s = CHR ''-''); digits = (if hd s = CHR ''-'' \<or> hd s = CHR ''+'' then tl s else s) in
        case ParseUint base digits of None \<Rightarrow> None
        | Some un \<Rightarrow> if \<not> neg \<and> 2 ^ 63 \<le> un \<or> neg \<and> 2 ^ 63 < un then None
            else Some (if neg then - un else un))"

definition Atoi :: "string \<Rightarrow> int option" where
  "Atoi s = ParseInt 10 s"

definition ParseBool :: "string \<Rightarrow> bool option" where
  "ParseBool s =
     (if s \<in> {''1'', ''t'', ''T'', ''TRUE'', ''true'', ''True''} then Some True
      else if s \<in> {''0'', ''f'', ''F'', ''FALSE'', ''false'', ''False''} then Some False else None)"

section \<open>The flag package\<close>

text \<open>A flag by name: whether it is boolean, and its \<open>Set\<close> on the variables of the command.\<close>

type_synonym 'c flag_set = "(string \<times> bool \<times> (string \<Rightarrow> 'c \<Rightarrow> 'c option)) list"

definition split_flag :: "string \<Rightarrow> string \<times> string option" where
  "split_flag name = (case Cut (tl name) (CHR ''='') of None \<Rightarrow> (name, None) | Some (n, v) \<Rightarrow> (hd name # n, Some v))"

text \<open>\<open>FlagSet.Parse\<close>: the variables after it and the arguments that are left.\<close>

fun parse_flags :: "'c flag_set \<Rightarrow> string list \<Rightarrow> 'c \<Rightarrow> flag_err + ('c \<times> string list)" where
  "parse_flags fs [] c = Inr (c, [])"
| "parse_flags fs (s # args) c =
     (if length s < 2 \<or> hd s \<noteq> CHR ''-'' then Inr (c, s # args)
      else if s = ''--'' then Inr (c, args)
      else let name = (if s ! 1 = CHR ''-'' then drop 2 s else tl s) in
        if name = [] \<or> hd name = CHR ''-'' \<or> hd name = CHR ''='' then Inl (BadSyntax s)
        else case map_of fs (fst (split_flag name)) of
          None \<Rightarrow> Inl (if fst (split_flag name) \<in> {''help'', ''h''} then ErrHelp else NotDefined (fst (split_flag name)))
        | Some (True, set_flag) \<Rightarrow>
            let v = (case snd (split_flag name) of None \<Rightarrow> ''true'' | Some v \<Rightarrow> v) in
            (case set_flag v c of None \<Rightarrow> Inl (InvalidValue (fst (split_flag name)) v) | Some c' \<Rightarrow> parse_flags fs args c')
        | Some (False, set_flag) \<Rightarrow>
            (case snd (split_flag name) of
               Some v \<Rightarrow> (case set_flag v c of None \<Rightarrow> Inl (InvalidValue (fst (split_flag name)) v) | Some c' \<Rightarrow> parse_flags fs args c')
             | None \<Rightarrow> (case args of [] \<Rightarrow> Inl (NeedsArgument (fst (split_flag name)))
                 | v # rest \<Rightarrow> (case set_flag v c of None \<Rightarrow> Inl (InvalidValue (fst (split_flag name)) v)
                     | Some c' \<Rightarrow> parse_flags fs rest c'))))"

definition string_flag :: "(string \<Rightarrow> 'c \<Rightarrow> 'c) \<Rightarrow> bool \<times> (string \<Rightarrow> 'c \<Rightarrow> 'c option)" where
  "string_flag upd = (False, \<lambda>v c. Some (upd v c))"

definition int_flag :: "(int \<Rightarrow> 'c \<Rightarrow> 'c) \<Rightarrow> bool \<times> (string \<Rightarrow> 'c \<Rightarrow> 'c option)" where
  "int_flag upd = (False, \<lambda>v c. map_option (\<lambda>i. upd i c) (ParseInt 0 v))"

definition bool_flag :: "(bool \<Rightarrow> 'c \<Rightarrow> 'c) \<Rightarrow> bool \<times> (string \<Rightarrow> 'c \<Rightarrow> 'c option)" where
  "bool_flag upd = (True, \<lambda>v c. map_option (\<lambda>b. upd b c) (ParseBool v))"

section \<open>Global flags\<close>

record invocation =
  inv_output_fmt :: string
  inv_command :: string
  inv_cmd_args :: "string list"

fun parse_invocation :: "string list \<Rightarrow> invocation \<Rightarrow> cmd_err + invocation" where
  "parse_invocation [] ic = Inr ic"
| "parse_invocation (arg # args) ic =
     (if arg \<in> {''-h'', ''-help'', ''--help''} then Inr (ic\<lparr>inv_command := arg\<rparr>)
      else if arg = ''-o'' \<or> arg = ''--output'' then
        (case args of [] \<Rightarrow> Inl (CmdErr ''missing value'') | v # rest \<Rightarrow> parse_invocation rest (ic\<lparr>inv_output_fmt := v\<rparr>))
      else if HasPrefix arg ''-o='' then parse_invocation args (ic\<lparr>inv_output_fmt := TrimPrefix arg ''-o=''\<rparr>)
      else if HasPrefix arg ''--output='' then parse_invocation args (ic\<lparr>inv_output_fmt := TrimPrefix arg ''--output=''\<rparr>)
      else if HasPrefix arg ''-'' then Inl (CmdErr ''unknown flag'')
      else Inr (ic\<lparr>inv_command := arg, inv_cmd_args := args\<rparr>))"

definition parseInvocation :: "string list \<Rightarrow> cmd_err + invocation" where
  "parseInvocation args = parse_invocation args \<lparr>inv_output_fmt = ''text'', inv_command = [], inv_cmd_args = []\<rparr>"

section \<open>The environment\<close>

type_synonym os_env = "string \<Rightarrow> string"

definition envString :: "os_env \<Rightarrow> string \<Rightarrow> string \<Rightarrow> string" where
  "envString getenv key fallback = (let v = TrimSpace (getenv key) in if v \<noteq> [] then v else fallback)"

definition envBool :: "os_env \<Rightarrow> string \<Rightarrow> bool \<Rightarrow> cmd_err + bool" where
  "envBool getenv key fallback =
     (let v = TrimSpace (getenv key) in
      if v = [] then Inr fallback
      else case ParseBool v of None \<Rightarrow> Inl (CmdErr (''parse '' @ key)) | Some b \<Rightarrow> Inr b)"

definition envInt :: "os_env \<Rightarrow> string \<Rightarrow> int \<Rightarrow> int" where
  "envInt getenv key fallback =
     (let v = TrimSpace (getenv key) in
      if v \<noteq> [] then (case Atoi v of Some i \<Rightarrow> i | None \<Rightarrow> fallback) else fallback)"

definition splitCSV :: "string \<Rightarrow> string list" where
  "splitCSV value = filter (\<lambda>p. p \<noteq> []) (map TrimSpace (Split value (CHR '','')))"

section \<open>The public URL\<close>

record url =
  url_scheme :: string
  url_host :: string
  url_path :: string
  url_raw_query :: string
  url_fragment :: string
  url_other :: string

record url_lib =
  ul_parse :: "string \<Rightarrow> url option"
  ul_string :: "url \<Rightarrow> string"

definition TrimRight_slash :: "string \<Rightarrow> string" where
  "TrimRight_slash s = rev (dropWhile (\<lambda>c. c = CHR ''/'') (rev s))"

definition parsePublicURL :: "url_lib \<Rightarrow> string \<Rightarrow> cmd_err + url option" where
  "parsePublicURL U raw =
     (let value = TrimSpace raw in
      if value = [] then Inr None
      else case ul_parse U value of None \<Rightarrow> Inl (CmdErr ''parse SPIVOT_PUBLIC_URL'')
      | Some u \<Rightarrow>
          if url_scheme u \<noteq> ''http'' \<and> url_scheme u \<noteq> ''https'' then Inl (CmdErr ''must use http or https'')
          else if url_host u = [] then Inl (CmdErr ''must include a host'')
          else if url_raw_query u \<noteq> [] \<or> url_fragment u \<noteq> [] then Inl (CmdErr ''must not include query or fragment'')
          else Inr (Some (u\<lparr>url_path := TrimRight_slash (url_path u)\<rparr>)))"

section \<open>The configuration of serve\<close>

definition defaultAddress :: string where "defaultAddress = ''0.0.0.0''"
definition defaultPort :: int where "defaultPort = 8080"
definition defaultLogFormat :: string where "defaultLogFormat = ''text''"
definition defaultConfigDir :: string where "defaultConfigDir = ''config''"
definition defaultDataDir :: string where "defaultDataDir = ''data''"

definition DefaultTrustedProxyCIDRs :: "string list" where
  "DefaultTrustedProxyCIDRs = [''127.0.0.1/8'', ''::1/128'', ''10.0.0.0/8'', ''172.16.0.0/12'', ''192.168.0.0/16'', ''fc00::/7'', ''fe80::/10'']"

fun join_comma :: "string list \<Rightarrow> string" where
  "join_comma [] = []"
| "join_comma [s] = s"
| "join_comma (s # ss) = s @ CHR '','' # join_comma ss"

record 'net serve_config =
  svc_address :: string
  svc_port :: int
  svc_log_format :: string
  svc_config_dir :: string
  svc_data_dir :: string
  svc_database_path :: string
  svc_access_log_path :: string
  svc_public_url :: "url option"
  svc_trust_proxy :: bool
  svc_trust_client_cert_headers :: bool
  svc_trusted_proxy_cidrs :: "string list"
  svc_trusted_proxy_ranges :: "'net list"
  svc_invite_mint_policy :: string

text \<open>The values before the flags: the environment, else the defaults.\<close>

definition serve_defaults :: "os_env \<Rightarrow> bool \<Rightarrow> bool \<Rightarrow> 'net serve_config" where
  "serve_defaults getenv trustProxy trustClientCertHeaders =
     \<lparr>svc_address = envString getenv ''SPIVOT_ADDR'' defaultAddress,
      svc_port = envInt getenv ''SPIVOT_PORT'' defaultPort,
      svc_log_format = envString getenv ''SPIVOT_LOG_FORMAT'' defaultLogFormat,
      svc_config_dir = envString getenv ''SPIVOT_CONFIG_DIR'' defaultConfigDir,
      svc_data_dir = envString getenv ''SPIVOT_DATA_DIR'' defaultDataDir,
      svc_database_path = envString getenv ''SPIVOT_DATABASE_PATH'' [],
      svc_access_log_path = envString getenv ''SPIVOT_ACCESS_LOG_PATH'' [],
      svc_public_url = None,
      svc_trust_proxy = trustProxy,
      svc_trust_client_cert_headers = trustClientCertHeaders,
      svc_trusted_proxy_cidrs = splitCSV (envString getenv ''SPIVOT_TRUSTED_PROXY_CIDRS'' (join_comma DefaultTrustedProxyCIDRs)),
      svc_trusted_proxy_ranges = [],
      svc_invite_mint_policy = envString getenv ''SPIVOT_INVITE_MINT_POLICY'' ''any-user''\<rparr>"

definition serve_flags :: "url_lib \<Rightarrow> 'net serve_config flag_set" where
  "serve_flags U =
     [(''addr'', string_flag (\<lambda>v c. c\<lparr>svc_address := v\<rparr>)),
      (''port'', int_flag (\<lambda>i c. c\<lparr>svc_port := i\<rparr>)),
      (''log-format'', string_flag (\<lambda>v c. c\<lparr>svc_log_format := v\<rparr>)),
      (''config-dir'', string_flag (\<lambda>v c. c\<lparr>svc_config_dir := v\<rparr>)),
      (''data-dir'', string_flag (\<lambda>v c. c\<lparr>svc_data_dir := v\<rparr>)),
      (''database-path'', string_flag (\<lambda>v c. c\<lparr>svc_database_path := v\<rparr>)),
      (''access-log-path'', string_flag (\<lambda>v c. c\<lparr>svc_access_log_path := v\<rparr>)),
      (''trust-proxy'', bool_flag (\<lambda>b c. c\<lparr>svc_trust_proxy := b\<rparr>)),
      (''trust-client-cert-headers'', bool_flag (\<lambda>b c. c\<lparr>svc_trust_client_cert_headers := b\<rparr>)),
      (''invite-mint-policy'', string_flag (\<lambda>v c. c\<lparr>svc_invite_mint_policy := v\<rparr>)),
      (''public-url'', (False, \<lambda>v c. case parsePublicURL U v of Inl _ \<Rightarrow> None | Inr u \<Rightarrow> Some (c\<lparr>svc_public_url := u\<rparr>))),
      (''trusted-proxy-cidrs'', string_flag (\<lambda>v c. c\<lparr>svc_trusted_proxy_cidrs := splitCSV v\<rparr>))]"

definition flag_result :: "string \<Rightarrow> flag_err + ('c \<times> string list) \<Rightarrow> cmd_err + 'c" where
  "flag_result what r = (case r of Inl e \<Rightarrow> Inl (FlagErr e)
     | Inr (c, rest) \<Rightarrow> if rest \<noteq> [] then Inl (CmdErr (''unexpected argument: '' @ what)) else Inr c)"

lemma flag_result_Inr: "flag_result what r = Inr c \<longleftrightarrow> r = Inr (c, [])"
  by (auto simp: flag_result_def split: sum.splits)

definition clean_paths :: "'net serve_config \<Rightarrow> 'net serve_config" where
  "clean_paths c =
     (let dataDir = filepath_Clean (svc_data_dir c) in
      c\<lparr>svc_config_dir := filepath_Clean (svc_config_dir c), svc_data_dir := dataDir,
        svc_database_path := (if svc_database_path c = [] then filepath_Join dataDir ''spivot.db''
          else filepath_Clean (svc_database_path c))\<rparr>)"

text \<open>The checks that follow the flags.\<close>

definition check_serve_config ::
  "('ip, 'net) net_lib \<Rightarrow> url_lib \<Rightarrow> os_env \<Rightarrow> 'net serve_config \<Rightarrow> cmd_err + 'net serve_config" where
  "check_serve_config N U getenv cfg =
     e_check (0 < svc_port cfg \<and> svc_port cfg \<le> 65535) (CmdErr ''invalid port'')
    (e_check (svc_log_format cfg = ''text'' \<or> svc_log_format cfg = ''json'') (CmdErr ''unknown log format'')
    (e_check (ParseInviteMintPolicy (svc_invite_mint_policy cfg) \<noteq> None) (CmdErr ''SPIVOT_INVITE_MINT_POLICY'')
    (let cfg = clean_paths cfg in
     e_bind (case svc_public_url cfg of Some u \<Rightarrow> Inr (Some u)
             | None \<Rightarrow> parsePublicURL U (envString getenv ''SPIVOT_PUBLIC_URL'' [])) (\<lambda>publicURL.
     case ParseCIDRs N (svc_trusted_proxy_cidrs cfg) of
       None \<Rightarrow> Inl (CmdErr ''parse trusted proxy CIDRs'')
     | Some ranges \<Rightarrow> Inr (cfg\<lparr>svc_public_url := publicURL, svc_trusted_proxy_ranges := ranges\<rparr>)))))"

definition parseServeConfig ::
  "('ip, 'net) net_lib \<Rightarrow> url_lib \<Rightarrow> os_env \<Rightarrow> string list \<Rightarrow> cmd_err + 'net serve_config" where
  "parseServeConfig N U getenv args =
     e_bind (envBool getenv ''SPIVOT_TRUST_PROXY'' False) (\<lambda>trustProxy.
     e_bind (envBool getenv ''SPIVOT_TRUST_CLIENT_CERT_HEADERS'' False) (\<lambda>trustClientCertHeaders.
     e_bind (flag_result ''serve'' (parse_flags (serve_flags U) args (serve_defaults getenv trustProxy trustClientCertHeaders)))
       (check_serve_config N U getenv)))"

section \<open>What the flags mean\<close>

text \<open>A setting on the command line: joined to its value, followed by it, or a bare switch, with one
  dash or two.\<close>

datatype flag_arg = Joined bool string string | Separate bool string string | Switch bool string

definition dashes :: "bool \<Rightarrow> string" where
  "dashes two = (if two then ''--'' else ''-'')"

primrec render_flag :: "flag_arg \<Rightarrow> string list" where
  "render_flag (Joined two n v) = [dashes two @ n @ CHR ''='' # v]"
| "render_flag (Separate two n v) = [dashes two @ n, v]"
| "render_flag (Switch two n) = [dashes two @ n]"

primrec flag_name :: "flag_arg \<Rightarrow> string" where
  "flag_name (Joined two n v) = n"
| "flag_name (Separate two n v) = n"
| "flag_name (Switch two n) = n"

primrec flag_value :: "flag_arg \<Rightarrow> string" where
  "flag_value (Joined two n v) = v"
| "flag_value (Separate two n v) = v"
| "flag_value (Switch two n) = ''true''"

text \<open>A boolean flag takes its value joined or is a switch; the others take one in either form.\<close>

primrec flag_form_ok :: "bool \<Rightarrow> flag_arg \<Rightarrow> bool" where
  "flag_form_ok is_bool (Joined two n v) = True"
| "flag_form_ok is_bool (Separate two n v) = (\<not> is_bool)"
| "flag_form_ok is_bool (Switch two n) = is_bool"

definition flag_ok :: "'c flag_set \<Rightarrow> flag_arg \<Rightarrow> bool" where
  "flag_ok fs a = (let n = flag_name a in n \<noteq> [] \<and> hd n \<noteq> CHR ''-'' \<and> CHR ''='' \<notin> set n \<and>
     (case map_of fs n of None \<Rightarrow> False | Some (is_bool, _) \<Rightarrow> flag_form_ok is_bool a))"

fun apply_settings :: "'c flag_set \<Rightarrow> flag_arg list \<Rightarrow> 'c \<Rightarrow> flag_err + 'c" where
  "apply_settings fs [] c = Inr c"
| "apply_settings fs (a # as) c = (case map_of fs (flag_name a) of
     None \<Rightarrow> Inl (NotDefined (flag_name a))
   | Some (_, set_flag) \<Rightarrow> (case set_flag (flag_value a) c of
        None \<Rightarrow> Inl (InvalidValue (flag_name a) (flag_value a)) | Some c' \<Rightarrow> apply_settings fs as c'))"

lemma split_flag_plain: "CHR ''='' \<notin> set n \<Longrightarrow> split_flag n = (n, None)"
  by (cases n) (simp_all add: split_flag_def Cut_def)

lemma split_flag_joined: "n \<noteq> [] \<Longrightarrow> CHR ''='' \<notin> set n \<Longrightarrow> split_flag (n @ CHR ''='' # v) = (n, Some v)"
  by (cases n) (auto simp: split_flag_def Cut_def takeWhile_tail dropWhile_append)

lemma parse_flag_step:
  assumes "n \<noteq> []" "hd n \<noteq> CHR ''-''" "CHR ''='' \<notin> set n"
  shows "parse_flags fs ((dashes two @ n @ w) # args) c =
    (case map_of fs (fst (split_flag (n @ w))) of
       None \<Rightarrow> Inl (if fst (split_flag (n @ w)) \<in> {''help'', ''h''} then ErrHelp else NotDefined (fst (split_flag (n @ w))))
     | Some (True, set_flag) \<Rightarrow>
         let v = (case snd (split_flag (n @ w)) of None \<Rightarrow> ''true'' | Some v \<Rightarrow> v) in
         (case set_flag v c of None \<Rightarrow> Inl (InvalidValue (fst (split_flag (n @ w))) v) | Some c' \<Rightarrow> parse_flags fs args c')
     | Some (False, set_flag) \<Rightarrow>
         (case snd (split_flag (n @ w)) of
            Some v \<Rightarrow> (case set_flag v c of None \<Rightarrow> Inl (InvalidValue (fst (split_flag (n @ w))) v) | Some c' \<Rightarrow> parse_flags fs args c')
          | None \<Rightarrow> (case args of [] \<Rightarrow> Inl (NeedsArgument (fst (split_flag (n @ w))))
              | v # rest \<Rightarrow> (case set_flag v c of None \<Rightarrow> Inl (InvalidValue (fst (split_flag (n @ w))) v)
                  | Some c' \<Rightarrow> parse_flags fs rest c'))))"
proof -
  have "length (dashes two @ n @ w) \<ge> 2" "hd (dashes two @ n @ w) = CHR ''-''" "dashes two @ n @ w \<noteq> ''--''"
    "(if (dashes two @ n @ w) ! 1 = CHR ''-'' then drop 2 (dashes two @ n @ w) else tl (dashes two @ n @ w)) = n @ w"
    "hd (n @ w) \<noteq> CHR ''-''" "hd (n @ w) \<noteq> CHR ''=''" "n @ w \<noteq> []"
    using assms by (cases n; auto simp: dashes_def)+
  then show ?thesis by (subst parse_flags.simps(2)) (simp only: Let_def if_False simp_thms not_less [symmetric])
qed

lemma parse_settings:
  assumes "\<forall>a \<in> set as. flag_ok fs a"
  shows "parse_flags fs (concat (map render_flag as) @ rest) c =
    (case apply_settings fs as c of Inl e \<Rightarrow> Inl e | Inr c' \<Rightarrow> parse_flags fs rest c')"
  using assms
proof (induction as arbitrary: c)
  case (Cons a as)
  then have ok: "flag_name a \<noteq> []" "hd (flag_name a) \<noteq> CHR ''-''" "CHR ''='' \<notin> set (flag_name a)"
    and "case map_of fs (flag_name a) of None \<Rightarrow> False | Some (is_bool, _) \<Rightarrow> flag_form_ok is_bool a"
    by (simp_all add: flag_ok_def Let_def)
  then obtain b set_flag where f: "map_of fs (flag_name a) = Some (b, set_flag)" "flag_form_ok b a"
    by (auto split: option.splits)
  note IH = Cons.IH [of "the (set_flag (flag_value a) c)"] Cons.prems
  show ?case
  proof (cases a)
    case (Joined two n v)
    with ok f IH parse_flag_step [OF ok, of fs two "CHR ''='' # v" "concat (map render_flag as) @ rest" c] show ?thesis
      by (cases b) (auto simp: split_flag_joined split: option.splits)
  next
    case (Separate two n v)
    with ok f IH parse_flag_step [OF ok, of fs two "[]" "v # concat (map render_flag as) @ rest" c] show ?thesis
      by (auto simp: split_flag_plain split: option.splits)
  next
    case (Switch two n)
    with ok f IH parse_flag_step [OF ok, of fs two "[]" "concat (map render_flag as) @ rest" c] show ?thesis
      by (auto simp: split_flag_plain split: option.splits)
  qed
qed simp

text \<open>An invariant of the flags' setters is an invariant of the parser.\<close>

lemma parse_flags_invariant:
  assumes inv: "\<And>n b f v c c'. (n, b, f) \<in> set fs \<Longrightarrow> P c \<Longrightarrow> f v c = Some c' \<Longrightarrow> P c'"
  shows "P c \<Longrightarrow> parse_flags fs args c = Inr (c', rest) \<Longrightarrow> P c'"
proof (induction args arbitrary: c rule: length_induct)
  case (1 args)
  show ?case
  proof (cases args)
    case (Cons s as)
    have step: "P c'" if "map_of fs n = Some (b, f)" "f v c = Some d" "parse_flags fs bs d = Inr (c', rest)" "length bs < length args" for n b f v d bs
      using 1 inv [OF map_of_SomeD [OF that(1)] _ that(2)] that(3,4) by blast
    from 1(2,3) Cons show ?thesis
      by (auto simp: Let_def split: if_splits option.splits bool.splits list.splits) (erule step, assumption, assumption, simp)+
  qed (use 1 in simp)
qed

section \<open>Paths are clean\<close>

lemma Split_no_sep: "p \<in> set (Split s c) \<Longrightarrow> c \<notin> set p"
  by (induction s arbitrary: p) (auto split: if_splits list.splits)

definition clean_form :: "bool \<Rightarrow> string list \<Rightarrow> bool" where
  "clean_form rooted cs = ((\<forall>c \<in> set cs. c \<noteq> [] \<and> c \<noteq> ''.'' \<and> CHR ''/'' \<notin> set c) \<and>
     (\<exists>k ds. cs = replicate k ''..'' @ ds \<and> ''..'' \<notin> set ds \<and> (rooted \<longrightarrow> k = 0)))"

lemma clean_form_snoc:
  assumes "clean_form rooted cs" "c \<noteq> []" "c \<noteq> ''.''" "CHR ''/'' \<notin> set c" "c = ''..'' \<longrightarrow> \<not> rooted \<and> (cs = [] \<or> last cs = ''..'')"
  shows "clean_form rooted (cs @ [c])"
proof -
  from assms(1) obtain k ds where cs: "cs = replicate k ''..'' @ ds" "''..'' \<notin> set ds" "rooted \<longrightarrow> k = 0"
    unfolding clean_form_def by blast
  have "\<exists>k' ds'. cs @ [c] = replicate k' ''..'' @ ds' \<and> ''..'' \<notin> set ds' \<and> (rooted \<longrightarrow> k' = 0)"
  proof (cases "c = ''..''")
    case True
    with assms(5) cs(1,2) have "ds = []" using last_in_set [of ds] by (cases "ds = []") auto
    with True assms(5) cs(1) show ?thesis by (intro exI [of _ "Suc k"] exI [of _ "[]"]) (simp add: replicate_append_same)
  next
    case False
    with cs show ?thesis by (intro exI [of _ k] exI [of _ "ds @ [c]"]) simp
  qed
  with assms(1-4) show ?thesis by (simp add: clean_form_def)
qed

lemma clean_form_butlast: "clean_form rooted (cs @ [c]) \<Longrightarrow> clean_form rooted cs"
proof -
  assume "clean_form rooted (cs @ [c])"
  then obtain k ds where cs: "cs @ [c] = replicate k ''..'' @ ds" "''..'' \<notin> set ds" "rooted \<longrightarrow> k = 0"
    and ok: "\<forall>c \<in> set cs. c \<noteq> [] \<and> c \<noteq> ''.'' \<and> CHR ''/'' \<notin> set c"
    unfolding clean_form_def by auto
  have "\<exists>k' ds'. cs = replicate k' ''..'' @ ds' \<and> ''..'' \<notin> set ds' \<and> (rooted \<longrightarrow> k' = 0)"
  proof (cases ds rule: rev_cases)
    case Nil
    with cs(1) have "cs = replicate (k - 1) ''..''" by (cases k) (simp_all add: replicate_append_same [symmetric])
    with cs(3) show ?thesis by (intro exI [of _ "k - 1"] exI [of _ "[]"]) simp
  next
    case (snoc ds' x)
    with cs show ?thesis by (intro exI [of _ k] exI [of _ ds']) simp
  qed
  with ok show ?thesis by (simp add: clean_form_def)
qed

lemma clean_components_form:
  "clean_form rooted (rev acc) \<Longrightarrow> \<forall>c \<in> set cs. CHR ''/'' \<notin> set c \<Longrightarrow> clean_form rooted (clean_components rooted acc cs)"
proof (induction rooted acc cs rule: clean_components.induct)
  case (2 rooted acc c cs)
  then show ?case
    using clean_form_snoc [of rooted "rev acc" c] clean_form_butlast [of rooted "rev (tl acc)" "hd acc"]
    by (cases acc) (auto simp: last_rev)
qed simp

lemma clean_components_id:
  assumes "clean_form rooted cs"
  shows "clean_components rooted [] cs = cs"
proof -
  from assms obtain k ds where cs: "cs = replicate k ''..'' @ ds" "''..'' \<notin> set ds" "rooted \<longrightarrow> k = 0"
    and ok: "\<forall>c \<in> set cs. c \<noteq> [] \<and> c \<noteq> ''.''"
    unfolding clean_form_def by blast
  have dots: "\<not> rooted \<Longrightarrow> clean_components rooted (replicate j ''..'') (replicate k ''..'') = replicate (j + k) ''..''" for j k
  proof (induction k arbitrary: j)
    case (Suc k)
    from Suc.IH [of "Suc j"] Suc.prems show ?case by (cases j) simp_all
  qed simp
  have rest: "\<forall>c \<in> set ds. c \<noteq> [] \<and> c \<noteq> ''.'' \<and> c \<noteq> ''..'' \<Longrightarrow> clean_components rooted acc ds = rev acc @ ds" for acc ds
    by (induction ds arbitrary: acc) auto
  have "clean_components rooted [] (replicate k ''..'') = replicate k ''..''"
    using dots [of 0 k] cs(3) by (cases rooted) simp_all
  moreover have "\<forall>c \<in> set ds. c \<noteq> [] \<and> c \<noteq> ''.'' \<and> c \<noteq> ''..''" using cs(1,2) ok by auto
  ultimately show ?thesis by (simp add: cs(1) clean_components_append rest)
qed

lemma Split_join: "cs \<noteq> [] \<Longrightarrow> \<forall>c \<in> set cs. CHR ''/'' \<notin> set c \<Longrightarrow> Split (join_slash cs) (CHR ''/'') = cs"
  by (induction cs rule: join_slash.induct) (simp_all add: Split_single Split_append)

lemma filepath_Clean_idem: "filepath_Clean (filepath_Clean p) = filepath_Clean p"
proof -
  let ?r = "is_rooted p" and ?cs = "path_components p"
  have form: "clean_form ?r ?cs"
    unfolding path_components_def by (rule clean_components_form) (auto simp: clean_form_def dest: Split_no_sep)
  then have ok: "\<forall>c \<in> set ?cs. c \<noteq> [] \<and> CHR ''/'' \<notin> set c" by (simp add: clean_form_def)
  have hd: "?cs \<noteq> [] \<Longrightarrow> join_slash ?cs \<noteq> [] \<and> hd (join_slash ?cs) \<noteq> CHR ''/''"
    using ok by (cases ?cs rule: join_slash.cases) (auto simp: hd_append neq_Nil_conv)
  have "is_rooted (filepath_Clean p) = ?r \<and> path_components (filepath_Clean p) = ?cs"
  proof (cases "?cs = []")
    case True
    then show ?thesis by (cases ?r) (simp_all add: filepath_Clean_def render_path_def path_components_def is_rooted_def)
  next
    case False
    note sp = Split_join [OF False] ok clean_components_id [OF form] hd [OF False]
    then show ?thesis by (cases ?r) (simp_all add: filepath_Clean_def [of p] render_path_def path_components_def [of "_ # _"]
        path_components_def [of "join_slash _"] is_rooted_def [of "_ # _"] is_rooted_def [of "join_slash _"])
  qed
  then show ?thesis by (simp add: filepath_Clean_def [of "filepath_Clean p"]) (simp add: filepath_Clean_def)
qed

section \<open>Properties\<close>

definition public_url_ok :: "url \<Rightarrow> bool" where
  "public_url_ok u = (url_scheme u \<in> {''http'', ''https''} \<and> url_host u \<noteq> [] \<and> url_raw_query u = [] \<and> url_fragment u = [] \<and>
     (url_path u = [] \<or> last (url_path u) \<noteq> CHR ''/''))"

definition serve_config_ok :: "('ip, 'net) net_lib \<Rightarrow> 'net serve_config \<Rightarrow> bool" where
  "serve_config_ok N c = (0 < svc_port c \<and> svc_port c \<le> 65535 \<and> svc_log_format c \<in> {''text'', ''json''} \<and>
     svc_invite_mint_policy c \<in> {''denied'', ''admin-only'', ''any-user''} \<and>
     filepath_Clean (svc_config_dir c) = svc_config_dir c \<and> filepath_Clean (svc_data_dir c) = svc_data_dir c \<and>
     filepath_Clean (svc_database_path c) = svc_database_path c \<and>
     (case svc_public_url c of None \<Rightarrow> True | Some u \<Rightarrow> public_url_ok u) \<and>
     ParseCIDRs N (svc_trusted_proxy_cidrs c) = Some (svc_trusted_proxy_ranges c))"

lemma TrimRight_slash_last [simp]: "TrimRight_slash s \<noteq> [] \<Longrightarrow> last (TrimRight_slash s) \<noteq> CHR ''/''"
  using hd_dropWhile [of "\<lambda>c. c = CHR ''/''" "rev s"]
  by (cases "dropWhile (\<lambda>c. c = CHR ''/'') (rev s) = []") (simp_all add: TrimRight_slash_def last_rev)

lemma parsePublicURL_ok: "parsePublicURL U raw = Inr (Some u) \<Longrightarrow> public_url_ok u"
  by (auto simp: parsePublicURL_def public_url_ok_def Let_def split: if_splits option.splits)

lemma serve_flags_url:
  assumes "parse_flags (serve_flags U) args c = Inr (c', rest)" "case svc_public_url c of None \<Rightarrow> True | Some u \<Rightarrow> public_url_ok u"
  shows "case svc_public_url c' of None \<Rightarrow> True | Some u \<Rightarrow> public_url_ok u"
  by (rule parse_flags_invariant [where P = "\<lambda>c. case svc_public_url c of None \<Rightarrow> True | Some u \<Rightarrow> public_url_ok u", OF _ assms(2,1)],
      auto simp: serve_flags_def string_flag_def int_flag_def bool_flag_def split: sum.splits option.splits)
    (erule parsePublicURL_ok)+

lemma filepath_Join_clean: "filepath_Clean (filepath_Join dir name) = filepath_Join dir name \<or> filepath_Join dir name = []"
  by (simp add: filepath_Join_def filepath_Clean_idem)

lemma clean_paths_clean:
  "filepath_Clean (svc_config_dir (clean_paths c)) = svc_config_dir (clean_paths c)"
  "filepath_Clean (svc_data_dir (clean_paths c)) = svc_data_dir (clean_paths c)"
  "filepath_Clean (svc_database_path (clean_paths c)) = svc_database_path (clean_paths c)"
  by (simp_all add: clean_paths_def Let_def filepath_Clean_idem filepath_Join_def)

lemma clean_paths_sel [simp]:
  "svc_port (clean_paths c) = svc_port c" "svc_log_format (clean_paths c) = svc_log_format c"
  "svc_public_url (clean_paths c) = svc_public_url c" "svc_invite_mint_policy (clean_paths c) = svc_invite_mint_policy c"
  "svc_trusted_proxy_cidrs (clean_paths c) = svc_trusted_proxy_cidrs c"
  by (simp_all add: clean_paths_def Let_def)

text \<open>C35. A configuration that \<open>serve\<close> accepts is well formed, wherever its values come from (flags,
  environment or defaults): the port is a TCP port, the log format and the mint policy are known
  ones, the three paths are clean, the public URL is an absolute http or https URL without query,
  fragment and trailing slash, and the trusted networks are those of the listed CIDRs.\<close>

theorem parseServeConfig_ok:
  assumes "parseServeConfig N U getenv args = Inr cfg"
  shows "serve_config_ok N cfg"
proof -
  from assms obtain tp tc c where
    f: "parse_flags (serve_flags U) args (serve_defaults getenv tp tc) = Inr (c, [])" and
    k: "check_serve_config N U getenv c = Inr cfg"
    by (auto simp: parseServeConfig_def e_bind_Inr flag_result_Inr)
  have "case svc_public_url c of None \<Rightarrow> True | Some u \<Rightarrow> public_url_ok u"
    using serve_flags_url [OF f] by (simp add: serve_defaults_def)
  with k clean_paths_clean [of c] show ?thesis
    by (auto simp: check_serve_config_def e_check_Inr e_bind_Inr Let_def serve_config_ok_def ParseInviteMintPolicy_def
        split: option.splits if_splits dest: parsePublicURL_ok)
qed


text \<open>The output format, in the four forms the global parser knows.\<close>

fun render_output :: "bool \<times> bool \<times> string \<Rightarrow> string list" where
  "render_output (long, joined, v) =
     (if joined then [(if long then ''--output='' else ''-o='') @ v] else [if long then ''--output'' else ''-o'', v])"

lemma parse_invocation_output:
  "parse_invocation (concat (map render_output outs) @ rest) ic =
   parse_invocation rest (ic\<lparr>inv_output_fmt := (if outs = [] then inv_output_fmt ic else snd (snd (last outs)))\<rparr>)"
proof (induction outs arbitrary: ic)
  case (Cons a outs)
  obtain long joined v where a: "a = (long, joined, v)" by (cases a) auto
  have "parse_invocation (render_output a @ xs) ic = parse_invocation xs (ic\<lparr>inv_output_fmt := v\<rparr>)" for xs
    by (cases long; cases joined) (simp_all add: a HasPrefix_def TrimPrefix_def)
  with Cons.IH show ?case by (simp add: a)
qed simp

text \<open>The global flags end at the command: any number of output settings, in any form, is read, the
  last one counts, and everything after the command is passed to it untouched.\<close>

theorem parseInvocation_roundtrip:
  assumes "\<not> HasPrefix cmd ''-''"
  shows "parseInvocation (concat (map render_output outs) @ cmd # args) =
    Inr \<lparr>inv_output_fmt = (if outs = [] then ''text'' else snd (snd (last outs))), inv_command = cmd, inv_cmd_args = args\<rparr>"
proof -
  have "cmd \<notin> {''-h'', ''-help'', ''--help'', ''-o'', ''--output''}" "\<not> HasPrefix cmd ''-o=''" "\<not> HasPrefix cmd ''--output=''"
    using assms by (cases cmd; auto simp: HasPrefix_def)+
  with assms show ?thesis by (simp add: parseInvocation_def parse_invocation_output)
qed

section \<open>A concrete command line\<close>

definition demo_url_lib :: url_lib where
  "demo_url_lib = \<lparr>ul_parse = (\<lambda>s. Some \<lparr>url_scheme = ''https'', url_host = s, url_path = ''/a/'', url_raw_query = [], url_fragment = [],
     url_other = []\<rparr>), ul_string = url_host\<rparr>"

definition demo_getenv :: os_env where
  "demo_getenv key = (if key = ''SPIVOT_PORT'' then ''81'' else if key = ''SPIVOT_PUBLIC_URL'' then '' host '' else [])"

definition demo_args :: "flag_arg list" where
  "demo_args = [Separate False ''port'' ''0x50'', Switch True ''trust-proxy'', Joined True ''data-dir'' ''a//b/../c'']"

definition demo_config :: "string serve_config" where
  "demo_config = (clean_paths (serve_defaults demo_getenv True False))\<lparr>svc_port := 80, svc_data_dir := ''a/c'',
     svc_database_path := ''a/c/spivot.db'',
     svc_public_url := Some \<lparr>url_scheme = ''https'', url_host = ''host'', url_path = ''/a'', url_raw_query = [], url_fragment = [], url_other = []\<rparr>,
     svc_trusted_proxy_ranges := DefaultTrustedProxyCIDRs\<rparr>"

lemma demo_settings:
  "(case apply_settings (serve_flags demo_url_lib) demo_args (serve_defaults demo_getenv False False) of
      Inl e \<Rightarrow> Inl (FlagErr e) | Inr cfg \<Rightarrow> check_serve_config demo_net demo_url_lib demo_getenv cfg) = Inr demo_config"
  by code_simp

lemma demo_env_bools: "envBool demo_getenv ''SPIVOT_TRUST_PROXY'' False = Inr False"
  "envBool demo_getenv ''SPIVOT_TRUST_CLIENT_CERT_HEADERS'' False = Inr False"
  by (simp_all add: envBool_def demo_getenv_def)


theorem parseServeConfig_ok_witness: "serve_config_ok demo_net demo_config"
proof -
  have "parseServeConfig demo_net demo_url_lib demo_getenv [''-port'', ''0x50'', ''--trust-proxy'', ''--data-dir=a//b/../c''] = Inr demo_config"
    by code_simp
  from parseServeConfig_ok [OF this] show ?thesis .
qed

end
