(* ===== verification/DemoRun.thy ===== *)
theory DemoRun
  imports HttpServer
begin

text \<open>
  A server on small concrete libraries, and a run of it: start-up leaves a bootstrap invite,
  the holder enrolls with it, and creates a garage with the certificate of the enrollment.
  The witnesses of the system-level properties are states of this run.
\<close>

definition demo_body :: body_lib where
  "demo_body = \<lparr>bl_enroll = (\<lambda>_. Some \<lparr>er_invite_token = ''tok'', er_csr_pem = ''cert'', er_display_name = ''Carol''\<rparr>),
     bl_session = (\<lambda>_. None), bl_client_app_invite = (\<lambda>_. DecodeEOF), bl_journey = (\<lambda>_. None), bl_telemetry = (\<lambda>_. None),
     bl_vehicle_create = (\<lambda>_. None), bl_acl = (\<lambda>_. None), bl_vehicle = (\<lambda>_. None), bl_attestation = (\<lambda>_. None),
     bl_garage = (\<lambda>_. Some (demo_home 1)), bl_acceptance = (\<lambda>_. None), bl_garage_vehicle = (\<lambda>_. None),
     bl_garage_invite = (\<lambda>_. DecodeEOF), bl_redeem = (\<lambda>_. None), bl_sample_valid = (\<lambda>_. True)\<rparr>"

definition demo_libs :: "(string, string, string) libs" where
  "demo_libs = \<lparr>lb_lib = demo_server_lib, lb_verifier = demo_verifier, lb_wire = demo_wire, lb_enroll = demo_enroll_lib,
     lb_session = demo_session_lib, lb_mac = text_lib, lb_net = demo_net, lb_key = demo_key_lib, lb_ca = demo_leaf_lib,
     lb_body = demo_body, lb_policy = (\<lambda>_. None)\<rparr>"

definition demo_server :: "string server" where
  "demo_server = \<lparr>sv_address = ''::1'', sv_port = 8080, sv_public_url = None,
     sv_proxy = \<lparr>pc_trust_forwarded_headers = False, pc_trust_client_cert_headers = False, pc_trusted_networks = []\<rparr>,
     sv_store = True, sv_stores = full_cfg, sv_ca = demo_authority, sv_identity_store = True, sv_issuer = Some demo_issuer,
     sv_verifier = True, sv_mint_policy = [], sv_policy = \<lparr>sp_id = [], sp_policy_hash = [], sp_document_json = [], sp_created_at = []\<rparr>,
     sv_build = \<lparr>bi_version = [], bi_git_commit = [], bi_git_branch = [], bi_build_time = [], bi_go_version = [], bi_os = [], bi_arch = []\<rparr>,
     sv_spec_json = [], sv_spec_yaml = []\<rparr>"

definition demo_mux :: mux where
  "demo_mux = the (buildMux True (Routes text_lib))"

definition demo_world :: world where
  "demo_world = \<lparr>wd_env = (now_env 60000000000)\<lparr>env_uuid := (\<lambda>n. Some (if n = 0 then ''carol'' else ''app''))\<rparr>, wd_ord = (\<lambda>x. x),
     wd_serials = demo_draws, wd_uptime = []\<rparr>"

definition demo_inbound :: "x509_cert list option \<Rightarrow> string \<Rightarrow> inbound" where
  "demo_inbound tls path = \<lparr>ib_request = \<lparr>hr_remote_addr = ''peer'', hr_host = ''h'', hr_tls = tls, hr_header = (\<lambda>_. []),
       hr_path_value = (\<lambda>_. [])\<rparr>, ib_method = ''POST'', ib_path = path, ib_query_at = [], ib_content_length = 1, ib_body = []\<rparr>"

lemma demo_enroll_dispatch:
  "mux_dispatch demo_mux ''POST'' ''/v1/client-apps/enroll'' = DMatch ''/v1/client-apps/enroll'' (TRoute (identity_routes ! 0)) []"
  by code_simp

lemma demo_garage_dispatch: "mux_dispatch demo_mux ''POST'' ''/v1/garages'' = DMatch ''/v1/garages'' (TRoute (garage_routes ! 0)) []"
  by code_simp

lemma demo_inbound_sel [simp]:
  "ib_method (demo_inbound tls path) = ''POST''" "ib_path (demo_inbound tls path) = path"
  by (simp_all add: demo_inbound_def)

definition demo_started_db :: db where
  "demo_started_db = snd (emitBootstrapInviteIfNeeded demo_server_lib (now_env 5) empty_db)"

definition demo_enroll_reply :: "(problem + (int \<times> enroll_response)) \<times> db" where
  "demo_enroll_reply = handleClientAppEnroll demo_server_lib demo_enroll_lib demo_verifier (wd_env demo_world) full_cfg demo_sign
     (CertificatePEM demo_authority) (bl_enroll demo_body []) demo_started_db"

definition demo_leaf :: x509_cert where
  "demo_leaf = the (lib_parse_certificate demo_server_lib ''cert'')"

text \<open>The store after the enrollment, and the request that creates a garage in it.\<close>

definition demo_carol_db :: db where
  "demo_carol_db = empty_db\<lparr>
     accounts := [\<lparr>acc_id = ''carol'', acc_open_caravan_id = ''carol'', acc_display_name = ''Carol'', acc_created_at = 60000000000,
       acc_disabled_at = None\<rparr>],
     client_apps := [\<lparr>ca_id = ''app'', ca_user_id = ''carol'', ca_display_name = ''Carol'', ca_created_time = 60000000000\<rparr>],
     client_app_invites := [\<lparr>cai_token_hash = ''746f6b'', cai_scope = ''server_registration'', cai_created_time = 5,
       cai_expiration_time = 86400000000005, cai_used_time = Some 60000000000, cai_used_by_client_app_id = Some ''app'',
       cai_created_by_user_id = None\<rparr>],
     issued_certificates := [\<lparr>ic_serial = ''7'', ic_subject_cn = ''phone'', ic_not_before = 0, ic_not_after = 604860000000000,
       ic_issued_at = 60000000000, ic_revoked_at = None, ic_user_id = Some ''carol'', ic_client_app_id = Some ''app'',
       ic_cert_pem = Some ''cert''\<rparr>]\<rparr>"

definition demo_garage_world :: world where
  "demo_garage_world = demo_world\<lparr>wd_env := env_at 70000000000 ''a''\<rparr>"

definition demo_garage_run :: "(problem + (int \<times> api_reply)) \<times> db" where
  "demo_garage_run = ServeHTTP demo_libs demo_server demo_mux demo_garage_world (demo_inbound (Some [demo_leaf]) ''/v1/garages'')
     demo_carol_db"

lemma demo_sign_leaf: "sign_leaf demo_libs demo_server demo_world = demo_sign"
  using demo_sign_total by (intro ext) (simp add: sign_leaf_def demo_libs_def demo_server_def demo_world_def)

lemma h_map_snd: "snd (h_map f m d) = snd (m d)"
  by (auto simp: h_map_def h_bind_def h_return_def split: prod.splits sum.splits)

lemma demo_parts:
  "lb_lib demo_libs = demo_server_lib" "lb_enroll demo_libs = demo_enroll_lib" "lb_verifier demo_libs = demo_verifier"
  "lb_wire demo_libs = demo_wire" "lb_body demo_libs = demo_body" "sv_stores demo_server = full_cfg"
  "sv_ca demo_server = demo_authority" "ib_body (demo_inbound tls x) = []"
  by (simp_all add: demo_libs_def demo_server_def demo_inbound_def)

lemma demo_routes:
  "rt_auth (identity_routes ! 0) = AuthPublic" "rt_handler (identity_routes ! 0) = Some HandleClientAppEnroll"
  "rt_auth (garage_routes ! 0) = AuthIdentity" "rt_handler (garage_routes ! 0) = Some HandleGarageCreate"
  by (simp_all add: identity_routes_def garage_routes_def)

lemma demo_enroll_stored: "snd demo_enroll_reply = demo_carol_db"
  by code_simp

lemma demo_enroll_run:
  "snd (ServeHTTP demo_libs demo_server demo_mux demo_world (demo_inbound None ''/v1/client-apps/enroll'') demo_started_db) =
   demo_carol_db"
  unfolding demo_enroll_stored [symmetric]
  by (simp add: ServeHTTP_route [where rt = "identity_routes ! 0"] demo_enroll_dispatch route_handler_def serve_def call_endpoint_def
      demo_parts demo_routes h_map_snd demo_sign_leaf demo_enroll_reply_def auth_defs Let_def)

text \<open>The caller of the garage request, and the row it leaves.\<close>

definition demo_carol_rc :: request_ctx where
  "demo_carol_rc = with_path_values ''/v1/garages'' []
     (request_context demo_libs demo_server demo_garage_world (ib_request (demo_inbound (Some [demo_leaf]) ''/v1/garages'')) demo_carol_db)"

lemma demo_carol_identity: "map_option id_user_id (rc_identity demo_carol_rc) = Some ''carol''"
  by code_simp

lemma demo_garage_handler:
  "snd demo_garage_run = snd (handleGarageCreate demo_server_lib demo_verifier demo_wire (wd_env demo_garage_world) full_cfg
     demo_carol_rc (bl_garage demo_body []) demo_carol_db)"
proof -
  have "rc_identity demo_carol_rc \<noteq> None" using demo_carol_identity by auto
  then show ?thesis
    unfolding demo_garage_run_def demo_carol_rc_def
    by (auto simp: ServeHTTP_route [where rt = "garage_routes ! 0"] demo_garage_dispatch route_handler_def serve_def call_endpoint_def
      demo_parts demo_routes h_map_snd RequireIdentity_def auth_defs Let_def)
qed

lemma demo_garage_recorded:
  "garage_revisions (snd demo_garage_run) =
     [garage_revision_row ''a'' (demo_home 1) (the (wl_garage_canonical demo_wire (demo_home 1))) 70000000000]"
  unfolding demo_garage_handler by code_simp

end
