(* ===== verification/ApiSystem.thy ===== *)
theory ApiSystem
  imports DemoRun
begin

text \<open>
  The system as a whole. \<open>store_effect\<close> lists the changes a request can make, each with the
  authority it needs: the caller's account, its role, and the signature on what is stored.
  Every handler only makes such a change, so every request does, whatever the route table
  dispatches it to; the invariants of the store then follow by induction over the requests
  and restarts a server sees. Requests are served one after the other: the store has one
  connection, and a handler's reads and its transaction are not interleaved with another's.
\<close>

section \<open>What a request may change\<close>

inductive store_effect :: "lib \<Rightarrow> verifier_lib \<Rightarrow> identity option \<Rightarrow> db \<Rightarrow> db \<Rightarrow> bool" for L V where
  enrolled: "RegisterClientApp L env p d = (Inr r, d') \<Longrightarrow> store_effect L V who d d'"
| invite_minted: "IssueInviteBy L env scope t (id_user_id i) n d = (Inr r, d') \<Longrightarrow> store_effect L V (Some i) d d'"
| journey_created: "CreateJourney env p d = (Inr r, d') \<Longrightarrow> jc_host_user_id p = id_user_id i \<Longrightarrow> store_effect L V (Some i) d d'"
| telemetry_recorded: "RecordTelemetryBatch env p d = (Inr r, d') \<Longrightarrow> joined_participant d (id_user_id i) (tp_journey_id p) \<Longrightarrow>
    store_effect L V (Some i) d d'"
| vehicle_created: "CreateJourneyVehicle L env p d = (Inr r, d') \<Longrightarrow> v_owner_user_id (jvc_vehicle p) = id_user_id i \<Longrightarrow>
    v_integrity (jvc_vehicle p) = Some vig \<Longrightarrow> acl_integrity (jvc_initial_acl p) = Some aig \<Longrightarrow>
    signed_by L V d (jvc_canonical_vehicle p) vig (id_user_id i) \<Longrightarrow> signed_by L V d (jvc_canonical_acl p) aig (id_user_id i) \<Longrightarrow>
    store_effect L V (Some i) d d'"
| acl_appended: "AppendJourneyVehicleACL L env p d = (Inr r, d') \<Longrightarrow> joined_owner d (id_user_id i) j (jva_journey_vehicle_id p) \<Longrightarrow>
    acl_integrity (jva_acl p) = Some ig \<Longrightarrow> signed_by L V d (jva_canonical p) ig (id_user_id i) \<Longrightarrow> store_effect L V (Some i) d d'"
| vehicle_revised: "AppendJourneyVehicleRevision L env p d = (Inr r, d') \<Longrightarrow>
    joined_owner d (id_user_id i) j (jvra_journey_vehicle_id p) \<Longrightarrow>
    v_integrity (jvra_vehicle p) = Some ig \<Longrightarrow> signed_by L V d (jvra_canonical p) ig (id_user_id i) \<Longrightarrow> store_effect L V (Some i) d d'"
| driver_attested: "RecordDriverAttestation L env p d = (Inr r, d') \<Longrightarrow> da_driver_user_id (dap_attestation p) = id_user_id i \<Longrightarrow>
    da_integrity (dap_attestation p) = Some ig \<Longrightarrow> signed_by L V d (dap_canonical p) ig (id_user_id i) \<Longrightarrow>
    store_effect L V (Some i) d d'"
| garage_created: "CreateGarage L env p d = (Inr r, d') \<Longrightarrow> g_signed_by (gp_garage p) = id_user_id i \<Longrightarrow>
    g_integrity (gp_garage p) = Some ig \<Longrightarrow> signed_by L V d (gp_canonical p) ig (id_user_id i) \<Longrightarrow> store_effect L V (Some i) d d'"
| garage_revised: "AppendGarageRevision L env p d = (Inr r, d') \<Longrightarrow> accepted_owner d (id_user_id i) (g_id (gp_garage p)) \<Longrightarrow>
    g_signed_by (gp_garage p) = id_user_id i \<Longrightarrow> g_integrity (gp_garage p) = Some ig \<Longrightarrow>
    signed_by L V d (gp_canonical p) ig (id_user_id i) \<Longrightarrow> store_effect L V (Some i) d d'"
| ownership_accepted: "AcceptGarageOwnership L env p d = (Inr r, d') \<Longrightarrow>
    oa_accepter_user_id (gap_acceptance p) = id_user_id i \<Longrightarrow> oa_integrity (gap_acceptance p) = Some ig \<Longrightarrow>
    signed_by L V d (gap_canonical p) ig (id_user_id i) \<Longrightarrow> store_effect L V (Some i) d d'"
| garage_vehicle_created: "CreateGarageVehicle L env p d = (Inr r, d') \<Longrightarrow>
    accepted_owner d (id_user_id i) (gvh_garage_id (gvp_vehicle p)) \<Longrightarrow> gvh_signed_by (gvp_vehicle p) = id_user_id i \<Longrightarrow>
    gvh_integrity (gvp_vehicle p) = Some ig \<Longrightarrow> signed_by L V d (gvp_canonical p) ig (id_user_id i) \<Longrightarrow>
    store_effect L V (Some i) d d'"
| garage_vehicle_revised: "AppendGarageVehicleRevision L env p d = (Inr r, d') \<Longrightarrow>
    accepted_owner d (id_user_id i) (gvh_garage_id (gvp_vehicle p)) \<Longrightarrow> gvh_signed_by (gvp_vehicle p) = id_user_id i \<Longrightarrow>
    gvh_integrity (gvp_vehicle p) = Some ig \<Longrightarrow> signed_by L V d (gvp_canonical p) ig (id_user_id i) \<Longrightarrow>
    store_effect L V (Some i) d d'"
| garage_invite_issued: "IssueGarageInvite L env p d = (Inr r, d') \<Longrightarrow> gii_created_by_user_id p = id_user_id i \<Longrightarrow>
    accepted_owner d (id_user_id i) (gii_garage_id p) \<Longrightarrow> store_effect L V (Some i) d d'"
| garage_invite_revoked: "RevokeGarageInvite env g iid d = (r, d') \<Longrightarrow> accepted_owner d (id_user_id i) g \<Longrightarrow>
    store_effect L V (Some i) d d'"
| garage_invite_redeemed: "RedeemGarageInvite L env token (id_user_id i) d = (Inr r, d') \<Longrightarrow> store_effect L V (Some i) d d'"

inductive_cases store_effect_unauthenticated: "store_effect L V None d d'"

section \<open>The store operations are atomic\<close>

lemma op_atomic_let [h_atomic_intros]: "(\<And>x. op_atomic (f x)) \<Longrightarrow> op_atomic (Let y f)"
  by (simp add: Let_def)

lemma op_atomic_map_error [h_atomic_intros]:
  "op_atomic m \<Longrightarrow> op_atomic (\<lambda>d. case m d of (Inl e, d') \<Rightarrow> (Inl (f e), d') | (Inr i, d') \<Rightarrow> (Inr i, d'))"
  by (auto simp: op_atomic_def split: prod.splits sum.splits)

lemma store_ops_atomic [h_atomic_intros]:
  "op_atomic (CreateJourney env jp)" "op_atomic (RecordTelemetryBatch env tp)"
  "op_atomic (CreateGarage L env gp)" "op_atomic (AppendGarageRevision L env gp)" "op_atomic (AcceptGarageOwnership L env ap)"
  "op_atomic (CreateGarageVehicle L env vp)" "op_atomic (AppendGarageVehicleRevision L env vp)"
  "op_atomic (IssueGarageInvite L env ip)" "op_atomic (RedeemGarageInvite L env tok u)"
  "op_atomic (RegisterClientApp L env rp)" "op_atomic (IssueInviteBy L env scope t u n)"
  unfolding CreateJourney_def RecordTelemetryBatch_def CreateGarage_def AppendGarageRevision_def AcceptGarageOwnership_def
    CreateGarageVehicle_def AppendGarageVehicleRevision_def IssueGarageInvite_def RedeemGarageInvite_def
    RegisterClientApp_def IssueInviteBy_def Let_def
  by (intro h_atomic_intros)+

lemmas vehicle_ops_atomic [h_atomic_intros] = CreateJourneyVehicle_atomic AppendJourneyVehicleACL_atomic
  AppendJourneyVehicleRevision_atomic RecordDriverAttestation_atomic

lemma h_pure_split [h_atomic_intros]: "(\<And>a b. h_pure (f a b)) \<Longrightarrow> h_pure (case x of (a, b) \<Rightarrow> f a b)"
  by (simp split: prod.splits)

section \<open>Reading handlers change nothing\<close>

lemma reading_handlers_pure:
  "h_pure (handleClientAppInviteList env cfg rc)" "h_pure (handleJourneyGet env cfg rc)"
  "h_pure (handleJourneyVehicleList W env cfg rc)" "h_pure (handleJourneyVehicleGet W env cfg rc)"
  "h_pure (handleDriverAttestationList env cfg rc)" 
  "h_pure (handleGarageList env cfg rc)" "h_pure (handleGarageGet env cfg rc)"
  "h_pure (handleGarageVehicleList W env cfg rc)" "h_pure (handleGarageVehicleGet W env cfg rc)"
  "h_pure (handleGarageInviteList env cfg rc)"
  unfolding handleClientAppInviteList_def handleJourneyGet_def handleJourneyVehicleList_def handleJourneyVehicleGet_def
    handleDriverAttestationList_def handleGarageList_def handleGarageGet_def handleGarageVehicleList_def
    handleGarageVehicleGet_def handleGarageInviteList_def Let_def
  by (intro h_atomic_intros)+

lemma system_handlers_pure:
  "h_pure (handleRoot sv)" "h_pure (handleHealth sv wd)" "h_pure (handleReady sv wd)" "h_pure (handleVersion sv wd)"
  "h_pure (handleServerInfo um sv)" "h_pure (handleOpenAPIJSON L sv r)" "h_pure (handleOpenAPIYAML L sv r)"
  unfolding handleRoot_def handleHealth_def handleReady_def handleVersion_def handleServerInfo_def handleOpenAPIJSON_def
    handleOpenAPIYAML_def serveSpec_def Let_def
  by (intro h_atomic_intros)+

lemma handleCurrentDriver_pure: "h_pure (handleCurrentDriver W env cfg rc raw)"
  unfolding handleCurrentDriver_def Let_def
  by (intro h_pure_require h_pure_opt h_pure_read) (simp add: h_pure_def h_return_def)

lemma handleSessionCreate_pure: "h_pure (handleSessionCreate M S env iss rc body)"
  unfolding handleSessionCreate_def Let_def
  by (intro h_atomic_intros) (simp add: h_pure_return h_pure_fail split: sum.splits prod.splits)

section \<open>Writing handlers make an allowed change\<close>

lemma h_post_split [h_post_intros]: "(\<And>a b. x = (a, b) \<Longrightarrow> h_post (f a b) d Q) \<Longrightarrow> h_post (case x of (a, b) \<Rightarrow> f a b) d Q"
  by (simp split: prod.splits)

lemma enroll_effect: "h_post (handleClientAppEnroll L E V env cfg sign caPEM body) d (store_effect L V who d)"
  unfolding handleClientAppEnroll_def
  by (intro h_post_intros h_atomic_intros) (rule store_effect.enrolled)

lemma mint_policy_gate_post [h_post_intros]:
  "h_post m d Q \<Longrightarrow> h_post (mint_policy_gate env policy u m) d Q"
  unfolding mint_policy_gate_def
  by (simp add: h_post_pure h_pure_fail h_post_read h_post_require)

lemma client_app_invite_effect:
  "h_post (handleClientAppInviteCreate L env cfg policy rc n dec) d (store_effect L V (rc_identity rc) d)"
  unfolding handleClientAppInviteCreate_def
  by (intro h_post_intros h_atomic_intros) (simp, rule store_effect.invite_minted)

lemma journey_effect: "h_post (handleJourneyCreate env cfg h doc rc body) d (store_effect L V (rc_identity rc) d)"
  unfolding handleJourneyCreate_def Let_def
  by (intro h_post_intros h_atomic_intros) (simp, erule store_effect.journey_created, simp)

lemma telemetry_effect:
  "h_post (handleJourneyTelemetry L um valid env cfg rc body) d (store_effect L V (rc_identity rc) d)"
  unfolding handleJourneyTelemetry_def Let_def
  by (intro h_post_intros h_atomic_intros) (auto intro!: store_effect.telemetry_recorded dest: participant_joined)

lemma vehicle_create_effect:
  "h_post (handleJourneyVehicleCreate L V W env cfg rc body) d (store_effect L V (rc_identity rc) d)"
  unfolding handleJourneyVehicleCreate_def Let_def
  by (intro h_post_intros h_atomic_intros) (auto intro!: store_effect.vehicle_created dest!: verifySignedPayload_D)

lemma acl_effect:
  "h_post (handleJourneyVehicleACLAppend L V W env cfg rc body) d (store_effect L V (rc_identity rc) d)"
  unfolding handleJourneyVehicleACLAppend_def Let_def
  by (intro h_post_intros h_atomic_intros)
    (auto intro!: store_effect.acl_appended dest!: verifySignedPayload_D authorize_joined_owner)

lemma revision_effect:
  "h_post (handleJourneyVehicleRevisionAppend L V W env cfg rc body) d (store_effect L V (rc_identity rc) d)"
  unfolding handleJourneyVehicleRevisionAppend_def Let_def
  by (intro h_post_intros h_atomic_intros)
    (auto intro!: store_effect.vehicle_revised dest!: verifySignedPayload_D authorize_joined_owner)

lemma garage_create_effect:
  "h_post (handleGarageCreate L V W env cfg rc body) d (store_effect L V (rc_identity rc) d)"
  unfolding handleGarageCreate_def
  by (intro h_post_intros h_atomic_intros) (auto intro!: store_effect.garage_created dest!: verifySignedPayload_D)

lemma garage_revision_effect:
  "h_post (handleGarageRevisionAppend L V W env cfg rc body) d (store_effect L V (rc_identity rc) d)"
  unfolding handleGarageRevisionAppend_def Let_def
  by (intro h_post_intros h_atomic_intros)
    (auto intro!: store_effect.garage_revised dest!: verifySignedPayload_D dest: GarageOwnerByUserAndGarage_Inr)

lemma garage_vehicle_create_effect:
  "h_post (handleGarageVehicleCreate L V W env cfg rc body) d (store_effect L V (rc_identity rc) d)"
  unfolding handleGarageVehicleCreate_def Let_def
  by (intro h_post_intros h_atomic_intros)
    (auto intro!: store_effect.garage_vehicle_created dest!: verifySignedPayload_D requireAcceptedGarageOwner_Inr)

lemma garage_vehicle_revision_effect:
  "h_post (handleGarageVehicleRevisionAppend L V W env cfg rc body) d (store_effect L V (rc_identity rc) d)"
  unfolding handleGarageVehicleRevisionAppend_def Let_def
  by (intro h_post_intros h_atomic_intros)
    (auto intro!: store_effect.garage_vehicle_revised dest!: verifySignedPayload_D requireAcceptedGarageOwner_Inr)

lemma garage_invite_create_effect:
  "h_post (handleGarageInviteCreate L env cfg rc n dec) d (store_effect L V (rc_identity rc) d)"
  unfolding handleGarageInviteCreate_def Let_def
  by (intro h_post_intros h_atomic_intros)
    (auto intro!: store_effect.garage_invite_issued dest!: requireAcceptedGarageOwner_Inr)

lemma garage_invite_redeem_effect:
  "h_post (handleGarageInviteRedeem L env cfg rc body) d (store_effect L V (rc_identity rc) d)"
  unfolding handleGarageInviteRedeem_def
  by (intro h_post_intros h_atomic_intros) (simp, rule store_effect.garage_invite_redeemed)

lemma h_post_atomic:
  "h_atomic m \<Longrightarrow> (\<And>a d'. m d = (Inr a, d') \<Longrightarrow> d' = d \<or> Q d') \<Longrightarrow> h_post m d Q"
  unfolding h_post_def h_atomic_def by (cases "m d"; cases "fst (m d)") auto

lemma h_post_case:
  assumes "op_atomic m" "\<And>a d'. m d = (Inr a, d') \<Longrightarrow> Q d'" "\<And>a. h_pure (f a)" "\<And>e. h_pure (g e)"
  shows "h_post (\<lambda>d. case m d of (Inr a, d') \<Rightarrow> f a d' | (Inl e, d') \<Rightarrow> g e d') d Q"
  using assms unfolding h_post_def h_pure_def op_atomic_def by (cases "m d"; cases "fst (m d)") auto

lemma pure_snd: "h_pure m \<Longrightarrow> snd (m d) = d"
  by (simp add: h_pure_def)

lemma h_call_return: "snd (h_call tab m (\<lambda>_. h_return x) d) = snd (m d)"
  by (auto simp: h_call_def h_return_def split: prod.splits sum.splits)

lemma attestation_integrity:
  "RecordDriverAttestation L env p d = (Inr r, d') \<Longrightarrow> da_integrity (dap_attestation p) \<noteq> None"
  by (auto simp: RecordDriverAttestation_def attestation_checks_def tx_Inr)

lemma attestation_effect:
  "h_post (handleDriverAttestationRecord L V W env cfg rc body) d (store_effect L V (rc_identity rc) d)"
proof (rule h_post_atomic [OF handleDriverAttestationRecord_atomic])
  fix x d'
  assume run: "handleDriverAttestationRecord L V W env cfg rc body d = (Inr x, d')"
  then obtain st resp where "handleDriverAttestationRecord L V W env cfg rc body d = (Inr (st, resp), d')" by (cases x) auto
  from handleDriverAttestationRecord_Inr [OF this refl refl] show "d' = d \<or> store_effect L V (rc_identity rc) d d'"
  proof (elim exE conjE disjE)
    fix i a rec c trust
    assume i: "rc_identity rc = Some i" "da_driver_user_id a = id_user_id i"
      and s: "signed_by L V d c (the (da_integrity a)) (id_user_id i)"
      and r: "RecordDriverAttestation L env \<lparr>dap_attestation = a, dap_journey_vehicle_id = hr_path_value (rc_request rc) ''vid'',
        dap_trust_flag = trust, dap_canonical = c\<rparr> d = (Inr rec, d')"
    from attestation_integrity [OF r] obtain ig where "da_integrity a = Some ig" by auto
    with i s store_effect.driver_attested [OF r, of i ig V] show ?thesis by simp
  qed simp
qed

lemma ownership_effect:
  "h_post (handleGarageOwnershipAccept L V W env cfg rc body) d (store_effect L V (rc_identity rc) d)"
  unfolding handleGarageOwnershipAccept_def Let_def
  by (intro h_post_intros h_atomic_intros h_post_case)
    (auto intro!: store_effect.ownership_accepted dest!: verifySignedPayload_D
      simp: h_pure_def pure_snd [OF h_pure_read [OF with_garage_pure]])

lemma revoke_effect:
  "h_post (handleGarageInviteRevoke env cfg rc) d (store_effect L V (rc_identity rc) d)"
  unfolding handleGarageInviteRevoke_def Let_def
  by (intro h_post_require h_post_opt h_post_bind requireAcceptedGarageOwner_pure)
    (auto simp: h_post_def h_call_return intro!: store_effect.garage_invite_revoked [OF prod.collapse [symmetric]] dest!: requireAcceptedGarageOwner_Inr)

lemmas writing_effects = enroll_effect client_app_invite_effect journey_effect telemetry_effect vehicle_create_effect acl_effect
  revision_effect attestation_effect garage_create_effect garage_revision_effect ownership_effect garage_vehicle_create_effect
  garage_vehicle_revision_effect garage_invite_create_effect garage_invite_redeem_effect revoke_effect

lemmas pure_handlers = reading_handlers_pure system_handlers_pure handleCurrentDriver_pure handleSessionCreate_pure

section \<open>What a request changes\<close>

lemma call_endpoint_effect:
  "h_post (call_endpoint lb sv wd ib ep rc) d (store_effect (lb_lib lb) (lb_verifier lb) (rc_identity rc) d)"
  unfolding call_endpoint_def Let_def
  by (cases ep) (simp_all add: h_map_post writing_effects h_post_pure h_map_pure pure_handlers)

lemma h_post_serve:
  assumes "\<And>rc. rc_identity rc = u \<Longrightarrow> h_post (call rc) d Q"
  shows "rc_identity rc = u \<Longrightarrow> h_post (serve (Reply (call rc))) d Q"
    "rc_identity rc = u \<Longrightarrow> h_post (serve (RequireIdentity (\<lambda>rc. Reply (call rc)) rc)) d Q"
    "rc_identity rc = u \<Longrightarrow> h_post (serve (RequireSession now b (\<lambda>rc. Reply (call rc)) rc)) d Q"
  using assms
  by (auto simp: serve_def RequireIdentity_def RequireSession_def h_post_pure h_pure_fail split: option.splits sum.splits)

lemma route_handler_effect:
  "h_post (serve (route_handler lb sv wd ib rt rc)) d (store_effect (lb_lib lb) (lb_verifier lb) (rc_identity rc) d)"
proof -
  let ?call = "\<lambda>rc. case rt_handler rt of None \<Rightarrow> h_return (404, RNotFound) | Some ep \<Rightarrow> call_endpoint lb sv wd ib ep rc"
  have "h_post (?call rc') d (store_effect (lb_lib lb) (lb_verifier lb) (rc_identity rc) d)" if "rc_identity rc' = rc_identity rc" for rc'
    using call_endpoint_effect [where rc = rc'] that by (auto simp: h_post_pure h_pure_return split: option.splits)
  from h_post_serve [of "rc_identity rc" ?call, OF this] show ?thesis
    by (simp add: route_handler_def Let_def)
qed

lemma serve_mux_effect:
  "h_post (serve (serve_mux lb sv mux wd ib rc)) d (store_effect (lb_lib lb) (lb_verifier lb) (rc_identity rc) d)"
proof -
  have "h_post (serve (serve_target lb sv wd ib t (with_path_values p vs rc))) d
      (store_effect (lb_lib lb) (lb_verifier lb) (rc_identity rc) d)" for t p vs
    using route_handler_effect [where rc = "with_path_values p vs rc" and lb = lb and sv = sv and wd = wd and ib = ib and d = d]
    by (cases t) (simp_all add: serve_target_def, simp_all add: serve_def h_post_pure h_map_pure pure_handlers h_pure_return)
  then show ?thesis
    by (auto simp: serve_mux_def serve_def [of "Reply _"] h_post_pure h_pure_return split: dispatch.splits)
qed

lemma ServeHTTP_effect:
  "snd (ServeHTTP lb sv mux wd ib d) = d \<or>
   store_effect (lb_lib lb) (lb_verifier lb) (request_identity lb sv wd (ib_request ib) d) d (snd (ServeHTTP lb sv mux wd ib d))"
  using serve_mux_effect [of lb sv mux wd ib "request_context lb sv wd (ib_request ib) d" d]
  by (simp add: ServeHTTP_def attach_context h_post_def)

text \<open>C5. The posture in the route table is what is enforced. A request that the mux dispatches to an
  identity route is answered 401 unless its client certificate is enrolled; one for a session
  route is answered 401 unless it carries a macaroon of this server all of whose caveats hold for
  the route's action, the journey named in the path, the clock and the identity of the
  certificate; otherwise, and on a public route, the reply is the handler's own.\<close>

theorem route_guard:
  assumes "mux_dispatch mux (ib_method ib) (ib_path ib) = DMatch pattern (TRoute rt) vs" "rt_handler rt = Some ep"
  shows "ServeHTTP lb sv mux wd ib d =
    (let rc = with_path_values pattern vs (request_context lb sv wd (ib_request ib) d);
         journey = hr_path_value (rc_request rc) (rt_journey_path_param rt);
         reply = call_endpoint lb sv wd ib ep rc d in
     if rt_auth rt = AuthIdentity then
       (if rc_identity rc = None then (Inl (mk_problem 401 ''unauthenticated''), d) else reply)
     else if rt_auth rt = AuthSession then
       (case rc_session rc of None \<Rightarrow> (Inl (mk_problem 401 ''no_session''), d)
        | Some s \<Rightarrow>
            if journey = [] then (Inl (mk_problem 500 ''constraints_builder_failed''), d)
            else if CheckConstraints (ss_verified s) (env_now (wd_env wd)) (bind_identity (rc_identity rc)
                \<lparr>cn_journey_id = journey, cn_action = rt_session_action rt, cn_user_id = [], cn_client_app_id = []\<rparr>) \<noteq> None
              then (Inl (mk_problem 401 ''session_constraint_failed''), d)
            else reply)
     else reply)"
  unfolding ServeHTTP_route [OF assms(1)] using assms(2)
  by (auto simp: route_handler_def RequireIdentity_def RequireSession_def SessionActionJourneyFromPath_def serve_def h_fail_def
      Let_def split: option.splits sum.splits)

text \<open>C1. Whatever a request is, the server answers it with the store as it was, or after exactly one
  of the allowed changes, made with the authority it needs: under the account enrolled for the
  client certificate, in the role the change demands, and with a valid signature of that
  account over every signed payload that is stored.\<close>

theorem request_effect:
  "snd (ServeHTTP lb sv mux wd ib d) \<in> insert d
     {d'. store_effect (lb_lib lb) (lb_verifier lb) (request_identity lb sv wd (ib_request ib) d) d d'}"
  using ServeHTTP_effect [of lb sv mux wd ib d] by auto


lemma demo_anonymous: "request_identity demo_libs demo_server wd (ib_request (demo_inbound None path)) d = None"
  by (simp add: request_identity_def RequestInfoFrom_def demo_server_def demo_inbound_def clientCertFromTLS_def Let_def)

theorem route_guard_witness:
  "ServeHTTP demo_libs demo_server demo_mux demo_world (demo_inbound None ''/v1/garages'') empty_db =
     (Inl (mk_problem 401 ''unauthenticated''), empty_db)"
proof -
  have m: "mux_dispatch demo_mux (ib_method (demo_inbound None ''/v1/garages'')) (ib_path (demo_inbound None ''/v1/garages'')) =
      DMatch ''/v1/garages'' (TRoute (garage_routes ! 0)) []"
    by (simp add: demo_garage_dispatch)
  show ?thesis
    unfolding route_guard [OF m demo_routes(4)] by (simp add: demo_routes demo_anonymous Let_def)
qed


end
