(* ===== verification/Evidence.thy ===== *)
theory Evidence
  imports ApiSystem "HOL-Library.Sublist"
begin

text \<open>
  Invariants of the store over the whole life of a server: the signed evidence it keeps
  (ACL revisions, vehicle revisions, driver attestations, garage revisions, ownership
  acceptances, garage vehicle revisions) is append-only and verifies under the enrolled key
  of its author in every reachable state, the four revision histories stay well formed,
  and so do enrollment and invites.
\<close>

section \<open>The system's steps\<close>

text \<open>Beside requests, a server process starts (bootstrap invite, macaroon root, policy
  snapshot) and an operator issues invites at the command line.\<close>

inductive system_step :: "lib \<Rightarrow> verifier_lib \<Rightarrow> 'v json_lib \<Rightarrow> db \<Rightarrow> db \<Rightarrow> bool" for L V J where
  request: "store_effect L V who d d' \<Longrightarrow> system_step L V J d d'"
| invite: "IssueInvite L env scope t d = (Inr r, d') \<Longrightarrow> system_step L V J d d'"
| root: "IssueMacaroonRoot env i k d = (Inr r, d') \<Longrightarrow> system_step L V J d d'"
| policy: "EnsureServerPolicySnapshot L J env stamp doc d = (r, d') \<Longrightarrow> system_step L V J d d'"

text \<open>The states a store goes through from a state on: requests, restarts and command-line
  invites, in any order.\<close>

inductive later :: "('m, 'ip, 'net) libs \<Rightarrow> 'v json_lib \<Rightarrow> db \<Rightarrow> db \<Rightarrow> bool" for lb J d0 where
  start: "later lb J d0 d0"
| serve: "later lb J d0 d \<Longrightarrow> later lb J d0 (snd (ServeHTTP lb sv mux wd ib d))"
| bootstrap: "later lb J d0 d \<Longrightarrow> later lb J d0 (snd (emitBootstrapInviteIfNeeded (lb_lib lb) env d))"
| issuer: "later lb J d0 d \<Longrightarrow> later lb J d0 (snd (loadOrMintMacaroonIssuer env i k d))"
| snapshot: "later lb J d0 d \<Longrightarrow> later lb J d0 (snd (EnsureServerPolicySnapshot (lb_lib lb) J env stamp doc d))"
| cli_invite: "later lb J d0 d \<Longrightarrow> later lb J d0 (snd (IssueInvite (lb_lib lb) env scope t d))"

definition reachable :: "('m, 'ip, 'net) libs \<Rightarrow> 'v json_lib \<Rightarrow> db \<Rightarrow> bool" where
  "reachable lb J = later lb J empty_db"

lemma startup_ops_atomic: "op_atomic (IssueInvite L env scope t)" "op_atomic (IssueMacaroonRoot env i k)"
  unfolding IssueInvite_def IssueMacaroonRoot_def Let_def by (intro h_atomic_intros)+

lemma op_atomicD: "op_atomic m \<Longrightarrow> snd (m d) = d \<or> (\<exists>r. m d = (Inr r, snd (m d)))"
  unfolding op_atomic_def by (cases "m d"; cases "fst (m d)") auto

lemma IssueInvite_step: "snd (IssueInvite L env scope t d) = d \<or> system_step L V J d (snd (IssueInvite L env scope t d))"
  using op_atomicD [OF startup_ops_atomic(1), of L env scope t d] by (auto intro: system_step.invite)

lemma bootstrap_step:
  "snd (emitBootstrapInviteIfNeeded L env d) = d \<or> system_step L V J d (snd (emitBootstrapInviteIfNeeded L env d))"
proof -
  have "snd (emitBootstrapInviteIfNeeded L env d) = d \<or>
      snd (emitBootstrapInviteIfNeeded L env d) = snd (IssueInvite L env ''server_registration'' bootstrapInviteLifetime d)"
    by (auto simp: emitBootstrapInviteIfNeeded_def split: sum.splits prod.splits if_splits)
  with IssueInvite_step show ?thesis by metis
qed

lemma issuer_step:
  "snd (loadOrMintMacaroonIssuer env i k d) = d \<or> system_step L V J d (snd (loadOrMintMacaroonIssuer env i k d))"
proof -
  have "snd (loadOrMintMacaroonIssuer env i k d) = d \<or>
      snd (loadOrMintMacaroonIssuer env i k d) = snd (IssueMacaroonRoot env i k d)"
    by (auto simp: loadOrMintMacaroonIssuer_def Let_def split: sum.splits prod.splits if_splits)
  with op_atomicD [OF startup_ops_atomic(2), of env i k d] show ?thesis by (auto intro: system_step.root)
qed

lemma serve_step:
  "snd (ServeHTTP lb sv mux wd ib d) = d \<or> system_step (lb_lib lb) (lb_verifier lb) J d (snd (ServeHTTP lb sv mux wd ib d))"
  using ServeHTTP_effect [of lb sv mux wd ib d] by (auto intro: system_step.request)

text \<open>An invariant of the steps holds in every later state.\<close>

lemma later_invariant:
  assumes "later lb J d0 d" "P d0"
    "\<And>d d'. P d \<Longrightarrow> system_step (lb_lib lb) (lb_verifier lb) J d d' \<Longrightarrow> P d'"
  shows "P d"
  using assms(1)
proof induction
  case (serve d sv mux wd ib)
  with serve_step [of lb sv mux wd ib d J] assms(3) show ?case by auto
next
  case (bootstrap d env)
  with bootstrap_step [of "lb_lib lb" env d "lb_verifier lb" J] assms(3) show ?case by auto
next
  case (issuer d env i k)
  with issuer_step [of env i k d "lb_lib lb" "lb_verifier lb" J] assms(3) show ?case by auto
next
  case (snapshot d env stamp doc)
  then show ?case using assms(3) [OF _ system_step.policy [OF prod.collapse [symmetric]]] by blast
next
  case (cli_invite d env scope t)
  with IssueInvite_step [of "lb_lib lb" env scope t d "lb_verifier lb" J] assms(3) show ?case by auto
qed (rule assms(2))

section \<open>What each operation writes\<close>

lemma update_self: "d\<lparr>garage_invites := garage_invites d\<rparr> = (d :: db)"
  by simp

lemma RegisterClientApp_upd:
  "RegisterClientApp L env p d = (Inr r, d') \<Longrightarrow> \<exists>cert pem iv. reg_certificate p = Some cert \<and>
    (\<forall>c \<in> set (client_apps d). ca_id c \<noteq> reg_client_app_id p) \<and>
    d' = d\<lparr>accounts := accounts d @ [registration_account p (env_now env)],
      client_apps := client_apps d @ [registration_client_app p (env_now env)], client_app_invites := iv,
      issued_certificates := issued_certificates d @ [registration_certificate p cert pem (env_now env)]\<rparr>"
  by (drule RegisterClientApp_Inr) (auto simp: registered_db_def)

lemma IssueInviteBy_upd: "IssueInviteBy L env scope t u n d = (Inr r, d') \<Longrightarrow> \<exists>x. d' = d\<lparr>client_app_invites := x\<rparr>"
  by (cases r) (auto dest!: IssueInviteBy_Inr)

lemma IssueInvite_upd: "IssueInvite L env scope t d = (Inr r, d') \<Longrightarrow> \<exists>x. d' = d\<lparr>client_app_invites := x\<rparr>"
  by (cases r) (auto dest!: IssueInvite_Inr)

lemma IssueGarageInvite_upd: "IssueGarageInvite L env p d = (Inr r, d') \<Longrightarrow> \<exists>x. d' = d\<lparr>garage_invites := x\<rparr>"
  by (cases r) (auto dest!: IssueGarageInvite_Inr)

lemma RevokeGarageInvite_upd: "RevokeGarageInvite env g i d = (r, d') \<Longrightarrow> \<exists>x. d' = d\<lparr>garage_invites := x\<rparr>"
  using RevokeGarageInvite_effect [of env g i d r d'] update_self [of d, symmetric] by metis

lemma RedeemGarageInvite_upd:
  "RedeemGarageInvite L env tok u d = (Inr r, d') \<Longrightarrow> \<exists>x y z. d' = d\<lparr>redemptions := x, garage_invites := y, garage_owners := z\<rparr>"
proof -
  assume r: "RedeemGarageInvite L env tok u d = (Inr r, d')"
  then obtain iv rd where r: "RedeemGarageInvite L env tok u d = (Inr (iv, rd), d')" by (cases r) auto
  from RedeemGarageInvite_Inr [OF r] obtain i where
    "find (\<lambda>r. gi_token_hash r = hashInviteToken L tok) (garage_invites d) = Some i" by blast
  from RedeemGarageInvite_tables(5) [OF r this] show ?thesis by blast
qed

lemma AppendGarageRevision_upd:
  "AppendGarageRevision L env p d = (Inr r, d') \<Longrightarrow>
    \<exists>x y. d' = d\<lparr>garage_revisions := garage_revisions d @ [garage_revision_row (the (env_uuid env 0)) (gp_garage p) (gp_canonical p) (env_now env)],
      garages := x, garage_owners := y\<rparr>"
proof -
  assume "AppendGarageRevision L env p d = (Inr r, d')"
  note e = AppendGarageRevision_Inr [OF this]
  from reconcile_frame [OF e [THEN conjunct2, THEN conjunct2]] e show ?thesis by (metis (no_types))
qed

lemma EnsureServerPolicySnapshot_upd:
  "EnsureServerPolicySnapshot L J env stamp doc d = (r, d') \<Longrightarrow> \<exists>x. d' = d\<lparr>policy_snapshots := x\<rparr>"
proof -
  assume "EnsureServerPolicySnapshot L J env stamp doc d = (r, d')"
  moreover have "d\<lparr>policy_snapshots := policy_snapshots d\<rparr> = d" by simp
  ultimately show ?thesis using EnsureServerPolicySnapshot_policies by metis
qed

lemma IssueMacaroonRoot_upd: "IssueMacaroonRoot env i k d = (Inr r, d') \<Longrightarrow> \<exists>x. d' = d\<lparr>macaroon_roots := x\<rparr>"
  by (auto dest!: IssueMacaroonRoot_Inr)

lemmas op_upds = RegisterClientApp_upd IssueInviteBy_upd CreateJourney_Inr RecordTelemetryBatch_Inr CreateJourneyVehicle_Inr
  AppendJourneyVehicleACL_Inr AppendJourneyVehicleRevision_Inr RecordDriverAttestation_Inr CreateGarage_Inr AppendGarageRevision_upd
  AcceptGarageOwnership_Inr CreateGarageVehicle_Inr AppendGarageVehicleRevision_Inr IssueGarageInvite_upd RevokeGarageInvite_upd
  RedeemGarageInvite_upd IssueInvite_upd IssueMacaroonRoot_upd EnsureServerPolicySnapshot_upd

section \<open>Signatures stay valid\<close>

text \<open>No step touches the certificates of an app that is enrolled: enrolling adds a
  certificate for a new app only.\<close>

lemma step_certificates:
  assumes "system_step L V J d d'"
  shows "issued_certificates d' = issued_certificates d \<or> (\<exists>c a. issued_certificates d' = issued_certificates d @ [c] \<and>
    ic_client_app_id c = Some a \<and> (\<forall>x \<in> set (client_apps d). ca_id x \<noteq> a))"
  using assms
proof (cases rule: system_step.cases)
  case (request who)
  then show ?thesis
    by (cases rule: store_effect.cases) (auto dest!: op_upds simp: registration_certificate_def)
qed (auto dest!: op_upds)

lemma signed_by_enrolled:
  assumes "signed_by L V d p ig u" "enrollment_ok d"
  shows "has_client_app d (ig_key_id ig)"
proof -
  from assms(1) obtain r where "r \<in> set (issued_certificates d)" "ic_client_app_id r = Some (ig_key_id ig)"
    by (auto simp: signed_by_def EnrolledCertByClientAppID_def split: if_splits option.splits dest!: first_max_SomeD)
  with assms(2) show ?thesis by (auto simp: enrollment_ok_def)
qed

lemma signed_by_step:
  assumes "signed_by L V d p ig u" "enrollment_ok d" "system_step L V J d d'"
  shows "signed_by L V d' p ig u"
proof -
  have "filter (\<lambda>r. ic_client_app_id r = Some (ig_key_id ig)) (issued_certificates d') =
      filter (\<lambda>r. ic_client_app_id r = Some (ig_key_id ig)) (issued_certificates d)"
    using step_certificates [OF assms(3)] signed_by_enrolled [OF assms(1,2)] by (auto simp: has_client_app_def)
  from signed_by_cong [OF this] assms(1) show ?thesis by simp
qed

section \<open>Evidence tables\<close>

text \<open>A table of signed records: every record verifies under the enrolled key of an author.\<close>

definition evidence_ok ::
  "(db \<Rightarrow> 'r list) \<Rightarrow> ('r \<Rightarrow> string) \<Rightarrow> ('r \<Rightarrow> integrity) \<Rightarrow> (db \<Rightarrow> 'r \<Rightarrow> string \<Rightarrow> bool) \<Rightarrow> lib \<Rightarrow> verifier_lib \<Rightarrow> db \<Rightarrow> bool" where
  "evidence_ok rows payload envelope author L V d =
     (\<forall>r \<in> set (rows d). \<exists>u. author d r u \<and> signed_by L V d (payload r) (envelope r) u)"

locale evidence_table =
  fixes rows :: "db \<Rightarrow> 'r list"
    and payload :: "'r \<Rightarrow> string"
    and envelope :: "'r \<Rightarrow> integrity"
    and author :: "db \<Rightarrow> 'r \<Rightarrow> string \<Rightarrow> bool"
  assumes recorded: "store_effect L V who d d' \<Longrightarrow> \<exists>new. rows d' = rows d @ new \<and>
      (\<forall>r \<in> set new. \<exists>i. who = Some i \<and> author d' r (id_user_id i) \<and> signed_by L V d (payload r) (envelope r) (id_user_id i))"
    and author_kept: "store_effect L V who d d' \<Longrightarrow> author d r u \<Longrightarrow> author d' r u"
    and unaffected: "rows (d\<lparr>client_app_invites := x\<rparr>) = rows d" "author (d\<lparr>client_app_invites := x\<rparr>) = author d"
      "rows (d\<lparr>macaroon_roots := y\<rparr>) = rows d" "author (d\<lparr>macaroon_roots := y\<rparr>) = author d"
      "rows (d\<lparr>policy_snapshots := z\<rparr>) = rows d" "author (d\<lparr>policy_snapshots := z\<rparr>) = author d"
begin

lemma step_rows:
  assumes "system_step L V J d d'"
  shows "\<exists>new. rows d' = rows d @ new \<and> (\<forall>r \<in> set new. \<exists>u. author d' r u \<and> signed_by L V d (payload r) (envelope r) u)"
  using assms
proof (cases rule: system_step.cases)
  case (request who)
  from recorded [OF this] show ?thesis by (elim exE) (rule exI, fastforce)
qed (auto dest!: op_upds simp: unaffected)

lemma step_author:
  assumes "system_step L V J d d'" "author d r u"
  shows "author d' r u"
  using assms by (cases rule: system_step.cases) (auto dest!: op_upds simp: unaffected intro: author_kept)

lemma step_ok:
  assumes "evidence_ok rows payload envelope author L V d" "enrollment_ok d" "system_step L V J d d'"
  shows "evidence_ok rows payload envelope author L V d'"
proof -
  from step_rows [OF assms(3)] obtain new where new: "rows d' = rows d @ new"
    "\<forall>r \<in> set new. \<exists>u. author d' r u \<and> signed_by L V d (payload r) (envelope r) u" by blast
  have "\<exists>u. author d' r u \<and> signed_by L V d (payload r) (envelope r) u" if "r \<in> set (rows d')" for r
    using that assms(1) new step_author [OF assms(3)] unfolding evidence_ok_def by fastforce
  then show ?thesis
    unfolding evidence_ok_def using signed_by_step [OF _ assms(2,3)] by blast
qed

end

text \<open>Who a record is by: the owner of the vehicle for its ACL and metadata revisions, the
  user named in the record for the others.\<close>

definition vehicle_owner :: "(('r \<Rightarrow> string)) \<Rightarrow> db \<Rightarrow> 'r \<Rightarrow> string \<Rightarrow> bool" where
  "vehicle_owner vid d r u = (\<exists>v \<in> set (journey_vehicles d). jv_id v = vid r \<and> jv_owner_user_id v = u)"

definition named_author :: "('r \<Rightarrow> string) \<Rightarrow> db \<Rightarrow> 'r \<Rightarrow> string \<Rightarrow> bool" where
  "named_author f d r u = (f r = u)"

lemma bex_set_where: "(\<And>r. P (f r) = P r) \<Longrightarrow> (\<exists>r \<in> set (set_where w f rows). P r) = (\<exists>r \<in> set rows. P r)"
  by (auto simp: set_set_where)

lemma effect_vehicle_owner:
  assumes "store_effect L V who d d'" "vehicle_owner f d r u"
  shows "vehicle_owner f d' r u"
  using assms
  by (cases rule: store_effect.cases)
    (auto simp: vehicle_owner_def bex_set_where dest!: op_upds)

lemma joined_owner_vehicle: "joined_owner d u j vid \<Longrightarrow> vid = f r \<Longrightarrow> vehicle_owner f d r u"
  by (auto simp: joined_owner_def vehicle_owner_def)

lemmas evidence_rows = acl_revision_row_def vehicle_revision_row_def vehicle_head_row_def attestation_row_def
  garage_revision_row_def acceptance_record_def garage_vehicle_revision_row_def Let_def

lemma vehicle_owner_frame:
  "vehicle_owner f (d\<lparr>client_app_invites := x\<rparr>) = vehicle_owner f d"
  "vehicle_owner f (d\<lparr>macaroon_roots := y\<rparr>) = vehicle_owner f d"
  "vehicle_owner f (d\<lparr>policy_snapshots := z\<rparr>) = vehicle_owner f d"
  by (simp_all add: vehicle_owner_def fun_eq_iff)

lemma acl_rows_recorded:
  assumes "store_effect L V who d d'"
  shows "\<exists>new. acl_revisions d' = acl_revisions d @ new \<and> (\<forall>r \<in> set new. \<exists>i. who = Some i \<and>
    vehicle_owner ar_journey_vehicle_id d' r (id_user_id i) \<and> signed_by L V d (ar_canonical_payload r) (ar_integrity r) (id_user_id i))"
  using assms
proof (cases rule: store_effect.cases)
  case (vehicle_created env p row i vig aig)
  note e = CreateJourneyVehicle_Inr [OF vehicle_created(2)]
  show ?thesis using vehicle_created by (simp add: e evidence_rows vehicle_owner_def)
next
  case (acl_appended env p row i j ig)
  note e = AppendJourneyVehicleACL_Inr [OF acl_appended(2)]
  have "vehicle_owner ar_journey_vehicle_id d row (id_user_id i)"
    using e by (intro joined_owner_vehicle [OF acl_appended(3)]) (simp add: evidence_rows)
  note o = effect_vehicle_owner [OF assms this]
  have "acl_revisions d' = acl_revisions d @ [row]" using e by simp
  moreover have "ar_canonical_payload row = jva_canonical p \<and> ar_integrity row = ig"
    using e acl_appended(4) by (simp add: evidence_rows)
  ultimately show ?thesis using acl_appended(1,5) o by auto
qed (auto dest!: op_upds)

lemma meta_rows_recorded:
  assumes "store_effect L V who d d'"
  shows "\<exists>new. journey_vehicle_revisions d' = journey_vehicle_revisions d @ new \<and> (\<forall>r \<in> set new. \<exists>i. who = Some i \<and>
    vehicle_owner jvr_journey_vehicle_id d' r (id_user_id i) \<and> signed_by L V d (jvr_canonical_payload r) (jvr_integrity r) (id_user_id i))"
  using assms
proof (cases rule: store_effect.cases)
  case (vehicle_created env p row i vig aig)
  note e = CreateJourneyVehicle_Inr [OF vehicle_created(2)]
  show ?thesis using vehicle_created by (simp add: e evidence_rows vehicle_owner_def)
next
  case (vehicle_revised env p row i j ig)
  note e = AppendJourneyVehicleRevision_Inr [OF vehicle_revised(2)]
  have "vehicle_owner jvr_journey_vehicle_id d row (id_user_id i)"
    using e by (intro joined_owner_vehicle [OF vehicle_revised(3)]) (simp add: evidence_rows)
  note o = effect_vehicle_owner [OF assms this]
  have "journey_vehicle_revisions d' = journey_vehicle_revisions d @ [row]" using e by simp
  moreover have "jvr_canonical_payload row = jvra_canonical p \<and> jvr_integrity row = ig"
    using e vehicle_revised(4) by (simp add: evidence_rows)
  ultimately show ?thesis using vehicle_revised(1,5) o by auto
qed (auto dest!: op_upds)

interpretation acl_ev: evidence_table acl_revisions ar_canonical_payload ar_integrity "vehicle_owner ar_journey_vehicle_id"
  by unfold_locales (erule acl_rows_recorded, erule effect_vehicle_owner, assumption, simp_all add: vehicle_owner_frame)

interpretation meta_ev: evidence_table journey_vehicle_revisions jvr_canonical_payload jvr_integrity
  "vehicle_owner jvr_journey_vehicle_id"
  by unfold_locales (erule meta_rows_recorded, erule effect_vehicle_owner, assumption, simp_all add: vehicle_owner_frame)

interpretation att_ev: evidence_table attestations at_canonical_payload at_integrity "named_author at_driver_user_id"
proof (unfold_locales, goal_cases)
  case (1 L V who d d')
  then show ?case
    by (cases rule: store_effect.cases) (auto dest!: op_upds simp: evidence_rows named_author_def)
qed (simp_all add: named_author_def fun_eq_iff)

interpretation garage_ev: evidence_table garage_revisions grev_canonical_payload grev_integrity "named_author grev_signed_by"
proof (unfold_locales, goal_cases)
  case (1 L V who d d')
  then show ?case
    by (cases rule: store_effect.cases) (auto dest!: op_upds simp: evidence_rows named_author_def)
qed (simp_all add: named_author_def fun_eq_iff)

interpretation acc_ev: evidence_table acceptances ac_canonical_payload ac_integrity "named_author ac_accepter_user_id"
proof (unfold_locales, goal_cases)
  case (1 L V who d d')
  then show ?case
    by (cases rule: store_effect.cases) (auto dest!: op_upds simp: evidence_rows named_author_def)
qed (simp_all add: named_author_def fun_eq_iff)

interpretation gv_ev: evidence_table garage_vehicle_revisions gvr_canonical_payload gvr_integrity
  "named_author gvr_signed_by_user_id"
proof (unfold_locales, goal_cases)
  case (1 L V who d d')
  then show ?case
    by (cases rule: store_effect.cases) (auto dest!: op_upds simp: evidence_rows named_author_def)
qed (simp_all add: named_author_def fun_eq_iff)

section \<open>Histories, enrollment and invites\<close>

lemma step_enrollment:
  assumes "system_step L V J d d'" "enrollment_ok d"
  shows "enrollment_ok d'"
  using assms(1)
proof (cases rule: system_step.cases)
  case (request who)
  then show ?thesis
  proof (cases rule: store_effect.cases)
    case (enrolled env p r)
    then show ?thesis using RegisterClientApp_ok assms(2) by blast
  next
    case (invite_minted env scope t i n r)
    then show ?thesis using IssueInviteBy_ok [OF assms(2)] by (cases r) auto
  qed (auto dest!: op_upds intro!: enrollment_ok_frame [OF assms(2)])
next
  case (invite env scope t r)
  then show ?thesis using IssueInvite_ok [OF assms(2)] by (cases r) auto
qed (auto dest!: op_upds intro!: enrollment_ok_frame [OF assms(2)])

lemma step_invites:
  assumes "system_step L V J d d'" "invites_ok d"
  shows "invites_ok d'"
  using assms(1)
proof (cases rule: system_step.cases)
  case (request who)
  then show ?thesis
  proof (cases rule: store_effect.cases)
    case (garage_invite_issued env p r i)
    then show ?thesis using IssueGarageInvite_ok [OF assms(2)] by (cases r) auto
  next
    case (garage_invite_revoked env g iid r i)
    then show ?thesis using RevokeGarageInvite_ok [OF assms(2)] by blast
  next
    case (garage_invite_redeemed env token i r)
    then show ?thesis using RedeemGarageInvite_ok [OF assms(2)] by (cases r) auto
  qed (auto dest!: op_upds simp: invites_ok_frame [of _ d] assms(2))
qed (auto dest!: op_upds simp: invites_ok_frame [of _ d] assms(2))

text \<open>A step creates an entity of a history, appends to one, or leaves it alone.\<close>

definition chain_step ::
  "('db \<Rightarrow> 'k \<Rightarrow> int option) \<Rightarrow> ('db \<Rightarrow> 'k \<Rightarrow> int list) \<Rightarrow> ('db \<Rightarrow> 'k \<Rightarrow> int \<Rightarrow> 'db \<Rightarrow> bool) \<Rightarrow> ('db \<Rightarrow> 'k \<Rightarrow> int \<Rightarrow> 'db \<Rightarrow> bool) \<Rightarrow>
    'db \<Rightarrow> 'db \<Rightarrow> bool" where
  "chain_step head versions created appended d d' =
     ((\<exists>k v. created d k v d') \<or> (\<exists>k v. appended d k v d') \<or> head d' = head d \<and> versions d' = versions d)"

context revision_chain
begin

lemma chain_step_ok: "chain_step head versions created appended d d' \<Longrightarrow> chain_ok head versions d \<Longrightarrow> chain_ok head versions d'"
  unfolding chain_step_def by (blast intro: created_ok appended_ok frame_ok)

lemma chain_step_le: "chain_step head versions created appended d d' \<Longrightarrow> head_le head d d'"
  unfolding chain_step_def by (blast intro: created_le appended_le head_le_same)

end

lemma acl_chain_step:
  assumes "system_step L V J d d'"
  shows "chain_step acl_head acl_versions vehicle_created acl_appended d d'"
  using assms
proof (cases rule: system_step.cases)
  case (request who)
  then show ?thesis
  proof (cases rule: store_effect.cases)
    case (vehicle_created env p r i vig aig)
    then show ?thesis by (auto simp: chain_step_def vehicle_created_def)
  next
    case (acl_appended env p r i j ig)
    then show ?thesis by (auto simp: chain_step_def acl_appended_def)
  next
    case (vehicle_revised env p r i j ig)
    then have "meta_appended d (jvra_journey_vehicle_id p) (v_revision_version (jvra_vehicle p)) d'"
      by (auto simp: meta_appended_def)
    from meta_appended_effect [OF this] show ?thesis by (simp add: chain_step_def)
  qed (auto dest!: op_upds simp: chain_step_def jv_chain_defs fun_eq_iff)
qed (auto dest!: op_upds simp: chain_step_def jv_chain_defs fun_eq_iff)

lemma meta_chain_step:
  assumes "system_step L V J d d'"
  shows "chain_step meta_head meta_versions vehicle_created meta_appended d d'"
  using assms
proof (cases rule: system_step.cases)
  case (request who)
  then show ?thesis
  proof (cases rule: store_effect.cases)
    case (vehicle_created env p r i vig aig)
    then show ?thesis by (auto simp: chain_step_def vehicle_created_def)
  next
    case (vehicle_revised env p r i j ig)
    then show ?thesis by (auto simp: chain_step_def meta_appended_def)
  next
    case (acl_appended env p r i j ig)
    then have "acl_appended d (jva_journey_vehicle_id p) (acl_acl_version (jva_acl p)) d'"
      by (auto simp: acl_appended_def)
    from acl_appended_effect [OF this] show ?thesis by (simp add: chain_step_def)
  qed (auto dest!: op_upds simp: chain_step_def jv_chain_defs fun_eq_iff)
qed (auto dest!: op_upds simp: chain_step_def jv_chain_defs fun_eq_iff)

lemma garage_chain_step:
  assumes "system_step L V J d d'"
  shows "chain_step garage_head garage_versions garage_created garage_appended d d'"
  using assms
proof (cases rule: system_step.cases)
  case (request who)
  then show ?thesis
  proof (cases rule: store_effect.cases)
    case (garage_created env p r i ig)
    then show ?thesis by (auto simp: chain_step_def garage_created_def)
  next
    case (garage_revised env p r i ig)
    then show ?thesis by (auto simp: chain_step_def garage_appended_def)
  qed (auto dest!: op_upds simp: chain_step_def garage_head_def garage_versions_def fun_eq_iff)
qed (auto dest!: op_upds simp: chain_step_def garage_head_def garage_versions_def fun_eq_iff)

lemma gv_chain_step:
  assumes "system_step L V J d d'" "distinct (map gv_id (garage_vehicles d))"
  shows "chain_step gv_head gv_versions gv_created gv_appended d d'"
  using assms(1)
proof (cases rule: system_step.cases)
  case (request who)
  then show ?thesis
  proof (cases rule: store_effect.cases)
    case (garage_vehicle_created env p r i ig)
    then show ?thesis by (auto simp: chain_step_def gv_created_def)
  next
    case (garage_vehicle_revised env p r i ig)
    then show ?thesis using assms(2) by (auto simp: chain_step_def gv_appended_def)
  qed (auto dest!: op_upds simp: chain_step_def gv_head_def gv_versions_def fun_eq_iff)
qed (auto dest!: op_upds simp: chain_step_def gv_head_def gv_versions_def fun_eq_iff)

lemma step_gv_distinct:
  assumes "system_step L V J d d'" "distinct (map gv_id (garage_vehicles d))"
  shows "distinct (map gv_id (garage_vehicles d'))"
  using assms(1)
proof (cases rule: system_step.cases)
  case (request who)
  then show ?thesis using assms(2)
    by (cases rule: store_effect.cases) (auto dest!: op_upds simp: garage_vehicle_head_row_def Let_def, blast)
qed (auto dest!: op_upds simp: assms(2))

section \<open>The life of a store\<close>

text \<open>The invariant of the store, and its induction over the steps.\<close>

definition store_ok :: "db \<Rightarrow> bool" where
  "store_ok d = (enrollment_ok d \<and> invites_ok d \<and> distinct (map gv_id (garage_vehicles d)) \<and>
     chain_ok acl_head acl_versions d \<and> chain_ok meta_head meta_versions d \<and> chain_ok garage_head garage_versions d \<and>
     chain_ok gv_head gv_versions d)"

lemma store_ok_empty: "store_ok empty_db"
  using enrollment_ok_empty
  by (simp add: store_ok_def chain_ok_def jv_chain_defs garage_head_def garage_versions_def gv_head_def gv_versions_def
      invites_ok_def redeemers_def) (simp add: empty_db_def)

lemma store_ok_step:
  assumes "store_ok d" "system_step L V J d d'"
  shows "store_ok d'"
  using assms(1) step_enrollment [OF assms(2)] step_invites [OF assms(2)] step_gv_distinct [OF assms(2)]
    acl.chain_step_ok [OF acl_chain_step [OF assms(2)]] meta.chain_step_ok [OF meta_chain_step [OF assms(2)]]
    garage_chain.chain_step_ok [OF garage_chain_step [OF assms(2)]] gv_chain.chain_step_ok [OF gv_chain_step [OF assms(2)]]
  by (simp add: store_ok_def)

lemma reachable_ok: "reachable lb J d \<Longrightarrow> store_ok d"
  unfolding reachable_def by (erule later_invariant) (auto intro: store_ok_empty store_ok_step)

definition heads_le :: "db \<Rightarrow> db \<Rightarrow> bool" where
  "heads_le d d' = (head_le acl_head d d' \<and> head_le meta_head d d' \<and> head_le garage_head d d' \<and> head_le gv_head d d')"

lemma step_heads:
  assumes "store_ok d" "system_step L V J d d'"
  shows "heads_le d d'"
  using acl.chain_step_le [OF acl_chain_step [OF assms(2)]] meta.chain_step_le [OF meta_chain_step [OF assms(2)]]
    garage_chain.chain_step_le [OF garage_chain_step [OF assms(2)]] gv_chain.chain_step_le [OF gv_chain_step [OF assms(2)]] assms(1)
  by (simp add: heads_le_def store_ok_def)

lemma heads_le_trans: "heads_le d d' \<Longrightarrow> heads_le d' d'' \<Longrightarrow> heads_le d d''"
  unfolding heads_le_def by (simp add: head_le_trans [of _ d d' d''])

lemma later_heads:
  assumes "store_ok d" "later lb J d d1"
  shows "heads_le d d1"
proof -
  have "heads_le d d1 \<and> store_ok d1"
  proof (rule later_invariant [OF assms(2)])
    show "heads_le d d \<and> store_ok d" using assms(1) by (simp add: heads_le_def)
  qed (blast intro: store_ok_step step_heads heads_le_trans)
  then show ?thesis ..
qed


text \<open>C2. In every reachable state the evidence the server keeps is authentic: each ACL and metadata
  revision is signed by the owner of its journey vehicle, each driver attestation by the driver it
  names, each garage and garage vehicle revision by the user recorded as its signer, each ownership
  acceptance by the accepter, and each of these signatures verifies, over the stored bytes,
  under the certificate enrolled for that user's app.\<close>

theorem signed_evidence:
  fixes lb :: "('m, 'ip, 'net) libs"
  assumes "reachable lb J d"
  defines "L \<equiv> lb_lib lb" and "V \<equiv> lb_verifier lb"
  shows "evidence_ok acl_revisions ar_canonical_payload ar_integrity (vehicle_owner ar_journey_vehicle_id) L V d \<and>
    evidence_ok journey_vehicle_revisions jvr_canonical_payload jvr_integrity (vehicle_owner jvr_journey_vehicle_id) L V d \<and>
    evidence_ok attestations at_canonical_payload at_integrity (named_author at_driver_user_id) L V d \<and>
    evidence_ok garage_revisions grev_canonical_payload grev_integrity (named_author grev_signed_by) L V d \<and>
    evidence_ok acceptances ac_canonical_payload ac_integrity (named_author ac_accepter_user_id) L V d \<and>
    evidence_ok garage_vehicle_revisions gvr_canonical_payload gvr_integrity (named_author gvr_signed_by_user_id) L V d"
    (is "?P d")
proof -
  have "enrollment_ok d \<and> ?P d"
  proof (rule later_invariant [OF assms(1) [unfolded reachable_def]])
    show "enrollment_ok empty_db \<and> ?P empty_db"
      by (simp add: enrollment_ok_empty evidence_ok_def) (simp add: empty_db_def)
  next
    fix x y
    assume x: "enrollment_ok x \<and> ?P x" and s: "system_step (lb_lib lb) (lb_verifier lb) J x y"
    note step = s [folded L_def V_def]
    show "enrollment_ok y \<and> ?P y"
      using x step_enrollment [OF step] acl_ev.step_ok [OF _ _ step] meta_ev.step_ok [OF _ _ step] att_ev.step_ok [OF _ _ step]
        garage_ev.step_ok [OF _ _ step] acc_ev.step_ok [OF _ _ step] gv_ev.step_ok [OF _ _ step] by blast
  qed
  then show ?thesis ..
qed

text \<open>C3. History is final: once a version of an ACL, of a vehicle's metadata, of a garage or of a garage
  vehicle is recorded in a reachable state, no later state, whatever requests and restarts
  lie between, accepts that version or an older one again.\<close>

theorem history_final:
  assumes "reachable lb J d" "later lb J d d1" "v' \<le> v"
  shows "(v \<in> set (acl_versions d vid) \<longrightarrow> \<not> acl_appended d1 vid v' d2) \<and>
    (v \<in> set (meta_versions d vid) \<longrightarrow> \<not> meta_appended d1 vid v' d2) \<and>
    (v \<in> set (garage_versions d g) \<longrightarrow> \<not> garage_appended d1 g v' d2) \<and>
    (v \<in> set (gv_versions d gv) \<longrightarrow> \<not> gv_appended d1 gv v' d2)"
proof -
  note ok = reachable_ok [OF assms(1)]
  from later_heads [OF ok assms(2)] ok show ?thesis
    unfolding heads_le_def store_ok_def
    using acl.no_replay meta.no_replay garage_chain.no_replay gv_chain.no_replay assms(3) by meson
qed

lemma step_prefix:
  assumes "system_step L V J d d'"
  shows "prefix (acl_revisions d) (acl_revisions d') \<and> prefix (journey_vehicle_revisions d) (journey_vehicle_revisions d') \<and>
    prefix (attestations d) (attestations d') \<and> prefix (garage_revisions d) (garage_revisions d') \<and>
    prefix (acceptances d) (acceptances d') \<and> prefix (garage_vehicle_revisions d) (garage_vehicle_revisions d')"
  using acl_ev.step_rows [OF assms] meta_ev.step_rows [OF assms] att_ev.step_rows [OF assms] garage_ev.step_rows [OF assms]
    acc_ev.step_rows [OF assms] gv_ev.step_rows [OF assms]
  unfolding prefix_def by blast

text \<open>C7. Evidence is permanent: no request, restart or command-line invite ever removes or changes a
  stored ACL revision, vehicle revision, driver attestation, garage revision, ownership acceptance or
  garage vehicle revision; each of the six tables only grows at its end.\<close>

theorem evidence_permanent:
  assumes "later lb J d d1"
  shows "prefix (acl_revisions d) (acl_revisions d1) \<and> prefix (journey_vehicle_revisions d) (journey_vehicle_revisions d1) \<and>
    prefix (attestations d) (attestations d1) \<and> prefix (garage_revisions d) (garage_revisions d1) \<and>
    prefix (acceptances d) (acceptances d1) \<and> prefix (garage_vehicle_revisions d) (garage_vehicle_revisions d1)"
    (is "?P d1")
  by (rule later_invariant [OF assms, of ?P]) (simp, meson step_prefix prefix_order.trans)

section \<open>The concrete run\<close>

lemma demo_reachable:
  "reachable demo_libs demo_json demo_carol_db" "later demo_libs demo_json demo_carol_db (snd demo_garage_run)"
  "reachable demo_libs demo_json (snd demo_garage_run)"
proof -
  have l: "lb_lib demo_libs = demo_server_lib" by (simp add: demo_libs_def)
  have "later demo_libs demo_json empty_db demo_started_db"
    using later.bootstrap [OF later.start, of demo_libs demo_json empty_db "now_env 5"] by (simp add: demo_started_db_def l)
  from later.serve [OF this, of demo_server demo_mux demo_world "demo_inbound None ''/v1/client-apps/enroll''"]
  show r: "reachable demo_libs demo_json demo_carol_db"
    by (simp add: reachable_def demo_enroll_run)
  show "later demo_libs demo_json demo_carol_db (snd demo_garage_run)"
    unfolding demo_garage_run_def by (rule later.serve [OF later.start])
  show "reachable demo_libs demo_json (snd demo_garage_run)"
    unfolding demo_garage_run_def reachable_def by (rule later.serve [OF r [unfolded reachable_def]])
qed


theorem signed_evidence_witness:
  "\<exists>r \<in> set (garage_revisions (snd demo_garage_run)).
     signed_by demo_server_lib demo_verifier (snd demo_garage_run) (grev_canonical_payload r) (grev_integrity r) ''carol''"
proof -
  obtain r where r: "garage_revisions (snd demo_garage_run) = [r]" "grev_signed_by r = ''carol''"
    using demo_garage_recorded by (simp add: garage_revision_row_def demo_home_def Let_def)
  have "evidence_ok garage_revisions grev_canonical_payload grev_integrity (named_author grev_signed_by)
      (lb_lib demo_libs) (lb_verifier demo_libs) (snd demo_garage_run)"
    using signed_evidence [OF demo_reachable(3)] by blast
  then show ?thesis
    using r by (auto simp: evidence_ok_def named_author_def demo_libs_def)
qed

theorem history_final_witness: "\<forall>d2. \<not> garage_appended (snd demo_garage_run) ''g'' 1 d2"
proof -
  have "1 \<in> set (garage_versions (snd demo_garage_run) ''g'')"
    by (simp add: garage_versions_def demo_garage_recorded garage_revision_row_def demo_home_def Let_def)
  then show ?thesis
    using history_final [OF demo_reachable(3) later.start, of 1 1] by blast
qed

theorem evidence_permanent_witness: "prefix (garage_revisions demo_carol_db) (garage_revisions (snd demo_garage_run))"
  using evidence_permanent [OF demo_reachable(2)] by blast

end
