(* ===== verification/Command.thy ===== *)
theory Command
  imports CommandLine Evidence
begin

text \<open>
  The commands of the server process (cmd/spivot-server): \<open>serve\<close> up to the point where it
  accepts requests, \<open>ca\<close>, \<open>invite\<close>, \<open>healthcheck\<close> and \<open>version\<close>, on the file system of CertAuthority and
  the database files. A database is its schema state (Migrations) and its rows (Schema). Log lines
  are left out; signal handling and the accept loop are not modelled.
\<close>

section \<open>The machine\<close>

record 'q machine =
  mc_disk :: disk
  mc_schemas :: "string \<Rightarrow> 'q mstate"
  mc_dbs :: "string \<Rightarrow> db"

text \<open>What one run of a command meets: its environment variables, the failing system calls, the
  clock and random numbers of its store calls, of the certificate serial, the generated key and
  the macaroon root, the working directory and \<open>/proc/self/mountinfo\<close>.\<close>

record cmd_env =
  ce_getenv :: os_env
  ce_disk :: disk_env
  ce_env :: env
  ce_draws :: "nat \<Rightarrow> nat option"
  ce_gen :: "id_err + signer"
  ce_root_id :: "string option"
  ce_root_key :: "string option"
  ce_cwd :: "string option"
  ce_mountinfo :: "string option"
  ce_stamp :: string

record ('v, 'q) cmd_lib =
  cl_url :: url_lib
  cl_json :: "'v json_lib"
  cl_marshal_policy :: "server_policy_document \<Rightarrow> string option"
  cl_parse_duration :: "string \<Rightarrow> int option"
  cl_migrations :: "dir_entry list option"
  cl_sql :: "'q sql_run"
  cl_http_get :: "string \<Rightarrow> int \<Rightarrow> int option"
  cl_encode_info :: "(string \<times> string) list \<Rightarrow> string"
  cl_build :: build_info
  cl_spec_json :: string
  cl_spec_yaml :: string

text \<open>A command on the machine; \<open>None\<close> when it never returns (the serial loop).\<close>

type_synonym ('q, 'a) cm = "'q machine \<Rightarrow> ((cmd_err + 'a) \<times> 'q machine) option"

definition c_return :: "'a \<Rightarrow> ('q, 'a) cm" where
  "c_return a mc = Some (Inr a, mc)"

definition c_lift :: "cmd_err + 'a \<Rightarrow> ('q, 'a) cm" where
  "c_lift r mc = Some (r, mc)"

definition c_bind :: "('q, 'a) cm \<Rightarrow> ('a \<Rightarrow> ('q, 'b) cm) \<Rightarrow> ('q, 'b) cm" where
  "c_bind m f mc = (case m mc of None \<Rightarrow> None | Some (Inl e, mc') \<Rightarrow> Some (Inl e, mc') | Some (Inr a, mc') \<Rightarrow> f a mc')"

definition c_disk :: "(disk \<Rightarrow> (cmd_err + 'a) \<times> disk) \<Rightarrow> ('q, 'a) cm" where
  "c_disk f mc = (case f (mc_disk mc) of (r, d) \<Rightarrow> Some (r, mc\<lparr>mc_disk := d\<rparr>))"

definition c_store :: "string \<Rightarrow> (db, 'a) op \<Rightarrow> ('q, 'a) cm" where
  "c_store path f mc = (case f (mc_dbs mc path) of
     (Inl e, d) \<Rightarrow> Some (Inl (StoreErr e), mc\<lparr>mc_dbs := (mc_dbs mc)(path := d)\<rparr>)
   | (Inr a, d) \<Rightarrow> Some (Inr a, mc\<lparr>mc_dbs := (mc_dbs mc)(path := d)\<rparr>))"

definition c_query :: "string \<Rightarrow> (db \<Rightarrow> serr + 'a) \<Rightarrow> ('q, 'a) cm" where
  "c_query path f mc = (case f (mc_dbs mc path) of Inl e \<Rightarrow> Some (Inl (StoreErr e), mc) | Inr a \<Rightarrow> Some (Inr a, mc))"

definition c_schema :: "string \<Rightarrow> ('q mstate \<Rightarrow> serr + 'a) \<Rightarrow> ('q, 'a) cm" where
  "c_schema path f mc = (case f (mc_schemas mc path) of Inl e \<Rightarrow> Some (Inl (StoreErr e), mc) | Inr a \<Rightarrow> Some (Inr a, mc))"

definition c_identity :: "(disk \<Rightarrow> ((id_err + 'a) \<times> disk) option) \<Rightarrow> ('q, 'a) cm" where
  "c_identity f mc = (case f (mc_disk mc) of None \<Rightarrow> None
     | Some (Inl e, d) \<Rightarrow> Some (Inl (IdentityErr e), mc\<lparr>mc_disk := d\<rparr>)
     | Some (Inr a, d) \<Rightarrow> Some (Inr a, mc\<lparr>mc_disk := d\<rparr>))"

section \<open>Directories\<close>

definition filepath_Dir :: "string \<Rightarrow> string" where
  "filepath_Dir p = filepath_Clean (rev (dropWhile (\<lambda>c. c \<noteq> CHR ''/'') (rev p)))"

definition filepath_Abs :: "string option \<Rightarrow> string \<Rightarrow> string option" where
  "filepath_Abs cwd p = (if is_rooted p then Some (filepath_Clean p) else map_option (\<lambda>wd. filepath_Join wd p) cwd)"

definition write_test_pattern :: string where
  "write_test_pattern = ''.spivot-write-test-*''"

definition ensureWritableDir :: "disk_env \<Rightarrow> string \<Rightarrow> disk \<Rightarrow> (cmd_err + unit) \<times> disk" where
  "ensureWritableDir de dir d =
     (if de_fault de ''mkdir'' \<or> dk_files d dir \<noteq> None then (Inl (CmdErr ''mkdir''), d)
      else let d1 = (case dk_dirs d dir of None \<Rightarrow> d\<lparr>dk_dirs := (dk_dirs d)(dir \<mapsto> 448)\<rparr> | Some _ \<Rightarrow> d) in
        if de_fault de ''stat'' then (Inl (CmdErr ''stat''), d1)
        else if dk_dirs d1 dir = None then (Inl (CmdErr ''not a directory''), d1)
        else if de_fault de ''create temp'' then (Inl (CmdErr ''write test''), d1)
        else let name = de_temp de dir write_test_pattern; d2 = put_file name \<lparr>fl_data = [], fl_mode = 384\<rparr> d1 in
          if de_fault de ''close temp'' then (Inl (CmdErr ''close write test''), remove_file de name d2)
          else if de_fault de ''remove'' then (Inl (CmdErr ''remove write test''), d2)
          else (Inr (), remove_file de name d2))"

definition ensureOptionalConfigDir :: "disk_env \<Rightarrow> string \<Rightarrow> disk \<Rightarrow> (cmd_err + unit) \<times> disk" where
  "ensureOptionalConfigDir de dir d =
     (if de_fault de ''stat config'' then (Inl (CmdErr ''stat config directory''), d)
      else if dk_files d dir \<noteq> None then (Inl (CmdErr ''config path is not a directory''), d)
      else (Inr (), d))"

definition ensureRuntimePaths :: "disk_env \<Rightarrow> 'net serve_config \<Rightarrow> ('q, unit) cm" where
  "ensureRuntimePaths de cfg =
     c_bind (c_disk (ensureWritableDir de (svc_data_dir cfg))) (\<lambda>_.
     c_bind (c_disk (ensureWritableDir de (filepath_Dir (svc_database_path cfg)))) (\<lambda>_.
     c_disk (ensureOptionalConfigDir de (svc_config_dir cfg))))"

text \<open>\<open>strings.Fields\<close>.\<close>

function fields_scan :: "string \<Rightarrow> string \<Rightarrow> string list" where
  "fields_scan cur s =
     (let w = space_width (\<lambda>x. x) s; flush = (if cur = [] then [] else [rev cur]) in
      if s = [] then flush
      else if 0 < w then flush @ fields_scan [] (drop w s)
      else fields_scan (hd s # cur) (tl s))"
  by pat_completeness auto
termination by (relation "measure (\<lambda>(cur, s). length s)") auto

declare fields_scan.simps [simp del]

definition Fields :: "string \<Rightarrow> string list" where
  "Fields s = fields_scan [] s"

definition ephemeral_message :: "string \<Rightarrow> string" where
  "ephemeral_message absDir = ''data_dir does not appear to be a mount point '' @ [CHR 0xE2, CHR 0x80, CHR 0x94] @
     '' SQLite state may not survive container recreation. '' @
     ''If running under Docker/Compose, ensure a volume is mapped to '' @ absDir @ '' (and not a different in-container path).''"

definition dataDirEphemeralWarning :: "string option \<Rightarrow> string option \<Rightarrow> string \<Rightarrow> string" where
  "dataDirEphemeralWarning cwd mountinfo dataDir =
     (case filepath_Abs cwd dataDir of None \<Rightarrow> []
      | Some absDir \<Rightarrow> (case mountinfo of None \<Rightarrow> []
          | Some text \<Rightarrow>
              if list_ex (\<lambda>line. 5 \<le> length (Fields line) \<and> Fields line ! 4 = absDir) (Split text (CHR 0x0A)) then []
              else ephemeral_message absDir))"

section \<open>Opening the store\<close>

definition storage_configure :: "env \<Rightarrow> serr option" where
  "storage_configure env = (case store_Ping env of Some e \<Rightarrow> Some e
     | None \<Rightarrow> if list_ex (\<lambda>p. env_fault env p) [''PRAGMA foreign_keys = ON'', ''PRAGMA busy_timeout = 5000'',
           ''PRAGMA journal_mode = WAL'', ''PRAGMA synchronous = NORMAL'']
         then Some (SQLErr (SQLDriver ''configure'')) else None)"

definition storage_Open :: "('v, 'q) cmd_lib \<Rightarrow> cmd_env \<Rightarrow> string \<Rightarrow> ('q, string) cm" where
  "storage_Open CL ce raw mc =
     (let path = TrimSpace raw in
      if path = [] then Some (Inl (CmdErr ''database path is required''), mc)
      else let path = filepath_Clean path in
        if env_fault (ce_env ce) ''open'' then Some (Inl (CmdErr ''open sqlite database''), mc)
        else case storage_configure (ce_env ce) of Some e \<Rightarrow> Some (Inl (StoreErr e), mc)
        | None \<Rightarrow> (case ApplyMigrations (ce_env ce) (cl_sql CL) (ce_stamp ce) (cl_migrations CL) (mc_schemas mc path) of
              (Inl e, s) \<Rightarrow> Some (Inl (StoreErr e), mc\<lparr>mc_schemas := (mc_schemas mc)(path := s)\<rparr>)
            | (Inr _, s) \<Rightarrow> Some (Inr path, mc\<lparr>mc_schemas := (mc_schemas mc)(path := s)\<rparr>)))"

section \<open>serve\<close>

datatype cmd_output =
    OutUsage
  | OutBanner string
  | OutWarning string
  | OutInvite string int string string
  | OutCA string x509_cert string
  | OutText string

definition identity_dir :: "string \<Rightarrow> string" where
  "identity_dir dataDir = filepath_Join dataDir ''identity''"

definition new_key_store :: "disk_env \<Rightarrow> string \<Rightarrow> ('q, string) cm" where
  "new_key_store de dir = c_identity (\<lambda>d. Some (NewFileKeyStore de dir d))"

definition load_ca ::
  "('m, 'ip, 'net) libs \<Rightarrow> cmd_env \<Rightarrow> string \<Rightarrow> ca_config \<Rightarrow> ('q, authority) cm" where
  "load_ca lb ce ks cfg = c_identity (LoadOrCreate (lb_key lb) (lb_ca lb) (ce_disk ce) (env_now (ce_env ce)) (ce_draws ce) (ce_gen ce) ks cfg)"

text \<open>Opening the access log creates the file when it is missing.\<close>

definition open_access_log :: "disk_env \<Rightarrow> string \<Rightarrow> ('q, unit) cm" where
  "open_access_log de path =
     (if path = [] then c_return ()
      else c_bind (c_disk (ensureWritableDir de (filepath_Dir path))) (\<lambda>_.
        c_disk (\<lambda>d. if de_fault de ''open log'' \<or> dk_dirs d path \<noteq> None then (Inl (CmdErr ''open access log''), d)
          else (Inr (), case dk_files d path of None \<Rightarrow> put_file path \<lparr>fl_data = [], fl_mode = 420\<rparr> d | Some _ \<Rightarrow> d))))"

definition new_server ::
  "('v, 'q) cmd_lib \<Rightarrow> 'net serve_config \<Rightarrow> authority \<Rightarrow> issuer \<Rightarrow> policy_snapshot \<Rightarrow> 'net server" where
  "new_server CL cfg ca issuer policy =
     \<lparr>sv_address = svc_address cfg, sv_port = svc_port cfg,
      sv_public_url = map_option (ul_string (cl_url CL)) (svc_public_url cfg),
      sv_proxy = \<lparr>pc_trust_forwarded_headers = svc_trust_proxy cfg,
        pc_trust_client_cert_headers = svc_trust_client_cert_headers cfg, pc_trusted_networks = svc_trusted_proxy_ranges cfg\<rparr>,
      sv_store = True, sv_stores = full_cfg, sv_ca = ca, sv_identity_store = True, sv_issuer = Some issuer, sv_verifier = True,
      sv_mint_policy = svc_invite_mint_policy cfg, sv_policy = policy, sv_build = cl_build CL,
      sv_spec_json = cl_spec_json CL, sv_spec_yaml = cl_spec_yaml CL\<rparr>"

text \<open>\<open>runServe\<close> up to \<open>app.Serve\<close>: the server it starts and what it printed.\<close>

definition start_server ::
  "('m, 'ip, 'net) libs \<Rightarrow> ('v, 'q) cmd_lib \<Rightarrow> cmd_env \<Rightarrow> 'net serve_config \<Rightarrow> ('q, 'net server \<times> cmd_output list) cm" where
  "start_server lb CL ce cfg =
     (let L = lb_lib lb; env = ce_env ce; de = ce_disk ce; dir = identity_dir (svc_data_dir cfg);
          msg = dataDirEphemeralWarning (ce_cwd ce) (ce_mountinfo ce) (svc_data_dir cfg) in
      c_bind (ensureRuntimePaths de cfg) (\<lambda>_.
      c_bind (storage_Open CL ce (svc_database_path cfg)) (\<lambda>path.
      c_bind (c_schema path (AppliedMigrations env)) (\<lambda>_.
      c_bind (c_query path (AccountCount env)) (\<lambda>_.
      c_bind (c_query path (ClientAppCount env)) (\<lambda>_.
      c_bind (c_query path (IssuedCertificateCount env)) (\<lambda>_.
      c_bind (c_store path (emitBootstrapInviteIfNeeded L env)) (\<lambda>token.
      c_bind (c_lift (case cl_marshal_policy CL DefaultServerPolicyDocument of
          None \<Rightarrow> Inl (CmdErr ''marshal default server policy'') | Some doc \<Rightarrow> Inr doc)) (\<lambda>doc.
      c_bind (c_store path (EnsureServerPolicySnapshot L (cl_json CL) env (ce_stamp ce) doc)) (\<lambda>policy.
      c_bind (c_disk (ensureWritableDir de dir)) (\<lambda>_.
      c_bind (new_key_store de dir) (\<lambda>ks.
      c_bind (load_ca lb ce ks \<lparr>cc_dir = dir, cc_subject_cn = [], cc_lifetime = 0\<rparr>) (\<lambda>ca.
      c_bind (c_store path (loadOrMintMacaroonIssuer env (ce_root_id ce) (ce_root_key ce))) (\<lambda>issuer.
      c_bind (open_access_log de (svc_access_log_path cfg)) (\<lambda>_.
      c_return (new_server CL cfg ca issuer policy,
        (if msg = [] then [] else [OutWarning msg]) @ (case token of None \<Rightarrow> [] | Some t \<Rightarrow> [OutBanner t])))))))))))))))))"

definition runServe ::
  "('m, 'ip, 'net) libs \<Rightarrow> ('v, 'q) cmd_lib \<Rightarrow> cmd_env \<Rightarrow> string list \<Rightarrow> ('q, 'net server \<times> cmd_output list) cm" where
  "runServe lb CL ce args =
     c_bind (c_lift (parseServeConfig (lb_net lb) (cl_url CL) (ce_getenv ce) args)) (start_server lb CL ce)"

section \<open>invite\<close>

record invite_vars =
  inv_data_dir :: string
  inv_database_path :: string
  inv_scope :: string
  inv_lifetime :: int

definition duration_flag :: "(string \<Rightarrow> int option) \<Rightarrow> (int \<Rightarrow> 'c \<Rightarrow> 'c) \<Rightarrow> bool \<times> (string \<Rightarrow> 'c \<Rightarrow> 'c option)" where
  "duration_flag parse upd = (False, \<lambda>v c. map_option (\<lambda>t. upd t c) (parse v))"

definition invite_flags :: "(string \<Rightarrow> int option) \<Rightarrow> invite_vars flag_set" where
  "invite_flags parse =
     [(''data-dir'', string_flag (\<lambda>v c. c\<lparr>inv_data_dir := v\<rparr>)),
      (''database-path'', string_flag (\<lambda>v c. c\<lparr>inv_database_path := v\<rparr>)),
      (''scope'', string_flag (\<lambda>v c. c\<lparr>inv_scope := v\<rparr>)),
      (''lifetime'', duration_flag parse (\<lambda>t c. c\<lparr>inv_lifetime := t\<rparr>))]"

definition invite_defaults :: "os_env \<Rightarrow> invite_vars" where
  "invite_defaults getenv =
     \<lparr>inv_data_dir = envString getenv ''SPIVOT_DATA_DIR'' defaultDataDir,
      inv_database_path = envString getenv ''SPIVOT_DATABASE_PATH'' [],
      inv_scope = envString getenv ''SPIVOT_INVITE_SCOPE'' ''server_registration'',
      inv_lifetime = 24 * 3600 * 1000000000\<rparr>"

definition create_invite :: "('m, 'ip, 'net) libs \<Rightarrow> ('v, 'q) cmd_lib \<Rightarrow> cmd_env \<Rightarrow> invite_vars \<Rightarrow> ('q, cmd_output list) cm" where
  "create_invite lb CL ce v =
     (let dataDir = filepath_Clean (inv_data_dir v);
          databasePath = (if inv_database_path v = [] then filepath_Join dataDir ''spivot.db'' else inv_database_path v) in
      c_bind (c_disk (ensureWritableDir (ce_disk ce) dataDir)) (\<lambda>_.
      c_bind (c_disk (ensureWritableDir (ce_disk ce) (filepath_Dir databasePath))) (\<lambda>_.
      c_bind (storage_Open CL ce databasePath) (\<lambda>path.
      c_bind (c_store path (IssueInvite (lb_lib lb) (ce_env ce) (inv_scope v) (inv_lifetime v))) (\<lambda>(token, invite).
      c_return [OutInvite (iv_scope invite) (iv_expiration_time invite) (iv_token_hash invite) token])))))"

definition runInvite :: "('m, 'ip, 'net) libs \<Rightarrow> ('v, 'q) cmd_lib \<Rightarrow> cmd_env \<Rightarrow> string list \<Rightarrow> ('q, cmd_output list) cm" where
  "runInvite lb CL ce args = (case args of
     [] \<Rightarrow> c_lift (Inl (CmdErr ''invite requires a subcommand''))
   | sub # rest \<Rightarrow>
       c_bind (c_lift (flag_result ''invite'' (parse_flags (invite_flags (cl_parse_duration CL)) rest (invite_defaults (ce_getenv ce))))) (\<lambda>v.
       if sub = ''create'' then create_invite lb CL ce v else c_lift (Inl (CmdErr ''unknown invite subcommand''))))"

section \<open>ca\<close>

record ca_vars =
  cv_data_dir :: string
  cv_common_name :: string
  cv_organization :: string

definition ca_flags :: "ca_vars flag_set" where
  "ca_flags =
     [(''data-dir'', string_flag (\<lambda>v c. c\<lparr>cv_data_dir := v\<rparr>)),
      (''common-name'', string_flag (\<lambda>v c. c\<lparr>cv_common_name := v\<rparr>)),
      (''organization'', string_flag (\<lambda>v c. c\<lparr>cv_organization := v\<rparr>))]"

definition ca_defaults :: "os_env \<Rightarrow> ca_vars" where
  "ca_defaults getenv =
     \<lparr>cv_data_dir = envString getenv ''SPIVOT_DATA_DIR'' defaultDataDir,
      cv_common_name = envString getenv ''SPIVOT_CA_COMMON_NAME'' [],
      cv_organization = envString getenv ''SPIVOT_CA_ORGANIZATION'' []\<rparr>"

text \<open>The subject of a certificate is its common name here, so that the organization has no effect.\<close>

definition runCA :: "('m, 'ip, 'net) libs \<Rightarrow> cmd_env \<Rightarrow> string list \<Rightarrow> ('q, cmd_output list) cm" where
  "runCA lb ce args = (case args of
     [] \<Rightarrow> c_lift (Inl (CmdErr ''ca requires a subcommand''))
   | sub # rest \<Rightarrow>
       c_bind (c_lift (flag_result ''ca'' (parse_flags ca_flags rest (ca_defaults (ce_getenv ce))))) (\<lambda>v.
       let dir = identity_dir (filepath_Clean (cv_data_dir v)) in
       c_bind (c_disk (ensureWritableDir (ce_disk ce) dir)) (\<lambda>_.
       c_bind (new_key_store (ce_disk ce) dir) (\<lambda>ks.
       if sub = ''init'' then
         c_bind (load_ca lb ce ks \<lparr>cc_dir = dir, cc_subject_cn = cv_common_name v, cc_lifetime = 0\<rparr>) (\<lambda>ca.
         c_return [OutCA dir (ca_cert ca) (ca_Fingerprint (lb_lib lb) ca)])
       else if sub = ''cert'' then
         c_bind (load_ca lb ce ks \<lparr>cc_dir = dir, cc_subject_cn = [], cc_lifetime = 0\<rparr>) (\<lambda>ca.
         c_return [OutText (CertificatePEM ca)])
       else c_lift (Inl (CmdErr ''unknown ca subcommand''))))))"

section \<open>healthcheck and version\<close>

record health_vars =
  hv_url :: string
  hv_timeout :: int

definition health_flags :: "(string \<Rightarrow> int option) \<Rightarrow> health_vars flag_set" where
  "health_flags parse =
     [(''url'', string_flag (\<lambda>v c. c\<lparr>hv_url := v\<rparr>)), (''timeout'', duration_flag parse (\<lambda>t c. c\<lparr>hv_timeout := t\<rparr>))]"

text \<open>\<open>cl_http_get\<close> is the status of a GET within the timeout, \<open>None\<close> when the request cannot be built or
  fails.\<close>

definition runHealthcheck :: "('v, 'q) cmd_lib \<Rightarrow> cmd_env \<Rightarrow> string list \<Rightarrow> ('q, cmd_output list) cm" where
  "runHealthcheck CL ce args =
     c_bind (c_lift (flag_result ''healthcheck'' (parse_flags (health_flags (cl_parse_duration CL)) args
       \<lparr>hv_url = envString (ce_getenv ce) ''SPIVOT_HEALTHCHECK_URL'' ''http://127.0.0.1:8080/health'', hv_timeout = 3 * 1000000000\<rparr>))) (\<lambda>v.
     case cl_http_get CL (hv_url v) (hv_timeout v) of
       None \<Rightarrow> c_lift (Inl (CmdErr ''healthcheck request failed''))
     | Some st \<Rightarrow> if st < 200 \<or> 300 \<le> st then c_lift (Inl (CmdErr ''healthcheck failed'')) else c_return [])"

definition BuildInfo :: "build_info \<Rightarrow> (string \<times> string) list" where
  "BuildInfo b = [(''version'', bi_version b), (''git_commit'', bi_git_commit b), (''git_branch'', bi_git_branch b),
     (''build_time'', bi_build_time b), (''go_version'', bi_go_version b), (''os'', bi_os b), (''arch'', bi_arch b)]"

definition buildinfo_String :: "build_info \<Rightarrow> string" where
  "buildinfo_String b = ''Spivot Server '' @ bi_version b @ '' ('' @ bi_git_commit b @ ''@'' @ bi_git_branch b @ '') built '' @ bi_build_time b"

definition pad_right :: "nat \<Rightarrow> string \<Rightarrow> string" where
  "pad_right n s = s @ replicate (n - length s) (CHR '' '')"

definition runVersion :: "('v, 'q) cmd_lib \<Rightarrow> string \<Rightarrow> ('q, cmd_output list) cm" where
  "runVersion CL outputFmt =
     (if outputFmt = ''json'' then c_return [OutText (cl_encode_info CL (BuildInfo (cl_build CL)))]
      else c_return [OutText (buildinfo_String (cl_build CL) @ [CHR 0x0A] @
        concat (map (\<lambda>(k, v). ''  '' @ pad_right 12 (k @ '':'') @ '' '' @ v @ [CHR 0x0A]) (BuildInfo (cl_build CL))))])"

section \<open>run\<close>

datatype 'net cmd_result = Printed "cmd_output list" | Serving "'net server" "cmd_output list"

definition c_map :: "('a \<Rightarrow> 'b) \<Rightarrow> ('q, 'a) cm \<Rightarrow> ('q, 'b) cm" where
  "c_map f m = c_bind m (\<lambda>a. c_return (f a))"

definition run :: "('m, 'ip, 'net) libs \<Rightarrow> ('v, 'q) cmd_lib \<Rightarrow> cmd_env \<Rightarrow> string list \<Rightarrow> ('q, 'net cmd_result) cm" where
  "run lb CL ce args =
     (if args = [] then c_return (Printed [OutUsage])
      else c_bind (c_lift (parseInvocation args)) (\<lambda>ic.
        if inv_output_fmt ic \<noteq> ''text'' \<and> inv_output_fmt ic \<noteq> ''json'' then c_lift (Inl (CmdErr ''unknown output format''))
        else if inv_command ic \<in> {''-h'', ''-help'', ''--help'', ''help'', []} then c_return (Printed [OutUsage])
        else if inv_command ic = ''serve'' then c_map (\<lambda>(sv, out). Serving sv out) (runServe lb CL ce (inv_cmd_args ic))
        else if inv_command ic = ''healthcheck'' then c_map Printed (runHealthcheck CL ce (inv_cmd_args ic))
        else if inv_command ic = ''ca'' then c_map Printed (runCA lb ce (inv_cmd_args ic))
        else if inv_command ic = ''invite'' then c_map Printed (runInvite lb CL ce (inv_cmd_args ic))
        else if inv_command ic = ''version'' then c_map Printed (runVersion CL (inv_output_fmt ic))
        else c_lift (Inl (CmdErr ''unknown command''))))"

section \<open>Runs that succeed\<close>

lemma c_bind_Inr: "c_bind m f mc = Some (Inr b, mc') \<longleftrightarrow> (\<exists>a mc1. m mc = Some (Inr a, mc1) \<and> f a mc1 = Some (Inr b, mc'))"
  by (auto simp: c_bind_def split: option.splits prod.splits sum.splits)

lemma c_simple_Inr:
  "c_return a mc = Some (Inr b, mc') \<longleftrightarrow> b = a \<and> mc' = mc"
  "c_lift r mc = Some (Inr b, mc') \<longleftrightarrow> r = Inr b \<and> mc' = mc"
  by (auto simp: c_return_def c_lift_def)

lemma c_disk_Inr: "c_disk f mc = Some (Inr b, mc') \<longleftrightarrow> (\<exists>d. f (mc_disk mc) = (Inr b, d) \<and> mc' = mc\<lparr>mc_disk := d\<rparr>)"
  by (auto simp: c_disk_def split: prod.splits)

lemma c_store_Inr:
  "c_store path f mc = Some (Inr b, mc') \<longleftrightarrow> (\<exists>d. f (mc_dbs mc path) = (Inr b, d) \<and> mc' = mc\<lparr>mc_dbs := (mc_dbs mc)(path := d)\<rparr>)"
  by (auto simp: c_store_def split: prod.splits sum.splits)

lemma c_read_Inr:
  "c_query path g mc = Some (Inr b, mc') \<longleftrightarrow> g (mc_dbs mc path) = Inr b \<and> mc' = mc"
  "c_schema path h mc = Some (Inr b, mc') \<longleftrightarrow> h (mc_schemas mc path) = Inr b \<and> mc' = mc"
  by (auto simp: c_query_def c_schema_def split: sum.splits)

lemma c_identity_Inr:
  "c_identity f mc = Some (Inr b, mc') \<longleftrightarrow> (\<exists>d. f (mc_disk mc) = Some (Inr b, d) \<and> mc' = mc\<lparr>mc_disk := d\<rparr>)"
  by (auto simp: c_identity_def split: option.splits prod.splits sum.splits)

lemmas c_Inr = c_bind_Inr c_simple_Inr c_disk_Inr c_store_Inr c_read_Inr c_identity_Inr

lemma c_bind_lift: "c_bind (c_lift (Inr a)) f = f a"
  by (simp add: c_bind_def c_lift_def fun_eq_iff)

lemma storage_Open_Inr:
  assumes "storage_Open CL ce raw mc = Some (Inr path, mc')"
  shows "path = filepath_Clean (TrimSpace raw) \<and> mc_disk mc' = mc_disk mc \<and> mc_dbs mc' = mc_dbs mc"
  using assms by (auto simp: storage_Open_def Let_def split: if_splits option.splits prod.splits sum.splits)

section \<open>What a command does to a database\<close>

text \<open>A relation between the contents of a database before and after that every step of a command
  respects is respected by the command, whether it succeeds or fails.\<close>

definition keeps :: "(db \<Rightarrow> db \<Rightarrow> bool) \<Rightarrow> ('q, 'a) cm \<Rightarrow> bool" where
  "keeps R m = (\<forall>mc r mc'. m mc = Some (r, mc') \<longrightarrow> (\<forall>p. R (mc_dbs mc p) (mc_dbs mc' p)))"

locale db_relation =
  fixes R :: "db \<Rightarrow> db \<Rightarrow> bool"
  assumes R_refl: "R d d"
    and R_trans: "R a b \<Longrightarrow> R b c \<Longrightarrow> R a c"
begin

lemma keepsD: "keeps R m \<Longrightarrow> m mc = Some (r, mc') \<Longrightarrow> R (mc_dbs mc p) (mc_dbs mc' p)"
  unfolding keeps_def by blast

lemma keeps_bind: "keeps R m \<Longrightarrow> (\<And>a. keeps R (f a)) \<Longrightarrow> keeps R (c_bind m f)"
  unfolding keeps_def c_bind_def
  by (auto split: option.splits prod.splits sum.splits intro: R_trans) (meson R_trans)

lemma keeps_simple:
  "keeps R (c_return a)" "keeps R (c_lift x)" "keeps R (c_disk f)" "keeps R (c_query path g)" "keeps R (c_schema path h)"
  "keeps R (c_identity k)" "keeps R (storage_Open CL ce raw)"
  by (auto simp: keeps_def c_return_def c_lift_def c_disk_def c_query_def c_schema_def c_identity_def storage_Open_def Let_def R_refl
      split: if_splits option.splits prod.splits sum.splits)

lemma keeps_store: "(\<And>d. R d (snd (f d))) \<Longrightarrow> keeps R (c_store path f)"
  unfolding keeps_def c_store_def
  by (auto simp: R_refl split: prod.splits sum.splits) (metis snd_conv)+

lemma keeps_if: "(b \<Longrightarrow> keeps R m) \<Longrightarrow> (\<not> b \<Longrightarrow> keeps R n) \<Longrightarrow> keeps R (if b then m else n)"
  by simp

lemmas keeps_intros = keeps_bind keeps_simple keeps_if

lemma keeps_disk_commands:
  "keeps R (runCA lb ce args)" "keeps R (runHealthcheck CL ce args)" "keeps R (runVersion CL fmt)"
  "keeps R (open_access_log de path)" "keeps R (ensureRuntimePaths de cfg)" "keeps R (new_key_store de dir)"
  "keeps R (load_ca lb ce ks cc)"
  unfolding runCA_def runHealthcheck_def runVersion_def open_access_log_def ensureRuntimePaths_def new_key_store_def load_ca_def Let_def
  by (auto intro!: keeps_intros split: list.splits option.splits)

lemma keeps_map: "keeps R m \<Longrightarrow> keeps R (c_map f m)"
  unfolding c_map_def by (intro keeps_intros)

end

interpretation same_db: db_relation "(=)"
  by unfold_locales simp_all

lemma later_trans: "later lb J b c \<Longrightarrow> later lb J a b \<Longrightarrow> later lb J a c"
  by (induction rule: later.induct) (auto intro: later.intros)

interpretation later_db: db_relation "later lb J" for lb :: "('m, 'ip, 'net) libs" and J :: "'v json_lib"
  by unfold_locales (auto intro: later.start later_trans)

lemma store_commands_later:
  "keeps (later lb (cl_json CL)) (start_server lb CL ce cfg)" "keeps (later lb (cl_json CL)) (create_invite lb CL ce v)"
  unfolding start_server_def create_invite_def Let_def
  by (auto intro!: later_db.keeps_intros later_db.keeps_disk_commands later_db.keeps_store later.intros split: prod.splits)

lemma run_later: "keeps (later lb (cl_json CL)) (run lb CL ce args)"
  unfolding run_def runServe_def runInvite_def
  by (auto intro!: later_db.keeps_intros later_db.keeps_map later_db.keeps_disk_commands store_commands_later split: list.splits)

text \<open>C8. Whatever command is run, with whatever arguments and environment, and whether it succeeds or
  fails half-way, it takes every database only through states of the system (start-up work and
  command-line invites), so that all invariants of reachable states survive it; a command other than
  \<open>serve\<close> and \<open>invite\<close> leaves every database as it was.\<close>

theorem command_effect:
  assumes "run lb CL ce args mc = Some (r, mc')"
  shows "later lb (cl_json CL) (mc_dbs mc p) (mc_dbs mc' p) \<and>
    (\<forall>ic. parseInvocation args = Inr ic \<and> inv_command ic \<notin> {''serve'', ''invite''} \<longrightarrow> mc_dbs mc' p = mc_dbs mc p)"
proof (intro conjI allI impI)
  show "later lb (cl_json CL) (mc_dbs mc p) (mc_dbs mc' p)"
    using later_db.keepsD [OF run_later assms] .
  fix ic
  assume ic: "parseInvocation args = Inr ic \<and> inv_command ic \<notin> {''serve'', ''invite''}"
  show "mc_dbs mc' p = mc_dbs mc p"
  proof (cases "args = []")
    case False
    have "keeps (=) (run lb CL ce args)"
      using ic False
      by (auto simp: run_def c_bind_lift intro!: same_db.keeps_intros same_db.keeps_map same_db.keeps_disk_commands)
    from same_db.keepsD [OF this assms] show ?thesis by simp
  qed (use assms in \<open>simp add: run_def c_return_def\<close>)
qed


section \<open>The mount check\<close>

lemma space_width_blank: "space_width (\<lambda>x. x) (CHR '' '' # s) = 1"
  by (simp add: space_width_def is_space_def)

lemma fields_scan_no_blank: "CHR '' '' \<notin> set cur \<Longrightarrow> f \<in> set (fields_scan cur s) \<Longrightarrow> CHR '' '' \<notin> set f"
proof (induction cur s rule: fields_scan.induct)
  case (1 cur s)
  show ?case
  proof (cases s)
    case Nil
    with 1(3,4) show ?thesis by (auto simp: fields_scan.simps [of cur "[]"] split: if_splits)
  next
    case (Cons c t)
    have "c \<noteq> CHR '' ''" if "space_width (\<lambda>x. x) s = 0"
      using that Cons by (auto simp: space_width_blank)
    with 1(3,4) show ?thesis
      using 1(1) [OF refl refl] 1(2) [OF refl refl] Cons
      by (auto simp: fields_scan.simps [of cur "c # t"] Let_def split: if_splits)
  qed
qed
text \<open>C37. The mount check never recognises a data directory whose absolute path contains a blank: whatever
  the kernel reports (it writes a blank as an octal escape), the warning is given, also for a directory
  that is a mount point.\<close>

theorem ephemeral_warning_blank:
  assumes "filepath_Abs cwd dataDir = Some absDir" "CHR '' '' \<in> set absDir"
  shows "dataDirEphemeralWarning cwd (Some mountinfo) dataDir = ephemeral_message absDir"
proof -
  have "Fields line ! 4 \<noteq> absDir" if "5 \<le> length (Fields line)" for line
    using fields_scan_no_blank [of "[]" "Fields line ! 4" line] that assms(2) by (auto simp: Fields_def)
  with assms(1) show ?thesis by (auto simp: dataDirEphemeralWarning_def list_ex_iff)
qed

theorem ephemeral_warning_blank_witness:
  "dataDirEphemeralWarning None (Some (''1 2 0:1 / /my'' @ [CHR 0x5C] @ ''040data rw'')) ''/my data'' = ephemeral_message ''/my data''"
  using ephemeral_warning_blank [of None "''/my data''" "''/my data''"] by (simp add: filepath_Abs_def is_rooted_def) code_simp
end
