(* ===== verification/Restarts.thy ===== *)
theory Restarts
  imports Command
begin

text \<open>
  A server that is started again on the same data directory and database: the start of a server
  (Command) taken apart, the authority loaded back from its files, and the macaroon root that
  no step of the system replaces. The last section starts a small server twice.
\<close>

section \<open>The files a start leaves alone\<close>

text \<open>A write test leaves the files as they were: \<open>os.CreateTemp\<close> picks a new name, which ends in a
  decimal digit.\<close>

definition write_test_laws :: "disk_env \<Rightarrow> disk \<Rightarrow> bool" where
  "write_test_laws de d = (\<forall>dir. dk_files d (de_temp de dir write_test_pattern) = None \<and>
     (\<exists>s c. de_temp de dir write_test_pattern = s @ [c] \<and> is_digit c))"

lemma ensureWritableDir_files:
  assumes "ensureWritableDir de dir d = (Inr u, d')" "p \<noteq> de_temp de dir write_test_pattern"
  shows "dk_files d' p = dk_files d p"
  using assms by (auto simp: ensureWritableDir_def Let_def remove_file_def split: if_splits option.splits)

lemma ensureWritableDir_same:
  assumes "ensureWritableDir de dir d = (Inr u, d')" "write_test_laws de d"
  shows "dk_files d' = dk_files d"
proof
  fix p
  have "dk_files d' (de_temp de dir write_test_pattern) = None"
    using assms(1) by (auto simp: ensureWritableDir_def Let_def remove_file_def split: if_splits option.splits)
  with assms(2) ensureWritableDir_files [OF assms(1), of p] show "dk_files d' p = dk_files d p"
    by (cases "p = de_temp de dir write_test_pattern") (simp_all add: write_test_laws_def)
qed

lemma write_test_laws_cong: "dk_files d' = dk_files d \<Longrightarrow> write_test_laws de d' = write_test_laws de d"
  by (simp add: write_test_laws_def)

lemma temp_laws_cong: "dk_files d' = dk_files d \<Longrightarrow> temp_laws de d' = temp_laws de d"
  by (simp add: temp_laws_def)

lemma NewFileKeyStore_Inr:
  "NewFileKeyStore de dir d = (Inr ks, d') \<Longrightarrow> ks = filepath_Clean dir \<and> dk_files d' = dk_files d"
  by (auto simp: NewFileKeyStore_def Let_def split: if_splits prod.splits sum.splits dest: prepare_dir_Inr)

lemma ensureRuntimePaths_files:
  assumes "ensureRuntimePaths de cfg mc = Some (Inr u, mc')" "write_test_laws de (mc_disk mc)"
  shows "dk_files (mc_disk mc') = dk_files (mc_disk mc) \<and> mc_dbs mc' = mc_dbs mc"
proof -
  from assms(1) obtain d1 d2 u1 u2 where d: "ensureWritableDir de (svc_data_dir cfg) (mc_disk mc) = (Inr u1, d1)"
    "ensureWritableDir de (filepath_Dir (svc_database_path cfg)) d1 = (Inr u2, d2)"
    "ensureOptionalConfigDir de (svc_config_dir cfg) d2 = (Inr u, mc_disk mc')" "mc_dbs mc' = mc_dbs mc"
    by (auto simp: ensureRuntimePaths_def c_Inr)
  have 1: "dk_files d1 = dk_files (mc_disk mc)" using ensureWritableDir_same [OF d(1) assms(2)] .
  have "dk_files d2 = dk_files d1" using ensureWritableDir_same [OF d(2)] assms(2) write_test_laws_cong [OF 1] by simp
  with 1 d(3,4) show ?thesis by (auto simp: ensureOptionalConfigDir_def split: if_splits)
qed

lemma open_access_log_files:
  assumes "open_access_log de path mc = Some (Inr u, mc')" "write_test_laws de (mc_disk mc0)" "dk_files (mc_disk mc) (s @ ''.pem'') \<noteq> None"
  shows "dk_files (mc_disk mc') (s @ ''.pem'') = dk_files (mc_disk mc) (s @ ''.pem'') \<and> mc_dbs mc' = mc_dbs mc"
proof (cases "path = []")
  case False
  with assms(1) obtain u1 d1 where d: "ensureWritableDir de (filepath_Dir path) (mc_disk mc) = (Inr u1, d1)"
    and m: "mc_disk mc' = (case dk_files d1 path of None \<Rightarrow> put_file path \<lparr>fl_data = [], fl_mode = 420\<rparr> d1 | Some _ \<Rightarrow> d1)"
      "mc_dbs mc' = mc_dbs mc"
    by (auto simp: open_access_log_def c_Inr split: if_splits option.splits)
  have "s @ ''.pem'' \<noteq> de_temp de (filepath_Dir path) write_test_pattern"
  proof
    assume "s @ ''.pem'' = de_temp de (filepath_Dir path) write_test_pattern"
    with assms(2) obtain t c where "s @ ''.pem'' = t @ [c]" "is_digit c" unfolding write_test_laws_def by metis
    then have "last (s @ ''.pem'') = c" by simp
    moreover have "\<not> is_digit (CHR ''m'')" by code_simp
    ultimately show False using \<open>is_digit c\<close> by auto
  qed
  with ensureWritableDir_files [OF d] have "dk_files d1 (s @ ''.pem'') = dk_files (mc_disk mc) (s @ ''.pem'')" by blast
  with m assms(3) show ?thesis by (auto split: option.splits)
qed (use assms(1) in \<open>simp add: open_access_log_def c_Inr\<close>)

text \<open>The start of a server, taken apart: the authority is loaded from the files the process found,
  and nothing done later touches a certificate or key file.\<close>

lemma start_server_Inr:
  assumes "start_server lb CL ce cfg mc = Some (Inr (sv, out), mc')" "write_test_laws (ce_disk ce) (mc_disk mc)"
  defines "dir \<equiv> identity_dir (svc_data_dir cfg)" and "path \<equiv> filepath_Clean (TrimSpace (svc_database_path cfg))"
  obtains k k' token policy doc d1 d2 issuer where
    "dk_files k = dk_files (mc_disk mc)"
    "LoadOrCreate (lb_key lb) (lb_ca lb) (ce_disk ce) (env_now (ce_env ce)) (ce_draws ce) (ce_gen ce) (filepath_Clean dir)
       \<lparr>cc_dir = dir, cc_subject_cn = [], cc_lifetime = 0\<rparr> k = Some (Inr (sv_ca sv), k')"
    "\<And>s. dk_files k' (s @ ''.pem'') \<noteq> None \<Longrightarrow> dk_files (mc_disk mc') (s @ ''.pem'') = dk_files k' (s @ ''.pem'')"
    "emitBootstrapInviteIfNeeded (lb_lib lb) (ce_env ce) (mc_dbs mc path) = (Inr token, d1)"
    "EnsureServerPolicySnapshot (lb_lib lb) (cl_json CL) (ce_env ce) (ce_stamp ce) doc d1 = (Inr policy, d2)"
    "loadOrMintMacaroonIssuer (ce_env ce) (ce_root_id ce) (ce_root_key ce) d2 = (Inr issuer, mc_dbs mc' path)"
    "sv_issuer sv = Some issuer"
proof -
  let ?de = "ce_disk ce"
  from assms(1) obtain mc1 mc2 opened token doc policy d1 d2 d3 k1 k2 k3 ks ca issuer u u1 u2 out' where
    r: "ensureRuntimePaths ?de cfg mc = Some (Inr u, mc1)"
      "storage_Open CL ce (svc_database_path cfg) mc1 = Some (Inr opened, mc2)"
    and s: "emitBootstrapInviteIfNeeded (lb_lib lb) (ce_env ce) (mc_dbs mc2 opened) = (Inr token, d1)"
      "EnsureServerPolicySnapshot (lb_lib lb) (cl_json CL) (ce_env ce) (ce_stamp ce) doc d1 = (Inr policy, d2)"
    and k: "ensureWritableDir ?de dir (mc_disk mc2) = (Inr u1, k1)" "NewFileKeyStore ?de dir k1 = (Inr ks, k2)"
      "LoadOrCreate (lb_key lb) (lb_ca lb) ?de (env_now (ce_env ce)) (ce_draws ce) (ce_gen ce) ks
         \<lparr>cc_dir = dir, cc_subject_cn = [], cc_lifetime = 0\<rparr> k2 = Some (Inr ca, k3)"
    and i: "loadOrMintMacaroonIssuer (ce_env ce) (ce_root_id ce) (ce_root_key ce) d2 = (Inr issuer, d3)"
    and l: "open_access_log ?de (svc_access_log_path cfg) (mc2\<lparr>mc_disk := k3, mc_dbs := (mc_dbs mc2)(opened := d3)\<rparr>) = Some (Inr u2, mc')"
      "sv = new_server CL cfg ca issuer policy"
    unfolding start_server_def Let_def dir_def new_key_store_def load_ca_def
    by (auto simp: c_Inr)
  note rt = ensureRuntimePaths_files [OF r(1) assms(2)] and op = storage_Open_Inr [OF r(2)]
  have files: "dk_files (mc_disk mc2) = dk_files (mc_disk mc)" "mc_dbs mc2 = mc_dbs mc" "opened = path"
    using rt op by (simp_all add: path_def)
  have "dk_files k2 = dk_files (mc_disk mc)" and ks: "ks = filepath_Clean dir"
    using NewFileKeyStore_Inr [OF k(2)] ensureWritableDir_same [OF k(1)] write_test_laws_cong [OF files(1)] assms(2) files(1) by simp_all
  moreover have "dk_files (mc_disk mc') (s @ ''.pem'') = dk_files k3 (s @ ''.pem'')" if "dk_files k3 (s @ ''.pem'') \<noteq> None" for s
    using open_access_log_files [OF l(1) assms(2), of s] that by simp
  moreover have "mc_dbs mc' path = d3"
    using l(1) files(3) same_db.keepsD [OF same_db.keeps_disk_commands(4) l(1), of path] by simp
  ultimately show thesis
    using that [of k2 k3 token d1 doc policy d2 issuer] k(3) s i l(2) files by (simp add: new_server_def)
qed

section \<open>The authority and the macaroon root\<close>

text \<open>The authority that a bootstrap returned is loaded again from its two files.\<close>

lemma loadCertificate_cong:
  "dk_files d' path = dk_files d path \<Longrightarrow> loadCertificate K X de path d' = loadCertificate K X de path d"
  by (simp add: loadCertificate_def)

lemma LoadOrCreate_loads:
  assumes "LoadOrCreate K X de now draws gen ks cfg d = Some (Inr ca, d')"
    "KeyStore_Load K de ks caKeyName d = Inr key" "loadCertificate K X de (filepath_Join (filepath_Clean (cc_dir cfg)) caCertFile) d = Some (Inr (pem, cert))"
  shows "ca = \<lparr>ca_cert = cert, ca_cert_pem = pem, ca_key = key, ca_dir = filepath_Clean (cc_dir cfg)\<rparr>"
proof -
  let ?dir = "filepath_Clean (cc_dir cfg)"
  from assms(1) obtain d1 where p: "prepare_dir de ?dir d = (Inr (), d1)"
    by (auto simp: LoadOrCreate_def Let_def split: if_splits prod.splits sum.splits)
  have f: "dk_files d1 = dk_files d" using prepare_dir_Inr [OF p] by simp
  have "LoadOrGenerate K de ks caKeyName (Some gen) d1 = (Inr key, d1)"
    using Load_cong [of d1 ks caKeyName d K de] f assms(2) by (simp add: LoadOrGenerate_def)
  with assms(1,3) p loadCertificate_cong [of d1 _ d K X de] f show ?thesis
    by (auto simp: LoadOrCreate_def Let_def split: if_splits)
qed

lemma restart_authority:
  assumes "LoadOrCreate K X de now draws gen ks cfg d = Some (Inr ca, d')" "key_laws K" "cert_laws X" "temp_laws de d" "ks \<noteq> []"
    "\<And>s. dk_files d' (s @ ''.pem'') \<noteq> None \<Longrightarrow> dk_files d2 (s @ ''.pem'') = dk_files d' (s @ ''.pem'')"
    "LoadOrCreate K X de2 now2 draws2 gen2 ks cfg d2 = Some (Inr ca2, d3)" "\<forall>l. \<not> de_fault de2 l"
  shows "ca2 = ca"
proof -
  note s = LoadOrCreate_stored [OF assms(1-5,8)]
  have "keyPath ks caKeyName = (dir_prefix ks @ ''ca.key'') @ ''.pem''"
    using assms(5) by (simp add: keyPath_plain validateKeyName_def caKeyName_def key_name_char_def)
  moreover have "dk_files d' (keyPath ks caKeyName) \<noteq> None"
    by (rule notI) (use s in \<open>simp add: KeyStore_Load_def split: if_splits\<close>)
  ultimately have "KeyStore_Load K de2 ks caKeyName d2 = Inr (ca_key ca)"
    using s assms(6) [of "dir_prefix ks @ ''ca.key''"] Load_cong [of d2 ks caKeyName d' K de2] by simp
  moreover have "dk_files d' (filepath_Join (filepath_Clean (cc_dir cfg)) caCertFile) \<noteq> None"
    by (rule notI) (use s in \<open>simp add: loadCertificate_def split: if_splits\<close>)
  then have "loadCertificate K X de2 (filepath_Join (filepath_Clean (cc_dir cfg)) caCertFile) d2 = Some (Inr (ca_cert_pem ca, ca_cert ca))"
    using s assms(6) [of "dir_prefix (filepath_Clean (cc_dir cfg)) @ ''ca.crt''"] loadCertificate_cong [of d2 _ d' K X de2] by (simp add: certPath_pem)
  ultimately show ?thesis using LoadOrCreate_loads [OF assms(7)] s by simp
qed

text \<open>Once a macaroon root is active, no request, restart or command-line invite adds another.\<close>

definition active_root :: "db \<Rightarrow> macaroon_root option" where
  "active_root d = first_max mr_created_time (filter MacaroonRoot_Active (macaroon_roots d))"

lemma loadOrMint_active:
  assumes "active_root d = Some r"
  shows "snd (loadOrMintMacaroonIssuer env i k d) = d" "fst (loadOrMintMacaroonIssuer env i k d) = Inr x \<Longrightarrow> NewIssuer (mr_id r) (mr_key r) = Inr x"
  using assms by (auto simp: loadOrMintMacaroonIssuer_def ActiveMacaroonRoot_def active_root_def Let_def split: sum.splits prod.splits if_splits)

lemma loadOrMint_minted:
  assumes "loadOrMintMacaroonIssuer env i k d = (Inr x, d')"
  shows "\<exists>r. active_root d' = Some r \<and> NewIssuer (mr_id r) (mr_key r) = Inr x"
proof (cases "active_root d")
  case (Some r)
  then show ?thesis using loadOrMint_active [OF Some, of env i k] assms by auto
next
  case None
  with assms obtain r where r: "IssueMacaroonRoot env i k d = (Inr r, d')" "NewIssuer (mr_id r) (mr_key r) = Inr x"
    by (auto simp: loadOrMintMacaroonIssuer_def ActiveMacaroonRoot_def active_root_def Let_def split: sum.splits prod.splits if_splits)
  have "filter MacaroonRoot_Active (macaroon_roots d) = []"
    using None by (cases "filter MacaroonRoot_Active (macaroon_roots d)") (auto simp: active_root_def split: option.splits if_splits)
  with IssueMacaroonRoot_Inr [OF r(1)] r(2) show ?thesis
    by (auto simp: active_root_def macaroon_root_row_def MacaroonRoot_Active_def)
qed

lemma IssueInvite_active_root: "active_root (snd (IssueInvite L env scope t d)) = active_root d"
  using op_atomicD [OF startup_ops_atomic(1), of L env scope t d]
proof (elim disjE exE)
  fix r
  assume "IssueInvite L env scope t d = (Inr r, snd (IssueInvite L env scope t d))"
  from IssueInvite_upd [OF this] obtain x where "snd (IssueInvite L env scope t d) = d\<lparr>client_app_invites := x\<rparr>" by blast
  then show ?thesis by (simp add: active_root_def)
qed simp

lemma later_active_root:
  assumes "later lb J d0 d" "active_root d0 = Some r"
  shows "active_root d = Some r"
  using assms(1)
proof induction
  case (serve d sv mux wd ib)
  from ServeHTTP_effect [of lb sv mux wd ib d] have "macaroon_roots (snd (ServeHTTP lb sv mux wd ib d)) = macaroon_roots d"
  proof (elim disjE exE)
    fix who
    assume "store_effect (lb_lib lb) (lb_verifier lb) who d (snd (ServeHTTP lb sv mux wd ib d))"
    then show ?thesis by (cases rule: store_effect.cases) (auto dest!: op_upds)
  qed simp
  with serve show ?case by (simp add: active_root_def)
next
  case (bootstrap d env)
  then show ?case
    using IssueInvite_active_root [of "lb_lib lb" env "''server_registration''" bootstrapInviteLifetime d]
    by (auto simp: emitBootstrapInviteIfNeeded_def split: sum.splits prod.splits if_splits)
next
  case (snapshot d env stamp doc)
  obtain x where "snd (EnsureServerPolicySnapshot (lb_lib lb) J env stamp doc d) = d\<lparr>policy_snapshots := x\<rparr>"
    using EnsureServerPolicySnapshot_upd [OF surjective_pairing] by blast
  with snapshot show ?case by (simp add: active_root_def)
next
  case (cli_invite d env scope t)
  then show ?case by (simp add: IssueInvite_active_root)
qed (use assms(2) loadOrMint_active(1) in auto)




section \<open>A concrete host\<close>

lemma ensureWritableDir_done:
  assumes "\<forall>l. \<not> de_fault de l" "dk_dirs d dir \<noteq> None" "dk_files d dir = None" "dk_files d (de_temp de dir write_test_pattern) = None"
  shows "ensureWritableDir de dir d = (Inr (), d)"
  using assms by (auto simp: ensureWritableDir_def Let_def remove_file_def put_file_def fun_upd_idem)

text \<open>A host whose data directory exists, with small libraries: a first start mints everything, a second
  one can neither generate a key nor agrees on the entropy, and still finds what the first one made.\<close>

definition demo_host_disk :: disk_env where
  "demo_host_disk = \<lparr>de_fault = (\<lambda>_. False), de_temp = (\<lambda>dir pat. if drop (length pat - 4) pat = ''.tmp'' then ''/x.tmp'' else ''/x0''),
     de_written = 0\<rparr>"

definition demo_cmd_lib :: "(string, unit) cmd_lib" where
  "demo_cmd_lib = \<lparr>cl_url = demo_url_lib, cl_json = demo_json, cl_marshal_policy = (\<lambda>_. Some ''{}''), cl_parse_duration = (\<lambda>_. None),
     cl_migrations = Some [], cl_sql = (\<lambda>_ _. None), cl_http_get = (\<lambda>_ _. None), cl_encode_info = (\<lambda>_. []),
     cl_build = sv_build demo_server, cl_spec_json = [], cl_spec_yaml = []\<rparr>"

definition demo_host_libs :: "(string, string, string) libs" where
  "demo_host_libs = demo_libs\<lparr>lb_ca := demo_ca_lib ''Spivot Server CA'' 315360060000000000\<rparr>"

definition demo_host_env :: "id_err + signer \<Rightarrow> string \<Rightarrow> cmd_env" where
  "demo_host_env gen key = \<lparr>ce_getenv = demo_getenv, ce_disk = demo_host_disk, ce_env = now_env 60000000000, ce_draws = demo_draws,
     ce_gen = gen, ce_root_id = Some ''i'', ce_root_key = Some key, ce_cwd = None, ce_mountinfo = None, ce_stamp = []\<rparr>"

definition demo_host :: "unit machine" where
  "demo_host = \<lparr>mc_disk = \<lparr>dk_files = Map.empty, dk_dirs = [''a/c'' \<mapsto> 448, ''a/c/identity'' \<mapsto> 448]\<rparr>, mc_schemas = (\<lambda>_. ((), None)),
     mc_dbs = (\<lambda>_. empty_db)\<rparr>"

definition demo_start :: "id_err + signer \<Rightarrow> string \<Rightarrow> (unit, string server \<times> cmd_output list) cm" where
  "demo_start gen key = start_server demo_host_libs demo_cmd_lib (demo_host_env gen key) demo_config"

lemma demo_paths: "filepath_Dir ''a/c/spivot.db'' = ''a/c''" "identity_dir ''a/c'' = ''a/c/identity''" "filepath_Clean ''a/c/identity'' = ''a/c/identity''"
 "filepath_Clean ''a/c/spivot.db'' = ''a/c/spivot.db''" "TrimSpace ''a/c/spivot.db'' = ''a/c/spivot.db''"
 "filepath_Join ''a/c/identity'' caCertFile = ''a/c/identity/ca.crt.pem''" "keyPath ''a/c/identity'' caKeyName = ''a/c/identity/ca.key.pem''"
 "validateKeyName caKeyName" "svc_data_dir demo_config = ''a/c''" "svc_database_path demo_config = ''a/c/spivot.db''" "svc_access_log_path demo_config = []"
 by code_simp+

lemma demo_temps:
 "de_temp demo_host_disk x write_test_pattern = ''/x0''" "de_temp demo_host_disk x (CHR ''.'' # caKeyName @ ''-*.tmp'') = ''/x.tmp''"
  "de_temp demo_host_disk x (CHR ''.'' # filepath_Base ''a/c/identity/ca.crt.pem'' @ ''-*.tmp'') = ''/x.tmp''"
  "\<not> de_fault demo_host_disk l" "de_written demo_host_disk = 0"
  by code_simp+
lemmas demo_host_defs = demo_host_env_def demo_cmd_lib_def demo_host_libs_def

lemma demo_open:
  "storage_Open demo_cmd_lib (demo_host_env g k) ''a/c/spivot.db'' mc = Some (Inr ''a/c/spivot.db'', mc)"
  if "mc_schemas mc ''a/c/spivot.db'' = ((), None)"
  using that
  by (simp add: storage_Open_def demo_host_defs demo_paths storage_configure_def store_Ping_def ApplyMigrations_def Migrations_def Let_def
    rejectFutureMigration_def applied_versions_def fun_upd_idem)

lemma demo_paths_ready:
  assumes "dk_files (mc_disk mc) = f" "f ''a/c'' = None" "f ''/x0'' = None" "f ''config'' = None" "dk_dirs (mc_disk mc) ''a/c'' \<noteq> None"
  shows "ensureRuntimePaths demo_host_disk demo_config mc = Some (Inr (), mc)"
proof -
  have c: "svc_config_dir demo_config = ''config''" by code_simp
  have "ensureWritableDir demo_host_disk ''a/c'' (mc_disk mc) = (Inr (), mc_disk mc)"
    using assms by (intro ensureWritableDir_done) (simp_all add: demo_temps)
  with assms show ?thesis
    by (simp add: ensureRuntimePaths_def c_bind_def c_disk_def demo_paths ensureOptionalConfigDir_def demo_temps c)
qed

declare randomSerial.simps [code]

definition demo_store_start :: "string \<Rightarrow> (db, string option \<times> policy_snapshot \<times> issuer) op" where
  "demo_store_start key d = (case emitBootstrapInviteIfNeeded (lb_lib demo_host_libs) (now_env 60000000000) d of (Inl e, d1) \<Rightarrow> (Inl e, d1)
     | (Inr t, d1) \<Rightarrow> (case EnsureServerPolicySnapshot (lb_lib demo_host_libs) demo_json (now_env 60000000000) [] ''{}'' d1 of (Inl e, d2) \<Rightarrow> (Inl e, d2)
     | (Inr p, d2) \<Rightarrow> (case loadOrMintMacaroonIssuer (now_env 60000000000) (Some ''i'') (Some key) d2 of (Inl e, d3) \<Rightarrow> (Inl e, d3)
     | (Inr i, d3) \<Rightarrow> (Inr (t, p, i), d3))))"

lemma demo_store_starts:
  "(case demo_store_start (replicate 32 (CHR ''k'')) empty_db of (Inr _, d) \<Rightarrow>
      (case demo_store_start (replicate 32 (CHR ''l'')) d of (Inr (None, _, _), _) \<Rightarrow> True | _ \<Rightarrow> False) | _ \<Rightarrow> False)"
  by code_simp

definition demo_load :: "id_err + signer \<Rightarrow> disk \<Rightarrow> ((id_err + authority) \<times> disk) option" where
  "demo_load gen = LoadOrCreate (lb_key demo_host_libs) (lb_ca demo_host_libs) demo_host_disk 60000000000 demo_draws gen
     ''a/c/identity'' \<lparr>cc_dir = ''a/c/identity'', cc_subject_cn = [], cc_lifetime = 0\<rparr>"

definition demo_disk_ready :: "disk \<Rightarrow> bool" where
  "demo_disk_ready d = (list_all (\<lambda>p. dk_files d p = None) [''a/c'', ''/x0'', ''/x.tmp'', ''config'', ''a/c/identity''] \<and>
    list_all (\<lambda>p. dk_dirs d p = Some 448) [''a/c'', ''a/c/identity''])"

definition demo_reloads :: "disk \<Rightarrow> bool" where
  "demo_reloads d = (case demo_load (Inl ErrKeyNotFound) d of Some (Inr _, _) \<Rightarrow> True | _ \<Rightarrow> False)"

lemma demo_loads:
  "demo_disk_ready (mc_disk demo_host) \<and> (case demo_load (Inr demo_ca_key) (mc_disk demo_host) of Some (Inr _, d) \<Rightarrow> demo_disk_ready d \<and> demo_reloads d | _ \<Rightarrow> False)"
  by code_simp

lemma demo_start_ok:
  assumes "demo_disk_ready (mc_disk mc)" "mc_schemas mc ''a/c/spivot.db'' = ((), None)"
    "demo_store_start key (mc_dbs mc ''a/c/spivot.db'') = (Inr (token, policy, issuer), d)" "demo_load gen (mc_disk mc) = Some (Inr ca, k)"
  shows "\<exists>out. demo_start gen key mc = Some (Inr (new_server demo_cmd_lib demo_config ca issuer policy, out),
    mc\<lparr>mc_disk := k, mc_dbs := (mc_dbs mc)(''a/c/spivot.db'' := d)\<rparr>)"
proof -
  have r: "ensureRuntimePaths demo_host_disk demo_config mc = Some (Inr (), mc)"
    using assms(1) by (intro demo_paths_ready [OF refl]) (simp_all add: demo_disk_ready_def)
  have w: "ensureWritableDir demo_host_disk ''a/c/identity'' (mc_disk mc) = (Inr (), mc_disk mc)"
    using assms(1) by (intro ensureWritableDir_done) (simp_all add: demo_temps demo_disk_ready_def)
  have n: "NewFileKeyStore demo_host_disk ''a/c/identity'' (mc_disk mc) = (Inr ''a/c/identity'', mc_disk mc)"
    using assms(1) prepare_dir_done [of "mc_disk mc" "''a/c/identity''" demo_host_disk]
    by (simp add: NewFileKeyStore_def demo_paths demo_temps demo_disk_ready_def)
  from assms(3) obtain d1 d2 where s:
    "emitBootstrapInviteIfNeeded (lb_lib demo_host_libs) (now_env 60000000000) (mc_dbs mc ''a/c/spivot.db'') = (Inr token, d1)"
    "EnsureServerPolicySnapshot (lb_lib demo_host_libs) demo_json (now_env 60000000000) [] ''{}'' d1 = (Inr policy, d2)"
    "loadOrMintMacaroonIssuer (now_env 60000000000) (Some ''i'') (Some key) d2 = (Inr issuer, d)"
    by (auto simp: demo_store_start_def split: prod.splits sum.splits)
  have l: "LoadOrCreate (lb_key demo_host_libs) (lb_ca demo_host_libs) demo_host_disk 60000000000 demo_draws gen
     ''a/c/identity'' \<lparr>cc_dir = ''a/c/identity'', cc_subject_cn = [], cc_lifetime = 0\<rparr> (mc_disk mc) = Some (Inr ca, k)"
    using assms(4) by (simp add: demo_load_def)
  have e: "ce_env (demo_host_env gen key) = now_env 60000000000" "ce_disk (demo_host_env gen key) = demo_host_disk"
    "ce_stamp (demo_host_env gen key) = []" "ce_root_id (demo_host_env gen key) = Some ''i''" "ce_root_key (demo_host_env gen key) = Some key"
    "ce_draws (demo_host_env gen key) = demo_draws" "ce_gen (demo_host_env gen key) = gen"
    "cl_json demo_cmd_lib = demo_json" "cl_marshal_policy demo_cmd_lib doc = Some ''{}''" for doc
    by (simp_all add: demo_host_env_def demo_cmd_lib_def)
  have c: "\<exists>x. AppliedMigrations (now_env 60000000000) (mc_schemas mc ''a/c/spivot.db'') = Inr x"
    "\<exists>x. AccountCount (now_env 60000000000) (mc_dbs mc ''a/c/spivot.db'') = Inr x"
    "\<exists>x. ClientAppCount (now_env 60000000000) (mc_dbs mc ''a/c/spivot.db'') = Inr x"
    "\<exists>x. IssuedCertificateCount (now_env 60000000000) (mc_dbs mc ''a/c/spivot.db'') = Inr x"
    by (simp_all add: AppliedMigrations_def AccountCount_def ClientAppCount_def IssuedCertificateCount_def count_table_def)
  show ?thesis
    using c
    by (auto simp: demo_start_def start_server_def Let_def c_bind_Inr e c_simple_Inr c_read_Inr r demo_open [OF assms(2)] demo_paths
        c_disk_Inr c_store_Inr w n s l new_key_store_def load_ca_def c_identity_Inr open_access_log_def)
qed

lemma demo_restart:
  "\<exists>sv out mc sv2 out2 mc2. demo_start (Inr demo_ca_key) (replicate 32 (CHR ''k'')) demo_host = Some (Inr (sv, out), mc) \<and>
     write_test_laws demo_host_disk (mc_disk mc) \<and>
     demo_start (Inl ErrKeyNotFound) (replicate 32 (CHR ''l'')) mc = Some (Inr (sv2, out2), mc2)"
proof -
  from demo_store_starts obtain t p i d t2 p2 i2 d2 where
    s: "demo_store_start (replicate 32 (CHR ''k'')) empty_db = (Inr (t, p, i), d)"
      "demo_store_start (replicate 32 (CHR ''l'')) d = (Inr (t2, p2, i2), d2)"
    by (auto split: prod.splits sum.splits)
  obtain r where r: "demo_load (Inr demo_ca_key) (mc_disk demo_host) = Some r"
    using demo_loads by (cases "demo_load (Inr demo_ca_key) (mc_disk demo_host)") auto
  with demo_loads obtain ca k where
    l: "demo_disk_ready (mc_disk demo_host)" "demo_load (Inr demo_ca_key) (mc_disk demo_host) = Some (Inr ca, k)" "demo_disk_ready k"
    and "demo_reloads k"
    by (cases r; cases "fst r") auto
  then obtain ca2 k2 where l2: "demo_load (Inl ErrKeyNotFound) k = Some (Inr ca2, k2)"
    by (auto simp: demo_reloads_def split: prod.split_asm sum.split_asm option.split_asm)
  let ?mc = "demo_host\<lparr>mc_disk := k, mc_dbs := (mc_dbs demo_host)(''a/c/spivot.db'' := d)\<rparr>"
  have w: "write_test_laws demo_host_disk (mc_disk ?mc)"
    using l(3) by (auto simp: write_test_laws_def demo_temps demo_disk_ready_def intro!: exI [of _ "''/x''"] exI [of _ "CHR ''0''"]) code_simp+
  from s(1) have s1: "demo_store_start (replicate 32 (CHR ''k'')) (mc_dbs demo_host ''a/c/spivot.db'') = (Inr (t, p, i), d)"
    by (simp only: demo_host_def machine.simps)
  from s(2) have s2: "demo_store_start (replicate 32 (CHR ''l'')) (mc_dbs ?mc ''a/c/spivot.db'') = (Inr (t2, p2, i2), d2)"
    by simp
  have sch: "mc_schemas demo_host x = ((), None)" for x by (simp add: demo_host_def)
  from demo_start_ok [OF l(1) sch s1 l(2)] demo_start_ok [of ?mc, OF _ _ s2, of "Inl ErrKeyNotFound" ca2 k2] l(3) l2 sch w
  obtain out out2 mc2 where "demo_start (Inr demo_ca_key) (replicate 32 (CHR ''k'')) demo_host =
      Some (Inr (new_server demo_cmd_lib demo_config ca i p, out), ?mc)"
    "demo_start (Inl ErrKeyNotFound) (replicate 32 (CHR ''l'')) ?mc = Some (Inr (new_server demo_cmd_lib demo_config ca2 i2 p2, out2), mc2)"
    by auto
  with w show ?thesis by blast
qed


definition demo_invite :: "((cmd_err + string cmd_result) \<times> unit machine) option" where
  "demo_invite = run demo_host_libs demo_cmd_lib (demo_host_env (Inl ErrKeyNotFound) []) [''invite'', ''create'', ''-data-dir=a/c''] demo_host"

lemma demo_invite_created:
  "(case demo_invite of Some (Inr (Printed (OutInvite _ _ _ tok # _)), mc) \<Rightarrow>
      tok = ''tok'' \<and> length (client_app_invites (mc_dbs mc ''a/c/spivot.db'')) = 1 | _ \<Rightarrow> False)"
  by code_simp

theorem command_effect_witness:
  "\<exists>r mc. demo_invite = Some (r, mc) \<and> client_app_invites (mc_dbs mc ''a/c/spivot.db'') \<noteq> [] \<and>
     later demo_host_libs demo_json empty_db (mc_dbs mc ''a/c/spivot.db'')"
proof -
  obtain r mc where r: "demo_invite = Some (r, mc)" using demo_invite_created by (cases demo_invite) auto
  have "client_app_invites (mc_dbs mc ''a/c/spivot.db'') \<noteq> []"
    using demo_invite_created by (auto simp: r split: sum.split_asm cmd_result.split_asm list.split_asm cmd_output.split_asm)
  moreover have "later demo_host_libs demo_json empty_db (mc_dbs mc ''a/c/spivot.db'')"
    using command_effect [OF r [unfolded demo_invite_def], of "''a/c/spivot.db''"] by (simp add: demo_cmd_lib_def demo_host_def)
  ultimately show ?thesis using r by blast
qed

end
