(* ===== verification/OpenApi.thy ===== *)
theory OpenApi
  imports CommandLine "HOL-Library.AList"
begin

text \<open>
  The generator of the OpenAPI document (internal/tools/openapigen): the schemas of the contract
  types, built by walking the types as Go's reflection shows them, and the document built from
  the route table. A document is a JSON value; its text in JSON and YAML, the loading of the
  packages and the parser of floating-point examples are parameters or left out. The walk expands
  a struct type where it is first met, and an embedded struct at every place, so that it needs
  fuel: \<open>None\<close> is a walk that was not finished, and \<open>generate_returns\<close> says when there is enough.
\<close>

section \<open>JSON objects in insertion order\<close>

datatype json = JNull | JBool bool | JInt int | JFloat string | JStr string | JArr "json list" | JObj "(string \<times> json) list"

type_synonym omap = "(string \<times> json) list"

definition omap_set :: "string \<Rightarrow> json \<Rightarrow> omap \<Rightarrow> omap" where
  "omap_set k v m = AList.update k v m"

definition omap_get :: "omap \<Rightarrow> string \<Rightarrow> json option" where
  "omap_get m k = map_of m k"

section \<open>Go types\<close>

datatype gokind = KBool | KInt | KInt8 | KInt16 | KInt32 | KInt64 | KUint | KUint8 | KUint16 | KUint32 | KUint64 | KUintptr
  | KFloat32 | KFloat64 | KComplex64 | KComplex128 | KString | KChan | KFunc | KUnsafePointer

text \<open>A type as the walk sees it: the two special types, a basic kind (whatever its name), the
  composites, a struct type declared in a package, and a struct type without a name. A field has
  its name, its json and openapi tags, whether it is embedded and exported, and its type.\<close>

datatype gotype = TTime | TRawMessage | TBasic gokind | TPointer gotype | TSlice gotype | TArray gotype
  | TMap gotype gotype | TInterface | TNamed string string | TStruct "gofield list"
and gofield = Field (gf_name: string) (gf_json: string) (gf_openapi: string) (gf_anonymous: bool) (gf_exported: bool) (gf_type: gotype)

type_synonym type_id = "string \<times> string"

record doc_index =
  di_types :: "string \<Rightarrow> string"
  di_fields :: "string \<Rightarrow> string"

record gen_env =
  ge_decls :: "(type_id \<times> gofield list) list"
  ge_docs :: doc_index
  ge_type :: "string \<Rightarrow> gotype"
  ge_parse_float :: "string \<Rightarrow> string option"

definition fields_of :: "gen_env \<Rightarrow> type_id \<Rightarrow> gofield list" where
  "fields_of E i = (case map_of (ge_decls E) i of None \<Rightarrow> [] | Some fs \<Rightarrow> fs)"

section \<open>Doc comments\<close>

text \<open>The declarations of a parsed file, as far as the index reads them.\<close>

record ast_field =
  af_doc :: "string option"
  af_comment :: "string option"
  af_names :: "string list"

record ast_type =
  ty_name :: string
  ty_doc :: "string option"
  ty_struct :: "ast_field list option"

datatype ast_decl = GenDecl "string option" "ast_type option list" | OtherDecl

definition cleanDoc :: "string \<Rightarrow> string" where
  "cleanDoc text = rev (dropWhile (\<lambda>c. c = CHR 0x0A) (rev text))"

definition comment_text :: "string option \<Rightarrow> string" where
  "comment_text c = (case c of None \<Rightarrow> [] | Some s \<Rightarrow> s)"

definition or_else :: "'a option \<Rightarrow> 'a option \<Rightarrow> 'a option" where
  "or_else a b = (case a of None \<Rightarrow> b | Some _ \<Rightarrow> a)"

definition index_field :: "string \<Rightarrow> ast_field \<Rightarrow> doc_index \<Rightarrow> doc_index" where
  "index_field typeKey f idx =
     (let text = cleanDoc (comment_text (or_else (af_doc f) (af_comment f))) in
      if text = [] then idx
      else idx\<lparr>di_fields := fold (\<lambda>n m. m(typeKey @ ''.'' @ n := text)) (af_names f) (di_fields idx)\<rparr>)"

definition index_type :: "string \<Rightarrow> string option \<Rightarrow> ast_type \<Rightarrow> doc_index \<Rightarrow> doc_index" where
  "index_type pkgPath genDoc ts idx =
     (let typeKey = pkgPath @ ''.'' @ ty_name ts;
          text = cleanDoc (comment_text (or_else (ty_doc ts) genDoc));
          idx = (if text = [] then idx else idx\<lparr>di_types := (di_types idx)(typeKey := text)\<rparr>) in
      case ty_struct ts of None \<Rightarrow> idx | Some fs \<Rightarrow> fold (index_field typeKey) fs idx)"

definition index_decl :: "string \<Rightarrow> ast_decl \<Rightarrow> doc_index \<Rightarrow> doc_index" where
  "index_decl pkgPath decl idx = (case decl of OtherDecl \<Rightarrow> idx
     | GenDecl genDoc specs \<Rightarrow> fold (\<lambda>spec. case spec of None \<Rightarrow> id | Some ts \<Rightarrow> index_type pkgPath genDoc ts) specs idx)"

definition indexFile :: "string \<Rightarrow> ast_decl list \<Rightarrow> doc_index \<Rightarrow> doc_index" where
  "indexFile pkgPath decls idx = fold (index_decl pkgPath) decls idx"

definition typeDoc :: "doc_index \<Rightarrow> type_id \<Rightarrow> string" where
  "typeDoc idx t = di_types idx (fst t @ ''.'' @ snd t)"

definition fieldDoc :: "doc_index \<Rightarrow> type_id \<Rightarrow> string \<Rightarrow> string" where
  "fieldDoc idx t f = di_fields idx (fst t @ ''.'' @ snd t @ ''.'' @ f)"

section \<open>The schema of a type\<close>

datatype gen_err = NameClaimed type_id type_id | MapKeyKind | UnsupportedKind gokind | DuplicateProperty string
  | TagOnRef | TagNeedsValue string | TagUnknown string | TagNotGrouped string | BadRoutes route_err

record builder =
  sb_schemas :: omap
  sb_names :: "(type_id \<times> string) list"
  sb_by_name :: "(string \<times> type_id) list"
  sb_undocumented :: "string list"
  sb_undoc_seen :: "string set"

definition newSchemaBuilder :: builder where
  "newSchemaBuilder = \<lparr>sb_schemas = [], sb_names = [], sb_by_name = [], sb_undocumented = [], sb_undoc_seen = {}\<rparr>"

type_synonym 'a sm = "builder \<Rightarrow> (gen_err + 'a \<times> builder) option"

definition s_return :: "'a \<Rightarrow> 'a sm" where
  "s_return a b = Some (Inr (a, b))"

definition s_fail :: "gen_err \<Rightarrow> 'a sm" where
  "s_fail e b = Some (Inl e)"

definition s_stuck :: "'a sm" where
  "s_stuck b = None"

definition s_lift :: "gen_err + 'a \<Rightarrow> 'a sm" where
  "s_lift r = (case r of Inl e \<Rightarrow> s_fail e | Inr a \<Rightarrow> s_return a)"

definition s_bind :: "'a sm \<Rightarrow> ('a \<Rightarrow> 'b sm) \<Rightarrow> 'b sm" where
  "s_bind m f b = (case m b of None \<Rightarrow> None | Some (Inl e) \<Rightarrow> Some (Inl e) | Some (Inr (a, b')) \<Rightarrow> f a b')"

definition s_modify :: "(builder \<Rightarrow> builder) \<Rightarrow> unit sm" where
  "s_modify f b = Some (Inr ((), f b))"

definition schema_ref :: "string \<Rightarrow> omap" where
  "schema_ref name = [(''$ref'', JStr (''#/components/schemas/'' @ name))]"

definition nullable :: "omap \<Rightarrow> omap" where
  "nullable schema =
     (if omap_get schema ''$ref'' \<noteq> None
      then [(''anyOf'', JArr [JObj schema, JObj [(''type'', JStr ''null'')]])]
      else case omap_get schema ''type'' of
        Some typ \<Rightarrow> omap_set ''type'' (JArr [typ, JStr ''null'']) schema
      | None \<Rightarrow> schema)"

definition basic_schema :: "gokind \<Rightarrow> gen_err + omap" where
  "basic_schema k =
     (if k = KString then Inr [(''type'', JStr ''string'')]
      else if k = KBool then Inr [(''type'', JStr ''boolean'')]
      else if k \<in> {KInt, KInt64, KUint, KUint64} then Inr [(''type'', JStr ''integer''), (''format'', JStr ''int64'')]
      else if k \<in> {KInt8, KInt16, KInt32, KUint8, KUint16, KUint32} then Inr [(''type'', JStr ''integer'')]
      else if k \<in> {KFloat32, KFloat64} then Inr [(''type'', JStr ''number'')]
      else Inl (UnsupportedKind k))"

text \<open>The part of a tag before the first comma, and the options behind it.\<close>

definition cut_tag :: "string \<Rightarrow> string \<times> string" where
  "cut_tag tag = (case Cut tag (CHR '','') of None \<Rightarrow> (tag, []) | Some p \<Rightarrow> p)"

lemma Cut_shorter [termination_simp]: "Cut s c = Some (a, r) \<Longrightarrow> length r < length s"
  using length_dropWhile_le [of "\<lambda>x. x \<noteq> c" s] by (cases s) (auto simp: Cut_def split: if_splits)

fun hasOption :: "string \<Rightarrow> string \<Rightarrow> bool" where
  "hasOption opts want =
     (if opts = [] then False
      else case Cut opts (CHR '','') of None \<Rightarrow> opts = want
        | Some (opt, rest) \<Rightarrow> opt = want \<or> hasOption rest want)"

declare hasOption.simps [simp del]

definition exampleValue :: "(string \<Rightarrow> string option) \<Rightarrow> string \<Rightarrow> json" where
  "exampleValue parse_float raw =
     (case Atoi raw of Some n \<Rightarrow> JInt n
      | None \<Rightarrow> (case parse_float raw of Some f \<Rightarrow> JFloat f
          | None \<Rightarrow> (case ParseBool raw of Some v \<Rightarrow> JBool v | None \<Rightarrow> JStr raw)))"

definition apply_directive :: "(string \<Rightarrow> string option) \<Rightarrow> string \<Rightarrow> omap \<Rightarrow> gen_err + omap" where
  "apply_directive parse_float directive schema =
     (let (key, val) = (case Cut directive (CHR ''='') of None \<Rightarrow> (directive, None) | Some (k, v) \<Rightarrow> (k, Some v)) in
      if key = ''format'' then
        (if val = None \<or> val = Some [] then Inl (TagNeedsValue key) else Inr (omap_set ''format'' (JStr (the val)) schema))
      else if key = ''enum'' then
        (if val = None \<or> val = Some [] then Inl (TagNeedsValue key)
         else Inr (omap_set ''enum'' (JArr (map JStr (Split (the val) (CHR ''|'')))) schema))
      else if key = ''example'' then
        (case val of None \<Rightarrow> Inl (TagNeedsValue key) | Some v \<Rightarrow> Inr (omap_set ''example'' (exampleValue parse_float v) schema))
      else if key \<in> {''readOnly'', ''writeOnly'', ''deprecated''} then Inr (omap_set key (JBool True) schema)
      else Inl (TagUnknown directive))"

fun apply_directives :: "(string \<Rightarrow> string option) \<Rightarrow> string list \<Rightarrow> omap \<Rightarrow> gen_err + omap" where
  "apply_directives parse_float [] schema = Inr schema"
| "apply_directives parse_float (d # ds) schema =
     (case apply_directive parse_float (TrimSpace d) schema of Inl e \<Rightarrow> Inl e
      | Inr schema' \<Rightarrow> apply_directives parse_float ds schema')"

definition applyOpenAPITag :: "(string \<Rightarrow> string option) \<Rightarrow> omap \<Rightarrow> string \<Rightarrow> gen_err + omap" where
  "applyOpenAPITag parse_float schema tag =
     (if tag = [] then Inr schema
      else if omap_get schema ''$ref'' \<noteq> None then Inl TagOnRef
      else apply_directives parse_float (Split tag (CHR '','')) schema)"

text \<open>The description of a field joins its schema; a reference is wrapped.\<close>

definition with_doc :: "string \<Rightarrow> omap \<Rightarrow> omap" where
  "with_doc doc schema =
     (if doc = [] then schema
      else if omap_get schema ''$ref'' \<noteq> None then [(''description'', JStr doc), (''allOf'', JArr [JObj schema])]
      else (''description'', JStr doc) # filter (\<lambda>(k, v). k \<noteq> ''description'') schema)"

text \<open>The worklist of undocumented fields of named types.\<close>

definition note_undocumented :: "type_id \<Rightarrow> string \<Rightarrow> string \<Rightarrow> builder \<Rightarrow> builder" where
  "note_undocumented t field doc b =
     (let key = fst t @ ''.'' @ snd t @ ''.'' @ field in
      if doc = [] \<and> snd t \<noteq> [] \<and> key \<notin> sb_undoc_seen b
      then b\<lparr>sb_undoc_seen := insert key (sb_undoc_seen b), sb_undocumented := sb_undocumented b @ [key]\<rparr>
      else b)"

text \<open>An embedded field without a tag name whose type is a struct, or a pointer to one, contributes
  the fields of that struct.\<close>

definition deref :: "gotype \<Rightarrow> gotype" where
  "deref t = (case t of TPointer u \<Rightarrow> u | _ \<Rightarrow> t)"

definition is_struct :: "gotype \<Rightarrow> bool" where
  "is_struct t = (case t of TNamed _ _ \<Rightarrow> True | TStruct _ \<Rightarrow> True | TTime \<Rightarrow> True | _ \<Rightarrow> False)"

definition promoted :: "gofield \<Rightarrow> gotype option" where
  "promoted f = (if gf_anonymous f \<and> fst (cut_tag (gf_json f)) = [] \<and> is_struct (deref (gf_type f)) then Some (deref (gf_type f)) else None)"

definition property_name :: "gofield \<Rightarrow> string" where
  "property_name f = (if fst (cut_tag (gf_json f)) = [] then gf_name f else fst (cut_tag (gf_json f)))"

definition is_optional :: "gofield \<Rightarrow> bool" where
  "is_optional f = (let opts = snd (cut_tag (gf_json f)) in hasOption opts ''omitempty'' \<or> hasOption opts ''omitzero'')"

definition register_type :: "type_id \<Rightarrow> builder \<Rightarrow> builder" where
  "register_type i b = b\<lparr>sb_names := (i, snd i) # sb_names b, sb_by_name := (snd i, i) # sb_by_name b,
     sb_schemas := omap_set (snd i) JNull (sb_schemas b)\<rparr>"

definition fill_schema :: "string \<Rightarrow> omap \<Rightarrow> builder \<Rightarrow> builder" where
  "fill_schema name schema b = b\<lparr>sb_schemas := omap_set name (JObj schema) (sb_schemas b)\<rparr>"

definition struct_schema :: "gen_env \<Rightarrow> type_id \<Rightarrow> omap \<Rightarrow> string list \<Rightarrow> omap" where
  "struct_schema E t properties required =
     (if snd t \<noteq> [] \<and> typeDoc (ge_docs E) t \<noteq> [] then [(''description'', JStr (typeDoc (ge_docs E) t))] else []) @
     [(''type'', JStr ''object''), (''properties'', JObj properties)] @
     (if required = [] then [] else [(''required'', JArr (map JStr required))])"

lemma deref_size [termination_simp]: "deref t = TStruct fs \<Longrightarrow> size_list size fs < size t"
  by (cases t) (auto simp: deref_def)

lemma promoted_size [termination_simp]: "promoted f = Some (TStruct fs) \<Longrightarrow> size_list size fs < size f"
  by (cases f) (auto simp: promoted_def split: if_splits dest: deref_size)

lemma gf_type_size [termination_simp]: "size (gf_type f) < size f"
  by (cases f) simp

text \<open>\<open>refFor\<close>, \<open>schemaFor\<close> and \<open>collectStructFields\<close>: a struct type that has a component is a
  reference; otherwise the component is reserved first and filled when its fields have been walked.\<close>

fun schemaFor :: "gen_env \<Rightarrow> nat \<Rightarrow> gotype \<Rightarrow> omap sm"
  and collectStructFields :: "gen_env \<Rightarrow> nat \<Rightarrow> type_id \<Rightarrow> gofield list \<Rightarrow> omap \<Rightarrow> string list \<Rightarrow> (omap \<times> string list) sm"
  and fieldSchema :: "gen_env \<Rightarrow> nat \<Rightarrow> type_id \<Rightarrow> gofield \<Rightarrow> omap sm" where
  "schemaFor E n TTime = s_return [(''type'', JStr ''string''), (''format'', JStr ''date-time'')]"
| "schemaFor E n TRawMessage = s_return [(''description'', JStr ''Arbitrary JSON value.'')]"
| "schemaFor E n TInterface = s_return [(''description'', JStr ''Arbitrary JSON value.'')]"
| "schemaFor E n (TBasic k) = s_lift (basic_schema k)"
| "schemaFor E n (TPointer t) = s_bind (schemaFor E n t) (\<lambda>elem. s_return (nullable elem))"
| "schemaFor E n (TSlice t) = (if t = TBasic KUint8 then s_return [(''type'', JStr ''string''), (''format'', JStr ''byte'')]
     else s_bind (schemaFor E n t) (\<lambda>items. s_return [(''type'', JStr ''array''), (''items'', JObj items)]))"
| "schemaFor E n (TArray t) = (if t = TBasic KUint8 then s_return [(''type'', JStr ''string''), (''format'', JStr ''byte'')]
     else s_bind (schemaFor E n t) (\<lambda>items. s_return [(''type'', JStr ''array''), (''items'', JObj items)]))"
| "schemaFor E n (TMap k t) = (if k \<noteq> TBasic KString then s_fail MapKeyKind
     else s_bind (schemaFor E n t) (\<lambda>values. s_return [(''type'', JStr ''object''), (''additionalProperties'', JObj values)]))"
| "schemaFor E n (TStruct fs) = s_bind (collectStructFields E n ([], []) fs [] []) (\<lambda>(properties, required).
     s_return (struct_schema E ([], []) properties required))"
| "schemaFor E n (TNamed pkg name) = (\<lambda>b. case map_of (sb_names b) (pkg, name) of
       Some component \<Rightarrow> s_return (schema_ref component) b
     | None \<Rightarrow> (case map_of (sb_by_name b) name of
         Some prior \<Rightarrow> s_fail (NameClaimed prior (pkg, name)) b
       | None \<Rightarrow> (case n of 0 \<Rightarrow> s_stuck b
           | Suc n' \<Rightarrow>
               s_bind (s_modify (register_type (pkg, name))) (\<lambda>_.
               s_bind (collectStructFields E n' (pkg, name) (fields_of E (pkg, name)) [] []) (\<lambda>(properties, required).
               s_bind (s_modify (fill_schema name (struct_schema E (pkg, name) properties required))) (\<lambda>_.
               s_return (schema_ref name)))) b)))"
| "collectStructFields E n t [] properties required = s_return (properties, required)"
| "collectStructFields E n t (f # fs) properties required =
     (if fst (cut_tag (gf_json f)) = ''-'' then collectStructFields E n t fs properties required
      else case promoted f of
        Some (TNamed pkg name) \<Rightarrow> (case n of 0 \<Rightarrow> s_stuck
          | Suc n' \<Rightarrow> s_bind (collectStructFields E n' (pkg, name) (fields_of E (pkg, name)) properties required)
              (\<lambda>(properties, required). collectStructFields E n t fs properties required))
      | Some (TStruct gs) \<Rightarrow> s_bind (collectStructFields E n ([], []) gs properties required)
              (\<lambda>(properties, required). collectStructFields E n t fs properties required)
      | Some _ \<Rightarrow> collectStructFields E n t fs properties required
      | None \<Rightarrow>
          if \<not> gf_exported f then collectStructFields E n t fs properties required
          else s_bind (fieldSchema E n t f) (\<lambda>schema.
            if omap_get properties (property_name f) \<noteq> None then s_fail (DuplicateProperty (property_name f))
            else collectStructFields E n t fs (omap_set (property_name f) (JObj schema) properties)
              (if is_optional f then required else required @ [property_name f])))"
| "fieldSchema E n t f =
     s_bind (schemaFor E n (gf_type f)) (\<lambda>schema.
     let doc = fieldDoc (ge_docs E) t (gf_name f) in
     s_bind (s_modify (note_undocumented t (gf_name f) doc)) (\<lambda>_.
     s_lift (applyOpenAPITag (ge_parse_float E) (with_doc doc schema) (gf_openapi f))))"

section \<open>The document\<close>

text \<open>\<open>http.StatusText\<close>.\<close>

definition status_texts :: "(int \<times> string) list" where
  "status_texts =
    [(100, ''Continue''), (101, ''Switching Protocols''), (102, ''Processing''), (103, ''Early Hints''), (200, ''OK''),
     (201, ''Created''), (202, ''Accepted''), (203, ''Non-Authoritative Information''), (204, ''No Content''),
     (205, ''Reset Content''), (206, ''Partial Content''), (207, ''Multi-Status''), (208, ''Already Reported''), (226, ''IM Used''),
     (300, ''Multiple Choices''), (301, ''Moved Permanently''), (302, ''Found''), (303, ''See Other''), (304, ''Not Modified''),
     (305, ''Use Proxy''), (307, ''Temporary Redirect''), (308, ''Permanent Redirect''), (400, ''Bad Request''), (401, ''Unauthorized''),
     (402, ''Payment Required''), (403, ''Forbidden''), (404, ''Not Found''), (405, ''Method Not Allowed''), (406, ''Not Acceptable''),
     (407, ''Proxy Authentication Required''), (408, ''Request Timeout''), (409, ''Conflict''), (410, ''Gone''), (411, ''Length Required''),
     (412, ''Precondition Failed''), (413, ''Request Entity Too Large''), (414, ''Request URI Too Long''),
     (415, ''Unsupported Media Type''), (416, ''Requested Range Not Satisfiable''), (417, ''Expectation Failed''),
     (418, (''I'' @ [CHR 0x27] @ ''m a teapot'')), (421, ''Misdirected Request''), (422, ''Unprocessable Entity''), (423, ''Locked''),
     (424, ''Failed Dependency''), (425, ''Too Early''), (426, ''Upgrade Required''), (428, ''Precondition Required''),
     (429, ''Too Many Requests''), (431, ''Request Header Fields Too Large''), (451, ''Unavailable For Legal Reasons''),
     (500, ''Internal Server Error''), (501, ''Not Implemented''), (502, ''Bad Gateway''), (503, ''Service Unavailable''),
     (504, ''Gateway Timeout''), (505, ''HTTP Version Not Supported''), (506, ''Variant Also Negotiates''),
     (507, ''Insufficient Storage''), (508, ''Loop Detected''), (510, ''Not Extended''), (511, ''Network Authentication Required'')]"

definition StatusText :: "int \<Rightarrow> string" where
  "StatusText code = (case map_of status_texts code of None \<Rightarrow> [] | Some t \<Rightarrow> t)"

fun dec_nat :: "nat \<Rightarrow> string" where
  "dec_nat n = (if n < 10 then [hex_digit n] else dec_nat (n div 10) @ [hex_digit (n mod 10)])"

declare dec_nat.simps [simp del]

definition dec_int :: "int \<Rightarrow> string" where
  "dec_int i = (if i < 0 then CHR ''-'' # dec_nat (nat (- i)) else dec_nat (nat i))"

definition ContractVersion :: string where
  "ContractVersion = ''0.1.0''"

definition api_package :: string where
  "api_package = ''github.com/wheelsdown/spivot-server/internal/server/api''"

definition path_parameter :: "route \<Rightarrow> string \<Rightarrow> json" where
  "path_parameter rt p = JObj ([(''name'', JStr p), (''in'', JStr ''path''), (''required'', JBool True),
       (''schema'', JObj [(''type'', JStr ''string'')])] @
     (if rt_auth rt = AuthSession \<and> p = rt_journey_path_param rt
      then [(''description'', JStr (''Journey identifier; must match the session macaroon'' @ [CHR 0x27] @ ''s journey caveat.''))] else []))"

definition json_content :: "string \<Rightarrow> omap \<Rightarrow> json" where
  "json_content media schema = JObj [(media, JObj [(''schema'', JObj schema)])]"

fun build_responses :: "gen_env \<Rightarrow> nat \<Rightarrow> route \<Rightarrow> int list \<Rightarrow> omap \<Rightarrow> omap sm" where
  "build_responses E n rt [] responses = s_return responses"
| "build_responses E n rt (status # statuses) responses =
     (case rt_response rt of
        None \<Rightarrow> build_responses E n rt statuses
          (omap_set (dec_int status) (JObj [(''description'', JStr (StatusText status))]) responses)
      | Some c \<Rightarrow> s_bind (schemaFor E n (ge_type E c)) (\<lambda>schema.
          build_responses E n rt statuses (omap_set (dec_int status)
            (JObj [(''description'', JStr (StatusText status)), (''content'', json_content ''application/json'' schema)]) responses)))"

definition auth_extension :: "route \<Rightarrow> omap" where
  "auth_extension rt = (''posture'', JStr (rt_auth rt)) #
     (if rt_auth rt = AuthSession
      then [(''session_action'', JStr (rt_session_action rt)), (''journey_path_param'', JStr (rt_journey_path_param rt))] else [])"

definition security_requirement :: "route \<Rightarrow> omap" where
  "security_requirement rt =
     (if rt_auth rt = AuthIdentity then [(''security'', JArr [JObj [(''mutualTLS'', JArr [])]])]
      else if rt_auth rt = AuthSession then [(''security'', JArr [JObj [(''macaroonSession'', JArr [])]])] else [])"

definition request_body :: "gen_env \<Rightarrow> nat \<Rightarrow> route \<Rightarrow> omap sm" where
  "request_body E n rt = (case rt_request rt of None \<Rightarrow> s_return []
     | Some c \<Rightarrow> s_bind (schemaFor E n (ge_type E c)) (\<lambda>schema.
         s_return [(''requestBody'', JObj [(''required'', JBool (\<not> rt_request_optional rt)),
           (''content'', json_content ''application/json'' schema)])]))"

definition problem_description :: string where
  "problem_description = ''Failure; the problem envelope'' @ [CHR 0x27] @ ''s `code` identifies the cause.''"

definition buildOperation :: "gen_env \<Rightarrow> nat \<Rightarrow> route \<Rightarrow> omap sm" where
  "buildOperation E n rt =
     s_bind (request_body E n rt) (\<lambda>body.
     s_bind (build_responses E n rt (rt_response_statuses rt) []) (\<lambda>responses.
     s_bind (schemaFor E n (TNamed api_package ''ProblemResponse'')) (\<lambda>problem.
     s_return ([(''operationId'', JStr (rt_operation_id rt)), (''summary'', JStr (rt_summary rt)), (''tags'', JArr (map JStr (rt_tags rt)))] @
       (if PathParams (rt_path rt) = [] then [] else [(''parameters'', JArr (map (path_parameter rt) (PathParams (rt_path rt))))]) @
       body @
       [(''responses'', JObj (omap_set ''default''
          (JObj [(''description'', JStr problem_description), (''content'', json_content ''application/problem+json'' problem)]) responses))] @
       security_requirement rt @
       [(''x-spivot-auth'', JObj (auth_extension rt))]))))"

definition set_operation :: "route \<Rightarrow> omap \<Rightarrow> omap \<Rightarrow> omap" where
  "set_operation rt op paths =
     (let item = (case omap_get paths (rt_path rt) of Some (JObj m) \<Rightarrow> m | _ \<Rightarrow> []) in
      omap_set (rt_path rt) (JObj (omap_set (ToLower (rt_method rt)) (JObj op) item)) paths)"

fun build_paths :: "gen_env \<Rightarrow> nat \<Rightarrow> route list \<Rightarrow> omap \<Rightarrow> omap sm" where
  "build_paths E n [] paths = s_return paths"
| "build_paths E n (rt # rts) paths = s_bind (buildOperation E n rt) (\<lambda>op. build_paths E n rts (set_operation rt op paths))"

definition tagGroups :: "(string \<times> string list) list" where
  "tagGroups = [(''System'', [''System'']), (''Identity'', [''Identity'']), (''Journeys'', [''Journeys'', ''Journey Vehicles'']),
     (''Garages'', [''Garages''])]"

definition em_dash :: string where
  "em_dash = [CHR 0xE2, CHR 0x80, CHR 0x94]"

definition document_info :: json where
  "document_info = JObj [(''title'', JStr ''Spivot Server API''), (''version'', JStr ContractVersion),
     (''description'', JStr (''Native HTTP API of Spivot Server, the Go backend for the Spivot iOS app, speaking the OpenCaravan protocol.'' @
       [CHR 0x0A, CHR 0x0A] @
       ''This document is generated from the Go source (route table + contract structs) by internal/tools/openapigen; it cannot drift from the implementation. The `x-spivot-auth` extension on each operation records the enforced authentication posture, derived from the same table that wires the middleware.'' @
       [CHR 0x0A, CHR 0x0A] @
       ''Every operation'' @ [CHR 0x27] @ ''s `default` response is the shared RFC 7807-style problem envelope (`application/problem+json`); branch on its `code` field, not its prose.'')),
     (''contact'', JObj [(''name'', JStr ''Spivot Server''), (''url'', JStr ''https://github.com/wheelsdown/spivot-server'')]),
     (''license'', JObj [(''name'', JStr ''Apache 2.0''), (''identifier'', JStr ''Apache-2.0'')])]"

definition securitySchemes :: json where
  "securitySchemes = JObj
    [(''mutualTLS'', JObj [(''type'', JStr ''mutualTLS''),
       (''description'', JStr ''An enrolled client-app certificate, presented directly via mTLS or forwarded by a trusted edge proxy. Obtained from `clientAppEnroll`.'')]),
     (''macaroonSession'', JObj [(''type'', JStr ''http''), (''scheme'', JStr ''macaroon''),
       (''description'', JStr (''`Authorization: Macaroon <token>` '' @ em_dash @
         '' a base64url session macaroon minted by `sessionCreate`, carrying user/client-app/action caveats and, for journey-scoped operations, a journey caveat that must match the journey named in the request path.''))])]"

definition document :: "omap \<Rightarrow> omap \<Rightarrow> omap" where
  "document paths schemas =
    [(''openapi'', JStr ''3.1.0''), (''info'', document_info),
     (''externalDocs'', JObj [(''description'', JStr ''Source, issues, and the issue #43 contract plan''),
        (''url'', JStr ''https://github.com/wheelsdown/spivot-server'')]),
     (''tags'', JArr (map (\<lambda>(name, description). JObj [(''name'', JStr name), (''description'', JStr description)]) RouteTags)),
     (''x-tagGroups'', JArr (map (\<lambda>(name, tags). JObj [(''name'', JStr name), (''tags'', JArr (map JStr tags))]) tagGroups)),
     (''paths'', JObj paths),
     (''components'', JObj [(''securitySchemes'', securitySchemes), (''schemas'', JObj schemas)])]"

definition buildDocument :: "gen_env \<Rightarrow> nat \<Rightarrow> route list \<Rightarrow> omap sm" where
  "buildDocument E n routes =
     s_bind (build_paths E n routes []) (\<lambda>paths b.
       case find (\<lambda>t. t \<notin> set (concat (map snd tagGroups))) (map fst RouteTags) of
         Some t \<Rightarrow> s_fail (TagNotGrouped t) b
       | None \<Rightarrow> s_return (document paths (sb_schemas b)) b)"

text \<open>The document, and the worklist of undocumented fields.\<close>

definition generate :: "gen_env \<Rightarrow> nat \<Rightarrow> route list \<Rightarrow> (gen_err + omap \<times> string list) option" where
  "generate E n routes = (case ValidateRoutes routes of Some e \<Rightarrow> Some (Inl (BadRoutes e))
     | None \<Rightarrow> (case buildDocument E n routes newSchemaBuilder of None \<Rightarrow> None
         | Some (Inl e) \<Rightarrow> Some (Inl e) | Some (Inr (doc, b)) \<Rightarrow> Some (Inr (doc, sb_undocumented b))))"

text \<open>The program around it: whether the artifacts are written, and the exit code. Writing them succeeds.\<close>

definition openapigen :: "string \<Rightarrow> bool \<Rightarrow> gen_err + omap \<times> string list \<Rightarrow> bool \<times> int" where
  "openapigen missingDocs is_spec_dir res =
     (if missingDocs \<noteq> ''warn'' \<and> missingDocs \<noteq> ''error'' then (False, 1)
      else if \<not> is_spec_dir then (False, 1)
      else case res of Inl e \<Rightarrow> (False, 1)
      | Inr (doc, undocumented) \<Rightarrow>
          (True, if missingDocs = ''error'' \<and> list_ex (\<lambda>f. HasPrefix f ''github.com/wheelsdown/spivot-server/'') undocumented then 1 else 0))"

end
