(* ===== verification/OpenApiSpec.thy ===== *)
theory OpenApiSpec
  imports OpenApi
begin

text \<open>
  What the OpenAPI generator promises: every reference of a document it builds resolves to a
  component with a schema, the document has exactly one operation for every route and shows its
  posture, and the walk over the types ends unless a struct embeds itself.
\<close>

section \<open>Objects\<close>

lemma omap_set_keys [simp]: "fst ` set (omap_set k v m) = insert k (fst ` set m)"
  by (simp add: omap_set_def dom_map_of_conv_image_fst [symmetric] update_conv')

lemma omap_get_set: "omap_get (omap_set k v m) j = (if j = k then Some v else omap_get m j)"
  by (simp add: omap_get_def omap_set_def update_conv)

lemma omap_set_entries: "set (omap_set k v m) \<subseteq> insert (k, v) (set m)"
  unfolding omap_set_def by (induction m) auto

lemma omap_get_keys: "omap_get m k = None \<longleftrightarrow> k \<notin> fst ` set m"
  by (simp add: omap_get_def map_of_eq_None_iff)

section \<open>References\<close>

text \<open>The references in a JSON value: the strings under a key \<open>$ref\<close>.\<close>

fun refs :: "json \<Rightarrow> string set" where
  "refs (JObj m) = (\<Union>(k, v) \<in> set m. refs v \<union> (case v of JStr s \<Rightarrow> if k = ''$ref'' then {s} else {} | _ \<Rightarrow> {}))"
| "refs (JArr xs) = (\<Union>x \<in> set xs. refs x)"
| "refs JNull = {}" | "refs (JBool b) = {}" | "refs (JInt i) = {}" | "refs (JFloat x) = {}" | "refs (JStr s) = {}"

definition own_refs :: "string \<Rightarrow> json \<Rightarrow> string set" where
  "own_refs k v = refs v \<union> (case v of JStr s \<Rightarrow> if k = ''$ref'' then {s} else {} | _ \<Rightarrow> {})"

definition orefs :: "omap \<Rightarrow> string set" where
  "orefs m = (\<Union>(k, v) \<in> set m. own_refs k v)"

lemma refs_JObj [simp]: "refs (JObj m) = orefs m"
  by (simp add: orefs_def own_refs_def)

declare refs.simps(1) [simp del]

lemma own_refs_simps [simp]:
  "own_refs k (JObj m) = orefs m" "own_refs k (JArr xs) = (\<Union>x \<in> set xs. refs x)" "own_refs k JNull = {}" "own_refs k (JBool b) = {}"
  "own_refs k (JInt i) = {}" "own_refs k (JFloat x) = {}" "own_refs k (JStr s) = (if k = ''$ref'' then {s} else {})"
  by (simp_all add: own_refs_def)

lemma orefs_simps [simp]: "orefs [] = {}" "orefs ((k, v) # m) = own_refs k v \<union> orefs m" "orefs (m @ m') = orefs m \<union> orefs m'"
  by (auto simp: orefs_def)

lemma orefs_set: "orefs (omap_set k v m) \<subseteq> own_refs k v \<union> orefs m"
  using omap_set_entries [of k v m] by (auto simp: orefs_def)

lemma orefs_set_le: "own_refs k v \<subseteq> R \<Longrightarrow> orefs m \<subseteq> R \<Longrightarrow> orefs (omap_set k v m) \<subseteq> R"
  using orefs_set [of k v m] by blast

lemma orefs_filter: "orefs (filter P m) \<subseteq> orefs m"
  by (auto simp: orefs_def)

lemma orefs_get: "omap_get m k = Some v \<Longrightarrow> refs v \<subseteq> orefs m"
  by (auto simp: omap_get_def orefs_def own_refs_def dest!: map_of_SomeD)

lemma orefs_nullable: "orefs (nullable schema) \<subseteq> orefs schema"
proof (cases "omap_get schema ''$ref'' = None \<and> omap_get schema ''type'' \<noteq> None")
  case True
  then obtain ty where ty: "omap_get schema ''type'' = Some ty" by blast
  have "orefs (omap_set ''type'' (JArr [ty, JStr ''null'']) schema) \<subseteq> orefs schema"
    using orefs_get [OF ty] by (intro orefs_set_le) simp_all
  with True ty show ?thesis by (simp add: nullable_def)
qed (auto simp: nullable_def split: option.split)

lemma orefs_with_doc: "orefs (with_doc doc schema) \<subseteq> orefs schema"
  using orefs_filter [of _ schema] by (auto simp: with_doc_def)

lemma own_refs_example [simp]: "own_refs ''example'' (exampleValue p raw) = {}"
  by (simp add: exampleValue_def split: option.splits)

lemma apply_directive_Inr:
  assumes "apply_directive p d schema = Inr schema'"
  shows "\<exists>k v. schema' = omap_set k v schema \<and> own_refs k v = {}"
proof -
  define key where "key = fst (case Cut d (CHR ''='') of None \<Rightarrow> (d, None) | Some (k, v) \<Rightarrow> (k, Some v))"
  consider v where "schema' = omap_set ''format'' (JStr v) schema" | vs where "schema' = omap_set ''enum'' (JArr (map JStr vs)) schema"
    | v where "schema' = omap_set ''example'' (exampleValue p v) schema" | "schema' = omap_set key (JBool True) schema"
    using assms unfolding apply_directive_def Let_def key_def by (auto split: prod.splits if_splits option.splits)
  then show ?thesis
  proof cases
    case (1 v)
    have "own_refs ''format'' (JStr v) = {}" by simp
    with 1 show ?thesis by blast
  next
    case (2 vs)
    have "own_refs ''enum'' (JArr (map JStr vs)) = {}" by simp
    with 2 show ?thesis by blast
  next
    case (3 v)
    with own_refs_example show ?thesis by blast
  next
    case 4
    have "own_refs key (JBool True) = {}" by simp
    with 4 show ?thesis by blast
  qed
qed

lemma orefs_apply_directive: "apply_directive p d schema = Inr schema' \<Longrightarrow> orefs schema' \<subseteq> orefs schema"
  using orefs_set_le [of _ _ "orefs schema" schema] by (auto dest!: apply_directive_Inr)

lemma orefs_apply_directives: "apply_directives p ds schema = Inr schema' \<Longrightarrow> orefs schema' \<subseteq> orefs schema"
  by (induction p ds schema rule: apply_directives.induct) (auto split: sum.splits dest: orefs_apply_directive)

lemma orefs_applyOpenAPITag: "applyOpenAPITag p schema tag = Inr schema' \<Longrightarrow> orefs schema' \<subseteq> orefs schema"
  by (auto simp: applyOpenAPITag_def split: if_splits dest: orefs_apply_directives)

lemma orefs_basic: "basic_schema k = Inr schema \<Longrightarrow> orefs schema = {}"
  by (auto simp: basic_schema_def split: if_splits)

lemma orefs_struct [simp]: "orefs (struct_schema E t properties required) = orefs properties"
  by (auto simp: struct_schema_def)

section \<open>The walk over the types\<close>

definition component :: "string \<Rightarrow> string" where
  "component name = ''#/components/schemas/'' @ name"

definition keys :: "builder \<Rightarrow> string set" where
  "keys b = fst ` set (sb_schemas b)"

text \<open>The builder's tables agree, and every reference in a component names a component.\<close>

definition builder_ok :: "builder \<Rightarrow> bool" where
  "builder_ok b = (snd ` set (sb_names b) = keys b \<and> fst ` set (sb_by_name b) = keys b \<and> orefs (sb_schemas b) \<subseteq> component ` keys b)"

text \<open>Between two states of a walk components are only added, those there are kept (also the ones that
  are reserved and not yet filled), and the new ones are filled.\<close>

definition grown :: "builder \<Rightarrow> builder \<Rightarrow> bool" where
  "grown b b' = (fst ` set (sb_names b) \<subseteq> fst ` set (sb_names b') \<and> keys b \<subseteq> keys b' \<and>
     (\<forall>k \<in> keys b. omap_get (sb_schemas b') k = omap_get (sb_schemas b) k) \<and>
     (\<forall>k \<in> keys b' - keys b. \<exists>m. omap_get (sb_schemas b') k = Some (JObj m)))"

lemma grown_refl: "grown b b"
  by (simp add: grown_def)

lemma grown_trans: "grown a b \<Longrightarrow> grown b c \<Longrightarrow> grown a c"
proof -
  assume ab: "grown a b" and bc: "grown b c"
  have keys: "keys a \<subseteq> keys b" "keys b \<subseteq> keys c" "fst ` set (sb_names a) \<subseteq> fst ` set (sb_names c)"
    using ab bc by (auto simp: grown_def)
  have old: "omap_get (sb_schemas c) k = omap_get (sb_schemas b) k" if "k \<in> keys b" for k
    using bc that by (simp add: grown_def)
  have "\<exists>m. omap_get (sb_schemas c) k = Some (JObj m)" if "k \<in> keys c - keys a" for k
  proof (cases "k \<in> keys b")
    case True
    with ab that have "\<exists>m. omap_get (sb_schemas b) k = Some (JObj m)" by (simp add: grown_def)
    with old [OF True] show ?thesis by simp
  qed (use bc that in \<open>simp add: grown_def\<close>)
  moreover have "omap_get (sb_schemas c) k = omap_get (sb_schemas a) k" if "k \<in> keys a" for k
    using ab that keys old [of k] by (auto simp: grown_def)
  ultimately show ?thesis using keys by (auto simp: grown_def)
qed

lemma grown_keys: "grown b b' \<Longrightarrow> R \<subseteq> component ` keys b \<Longrightarrow> R \<subseteq> component ` keys b'"
  using image_mono [of "keys b" "keys b'" component] by (simp add: grown_def)

text \<open>A triple: from an agreeing builder in which \<open>P\<close> holds, a step that succeeds grows the builder,
  keeps the agreement and establishes \<open>Q\<close>.\<close>

definition walk :: "(builder \<Rightarrow> bool) \<Rightarrow> 'a sm \<Rightarrow> ('a \<Rightarrow> builder \<Rightarrow> bool) \<Rightarrow> bool" where
  "walk P m Q = (\<forall>b a b'. builder_ok b \<longrightarrow> P b \<longrightarrow> m b = Some (Inr (a, b')) \<longrightarrow> builder_ok b' \<and> grown b b' \<and> Q a b')"

lemma walkI: "(\<And>b a b'. builder_ok b \<Longrightarrow> P b \<Longrightarrow> m b = Some (Inr (a, b')) \<Longrightarrow> builder_ok b' \<and> grown b b' \<and> Q a b') \<Longrightarrow> walk P m Q"
  by (simp add: walk_def)

lemma walkD: "walk P m Q \<Longrightarrow> builder_ok b \<Longrightarrow> P b \<Longrightarrow> m b = Some (Inr (a, b')) \<Longrightarrow> builder_ok b' \<and> grown b b' \<and> Q a b'"
  by (simp add: walk_def)

lemma walk_bind:
  assumes "walk P m Q" "\<And>a. walk (Q a) (f a) R"
  shows "walk P (s_bind m f) R"
proof (rule walkI)
  fix b a b'
  assume b: "builder_ok b" "P b" "s_bind m f b = Some (Inr (a, b'))"
  then obtain c b1 where "m b = Some (Inr (c, b1))" "f c b1 = Some (Inr (a, b'))"
    by (auto simp: s_bind_def split: option.splits sum.splits)
  with walkD [OF assms(1) b(1,2)] walkD [OF assms(2)] show "builder_ok b' \<and> grown b b' \<and> R a b'"
    by (meson grown_trans)
qed

lemma walk_return: "(\<And>b. P b \<Longrightarrow> Q a b) \<Longrightarrow> walk P (s_return a) Q"
  by (simp add: walk_def s_return_def grown_refl)

lemma walk_stop: "walk P (s_fail e) Q" "walk P s_stuck Q"
  by (simp_all add: walk_def s_fail_def s_stuck_def)

lemma walk_lift: "(\<And>a b. r = Inr a \<Longrightarrow> P b \<Longrightarrow> Q a b) \<Longrightarrow> walk P (s_lift r) Q"
  by (auto simp: s_lift_def split: sum.splits intro: walk_return walk_stop)

lemma walk_post: "walk P m Q \<Longrightarrow> (\<And>a b. Q a b \<Longrightarrow> R a b) \<Longrightarrow> walk P m R"
  by (simp add: walk_def)

text \<open>What the references of a value point to stays there.\<close>

abbreviation known :: "string set \<Rightarrow> builder \<Rightarrow> bool" where
  "known R b \<equiv> R \<subseteq> component ` keys b"

lemma walk_frame: "walk P m Q \<Longrightarrow> walk (\<lambda>b. P b \<and> known R b) m (\<lambda>a b. Q a b \<and> known R b)"
  unfolding walk_def using grown_keys by blast

lemma walk_note: "walk P (s_modify (note_undocumented t f doc)) Q" if "\<And>b c. P b \<Longrightarrow> sb_schemas c = sb_schemas b \<Longrightarrow> Q () c"
  using that unfolding walk_def s_modify_def note_undocumented_def Let_def
  by (auto simp: builder_ok_def keys_def grown_def)


lemma walk_weak: "walk P m Q \<Longrightarrow> (\<And>b. P' b \<Longrightarrow> P b) \<Longrightarrow> walk P' m Q"
  by (simp add: walk_def)

lemma walk_value: "walk P m (\<lambda>s b. known (orefs s) b) \<Longrightarrow> (\<And>s. orefs (g s) \<subseteq> orefs s) \<Longrightarrow>
    walk P (s_bind m (\<lambda>s. s_return (g s))) (\<lambda>s b. known (orefs s) b)"
  by (rule walk_bind, assumption) (auto intro!: walk_return)

lemma orefs_schema_ref [simp]: "orefs (schema_ref name) = {component name}"
  by (simp add: schema_ref_def component_def)

text \<open>A reference to a component that was just reserved: its fields are walked, then it is filled.\<close>

lemma walk_register:
  assumes body: "walk (\<lambda>_. True) body (\<lambda>(p, r) b. known (orefs p) b)"
    and fresh: "map_of (sb_names b) (pkg, name) = None" "map_of (sb_by_name b) name = None" "builder_ok b"
    and run: "s_bind (s_modify (register_type (pkg, name))) (\<lambda>_.
       s_bind body (\<lambda>(properties, required).
       s_bind (s_modify (fill_schema name (struct_schema E (pkg, name) properties required))) (\<lambda>_.
       s_return (schema_ref name)))) b = Some (Inr (a, b'))"
  shows "builder_ok b' \<and> grown b b' \<and> known (orefs a) b'"
proof -
  let ?b1 = "register_type (pkg, name) b"
  obtain p r b2 where body_run: "body ?b1 = Some (Inr ((p, r), b2))"
    and a: "a = schema_ref name" and b': "b' = fill_schema name (struct_schema E (pkg, name) p r) b2"
    using run by (auto simp: s_bind_def s_modify_def s_return_def split: option.splits sum.splits)
  have new: "name \<notin> keys b" using fresh by (auto simp: builder_ok_def map_of_eq_None_iff)
  have k1: "keys ?b1 = insert name (keys b)" by (simp add: keys_def register_type_def)
  have ok1: "builder_ok ?b1"
    using fresh(3) orefs_set_le [of name JNull "component ` keys b" "sb_schemas b"] unfolding builder_ok_def k1
    by (auto simp: register_type_def)
  from walkD [OF body ok1 _ body_run] have ok2: "builder_ok b2" and g: "grown ?b1 b2" and p: "known (orefs p) b2" by simp_all
  have name2: "name \<in> keys b2" using g k1 by (auto simp: grown_def)
  have k': "keys b' = keys b2" using name2 by (auto simp: b' keys_def fill_schema_def)
  have get': "omap_get (sb_schemas b') k = (if k = name then Some (JObj (struct_schema E (pkg, name) p r)) else omap_get (sb_schemas b2) k)" for k
    by (simp add: b' fill_schema_def omap_get_set)
  have "builder_ok b'"
    using ok2 p orefs_set_le [of name "JObj (struct_schema E (pkg, name) p r)" "component ` keys b2" "sb_schemas b2"]
    unfolding builder_ok_def k' by (simp add: b' fill_schema_def)
  moreover have "grown b b'"
    unfolding grown_def k'
  proof (intro conjI ballI)
    show "fst ` set (sb_names b) \<subseteq> fst ` set (sb_names b')"
      using g by (auto simp: grown_def b' fill_schema_def register_type_def)
    show "keys b \<subseteq> keys b2" using g k1 by (auto simp: grown_def)
    show "omap_get (sb_schemas b') k = omap_get (sb_schemas b) k" if "k \<in> keys b" for k
      using that new g k1 by (auto simp: get' grown_def register_type_def omap_get_set)
    show "\<exists>m. omap_get (sb_schemas b') k = Some (JObj m)" if "k \<in> keys b2 - keys b" for k
      using that g k1 by (auto simp: get' grown_def)
  qed
  ultimately show ?thesis using name2 a k' by simp
qed

declare fieldSchema.simps [simp del]

lemma walk_types:
  "walk (\<lambda>_. True) (schemaFor E n t) (\<lambda>s b. known (orefs s) b)"
  "walk (\<lambda>b. known (orefs properties) b) (collectStructFields E n i fs properties required) (\<lambda>(p, r) b. known (orefs p) b)"
  "walk (\<lambda>_. True) (fieldSchema E n i f) (\<lambda>s b. known (orefs s) b)"
proof (induction E n t and E n i fs properties required and E n i f rule: schemaFor_collectStructFields_fieldSchema.induct)
  case (4 E n k)
  show ?case by (auto intro!: walk_lift simp: orefs_basic)
next
  case (5 E n t)
  then show ?case by (simp add: walk_value orefs_nullable)
next
  case (6 E n t)
  then show ?case by (auto intro!: walk_value walk_return)
next
  case (7 E n t)
  then show ?case by (auto intro!: walk_value walk_return)
next
  case (8 E n k t)
  then show ?case by (auto intro!: walk_value walk_stop)
next
  case (9 E n fs)
  then show ?case by (auto intro!: walk_bind [where Q = "\<lambda>(p, r) b. known (orefs p) b"] walk_return)
next
  case (10 E n pkg name)
  show ?case
  proof (rule walkI)
    fix b a b'
    assume b: "builder_ok b" and run: "schemaFor E n (TNamed pkg name) b = Some (Inr (a, b'))"
    show "builder_ok b' \<and> grown b b' \<and> known (orefs a) b'"
    proof (cases "map_of (sb_names b) (pkg, name)")
      case (Some c)
      with run have "a = schema_ref c" "b' = b" by (simp_all add: s_return_def)
      moreover have "c \<in> keys b" using Some b by (force simp: builder_ok_def dest!: map_of_SomeD)
      ultimately show ?thesis using b by (simp add: grown_refl)
    next
      case None
      with run obtain n' where n: "n = Suc n'" and fresh: "map_of (sb_by_name b) name = None"
        by (auto simp: s_fail_def s_stuck_def split: option.splits nat.splits)
      from 10 [OF None fresh n] have "walk (\<lambda>_. True) (collectStructFields E n' (pkg, name) (fields_of E (pkg, name)) [] [])
          (\<lambda>(p, r) b. known (orefs p) b)" by simp
      from walk_register [OF this None fresh b] run show ?thesis by (simp add: n None fresh)
    qed
  qed
next
  case (12 E n i f fs properties required)
  show ?case
  proof (cases "fst (cut_tag (gf_json f)) = ''-''")
    case True
    then show ?thesis using 12(1) by simp
  next
    case tag: False
    show ?thesis
    proof (cases "promoted f")
      case None
      show ?thesis
      proof (cases "gf_exported f")
        case True
        have field: "walk (\<lambda>b. known (orefs properties) b) (fieldSchema E n i f) (\<lambda>s b. known (orefs s) b \<and> known (orefs properties) b)"
          using 12 tag None True by (intro walk_weak [OF walk_frame]) auto
        have tail: "walk (\<lambda>b. known (orefs (omap_set (property_name f) (JObj s) properties)) b)
            (collectStructFields E n i fs (omap_set (property_name f) (JObj s) properties) (if is_optional f then required else required @ [property_name f]))
            (\<lambda>(p, r) b. known (orefs p) b)" if "omap_get properties (property_name f) = None" for s
          by (rule 12) (use tag None True that in simp_all)
        have "walk (\<lambda>b. known (orefs s) b \<and> known (orefs properties) b)
            (collectStructFields E n i fs (omap_set (property_name f) (JObj s) properties) (if is_optional f then required else required @ [property_name f]))
            (\<lambda>(p, r) b. known (orefs p) b)" if "omap_get properties (property_name f) = None" for s
          by (rule walk_weak [OF tail [OF that]]) (simp add: orefs_set_le)
        with field show ?thesis using tag None True
          by (auto intro!: walk_bind walk_stop)
      qed (use tag None 12 in simp)
    next
      case (Some t)
      have pair: "walk (case a of (p, r) \<Rightarrow> known (orefs p)) (case a of (p, r) \<Rightarrow> collectStructFields E n i fs p r) (\<lambda>(p, r) b. known (orefs p) b)"
        if "\<And>p r. walk (\<lambda>b. known (orefs p) b) (collectStructFields E n i fs p r) (\<lambda>(p, r) b. known (orefs p) b)" for a
        using that by (cases a) simp
      show ?thesis
      proof (cases t)
        case (TNamed pkg name)
        show ?thesis
        proof (cases n)
          case (Suc n')
          have "walk (\<lambda>b. known (orefs properties) b) (collectStructFields E n' (pkg, name) (fields_of E (pkg, name)) properties required)
              (\<lambda>(p, r) b. known (orefs p) b)"
            by (rule 12) (use tag Some TNamed Suc in simp_all)
          moreover have "walk (\<lambda>b. known (orefs p) b) (collectStructFields E n i fs p r) (\<lambda>(p, r) b. known (orefs p) b)" for p r
            by (rule 12) (use tag Some TNamed Suc in simp_all)
          ultimately show ?thesis using tag Some TNamed Suc pair by (auto intro!: walk_bind)
        qed (use tag Some TNamed in \<open>simp add: walk_stop\<close>)
      next
        case (TStruct gs)
        have "walk (\<lambda>b. known (orefs properties) b) (collectStructFields E n ([], []) gs properties required) (\<lambda>(p, r) b. known (orefs p) b)"
          by (rule 12) (use tag Some TStruct in simp_all)
        moreover have "walk (\<lambda>b. known (orefs p) b) (collectStructFields E n i fs p r) (\<lambda>(p, r) b. known (orefs p) b)" for p r
          by (rule 12) (use tag Some TStruct in simp_all)
        ultimately show ?thesis using tag Some TStruct pair by (auto intro!: walk_bind)
      qed (use tag Some 12 in \<open>simp_all\<close>)
    qed
  qed
next
  case (13 E n i f)
  have tag: "walk (\<lambda>b. known (orefs s) b) (s_lift (applyOpenAPITag (ge_parse_float E) (with_doc doc s) (gf_openapi f))) (\<lambda>s b. known (orefs s) b)" for s doc
    using orefs_with_doc [of doc s] by (auto intro!: walk_lift dest!: orefs_applyOpenAPITag)
  show ?case
    unfolding fieldSchema.simps Let_def
    by (rule walk_bind [OF 13], rule walk_bind [OF walk_note tag]) (simp add: keys_def)
qed (auto intro!: walk_return)

section \<open>The document\<close>

lemma walk_schemaFor: "walk P (schemaFor E n t) (\<lambda>s b. known (orefs s) b)"
  by (rule walk_weak [OF walk_types(1)]) simp

lemma walk_keep: "walk (\<lambda>_. True) m (\<lambda>s b. known (orefs s) b) \<Longrightarrow> walk (\<lambda>b. known R b) m (\<lambda>s b. known (orefs s) b \<and> known R b)"
  by (rule walk_weak [OF walk_frame]) simp_all

lemma refs_json_content [simp]: "own_refs k (json_content media schema) = orefs schema"
  by (simp add: json_content_def)

lemma walk_request_body: "walk (\<lambda>_. True) (request_body E n rt) (\<lambda>s b. known (orefs s) b)"
  by (auto simp: request_body_def intro!: walk_return walk_bind [OF walk_schemaFor] split: option.splits)

lemma walk_responses: "walk (\<lambda>b. known (orefs rs) b) (build_responses E n rt sts rs) (\<lambda>s b. known (orefs s) b)"
proof (induction E n rt sts rs rule: build_responses.induct)
  case (2 E n rt st sts rs)
  show ?case
  proof (cases "rt_response rt")
    case None
    have "walk (\<lambda>b. known (orefs rs) b) (build_responses E n rt sts (omap_set (dec_int st) (JObj [(''description'', JStr (StatusText st))]) rs))
        (\<lambda>s b. known (orefs s) b)"
      by (rule walk_weak [OF 2(1)]) (use None orefs_set_le in auto)
    with None show ?thesis by simp
  next
    case (Some c)
    have "walk (\<lambda>b. known (orefs s) b \<and> known (orefs rs) b) (build_responses E n rt sts
        (omap_set (dec_int st) (JObj [(''description'', JStr (StatusText st)), (''content'', json_content ''application/json'' s)]) rs))
        (\<lambda>s b. known (orefs s) b)" for s
      by (rule walk_weak [OF 2(2)]) (use Some orefs_set_le in auto)
    with Some show ?thesis by (auto intro!: walk_bind [OF walk_keep [OF walk_schemaFor]])
  qed
qed (auto intro!: walk_return)

lemma refs_operation_parts [simp]: "refs (path_parameter rt p) = {}" "orefs (security_requirement rt) = {}" "orefs (auth_extension rt) = {}"
  by (auto simp: path_parameter_def security_requirement_def auth_extension_def)

lemma walk_operation: "walk (\<lambda>_. True) (buildOperation E n rt) (\<lambda>s b. known (orefs s) b)"
proof -
  have resp: "walk (\<lambda>b. known R b) (build_responses E n rt sts []) (\<lambda>s b. known (orefs s) b \<and> known R b)" for R sts
    by (rule walk_weak [OF walk_frame [OF walk_responses]]) simp_all
  have problem: "walk (\<lambda>b. known (orefs s) b \<and> known R b) (schemaFor E n t) (\<lambda>x b. known (orefs x) b \<and> known (orefs s \<union> R) b)" for s R t
    by (rule walk_weak [OF walk_keep [OF walk_schemaFor]]) simp_all
  show ?thesis
    unfolding buildOperation_def
    by (intro walk_bind [OF walk_request_body] walk_bind [OF resp] walk_bind [OF problem] walk_return)
      (simp add: orefs_set_le)
qed

lemma orefs_set_operation: "orefs (set_operation rt op paths) \<subseteq> orefs op \<union> orefs paths"
proof -
  let ?item = "case omap_get paths (rt_path rt) of Some (JObj m) \<Rightarrow> m | _ \<Rightarrow> []"
  have "orefs ?item \<subseteq> orefs paths"
    using orefs_get [of paths "rt_path rt"] by (auto split: option.splits json.splits)
  then show ?thesis
    unfolding set_operation_def Let_def by (intro orefs_set_le) (simp_all add: orefs_set_le le_supI2)
qed

lemma walk_paths: "walk (\<lambda>b. known (orefs paths) b) (build_paths E n rts paths) (\<lambda>s b. known (orefs s) b)"
proof (induction rts arbitrary: paths)
  case (Cons rt rts)
  have "walk (\<lambda>b. known (orefs op) b \<and> known (orefs paths) b) (build_paths E n rts (set_operation rt op paths)) (\<lambda>s b. known (orefs s) b)" for op
    by (rule walk_weak [OF Cons]) (use orefs_set_operation in blast)
  then show ?case by (auto intro!: walk_bind [OF walk_keep [OF walk_operation]])
qed (auto intro!: walk_return)

definition doc_schemas :: "omap \<Rightarrow> omap" where
  "doc_schemas doc = (case omap_get doc ''components'' of Some (JObj c) \<Rightarrow>
     (case omap_get c ''schemas'' of Some (JObj s) \<Rightarrow> s | _ \<Rightarrow> []) | _ \<Rightarrow> [])"

lemma orefs_document: "orefs (document paths schemas) = orefs paths \<union> orefs schemas"
  by (auto simp: document_def document_info_def securitySchemes_def)

lemma generate_Inr:
  assumes "generate E n routes = Some (Inr (doc, und))"
  obtains paths b where "ValidateRoutes routes = None" "build_paths E n routes [] newSchemaBuilder = Some (Inr (paths, b))"
    "doc = document paths (sb_schemas b)"
  using assms unfolding generate_def buildDocument_def s_bind_def
  by (auto simp: s_return_def s_fail_def split: option.splits sum.splits)

text \<open>C38. A generated document is closed: every reference in it, in an operation or in a component, names a
  component of the document, and that component has a schema: none is left reserved and empty, also
  when the types refer to themselves or to each other.\<close>

theorem generate_closed:
  assumes "generate E n routes = Some (Inr (doc, undocumented))" "r \<in> orefs doc"
  shows "\<exists>name schema. r = component name \<and> omap_get (doc_schemas doc) name = Some (JObj schema)"
proof -
  from generate_Inr [OF assms(1)] obtain paths b where
    run: "build_paths E n routes [] newSchemaBuilder = Some (Inr (paths, b))" and doc: "doc = document paths (sb_schemas b)" by blast
  have "builder_ok newSchemaBuilder" "keys newSchemaBuilder = {}"
    by (simp_all add: builder_ok_def keys_def newSchemaBuilder_def)
  with walkD [OF walk_paths _ _ run] have b: "builder_ok b" "grown newSchemaBuilder b" "known (orefs paths) b" by simp_all
  have "r \<in> component ` keys b"
    using assms(2) b(1,3) unfolding doc orefs_document builder_ok_def by blast
  then obtain name where "r = component name" "name \<in> keys b" by blast
  moreover from this b(2) \<open>keys newSchemaBuilder = {}\<close> obtain m where "omap_get (sb_schemas b) name = Some (JObj m)"
    by (auto simp: grown_def)
  moreover have "doc_schemas doc = sb_schemas b"
    by (simp add: doc doc_schemas_def document_def omap_get_def)
  ultimately show ?thesis by auto
qed

section \<open>The operations\<close>

definition path_operation :: "omap \<Rightarrow> string \<Rightarrow> string \<Rightarrow> omap option" where
  "path_operation paths p m = (case omap_get paths p of
     Some (JObj item) \<Rightarrow> (case omap_get item m of Some (JObj op) \<Rightarrow> Some op | _ \<Rightarrow> None) | _ \<Rightarrow> None)"

definition doc_operation :: "omap \<Rightarrow> string \<Rightarrow> string \<Rightarrow> omap option" where
  "doc_operation doc p m = (case omap_get doc ''paths'' of Some (JObj paths) \<Rightarrow> path_operation paths p m | _ \<Rightarrow> None)"

text \<open>What an operation says of a route: its id, summary and tags, the security the guard of its posture demands,
  the posture with its session metadata, a body exactly where the route takes one, and an answer for each of
  its statuses, one for the problems, and no other.\<close>

definition describes :: "route \<Rightarrow> omap \<Rightarrow> bool" where
  "describes rt op = (omap_get op ''operationId'' = Some (JStr (rt_operation_id rt)) \<and>
     omap_get op ''tags'' = Some (JArr (map JStr (rt_tags rt))) \<and>
     omap_get op ''security'' = (if rt_auth rt = AuthIdentity then Some (JArr [JObj [(''mutualTLS'', JArr [])]])
       else if rt_auth rt = AuthSession then Some (JArr [JObj [(''macaroonSession'', JArr [])]]) else None) \<and>
     omap_get op ''x-spivot-auth'' = Some (JObj (auth_extension rt)) \<and>
     (omap_get op ''requestBody'' = None \<longleftrightarrow> rt_request rt = None) \<and>
     omap_get op ''summary'' = Some (JStr (rt_summary rt)) \<and>
     (\<exists>rs. omap_get op ''responses'' = Some (JObj rs) \<and> fst ` set rs = insert ''default'' (dec_int ` set (rt_response_statuses rt))))"

lemma s_bind_Inr: "s_bind m f b = Some (Inr (a, b')) \<longleftrightarrow> (\<exists>c b1. m b = Some (Inr (c, b1)) \<and> f c b1 = Some (Inr (a, b')))"
  by (auto simp: s_bind_def split: option.splits sum.splits)

lemma s_return_Inr: "s_return x b = Some (Inr (a, b')) \<longleftrightarrow> a = x \<and> b' = b"
  by (auto simp: s_return_def)

lemma omap_get_simps [simp]:
  "omap_get [] k = None" "omap_get ((j, v) # m) k = (if k = j then Some v else omap_get m k)"
  "omap_get (m @ m') k = (case omap_get m k of None \<Rightarrow> omap_get m' k | Some v \<Rightarrow> Some v)"
  by (simp_all add: omap_get_def map_add_def split: option.split)

lemma build_responses_keys:
  "build_responses E n rt sts rs b = Some (Inr (rs', b')) \<Longrightarrow> fst ` set rs' = fst ` set rs \<union> dec_int ` set sts"
proof (induction E n rt sts rs arbitrary: b rule: build_responses.induct)
  case (2 E n rt st sts rs)
  show ?case
  proof (cases "rt_response rt")
    case None
    with 2(1) [OF None] 2(3) show ?thesis by simp
  next
    case (Some c)
    with 2(3) obtain schema b1 where "build_responses E n rt sts
        (omap_set (dec_int st) (JObj [(''description'', JStr (StatusText st)), (''content'', json_content ''application/json'' schema)]) rs) b1 =
        Some (Inr (rs', b'))"
      by (auto simp: s_bind_Inr)
    from 2(2) [OF Some this] show ?thesis by simp
  qed
qed (simp add: s_return_Inr)

lemma buildOperation_describes:
  assumes "buildOperation E n rt b = Some (Inr (op, b'))"
  shows "describes rt op"
proof -
  from assms obtain body b1 rs b2 problem where body: "request_body E n rt b = Some (Inr (body, b1))"
    and rs: "build_responses E n rt (rt_response_statuses rt) [] b1 = Some (Inr (rs, b2))"
    and op: "op = ([(''operationId'', JStr (rt_operation_id rt)), (''summary'', JStr (rt_summary rt)), (''tags'', JArr (map JStr (rt_tags rt)))] @
       (if PathParams (rt_path rt) = [] then [] else [(''parameters'', JArr (map (path_parameter rt) (PathParams (rt_path rt))))]) @
       body @
       [(''responses'', JObj (omap_set ''default''
          (JObj [(''description'', JStr problem_description), (''content'', json_content ''application/problem+json'' problem)]) rs))] @
       security_requirement rt @ [(''x-spivot-auth'', JObj (auth_extension rt))])"
    unfolding buildOperation_def by (auto simp only: s_bind_Inr s_return_Inr)
  have b: "(body = [] \<and> rt_request rt = None) \<or> (\<exists>v. body = [(''requestBody'', v)] \<and> rt_request rt \<noteq> None)"
    using body by (auto simp: request_body_def s_bind_Inr s_return_Inr split: option.splits)
  show ?thesis
    using b build_responses_keys [OF rs] unfolding describes_def op security_requirement_def
    by (auto simp: omap_get_set split: option.splits)
qed

lemma path_operation_set:
  "path_operation (set_operation rt op paths) p m = (if p = rt_path rt \<and> m = ToLower (rt_method rt) then Some op else path_operation paths p m)"
  by (auto simp: path_operation_def set_operation_def Let_def omap_get_set split: option.splits json.splits)

text \<open>The paths hold one operation for each route, looked up by path and method.\<close>

abbreviation route_key :: "route \<Rightarrow> string \<times> string" where
  "route_key rt \<equiv> (rt_path rt, ToLower (rt_method rt))"

lemma build_paths_operations:
  assumes "build_paths E n rts paths b = Some (Inr (paths', b'))" "distinct (map route_key rts)"
  shows "(\<forall>rt \<in> set rts. \<exists>op. path_operation paths' (rt_path rt) (ToLower (rt_method rt)) = Some op \<and> describes rt op) \<and>
    (\<forall>p m. (p, m) \<notin> route_key ` set rts \<longrightarrow> path_operation paths' p m = path_operation paths p m)"
  using assms
proof (induction rts arbitrary: paths b)
  case (Cons rt rts)
  from Cons.prems(1) obtain op b1 where op: "buildOperation E n rt b = Some (Inr (op, b1))"
    and rest: "build_paths E n rts (set_operation rt op paths) b1 = Some (Inr (paths', b'))"
    by (auto simp: s_bind_Inr)
  from Cons.IH [OF rest] Cons.prems(2) buildOperation_describes [OF op] show ?case
    by (auto simp: path_operation_set)
qed (simp add: s_return_Inr)

lemma lower_methods: "m \<in> set validMethods \<Longrightarrow> m' \<in> set validMethods \<Longrightarrow> ToLower m = ToLower m' \<Longrightarrow> m = m'"
proof -
  have "\<forall>m \<in> set validMethods. \<forall>m' \<in> set validMethods. ToLower m = ToLower m' \<longrightarrow> m = m'" by code_simp
  then show "m \<in> set validMethods \<Longrightarrow> m' \<in> set validMethods \<Longrightarrow> ToLower m = ToLower m' \<Longrightarrow> m = m'" by blast
qed

lemma routes_distinct_keys:
  assumes "ValidateRoutes routes = None"
  shows "distinct (map route_key routes)"
proof -
  have ok: "list_all route_ok routes" "distinct (map route_id routes)"
    using assms validate_routes_None [of "[]" "[]" routes] by (simp_all add: ValidateRoutes_def split: if_splits)
  have "route_key rt = route_key rt' \<Longrightarrow> route_id rt = route_id rt'" if "rt \<in> set routes" "rt' \<in> set routes" for rt rt'
    using ok(1) that lower_methods [of "rt_method rt" "rt_method rt'"] by (auto simp: list_all_iff route_ok_def route_id_def)
  with ok(2) show ?thesis
    by (auto simp: distinct_map intro!: inj_onI dest: inj_onD)
qed


section \<open>The walk ends\<close>

text \<open>With enough fuel a computation has one result, and more fuel does not change it.\<close>

definition result :: "(nat \<Rightarrow> 'a sm) \<Rightarrow> builder \<Rightarrow> gen_err + 'a \<times> builder \<Rightarrow> bool" where
  "result F b r = (\<exists>n. \<forall>m \<ge> n. F m b = Some r)"

definition ends :: "(nat \<Rightarrow> 'a sm) \<Rightarrow> builder \<Rightarrow> bool" where
  "ends F b = (\<exists>r. result F b r)"

lemma ends_const: "F = (\<lambda>_. m) \<Longrightarrow> m b \<noteq> None \<Longrightarrow> ends F b"
  by (auto simp: ends_def result_def)

lemma ends_bind:
  assumes "ends M b" "\<And>a b'. result M b (Inr (a, b')) \<Longrightarrow> ends (\<lambda>n. K n a) b'"
  shows "ends (\<lambda>n. s_bind (M n) (K n)) b"
proof -
  from assms(1) obtain r n where r: "\<forall>m \<ge> n. M m b = Some r" by (auto simp: ends_def result_def)
  show ?thesis
  proof (cases r)
    case (Inl e)
    with r have "\<forall>m \<ge> n. s_bind (M m) (K m) b = Some (Inl e)" by (simp add: s_bind_def)
    then show ?thesis by (auto simp: ends_def result_def)
  next
    case (Inr p)
    obtain a b' where p: "p = (a, b')" by (cases p)
    with r Inr have "result M b (Inr (a, b'))" by (auto simp: result_def)
    from assms(2) [OF this] obtain r' n' where r': "\<forall>m \<ge> n'. K m a b' = Some r'" by (auto simp: ends_def result_def)
    have "\<forall>m \<ge> max n n'. s_bind (M m) (K m) b = Some r'" using r r' Inr p by (simp add: s_bind_def)
    then show ?thesis unfolding ends_def result_def by blast
  qed
qed

lemma ends_Suc: "ends F b \<Longrightarrow> ends (\<lambda>n. case n of 0 \<Rightarrow> s_stuck | Suc n' \<Rightarrow> F n') b"
proof -
  assume "ends F b"
  then obtain r n where r: "\<forall>m \<ge> n. F m b = Some r" by (auto simp: ends_def result_def)
  have "\<forall>m \<ge> Suc n. (case m of 0 \<Rightarrow> s_stuck | Suc n' \<Rightarrow> F n') b = Some r"
    using r by (auto split: nat.split)
  then show ?thesis by (auto simp: ends_def result_def)
qed

lemma result_run: "result F b r \<Longrightarrow> \<exists>n. F n b = Some r"
  by (auto simp: result_def)

lemma ends_return: "ends (\<lambda>n. s_return a) b" "ends (\<lambda>n. s_fail e) b"
  by (rule ends_const [OF refl], simp add: s_return_def s_fail_def)+

lemma ends_map: "ends M b \<Longrightarrow> ends (\<lambda>n. s_bind (M n) (\<lambda>a. s_return (g a))) b"
  by (rule ends_bind) (simp_all add: ends_return)

text \<open>The struct types that a walk expands in place: those embedded in a type or in one of its nameless
  parts. Types whose declarations embed each other in a circle never end; \<open>embeds_ok\<close> excludes this with a rank.\<close>

lemma promoted_le [termination_simp]: "promoted f = Some t \<Longrightarrow> size t < size f"
  by (cases f) (auto simp: promoted_def deref_def split: if_splits gotype.splits)

lemma promoted_struct_le [termination_simp]: "promoted f = Some (TStruct gs) \<Longrightarrow> Suc (size_list size gs) < size f"
  using promoted_le [of f "TStruct gs"] by simp

fun inlined :: "gotype \<Rightarrow> type_id set" and inlined_field :: "gofield \<Rightarrow> type_id set" where
  "inlined (TPointer t) = inlined t"
| "inlined (TSlice t) = inlined t"
| "inlined (TArray t) = inlined t"
| "inlined (TMap k t) = inlined t"
| "inlined (TStruct fs) = (\<Union>f \<in> set fs. inlined_field f)"
| "inlined (TNamed pkg name) = {}"
| "inlined TTime = {}" | "inlined TRawMessage = {}" | "inlined TInterface = {}" | "inlined (TBasic k) = {}"
| "inlined_field f =
     (if fst (cut_tag (gf_json f)) = ''-'' then {}
      else case promoted f of
        Some (TNamed pkg name) \<Rightarrow> {(pkg, name)}
      | Some (TStruct gs) \<Rightarrow> inlined (TStruct gs)
      | Some _ \<Rightarrow> {}
      | None \<Rightarrow> if gf_exported f then inlined (gf_type f) else {})"

declare inlined_field.simps [simp del]

definition embeds_ok :: "gen_env \<Rightarrow> (type_id \<Rightarrow> nat) \<Rightarrow> bool" where
  "embeds_ok E rank = (\<forall>i. \<forall>f \<in> set (fields_of E i). \<forall>j \<in> inlined_field f. rank j < rank i)"


text \<open>The walk over fields, given that it ends for every part of them. \<open>B\<close> is kept along the walk.\<close>

definition field_ends :: "gen_env \<Rightarrow> (builder \<Rightarrow> bool) \<Rightarrow> gofield \<Rightarrow> bool" where
  "field_ends E B f = (fst (cut_tag (gf_json f)) = ''-'' \<or> (case promoted f of
     Some (TNamed pkg name) \<Rightarrow> \<forall>b p r. B b \<longrightarrow> known (orefs p) b \<longrightarrow> ends (\<lambda>n. collectStructFields E n (pkg, name) (fields_of E (pkg, name)) p r) b
   | Some (TStruct gs) \<Rightarrow> \<forall>b p r. B b \<longrightarrow> known (orefs p) b \<longrightarrow> ends (\<lambda>n. collectStructFields E n ([], []) gs p r) b
   | Some _ \<Rightarrow> True
   | None \<Rightarrow> gf_exported f \<longrightarrow> (\<forall>b. B b \<longrightarrow> ends (\<lambda>n. schemaFor E n (gf_type f)) b)))"

definition kept :: "(builder \<Rightarrow> bool) \<Rightarrow> bool" where
  "kept B = ((\<forall>b. B b \<longrightarrow> builder_ok b) \<and> (\<forall>b b'. B b \<longrightarrow> builder_ok b' \<longrightarrow> grown b b' \<longrightarrow> B b'))"

lemma kept_ok: "kept B \<Longrightarrow> B b \<Longrightarrow> builder_ok b"
  by (simp add: kept_def)

lemma kept_walk: "kept B \<Longrightarrow> B b \<Longrightarrow> walk P m Q \<Longrightarrow> P b \<Longrightarrow> m b = Some (Inr (a, b')) \<Longrightarrow> B b'"
  unfolding kept_def walk_def by blast

lemma ends_step:
  assumes "kept B" "B b" "ends M b" "\<And>n. walk P (M n) Q" "P b" "\<And>a b'. B b' \<Longrightarrow> Q a b' \<Longrightarrow> ends (\<lambda>n. K n a) b'"
  shows "ends (\<lambda>n. s_bind (M n) (K n)) b"
proof (rule ends_bind [OF assms(3)])
  fix a b'
  assume "result M b (Inr (a, b'))"
  then obtain n where "M n b = Some (Inr (a, b'))" using result_run by blast
  with walkD [OF assms(4) kept_ok [OF assms(1,2)] assms(5)] kept_walk [OF assms(1,2,4,5)] assms(6)
  show "ends (\<lambda>n. K n a) b'" by blast
qed

lemma ends_lift: "ends (\<lambda>n. s_lift r) b"
  by (rule ends_const [OF refl]) (simp add: s_lift_def s_fail_def s_return_def split: sum.split)

lemma ends_fieldSchema: "ends (\<lambda>n. schemaFor E n (gf_type f)) b \<Longrightarrow> ends (\<lambda>n. fieldSchema E n i f) b"
  unfolding fieldSchema.simps Let_def
  by (rule ends_bind, assumption, rule ends_bind, rule ends_const [OF refl]) (simp_all add: s_modify_def ends_lift)

lemma ends_fields:
  assumes "kept B" "\<forall>f \<in> set fs. field_ends E B f" "B b" "known (orefs p) b"
  shows "ends (\<lambda>n. collectStructFields E n i fs p r) b"
  using assms(2-4)
proof (induction fs arbitrary: b p r)
  case Nil
  then show ?case by (simp add: ends_return)
next
  case (Cons f fs)
  have rest: "ends (\<lambda>n. collectStructFields E n i fs p' r') b'" if "B b'" "known (orefs p') b'" for p' r' b'
    using Cons that by simp
  have more: "ends (\<lambda>n. s_bind (M n) (\<lambda>(p', r'). collectStructFields E n i fs p' r')) b"
    if "ends M b" "\<And>n. walk (\<lambda>b. known (orefs p) b) (M n) (\<lambda>(p', r') b. known (orefs p') b)" for M
    by (rule ends_step [OF assms(1) Cons.prems(2) that(1,2) Cons.prems(3)]) (auto intro: rest)
  have f: "field_ends E B f" using Cons.prems(1) by simp
  show ?case
  proof (cases "fst (cut_tag (gf_json f)) = ''-''")
    case True
    with rest Cons.prems show ?thesis by simp
  next
    case tag: False
    show ?thesis
    proof (cases "promoted f")
      case (Some t)
      show ?thesis
      proof (cases t)
        case (TNamed pkg name)
        from f tag Some TNamed Cons.prems have e: "ends (\<lambda>n. collectStructFields E n (pkg, name) (fields_of E (pkg, name)) p r) b"
          by (simp add: field_ends_def)
        let ?M = "\<lambda>n. case n of 0 \<Rightarrow> s_stuck | Suc n' \<Rightarrow> collectStructFields E n' (pkg, name) (fields_of E (pkg, name)) p r"
        have "walk (\<lambda>b. known (orefs p) b) (?M n) (\<lambda>(p', r') b. known (orefs p') b)" for n
          by (cases n) (simp_all add: walk_stop walk_types(2))
        from more [OF ends_Suc [OF e] this]
        have "ends (\<lambda>n. s_bind (?M n) (\<lambda>(p', r'). collectStructFields E n i fs p' r')) b" .
        moreover have "collectStructFields E n i (f # fs) p r = s_bind (?M n) (\<lambda>(p', r'). collectStructFields E n i fs p' r')" for n
          using tag Some TNamed by (cases n) (simp_all add: s_bind_def s_stuck_def fun_eq_iff)
        ultimately show ?thesis by simp
      next
        case (TStruct gs)
        from f tag Some TStruct Cons.prems have "ends (\<lambda>n. collectStructFields E n ([], []) gs p r) b" by (simp add: field_ends_def)
        from more [OF this walk_types(2)] tag Some TStruct show ?thesis by simp
      qed (use tag Some rest Cons.prems in simp_all)
    next
      case None
      show ?thesis
      proof (cases "gf_exported f")
        case True
        have e: "ends (\<lambda>n. fieldSchema E n i f) b"
          using f tag None True Cons.prems by (intro ends_fieldSchema) (simp add: field_ends_def)
        have w: "walk (\<lambda>b. True \<and> known (orefs p) b) (fieldSchema E n i f) (\<lambda>s b. known (orefs s) b \<and> known (orefs p) b)" for n
          by (rule walk_frame [OF walk_types(3)])
        have "ends (\<lambda>n. s_bind (fieldSchema E n i f) (\<lambda>schema.
            if omap_get p (property_name f) \<noteq> None then s_fail (DuplicateProperty (property_name f))
            else collectStructFields E n i fs (omap_set (property_name f) (JObj schema) p)
              (if is_optional f then r else r @ [property_name f]))) b"
        proof (rule ends_step [OF assms(1) Cons.prems(2) e w])
          show "True \<and> known (orefs p) b" using Cons.prems(3) by simp
          fix s b'
          assume "B b'" "known (orefs s) b' \<and> known (orefs p) b'"
          then have "known (orefs (omap_set (property_name f) (JObj s) p)) b'" by (simp add: orefs_set_le)
          from rest [OF \<open>B b'\<close> this] show "ends (\<lambda>n. if omap_get p (property_name f) \<noteq> None then s_fail (DuplicateProperty (property_name f))
            else collectStructFields E n i fs (omap_set (property_name f) (JObj s) p)
              (if is_optional f then r else r @ [property_name f])) b'"
            by (cases "omap_get p (property_name f) = None") (simp_all add: ends_return)
        qed
        with tag None True show ?thesis by simp
      qed (use tag None rest Cons.prems in simp)
    qed
  qed
qed

text \<open>The types that are declared and not yet registered get fewer with every reference that is expanded.\<close>

definition pending :: "gen_env \<Rightarrow> nat \<Rightarrow> builder \<Rightarrow> bool" where
  "pending E k b = (builder_ok b \<and> card (fst ` set (ge_decls E) - fst ` set (sb_names b)) \<le> k)"

lemma kept_pending: "kept (pending E k)"
proof -
  have "card (D - N') \<le> card (D - N)" if "finite D" "N \<subseteq> N'" for D N N' :: "type_id set"
    using that by (intro card_mono) auto
  then show ?thesis unfolding kept_def pending_def grown_def by (meson List.finite_set finite_imageI order_trans)
qed

lemma pending_register:
  assumes "pending E k b" "map_of (sb_names b) i = None" "map_of (sb_by_name b) (snd i) = None" "i \<in> fst ` set (ge_decls E)"
  shows "\<exists>k' < k. pending E k' (register_type i b)"
proof -
  let ?D = "fst ` set (ge_decls E)" and ?N = "fst ` set (sb_names b)"
  have new: "i \<in> ?D - ?N" using assms(2,4) by (simp add: map_of_eq_None_iff)
  have "card (?D - insert i ?N) < card (?D - ?N)"
    using new by (intro psubset_card_mono) auto
  moreover have "builder_ok (register_type i b)"
    using assms(1) orefs_set_le [of "snd i" JNull "component ` keys b" "sb_schemas b"]
    by (auto simp: pending_def builder_ok_def register_type_def keys_def)
  ultimately show ?thesis using assms(1)
    by (intro exI [of _ "card (?D - insert i ?N)"]) (simp add: pending_def register_type_def)
qed

lemma finite_inlined: "finite (inlined t)" "finite (inlined_field f)"
proof (induction t and f rule: inlined_inlined_field.induct)
  case (11 f)
  then show ?case by (subst inlined_field.simps) (auto split: option.split gotype.split)
qed simp_all

text \<open>A reference ends when the fields of its type do, with the type registered.\<close>

lemma ends_reference:
  assumes "map_of (sb_names b) (pkg, name) = None \<Longrightarrow> map_of (sb_by_name b) name = None \<Longrightarrow>
    ends (\<lambda>n. collectStructFields E n (pkg, name) (fields_of E (pkg, name)) [] []) (register_type (pkg, name) b)"
  shows "ends (\<lambda>n. schemaFor E n (TNamed pkg name)) b"
proof (cases "map_of (sb_names b) (pkg, name) = None \<and> map_of (sb_by_name b) name = None")
  case True
  let ?X = "\<lambda>n'. s_bind (s_modify (register_type (pkg, name))) (\<lambda>_.
     s_bind (collectStructFields E n' (pkg, name) (fields_of E (pkg, name)) [] []) (\<lambda>(properties, required).
     s_bind (s_modify (fill_schema name (struct_schema E (pkg, name) properties required))) (\<lambda>_.
     s_return (schema_ref name))))"
  have "ends ?X b"
  proof (rule ends_bind [OF ends_const [OF refl]])
    fix a b'
    assume "result (\<lambda>n. s_modify (register_type (pkg, name))) b (Inr (a, b'))"
    then have b': "b' = register_type (pkg, name) b" by (auto simp: s_modify_def dest: result_run)
    have "ends (\<lambda>n. s_bind (s_modify (fill_schema name S)) (\<lambda>_. s_return (schema_ref name))) c" for S c
      by (rule ends_bind [OF ends_const [OF refl]]) (simp_all add: s_modify_def ends_return)
    then have tail: "ends (\<lambda>n. case x of (properties, required) \<Rightarrow>
       s_bind (s_modify (fill_schema name (struct_schema E (pkg, name) properties required))) (\<lambda>_. s_return (schema_ref name))) c" for x c
      by (cases x) simp
    show "ends (\<lambda>n. s_bind (collectStructFields E n (pkg, name) (fields_of E (pkg, name)) [] []) (\<lambda>(properties, required).
       s_bind (s_modify (fill_schema name (struct_schema E (pkg, name) properties required))) (\<lambda>_. s_return (schema_ref name)))) b'"
      unfolding b' using assms True tail by (intro ends_bind) simp_all
  qed (simp add: s_modify_def)
  then have E: "ends (\<lambda>n. case n of 0 \<Rightarrow> s_stuck | Suc n' \<Rightarrow> ?X n') b" by (rule ends_Suc)
  have eq: "schemaFor E n (TNamed pkg name) b = (case n of 0 \<Rightarrow> s_stuck | Suc n' \<Rightarrow> ?X n') b" for n
    using True by (cases n) simp_all
  from E show ?thesis unfolding ends_def result_def by (simp only: eq)
next
  case False
  have "\<exists>r. \<forall>n. schemaFor E n (TNamed pkg name) b = Some r"
    using False by (cases "map_of (sb_names b) (pkg, name)") (auto simp: s_return_def s_fail_def)
  then show ?thesis by (auto simp: ends_def result_def)
qed

lemma types_end:
  assumes "embeds_ok E rank"
  shows "pending E k b \<Longrightarrow> ends (\<lambda>n. schemaFor E n t) b"
    "pending E k b \<Longrightarrow> known (orefs p) b \<Longrightarrow> ends (\<lambda>n. collectStructFields E n i fs p r) b"
proof -
  have main: "(\<forall>b. pending E k b \<longrightarrow> ends (\<lambda>n. schemaFor E n t) b) \<and>
      (\<forall>fs i b p r. t = TStruct fs \<longrightarrow> pending E k b \<longrightarrow> known (orefs p) b \<longrightarrow> ends (\<lambda>n. collectStructFields E n i fs p r) b)"
    if "\<forall>j \<in> inlined t. rank j < m" for k m t
    using that
  proof (induction "(k, m, size t)" arbitrary: k m t rule: wf_induct_rule [OF wf_lex_prod [OF wf_less wf_lex_prod [OF wf_less wf_less]]])
    case (1 k m t)
    have smaller: "(\<forall>b. pending E k' b \<longrightarrow> ends (\<lambda>n. schemaFor E n t') b) \<and>
      (\<forall>fs i b p r. t' = TStruct fs \<longrightarrow> pending E k' b \<longrightarrow> known (orefs p) b \<longrightarrow> ends (\<lambda>n. collectStructFields E n i fs p r) b)"
      if "k' < k \<or> k' = k \<and> (m' < m \<or> m' = m \<and> size t' < size t)" "\<forall>j \<in> inlined t'. rank j < m'" for k' m' t'
      by (rule 1(1)) (use that in auto)
    have part: "ends (\<lambda>n. schemaFor E n t') b" if "size t' < size t" "inlined t' \<subseteq> inlined t" "pending E k b" for t' b
      using smaller [of k m t'] that 1(2) by blast
    have fields: "\<forall>f \<in> set fs. field_ends E (pending E k) f" if t: "t = TStruct fs" for fs
    proof
      fix f
      assume f: "f \<in> set fs"
      then have sz: "size f < size t" using t by (simp add: size_list_estimation less_Suc_eq_le size_list_estimation')
      have inl: "inlined_field f \<subseteq> inlined t" using t f by auto
      show "field_ends E (pending E k) f"
      proof (cases "fst (cut_tag (gf_json f)) = ''-''")
        case tag: False
        show ?thesis
        proof (cases "promoted f")
          case (Some u)
          show ?thesis
          proof (cases u)
            case (TNamed pkg name)
            have "(pkg, name) \<in> inlined t" using inl tag Some TNamed by (auto simp: inlined_field.simps [of f])
            then have lt: "rank (pkg, name) < m" using 1(2) by blast
            have "\<forall>j \<in> inlined (TStruct (fields_of E (pkg, name))). rank j < rank (pkg, name)"
              using assms by (auto simp: embeds_ok_def)
            from smaller [OF _ this, of k] lt tag Some TNamed show ?thesis by (auto simp: field_ends_def)
          next
            case (TStruct gs)
            have "size u < size t" using promoted_le [OF Some] sz by simp
            moreover have "\<forall>j \<in> inlined u. rank j < m"
              using inl 1(2) tag Some TStruct by (auto simp: inlined_field.simps [of f])
            ultimately have "\<forall>i b p r. pending E k b \<longrightarrow> known (orefs p) b \<longrightarrow> ends (\<lambda>n. collectStructFields E n i gs p r) b"
              using smaller [of k m u] TStruct by blast
            with tag Some TStruct show ?thesis by (simp add: field_ends_def)
          qed (use tag Some in \<open>simp_all add: field_ends_def\<close>)
        next
          case None
          have "size (gf_type f) < size t" using gf_type_size [of f] sz by simp
          moreover have "gf_exported f \<Longrightarrow> inlined (gf_type f) \<subseteq> inlined t" using inl tag None by (auto simp: inlined_field.simps [of f])
          ultimately show ?thesis using part tag None by (auto simp: field_ends_def)
        qed
      qed (simp add: field_ends_def)
    qed
    have struct: "ends (\<lambda>n. collectStructFields E n i fs p r) b"
      if "t = TStruct fs" "pending E k b" "known (orefs p) b" for fs i b p r
      using ends_fields [OF kept_pending fields [OF that(1)] that(2,3)] .
    have "ends (\<lambda>n. schemaFor E n t) b" if b: "pending E k b" for b
    proof (cases t)
      case (TPointer u)
      have "ends (\<lambda>n. schemaFor E n u) b" using part [of u] b TPointer by simp
      from ends_map [OF this] show ?thesis using TPointer by (simp add: ends_return)
    next
      case (TSlice u)
      have "ends (\<lambda>n. schemaFor E n u) b" using part [of u] b TSlice by simp
      from ends_map [OF this] show ?thesis using TSlice by (cases "u = TBasic KUint8") (simp_all add: ends_return)
    next
      case (TArray u)
      have "ends (\<lambda>n. schemaFor E n u) b" using part [of u] b TArray by simp
      from ends_map [OF this] show ?thesis using TArray by (cases "u = TBasic KUint8") (simp_all add: ends_return)
    next
      case (TMap key u)
      have "ends (\<lambda>n. schemaFor E n u) b" using part [of u] b TMap by simp
      from ends_map [OF this] show ?thesis using TMap by (cases "key = TBasic KString") (simp_all add: ends_return)
    next
      case (TNamed pkg name)
      show ?thesis
        unfolding TNamed
      proof (rule ends_reference)
        assume new: "map_of (sb_names b) (pkg, name) = None" "map_of (sb_by_name b) name = None"
        show "ends (\<lambda>n. collectStructFields E n (pkg, name) (fields_of E (pkg, name)) [] []) (register_type (pkg, name) b)"
        proof (cases "(pkg, name) \<in> fst ` set (ge_decls E)")
          case True
          with pending_register [OF b new(1)] new(2) obtain k' where k': "k' < k" "pending E k' (register_type (pkg, name) b)" by auto
          have "\<forall>j \<in> inlined (TStruct (fields_of E (pkg, name))). rank j < rank (pkg, name)"
            using assms by (auto simp: embeds_ok_def)
          from smaller [OF _ this, of k'] k' show ?thesis by simp
        next
          case False
          then have "fields_of E (pkg, name) = []" by (simp add: fields_of_def map_of_eq_None_iff [THEN iffD2])
          then show ?thesis by (simp add: ends_return)
        qed
      qed
    next
      case (TStruct fs)
      have "ends (\<lambda>n. collectStructFields E n ([], []) fs [] []) b" using struct [OF TStruct b] by simp
      then have "ends (\<lambda>n. s_bind (collectStructFields E n ([], []) fs [] [])
          (\<lambda>(properties, required). s_return (struct_schema E ([], []) properties required))) b"
        by (rule ends_bind) (simp add: case_prod_beta ends_return)
      with TStruct show ?thesis by simp
    qed (simp_all add: ends_return ends_lift)
    with struct show ?case by blast
  qed
  have bound: "\<exists>m. \<forall>j \<in> inlined t. rank j < m" for t
    using finite_imageI [OF finite_inlined(1), of rank t] by (auto simp: finite_nat_set_iff_bounded)
  show "pending E k b \<Longrightarrow> ends (\<lambda>n. schemaFor E n t) b"
    "pending E k b \<Longrightarrow> known (orefs p) b \<Longrightarrow> ends (\<lambda>n. collectStructFields E n i fs p r) b"
    using main [of t] main [of "TStruct fs"] bound [of t] bound [of "TStruct fs"] by blast+
qed

lemma document_ends:
  assumes "embeds_ok E rank"
  shows "pending E k b \<Longrightarrow> ends (\<lambda>n. request_body E n rt) b"
    "pending E k b \<Longrightarrow> known (orefs rs) b \<Longrightarrow> ends (\<lambda>n. build_responses E n rt sts rs) b"
    "pending E k b \<Longrightarrow> ends (\<lambda>n. buildOperation E n rt) b"
    "pending E k b \<Longrightarrow> known (orefs paths) b \<Longrightarrow> ends (\<lambda>n. build_paths E n rts paths) b"
proof -
  note types = types_end(1) [OF assms] and step = ends_step [OF kept_pending]
  show body: "ends (\<lambda>n. request_body E n rt) b" if "pending E k b" for b rt
    using ends_map [OF types [OF that]] by (cases "rt_request rt") (simp_all add: request_body_def ends_return)
  show responses: "ends (\<lambda>n. build_responses E n rt sts rs) b" if "pending E k b" "known (orefs rs) b" for b rt sts rs
    using that
  proof (induction sts arbitrary: rs b)
    case (Cons st sts)
    show ?case
    proof (cases "rt_response rt")
      case None
      with Cons show ?thesis by (simp add: orefs_set_le)
    next
      case (Some c)
      have "ends (\<lambda>n. s_bind (schemaFor E n (ge_type E c)) (\<lambda>schema. build_responses E n rt sts (omap_set (dec_int st)
          (JObj [(''description'', JStr (StatusText st)), (''content'', json_content ''application/json'' schema)]) rs))) b"
        by (rule step [OF Cons.prems(1) types [OF Cons.prems(1)] walk_keep [OF walk_types(1)] Cons.prems(2)])
          (intro Cons.IH orefs_set_le; simp)
      with Some show ?thesis by simp
    qed
  qed (simp add: ends_return)
  show operation: "ends (\<lambda>n. buildOperation E n rt) b" if b: "pending E k b" for b rt
    unfolding buildOperation_def
  proof (rule step [OF b body [OF b] walk_request_body TrueI])
    fix a b' assume b': "pending E k b'"
    show "ends (\<lambda>n. s_bind (build_responses E n rt (rt_response_statuses rt) []) (\<lambda>responses.
       s_bind (schemaFor E n (TNamed api_package ''ProblemResponse'')) (\<lambda>problem.
       s_return ([(''operationId'', JStr (rt_operation_id rt)), (''summary'', JStr (rt_summary rt)), (''tags'', JArr (map JStr (rt_tags rt)))] @
         (if PathParams (rt_path rt) = [] then [] else [(''parameters'', JArr (map (path_parameter rt) (PathParams (rt_path rt))))]) @
         a @
         [(''responses'', JObj (omap_set ''default''
            (JObj [(''description'', JStr problem_description), (''content'', json_content ''application/problem+json'' problem)]) responses))] @
         security_requirement rt @
         [(''x-spivot-auth'', JObj (auth_extension rt))])))) b'"
      by (rule step [OF b' responses [OF b'] walk_responses]) (rule ends_map [OF types], assumption | simp)+
  qed
  show "ends (\<lambda>n. build_paths E n rts paths) b" if "pending E k b" "known (orefs paths) b"
    using that
  proof (induction rts arbitrary: paths b)
    case (Cons rt rts)
    have "ends (\<lambda>n. s_bind (buildOperation E n rt) (\<lambda>op. build_paths E n rts (set_operation rt op paths))) b"
      by (rule step [OF Cons.prems(1) operation [OF Cons.prems(1)] walk_keep [OF walk_operation] Cons.prems(2)])
        (use orefs_set_operation in \<open>blast intro: Cons.IH\<close>)
    then show ?case by simp
  qed (simp add: ends_return)
qed



section \<open>Witnesses\<close>

text \<open>A contract with a type that refers to itself and embeds another, and the first routes of the table.\<close>

definition demo_gen :: gen_env where
  "demo_gen = \<lparr>ge_decls =
      [((''m'', ''Node''),
          [Field ''Base'' [] [] True True (TPointer (TNamed ''m'' ''Base'')),
           Field ''Children'' ''children,omitempty'' [] False True (TSlice (TNamed ''m'' ''Node'')),
           Field ''Parent'' ''parent'' [] False True (TPointer (TNamed ''m'' ''Node''))]),
       ((''m'', ''Base''), [Field ''ID'' ''id'' ''example=42'' False True (TBasic KString)]),
       ((api_package, ''ProblemResponse''), [Field ''Code'' ''code'' [] False True (TBasic KString)])],
     ge_docs = \<lparr>di_types = (\<lambda>_. []), di_fields = (\<lambda>_. [])\<rparr>, ge_type = (\<lambda>_. TNamed ''m'' ''Node''), ge_parse_float = (\<lambda>_. None)\<rparr>"

definition demo_table :: "route list" where
  "demo_table = identity_routes"

definition demo_doc :: omap where
  "demo_doc = (case generate demo_gen 3 demo_table of Some (Inr (doc, _)) \<Rightarrow> doc | _ \<Rightarrow> [])"

definition demo_undocumented :: "string list" where
  "demo_undocumented = [''m.Base.ID'', ''m.Node.Children'', ''m.Node.Parent'', api_package @ ''.ProblemResponse.Code'']"

lemma demo_generate: "generate demo_gen 3 demo_table = Some (Inr (demo_doc, demo_undocumented))"
  by code_simp

theorem generate_closed_witness:
  "\<exists>name schema. component ''Node'' = component name \<and> omap_get (doc_schemas demo_doc) name = Some (JObj schema)"
proof (rule generate_closed [OF demo_generate])
  show "component ''Node'' \<in> orefs demo_doc" by code_simp
qed



section \<open>A struct that embeds itself\<close>

text \<open>A struct type whose first field embeds the type itself, as a pointer, is expanded for ever, whatever the
  fuel: a type that only refers to itself in a named field ends at the reference, an embedded one does not.\<close>

lemma embedding_unfolds:
  assumes "fields_of E (pkg, name) = f # fs" "promoted f = Some (TNamed pkg name)"
  shows "collectStructFields E n (pkg, name) (fields_of E (pkg, name)) properties required b = None"
proof (induction n arbitrary: properties required b)
  case (Suc n)
  then show ?case using assms by (auto simp: s_bind_def promoted_def split: if_splits)
qed (use assms in \<open>auto simp: s_stuck_def promoted_def split: if_splits\<close>)

lemma recursive_embedding_stuck:
  assumes "fields_of E (pkg, name) = f # fs" "promoted f = Some (TNamed pkg name)"
    "map_of (sb_names b) (pkg, name) = None" "map_of (sb_by_name b) name = None"
  shows "schemaFor E n (TNamed pkg name) b = None"
  using assms embedding_unfolds [OF assms(1,2)] by (cases n) (simp_all add: s_stuck_def s_bind_def s_modify_def)

end
