(* ===== verification/Spec2Isabelle.thy ===== *)
theory Spec2Isabelle
  imports Timestamps Restarts OpenApiSpec
begin

text \<open>
  \<^bold>\<open>spivot-server: a verification development.\<close>

  spivot-server is the backend of the OpenCaravan protocol: clients enroll with an invite and a
  certificate signing request, then create journeys, vehicles and garages, share them by access
  lists and invites, and upload signed evidence (access-list revisions, vehicle and garage
  revisions, ownership acceptances, driver attestations) that the server keeps and labels. One
  process holds an SQLite database and an identity directory with the key and the certificate of
  its authority. The development models the Go code of the process below \<open>src/\<close> and proves what
  makes it correct, from the text form of a time column up to the whole life of a database over
  requests, restarts and command-line calls.

  \<^bold>\<open>The parts, and the theories that model them.\<close> Paths are below src/internal.

  \<^item> Prelude: the error values of the storage layer, the environment of an operation (clock,
    random identifiers and tokens, failing statements), the transaction monad and SQL statements
    on tables that are lists of rows. GoLib: the functions of Go's standard library that the text
    handling uses (TrimSpace with its UTF-8 white space, Cut, Split, numbers in base 16, base64).
    OpenCaravan: the wire types of the protocol library and, as the record \<open>lib\<close>, its functions.
  \<^item> Schema: the tables of platform/storage/migrations/*.sql as records and one record \<open>db\<close>, with the
    constraints that INSERT, UPDATE and DELETE check, in SQLite's order. Timestamps: the text form of
    the time columns (platform/storage/invite.go). Migrations: platform/storage/migrations.go and the
    migration part of store.go.
  \<^item> The store, platform/storage: JourneyVehicles (journey_vehicle.go), Journeys (journey.go,
    telemetry.go), Attestations (driver_attestation.go, with the trust evaluator
    server/api/driver_attestation_trust.go), Garages (garage.go), GarageVehicles (garage_vehicle.go),
    GarageInvites (garage_invite.go), Invites (invite.go, enrollment.go, identity.go), ServerState
    (macaroon_root.go, server_policy.go). One definition per store method: a function from the state
    of the database to a result and a state. Chains states the contract of the four revision
    histories as the locale \<open>revision_chain\<close>, interpreted in the theories that implement it.
  \<^item> Authentication: Proxy (platform/proxy), CertAuthority (platform/identity: key store, atomic
    replacement of files, bootstrap of the authority, leaf certificates), Macaroons
    (platform/auth/macaroon), Middleware (server/middleware), Integrity (platform/auth/integrity and
    server/api/integrity_verify.go).
  \<^item> The HTTP interface, server/api: Http (the monad of the handlers), ApiVehicles (journey_vehicles.go,
    driver_attestations.go), ApiGarages (garages.go, garage_vehicles.go, garage_invites.go), ApiAccounts
    (enrollment.go, sessions.go, client_app_invites.go, journeys.go, telemetry.go), Routes (routes.go),
    HttpServer (server.go, server_info.go).
  \<^item> The process, cmd/spivot-server/main.go: Startup (bootstrap invite, macaroon issuer),
    CommandLine (flags, environment, configuration of \<open>serve\<close>), Command (the commands, storage.Open,
    platform/buildinfo), Restarts.
  \<^item> The generator of the OpenAPI document, tools/openapigen: OpenApi (orderedmap.go, comments.go,
    schema.go, main.go: one definition per function, a document is a JSON value), OpenApiSpec (its lemmas).
  \<^item> The system: ApiSystem (what a request can change), Evidence (states over time), DemoRun (a small
    server and a run of it, from which the system-level witnesses are taken).

  \<^bold>\<open>How they interact.\<close> A request enters \<open>ServeHTTP\<close> (HttpServer), passes the middleware that
  attaches the certificate identity and the session, is matched against the route table, passes
  the guard of its route, and reaches a handler; the handler reads and changes the store by the
  operations of the storage theories, each of them one transaction. The mux and the table are
  the ones the code builds (\<open>buildMux\<close>, \<open>Routes\<close>); a route is bound to its handler by \<open>call_endpoint\<close>.
  Before that, \<open>start_server\<close> prepares directories, opens and migrates the database, mints or loads the
  bootstrap invite, policy snapshot, authority and macaroon root, and builds the \<open>server\<close> record.
  \<open>later\<close> (Evidence) closes the states of a database under requests, start-up work and
  command-line invites; \<open>reachable\<close> starts it at the empty database. The database is opened with one
  connection and every operation is one transaction, so an operation is a step of its own;
  a handler that makes several calls is modelled with the calls in order and no other request
  between them.

  \<^bold>\<open>What the lemmas show.\<close>

  \<^item> System (ApiSystem, Evidence, Command, Restarts): every request leaves the store as it was or
    makes exactly one of the allowed changes, under the authenticated account, in the role that
    the change needs; signed records verify in every reachable state, are never changed or removed,
    and versions never repeat; enrollment, invites and histories stay consistent; without a
    certificate only an invite can be redeemed; no command of the process, even one that fails
    half-way, leaves these states; a restarted server keeps its authority and its macaroon issuer.
  \<^item> Store: what each operation does on every branch, the order of its refusals, that a failed
    operation changes nothing, append-only histories, one-time invites, the trust label of an
    attestation against its specification, migrations from every prefix.
  \<^item> Authentication: no influence of forwarded headers from an untrusted peer, canonical serial
    numbers, macaroons that verify for exactly what they were issued for and only get weaker by
    attenuation, guards, payload verification, atomic files, a stable authority.
  \<^item> Interface and process: the functional behaviour of the handlers, lifetimes on 64-bit durations
    including wrap-around, well-formed route tables and their dispatch, configurations that \<open>serve\<close>
    accepts, flags in any form, migrations.
  \<^item> Generator: a document has no reference without a component, exactly one operation for each
    route of the table with the posture its guard enforces, and is produced after finitely many steps
    unless structs embed each other in a circle.

  \<^bold>\<open>Parameters.\<close> Code outside src/ is an argument of the definitions that use it, with the laws they need as
  named hypotheses, each shown to hold for a concrete instance by a witness: the OpenCaravan
  validators, encoders and digests (\<open>lib\<close>, \<open>wire_lib\<close>, \<open>enroll_lib\<close>, \<open>session_lib\<close>, \<open>body_lib\<close>), macaroon.v2
  (\<open>mac_lib\<close>), ECDSA and DER parsing (\<open>verifier_lib\<close>), X.509, PKCS#8 and PEM (\<open>ca_lib\<close>, \<open>key_lib\<close>, with
  \<open>cert_laws\<close>, \<open>key_laws\<close>), JSON (\<open>json_lib\<close>), addresses and URLs (\<open>net_lib\<close>, \<open>url_lib\<close>), durations, and the
  effect of a migration's SQL (\<open>sql_run\<close>). The file system is a map from paths to files on
  which every call may fail (\<open>disk\<close>, \<open>disk_env\<close>; temporary names by \<open>temp_laws\<close>, \<open>write_test_laws\<close>). The
  order in which Go ranges over a map is an argument too (\<open>wd_ord\<close>). A certificate subject is
  its common name.

  \<^bold>\<open>Bounds and termination.\<close> Every definition is total and structural or has a termination proof,
  with two exceptions. \<open>randomSerial\<close> draws until a serial is not zero: it is a \<open>partial_function\<close>, whose
  result \<open>None\<close> is a loop that never ends, and CertAuthority says exactly when it returns. The walk of the
  OpenAPI generator over the types has fuel for the struct types it expands, \<open>None\<close> being a walk that is not
  finished; OpenApiSpec shows when some amount is enough, and when none is. Times are integers in
  nanoseconds, where the code multiplies a request's seconds the product is a 64-bit word. \<open>Atoi\<close> and
  \<open>ParseInt\<close> have the bounds of a 64-bit \<open>int\<close>.

  \<^bold>\<open>Not modelled.\<close> Log lines (platform/logging and the logger calls of every part), the usage
  page and the text of the bootstrap banner; signal handling, the accept loop and graceful
  shutdown (internal/app, the listener in server.go) and timeouts, which are concurrency around
  the modelled handler; the documentation page (server/docs) beyond its routes, and the embedded specification (spec),
  which are assets; the text of a generated document in JSON and YAML and the loading of the packages
  whose comments it shows (the generator is given the types and the parsed comments); concurrent requests inside one handler; columns that no operation reads or writes;
  cryptography itself.
\<close>

end
